(* ===== verification/Prelude.thy ===== *)
theory Prelude
  imports Main "HOL-Library.Sublist" "HOL-Library.List_Lexorder" "HOL-Library.Char_ord"
    "HOL-Library.State_Monad"
begin

text \<open>
  The shared base of the development: the functions of Go's packages \<open>strings\<close> and \<open>path/filepath\<close>
  (Linux) the driver uses, with the generic lemmas about them, and the lemma collections.

  A Go string is a list of bytes, here \<^typ>\<open>string\<close>. Case mapping (\<open>ToLower\<close>, \<open>EqualFold\<close>)
  and white space are those of Go on ASCII; the extra Unicode foldings of non-ASCII text are
  outside the model.
\<close>

section \<open>Lemma collections\<close>

named_theorems go_string_simps \<open>rewrite rules about Go's string functions\<close>
named_theorems run_simps \<open>unfolding of state-monad programs\<close>

section \<open>Characters and case\<close>

definition lower_char :: "char \<Rightarrow> char" where
  "lower_char c =
     (if 65 \<le> (of_char c :: nat) \<and> of_char c \<le> (90 :: nat) then char_of (of_char c + 32 :: nat) else c)"

definition ToLower :: "string \<Rightarrow> string" where
  "ToLower s = map lower_char s"

definition EqualFold :: "string \<Rightarrow> string \<Rightarrow> bool" where
  "EqualFold s t \<longleftrightarrow> ToLower s = ToLower t"

definition is_space :: "char \<Rightarrow> bool" where
  "is_space c \<longleftrightarrow> (let n = (of_char c :: nat) in n = 32 \<or> (9 \<le> n \<and> n \<le> 13))"

definition is_lower_or_digit :: "char \<Rightarrow> bool" where
  "is_lower_or_digit c \<longleftrightarrow>
     (let n = (of_char c :: nat) in (97 \<le> n \<and> n \<le> 122) \<or> (48 \<le> n \<and> n \<le> 57))"

definition is_digit_char :: "char \<Rightarrow> bool" where
  "is_digit_char c \<longleftrightarrow> (let n = (of_char c :: nat) in 48 \<le> n \<and> n \<le> 57)"

lemma lower_char_idem [simp]: "lower_char (lower_char c) = lower_char c"
  by (auto simp: lower_char_def)

lemma ToLower_idem [simp]: "ToLower (ToLower s) = ToLower s"
  by (simp add: ToLower_def)

lemma length_ToLower [simp]: "length (ToLower s) = length s"
  by (simp add: ToLower_def)

lemma ToLower_Nil [simp]: "ToLower [] = []"
  by (simp add: ToLower_def)

lemma ToLower_eq_Nil [simp]: "ToLower s = [] \<longleftrightarrow> s = []"
  by (simp add: ToLower_def)

lemma ToLower_append [simp]: "ToLower (s @ t) = ToLower s @ ToLower t"
  by (simp add: ToLower_def)

lemma EqualFold_refl [simp, intro]: "EqualFold s s"
  by (simp add: EqualFold_def)

lemma EqualFold_sym: "EqualFold s t \<longleftrightarrow> EqualFold t s"
  by (auto simp: EqualFold_def)

lemma EqualFold_trans: "EqualFold s t \<Longrightarrow> EqualFold t u \<Longrightarrow> EqualFold s u"
  by (simp add: EqualFold_def)

lemma EqualFold_ToLower [simp]: "EqualFold (ToLower s) t \<longleftrightarrow> EqualFold s t"
  "EqualFold s (ToLower t) \<longleftrightarrow> EqualFold s t"
  by (simp_all add: EqualFold_def)

lemma EqualFold_Nil [simp]: "EqualFold s [] \<longleftrightarrow> s = []" "EqualFold [] s \<longleftrightarrow> s = []"
  by (auto simp: EqualFold_def ToLower_def)

section \<open>Prefixes, suffixes and occurrences\<close>

definition HasPrefix :: "string \<Rightarrow> string \<Rightarrow> bool" where
  "HasPrefix s p \<longleftrightarrow> take (length p) s = p"

definition HasSuffix :: "string \<Rightarrow> string \<Rightarrow> bool" where
  "HasSuffix s p \<longleftrightarrow> length p \<le> length s \<and> drop (length s - length p) s = p"

fun Contains :: "string \<Rightarrow> string \<Rightarrow> bool" where
  "Contains [] sub \<longleftrightarrow> sub = []"
| "Contains (c # s) sub \<longleftrightarrow> HasPrefix (c # s) sub \<or> Contains s sub"

text \<open>\<open>strings.Cut\<close>: the text before and after the first occurrence, \<open>None\<close> when there is none.\<close>

fun Cut :: "string \<Rightarrow> string \<Rightarrow> (string \<times> string) option" where
  "Cut [] sep = (if sep = [] then Some ([], []) else None)"
| "Cut (c # s) sep =
     (if HasPrefix (c # s) sep then Some ([], drop (length sep) (c # s))
      else map_option (\<lambda>(a, b). (c # a, b)) (Cut s sep))"

lemma HasPrefix_iff: "HasPrefix s p \<longleftrightarrow> (\<exists>r. s = p @ r)"
  by (metis HasPrefix_def append_eq_conv_conj append_take_drop_id)

lemma HasPrefix_append [simp]: "HasPrefix (p @ r) p"
  by (auto simp: HasPrefix_iff)

lemma HasPrefix_Nil [simp]: "HasPrefix s []"
  by (simp add: HasPrefix_def)

lemma HasPrefix_of_Nil [simp]: "HasPrefix [] p \<longleftrightarrow> p = []"
  by (auto simp: HasPrefix_def)

lemma HasPrefix_Cons [simp]: "HasPrefix (c # s) (d # p) \<longleftrightarrow> c = d \<and> HasPrefix s p"
  by (auto simp: HasPrefix_def)

text \<open>Equations for evaluation: a lower-case letter is an upper-case one with bit 5 set, and comparisons stop at the
  first difference.\<close>

lemma lower_char_bits [code]:
  "lower_char (Char b0 b1 b2 b3 b4 b5 b6 b7) =
     (if b6 \<and> \<not> b7 \<and> \<not> b5 \<and> (b0 \<or> b1 \<or> b2 \<or> b3 \<or> b4) \<and> \<not> (b4 \<and> b3 \<and> (b2 \<or> b1 \<and> b0))
      then Char b0 b1 b2 b3 b4 True b6 b7 else Char b0 b1 b2 b3 b4 b5 b6 b7)"
  by (cases b0; cases b1; cases b2; cases b3; cases b4; cases b5; cases b6; cases b7)
    (simp_all add: lower_char_def of_char_def char_of_def bit_0)

lemma EqualFold_code [code]:
  "EqualFold [] [] = True" "EqualFold (c # s) [] = False" "EqualFold [] (d # t) = False"
  "EqualFold (c # s) (d # t) = (if lower_char c = lower_char d then EqualFold s t else False)"
  by (simp_all add: EqualFold_def ToLower_def)

lemma HasPrefix_code [code]:
  "HasPrefix s [] = True" "HasPrefix [] (d # p) = False"
  "HasPrefix (c # s) (d # p) = (if c = d then HasPrefix s p else False)"
  by simp_all

lemma Contains_code [code]:
  "Contains [] sub = (case sub of [] \<Rightarrow> True | _ \<Rightarrow> False)"
  "Contains (c # s) sub = (if HasPrefix (c # s) sub then True else Contains s sub)"
  by (simp_all split: list.split)

lemma HasSuffix_iff: "HasSuffix s p \<longleftrightarrow> (\<exists>r. s = r @ p)"
proof
  assume "HasSuffix s p"
  then show "\<exists>r. s = r @ p" unfolding HasSuffix_def by (metis append_take_drop_id)
qed (auto simp: HasSuffix_def)

lemma HasSuffix_append [simp]: "HasSuffix (r @ p) p"
  by (auto simp: HasSuffix_iff)

lemma Contains_iff: "Contains s sub \<longleftrightarrow> (\<exists>a b. s = a @ sub @ b)"
proof (induction s)
  case (Cons c s)
  have "(\<exists>a b. c # s = a @ sub @ b) \<longleftrightarrow> HasPrefix (c # s) sub \<or> (\<exists>a b. s = a @ sub @ b)"
    by (auto simp: HasPrefix_iff Cons_eq_append_conv)
  with Cons.IH show ?case by simp
qed auto

lemma Contains_append: "Contains s sub \<Longrightarrow> Contains (a @ s @ b) sub"
  unfolding Contains_iff by (metis append.assoc)

lemma Cut_None_iff: "Cut s sep = None \<longleftrightarrow> \<not> Contains s sep"
  by (induction s) auto

lemma Cut_Some_eq: "Cut s sep = Some (a, b) \<Longrightarrow> s = a @ sep @ b"
  by (induction s arbitrary: a) (auto split: if_splits simp: HasPrefix_iff)

lemma Cut_Some_length: "Cut s sep = Some (a, b) \<Longrightarrow> sep \<noteq> [] \<Longrightarrow> length b < length s"
  by (drule Cut_Some_eq) auto

lemma Contains_single [simp]: "Contains s [c] \<longleftrightarrow> c \<in> set s"
  by (induction s) auto

lemma Cut_single_Some: "Cut s [c] = Some (a, b) \<Longrightarrow> c \<notin> set a"
  by (induction s arbitrary: a) (auto split: if_splits)

lemma Cut_single_append: "c \<notin> set a \<Longrightarrow> Cut (a @ c # b) [c] = Some (a, b)"
  by (induction a) auto

lemma Cut_single_None: "c \<notin> set s \<Longrightarrow> Cut s [c] = None"
  by (simp add: Cut_None_iff)

section \<open>Splitting, joining, trimming and replacing\<close>

function Split :: "string \<Rightarrow> string \<Rightarrow> string list" where
  "Split s sep =
     (if sep = [] then map (\<lambda>c. [c]) s
      else case Cut s sep of None \<Rightarrow> [s] | Some (a, b) \<Rightarrow> a # Split b sep)"
  by pat_completeness auto
termination
  by (relation "measure (\<lambda>(s, sep). length s)") (auto dest: Cut_Some_length)

declare Split.simps [simp del]

definition SplitN2 :: "string \<Rightarrow> string \<Rightarrow> string list" where
  "SplitN2 s sep = (case Cut s sep of None \<Rightarrow> [s] | Some (a, b) \<Rightarrow> [a, b])"

fun Join :: "string list \<Rightarrow> string \<Rightarrow> string" where
  "Join [] sep = []"
| "Join [x] sep = x"
| "Join (x # y # ys) sep = x @ sep @ Join (y # ys) sep"

fun split_pred :: "(char \<Rightarrow> bool) \<Rightarrow> string \<Rightarrow> string list" where
  "split_pred p [] = [[]]"
| "split_pred p (c # s) =
     (if p c then [] # split_pred p s
      else case split_pred p s of [] \<Rightarrow> [[c]] | x # xs \<Rightarrow> (c # x) # xs)"

definition FieldsFunc :: "string \<Rightarrow> (char \<Rightarrow> bool) \<Rightarrow> string list" where
  "FieldsFunc s p = filter (\<lambda>x. x \<noteq> []) (split_pred p s)"

definition trim_by :: "(char \<Rightarrow> bool) \<Rightarrow> string \<Rightarrow> string" where
  "trim_by p s = rev (dropWhile p (rev (dropWhile p s)))"

definition TrimSpace :: "string \<Rightarrow> string" where
  "TrimSpace s = trim_by is_space s"

definition Trim :: "string \<Rightarrow> string \<Rightarrow> string" where
  "Trim s cutset = trim_by (\<lambda>c. c \<in> set cutset) s"

definition TrimSuffix :: "string \<Rightarrow> string \<Rightarrow> string" where
  "TrimSuffix s p = (if HasSuffix s p then take (length s - length p) s else s)"

definition CutPrefix :: "string \<Rightarrow> string \<Rightarrow> string \<times> bool" where
  "CutPrefix s p = (if HasPrefix s p then (drop (length p) s, True) else (s, False))"

definition ReplaceAll :: "string \<Rightarrow> string \<Rightarrow> string \<Rightarrow> string" where
  "ReplaceAll s old new = Join (Split s old) new"

definition ReplaceFirst :: "string \<Rightarrow> string \<Rightarrow> string \<Rightarrow> string" where
  "ReplaceFirst s old new = (case Cut s old of None \<Rightarrow> s | Some (a, b) \<Rightarrow> a @ new @ b)"

definition ContainsAny :: "string \<Rightarrow> string \<Rightarrow> bool" where
  "ContainsAny s chars \<longleftrightarrow> list_ex (\<lambda>c. c \<in> set chars) s"

lemma Split_not_Nil: "sep \<noteq> [] \<Longrightarrow> Split s sep \<noteq> []"
  by (subst Split.simps) (auto split: option.splits)

lemma Split_None: "sep \<noteq> [] \<Longrightarrow> Cut s sep = None \<Longrightarrow> Split s sep = [s]"
  by (subst Split.simps) simp

lemma Split_Some: "sep \<noteq> [] \<Longrightarrow> Cut s sep = Some (a, b) \<Longrightarrow> Split s sep = a # Split b sep"
  by (subst Split.simps) simp

lemma Join_Cons: "xs \<noteq> [] \<Longrightarrow> Join (x # xs) sep = x @ sep @ Join xs sep"
  by (cases xs) auto

theorem Join_Split: "sep \<noteq> [] \<Longrightarrow> Join (Split s sep) sep = s"
proof (induction s sep rule: Split.induct)
  case (1 s sep)
  show ?case
  proof (cases "Cut s sep")
    case None
    with 1 show ?thesis by (simp add: Split_None)
  next
    case (Some ab)
    then obtain a b where ab: "Cut s sep = Some (a, b)" by (cases ab) auto
    then have "Join (Split b sep) sep = b" using 1 by simp
    then show ?thesis using 1 ab
      by (simp add: Split_Some Join_Cons Split_not_Nil Cut_Some_eq [OF ab, symmetric])
  qed
qed

lemma Split_single_mem: "p \<in> set (Split s [c]) \<Longrightarrow> c \<notin> set p"
proof (induction s "[c]" rule: Split.induct)
  case (1 s)
  show ?case
  proof (cases "Cut s [c]")
    case None
    with 1 show ?thesis by (simp add: Split_None Cut_None_iff)
  next
    case (Some ab)
    then obtain a b where ab: "Cut s [c] = Some (a, b)" by (cases ab) auto
    with 1 show ?thesis by (auto simp: Split_Some dest: Cut_single_Some)
  qed
qed

lemma Split_single_append: "c \<notin> set a \<Longrightarrow> Split (a @ c # b) [c] = a # Split b [c]"
  by (simp add: Split_Some Cut_single_append)

lemma Split_single_id: "c \<notin> set a \<Longrightarrow> Split a [c] = [a]"
  by (simp add: Split_None Cut_single_None)

lemma length_Split_single: "length (Split s [c]) = Suc (count_list s c)"
proof (induction s "[c]" rule: Split.induct)
  case (1 s)
  show ?case
  proof (cases "Cut s [c]")
    case None
    then have "c \<notin> set s" by (simp add: Cut_None_iff)
    then show ?thesis by (simp add: Split_single_id)
  next
    case (Some ab)
    then obtain a b where ab: "Cut s [c] = Some (a, b)" by (cases ab) auto
    then have "c \<notin> set a" "s = a @ c # b"
      by (auto dest: Cut_single_Some Cut_Some_eq)
    with 1 ab show ?thesis by (simp add: Split_Some)
  qed
qed

theorem Split_Join:
  "ps \<noteq> [] \<Longrightarrow> (\<And>p. p \<in> set ps \<Longrightarrow> c \<notin> set p) \<Longrightarrow> Split (Join ps [c]) [c] = ps"
proof (induction ps)
  case (Cons p ps)
  then show ?case
    by (cases ps) (auto simp: Split_single_id Split_single_append)
qed simp

lemma split_pred_not_Nil [simp]: "split_pred p s \<noteq> []"
  by (cases s) (auto split: list.splits)

lemma split_pred_mem: "x \<in> set (split_pred p s) \<Longrightarrow> c \<in> set x \<Longrightarrow> c \<in> set s \<and> \<not> p c"
proof (induction s arbitrary: x)
  case (Cons d s)
  then show ?case by (fastforce split: if_splits list.splits)
qed simp

lemma set_trim_by: "set (trim_by p s) \<subseteq> set s"
proof
  fix x assume "x \<in> set (trim_by p s)"
  then have "x \<in> set (dropWhile p (rev (dropWhile p s)))" by (simp add: trim_by_def)
  then have "x \<in> set (rev (dropWhile p s))" by (blast dest: set_dropWhileD)
  then have "x \<in> set (dropWhile p s)" by simp
  then show "x \<in> set s" by (blast dest: set_dropWhileD)
qed

lemma trim_by_Nil [simp]: "trim_by p [] = []"
  by (simp add: trim_by_def)

lemma hd_dropWhile_rev: "dropWhile p (rev (dropWhile p s)) \<noteq> [] \<Longrightarrow>
  last (dropWhile p (rev (dropWhile p s))) = hd (dropWhile p s)"
  by (metis append_Nil2 hd_rev last_appendR rev_rev_ident takeWhile_dropWhile_id)

lemma trim_by_hd_last:
  assumes "trim_by p s \<noteq> []"
  shows "\<not> p (hd (trim_by p s)) \<and> \<not> p (last (trim_by p s))"
proof -
  let ?u = "dropWhile p s" and ?v = "dropWhile p (rev (dropWhile p s))"
  have v: "?v \<noteq> []" using assms by (simp only: trim_by_def rev_is_Nil_conv not_False_eq_True)
  then have "?u \<noteq> []" by (metis dropWhile.simps(1) rev.simps(1))
  then have "\<not> p (hd ?u)" by (rule hd_dropWhile)
  moreover have "hd (trim_by p s) = hd ?u"
    using hd_dropWhile_rev [OF v] by (simp add: trim_by_def hd_rev)
  moreover have "\<not> p (hd ?v)" using v by (rule hd_dropWhile)
  moreover have "last (trim_by p s) = hd ?v" using v by (simp add: trim_by_def last_rev)
  ultimately show ?thesis by simp
qed

lemma trim_by_id: "s = [] \<or> (\<not> p (hd s) \<and> \<not> p (last s)) \<Longrightarrow> trim_by p s = s"
proof -
  assume a: "s = [] \<or> (\<not> p (hd s) \<and> \<not> p (last s))"
  show "trim_by p s = s"
  proof (cases "s = []")
    case False
    with a have h: "\<not> p (hd s)" and l: "\<not> p (last s)" by auto
    from False h have "dropWhile p s = s" by (cases s) auto
    moreover from False l have "dropWhile p (rev s) = rev s"
      by (metis dropWhile_eq_self_iff hd_rev)
    ultimately show ?thesis by (simp add: trim_by_def)
  qed simp
qed

lemma trim_by_idem [simp]: "trim_by p (trim_by p s) = trim_by p s"
  by (rule trim_by_id) (use trim_by_hd_last in blast)

lemma split_pred_refine:
  assumes "\<And>c. p c \<Longrightarrow> q c"
  shows "((\<forall>c \<in> set (hd (split_pred p s)). \<not> q c) \<longrightarrow> hd (split_pred q s) = hd (split_pred p s)) \<and>
    (\<forall>x \<in> set (tl (split_pred p s)). (\<forall>c \<in> set x. \<not> q c) \<longrightarrow> x \<in> set (tl (split_pred q s)))"
proof (induction s)
  case (Cons c s)
  obtain x xs where p: "split_pred p s = x # xs" by (cases "split_pred p s") auto
  obtain y ys where q: "split_pred q s = y # ys" by (cases "split_pred q s") auto
  from Cons assms show ?case by (auto simp: p q)
qed simp

lemma split_pred_refine_mem:
  assumes "\<And>c. p c \<Longrightarrow> q c" "x \<in> set (split_pred p s)" "\<And>c. c \<in> set x \<Longrightarrow> \<not> q c"
  shows "x \<in> set (split_pred q s)"
proof -
  obtain y ys where p: "split_pred p s = y # ys" by (cases "split_pred p s") auto
  obtain z zs where q: "split_pred q s = z # zs" by (cases "split_pred q s") auto
  have r: "((\<forall>c \<in> set (hd (split_pred p s)). \<not> q c) \<longrightarrow> hd (split_pred q s) = hd (split_pred p s)) \<and>
    (\<forall>x \<in> set (tl (split_pred p s)). (\<forall>c \<in> set x. \<not> q c) \<longrightarrow> x \<in> set (tl (split_pred q s)))"
    by (rule split_pred_refine) (rule assms(1))
  from r assms(2,3) show ?thesis by (auto simp: p q)
qed

lemma Split_split_pred: "Split s [c] = split_pred (\<lambda>d. d = c) s"
proof (induction s)
  case Nil
  then show ?case by (simp add: Split_single_id)
next
  case (Cons d s)
  show ?case
  proof (cases "d = c")
    case True
    with Cons Split_single_append [of c "[]" s] show ?thesis by simp
  next
    case False
    show ?thesis
    proof (cases "Cut s [c]")
      case None
      with False Cons show ?thesis by (simp add: Split_None flip: Cons.IH)
    next
      case (Some ab)
      then obtain a b where "Cut s [c] = Some (a, b)" by (cases ab) auto
      with False show ?thesis by (simp add: Split_Some flip: Cons.IH)
    qed
  qed
qed

section \<open>Paths\<close>

text \<open>
  \<open>filepath.Clean\<close> and \<open>filepath.Join\<close> on Linux: the components of a path after resolving \<open>.\<close> and
  \<open>..\<close> lexically.
\<close>

definition path_step :: "bool \<Rightarrow> string list \<Rightarrow> string \<Rightarrow> string list" where
  "path_step rooted acc c =
     (if c = [] \<or> c = ''.'' then acc
      else if c = ''..''
      then (if acc \<noteq> [] \<and> last acc \<noteq> ''..'' then butlast acc
            else if rooted then acc else acc @ [''..''])
      else acc @ [c])"

definition path_comps :: "string \<Rightarrow> string list" where
  "path_comps path = foldl (path_step (HasPrefix path ''/'')) [] (Split path ''/'')"

definition Clean :: "string \<Rightarrow> string" where
  "Clean path =
     (let out = (if HasPrefix path ''/'' then ''/'' else []) @ Join (path_comps path) ''/''
      in if out = [] then ''.'' else out)"

definition path_join :: "string list \<Rightarrow> string" where
  "path_join elems =
     (case dropWhile (\<lambda>e. e = []) elems of [] \<Rightarrow> [] | es \<Rightarrow> Clean (Join es ''/''))"

lemma foldl_path_step_no_up:
  "''..'' \<notin> set cs \<Longrightarrow>
   foldl (path_step r) acc cs = acc @ filter (\<lambda>c. c \<noteq> [] \<and> c \<noteq> ''.'') cs"
  by (induction cs arbitrary: acc) (auto simp: path_step_def)

lemma Split_append_single: "Split (a @ c # b) [c] = Split a [c] @ Split b [c]"
proof (induction a "[c]" rule: Split.induct)
  case (1 s)
  show ?case
  proof (cases "Cut s [c]")
    case None
    then have "c \<notin> set s" by (simp add: Cut_None_iff)
    then show ?thesis by (simp add: Split_single_id Split_single_append)
  next
    case (Some xy)
    then obtain x y where xy: "Cut s [c] = Some (x, y)" by (cases xy) auto
    then have s: "s = x @ c # y" and x: "c \<notin> set x"
      by (auto dest: Cut_single_Some Cut_Some_eq)
    have "Split (y @ c # b) [c] = Split y [c] @ Split b [c]" using 1 xy by simp
    with x show ?thesis by (simp add: s Split_single_append)
  qed
qed

lemma path_comps_append:
  assumes "HasPrefix base ''/''" "''..'' \<notin> set (Split name ''/'')"
  shows "path_comps (base @ ''/'' @ name)
    = path_comps base @ filter (\<lambda>c. c \<noteq> [] \<and> c \<noteq> ''.'') (Split name ''/'')"
proof -
  have "HasPrefix (base @ ''/'' @ name) ''/''" using assms(1) by (auto simp: HasPrefix_iff)
  with assms show ?thesis
    by (simp add: path_comps_def Split_append_single foldl_path_step_no_up)
qed

section \<open>Replacing every occurrence\<close>

lemma ReplaceAll_Nil [simp]: "old \<noteq> [] \<Longrightarrow> ReplaceAll [] old new = []"
  by (simp add: ReplaceAll_def Split_None)

lemma ReplaceAll_Cons:
  assumes "old \<noteq> []"
  shows "ReplaceAll (c # s) old new =
    (if HasPrefix (c # s) old then new @ ReplaceAll (drop (length old) (c # s)) old new
     else c # ReplaceAll s old new)"
proof (cases "HasPrefix (c # s) old")
  case True
  then show ?thesis using assms
    by (simp add: ReplaceAll_def Split_Some [where a = "[]"] Join_Cons Split_not_Nil)
next
  case False
  show ?thesis
  proof (cases "Cut s old")
    case None
    with False assms show ?thesis by (simp add: ReplaceAll_def Split_None)
  next
    case (Some ab)
    then obtain a b where "Cut s old = Some (a, b)" by (cases ab) auto
    with False assms show ?thesis
      by (simp add: ReplaceAll_def Split_Some Join_Cons Split_not_Nil)
  qed
qed

lemma ReplaceAll_absent: "old \<noteq> [] \<Longrightarrow> \<not> Contains s old \<Longrightarrow> ReplaceAll s old new = s"
  by (simp add: ReplaceAll_def Split_None Cut_None_iff)

lemma ReplaceAll_pair_induct [case_names Nil pair other]:
  assumes "P []" "\<And>r. P r \<Longrightarrow> P (c # c # r)"
    "\<And>d r. \<not> HasPrefix (d # r) [c, c] \<Longrightarrow> P r \<Longrightarrow> P (d # r)"
  shows "P s"
proof (induction s rule: length_induct)
  case (1 s)
  show ?case
  proof (cases s)
    case (Cons d r)
    show ?thesis
    proof (cases "HasPrefix (d # r) [c, c]")
      case True
      then obtain r' where "s = c # c # r'" using Cons by (auto simp: HasPrefix_iff)
      with 1 assms(2) show ?thesis by auto
    next
      case False
      with 1 assms(3) Cons show ?thesis by auto
    qed
  qed (simp add: assms(1))
qed

lemma ReplaceAll_pair:
  "ReplaceAll (c # c # r) [c, c] [c] = c # ReplaceAll r [c, c] [c]"
  "\<not> HasPrefix (d # r) [c, c] \<Longrightarrow> ReplaceAll (d # r) [c, c] [c] = d # ReplaceAll r [c, c] [c]"
  by (auto simp: ReplaceAll_Cons)

text \<open>What replacing a doubled character by a single one keeps.\<close>

lemma ReplaceAll_pair_facts:
  "set (ReplaceAll s [c, c] [c]) = set s"
  "length (ReplaceAll s [c, c] [c]) \<le> length s"
  "s \<noteq> [] \<Longrightarrow> hd (ReplaceAll s [c, c] [c]) = hd s"
  by (induction s rule: ReplaceAll_pair_induct [of _ c]) (simp_all add: ReplaceAll_pair)

lemma ReplaceAll_pair_empty: "ReplaceAll s [c, c] [c] = [] \<longleftrightarrow> s = []"
  using ReplaceAll_pair_facts(1) [of s c] by (metis set_empty)

lemma ReplaceAll_pair_last: "s \<noteq> [] \<Longrightarrow> last (ReplaceAll s [c, c] [c]) = last s"
  by (induction s rule: ReplaceAll_pair_induct [of _ c])
    (auto simp: ReplaceAll_pair ReplaceAll_pair_empty)

end
