(* ===== verification/GoNum.thy ===== *)
theory GoNum
  imports Prelude
begin

text \<open>
  Go's fixed-width integers and \<open>strconv\<close>: truncating division, wrap-around to 32 and 64 bits,
  \<open>ParseBool\<close>, \<open>ParseUint\<close>, \<open>ParseInt\<close>, \<open>Atoi\<close>, decimal printing and the quoting of
  \<open>%q\<close>; and Go's \<open>error\<close> values.
\<close>

section \<open>Integers of a width\<close>

definition wrap :: "nat \<Rightarrow> int \<Rightarrow> int" where
  "wrap w x = (x + 2 ^ (w - 1)) mod 2 ^ w - 2 ^ (w - 1)"

definition wrap64 :: "int \<Rightarrow> int" where
  "wrap64 x = (x + 9223372036854775808) mod 18446744073709551616 - 9223372036854775808"

definition wrap32 :: "int \<Rightarrow> int" where
  "wrap32 x = (x + 2147483648) mod 4294967296 - 2147483648"

definition tdiv :: "int \<Rightarrow> int \<Rightarrow> int" where
  "tdiv a b = sgn a * sgn b * (\<bar>a\<bar> div \<bar>b\<bar>)"

definition tmod :: "int \<Rightarrow> int \<Rightarrow> int" where
  "tmod a b = a - b * tdiv a b"

abbreviation in_int64 :: "int \<Rightarrow> bool" where
  "in_int64 x \<equiv> - 9223372036854775808 \<le> x \<and> x < 9223372036854775808"

abbreviation in_int32 :: "int \<Rightarrow> bool" where
  "in_int32 x \<equiv> - 2147483648 \<le> x \<and> x < 2147483648"

lemma wrap64_wrap: "wrap64 x = wrap 64 x"
  by (simp add: wrap64_def wrap_def)

lemma wrap32_wrap: "wrap32 x = wrap 32 x"
  by (simp add: wrap32_def wrap_def)

lemma wrap64_id [simp]: "in_int64 x \<Longrightarrow> wrap64 x = x"
  by (simp add: wrap64_def)

lemma wrap32_id [simp]: "in_int32 x \<Longrightarrow> wrap32 x = x"
  by (simp add: wrap32_def)

lemma wrap64_range: "in_int64 (wrap64 x)"
  by (simp add: wrap64_def)

lemma wrap32_range: "in_int32 (wrap32 x)"
  by (simp add: wrap32_def)

lemma tdiv_nonneg: "0 \<le> a \<Longrightarrow> 0 < b \<Longrightarrow> tdiv a b = a div b"
  by (auto simp: tdiv_def sgn_if)

lemma tmod_nonneg: "0 \<le> a \<Longrightarrow> 0 < b \<Longrightarrow> tmod a b = a mod b"
  by (simp add: tmod_def tdiv_nonneg minus_mult_div_eq_mod)

section \<open>Parsing and printing numbers\<close>

fun ParseBool :: "string \<Rightarrow> bool option" where
  "ParseBool s =
     (if s \<in> {''1'', ''t'', ''T'', ''true'', ''TRUE'', ''True''} then Some True
      else if s \<in> {''0'', ''f'', ''F'', ''false'', ''FALSE'', ''False''} then Some False
      else None)"

declare ParseBool.simps [simp del]

definition digit_value :: "nat \<Rightarrow> char \<Rightarrow> nat option" where
  "digit_value base c =
     (let n = (of_char c :: nat) in
      if 48 \<le> n \<and> n \<le> 57 \<and> n - 48 < base then Some (n - 48) else None)"

fun parse_digits :: "nat \<Rightarrow> nat \<Rightarrow> string \<Rightarrow> nat option" where
  "parse_digits base acc [] = Some acc"
| "parse_digits base acc (c # s) =
     (case digit_value base c of None \<Rightarrow> None | Some d \<Rightarrow> parse_digits base (acc * base + d) s)"

definition ParseUint :: "string \<Rightarrow> nat \<Rightarrow> nat \<Rightarrow> int option" where
  "ParseUint s base bits =
     (if s = [] then None
      else case parse_digits base 0 s of
        None \<Rightarrow> None
      | Some n \<Rightarrow> if n < 2 ^ bits then Some (int n) else None)"

definition ParseInt :: "string \<Rightarrow> nat \<Rightarrow> nat \<Rightarrow> int option" where
  "ParseInt s base bits =
     (case s of
        [] \<Rightarrow> None
      | c # r \<Rightarrow>
          (let neg = (c = CHR ''-'');
               body = (if c = CHR ''-'' \<or> c = CHR ''+'' then r else s)
           in case ParseUint body base bits of
                None \<Rightarrow> None
              | Some n \<Rightarrow>
                  if \<not> neg \<and> 2 ^ (bits - 1) \<le> n then None
                  else if neg \<and> 2 ^ (bits - 1) < n then None
                  else Some (if neg then - n else n)))"

definition Atoi :: "string \<Rightarrow> int option" where
  "Atoi s = ParseInt s 10 64"

fun show_nat :: "nat \<Rightarrow> string" where
  "show_nat n =
     (if n < 10 then [char_of (48 + n)] else show_nat (n div 10) @ [char_of (48 + n mod 10)])"

declare show_nat.simps [simp del]

definition show_int :: "int \<Rightarrow> string" where
  "show_int i = (if i < 0 then CHR ''-'' # show_nat (nat (- i)) else show_nat (nat i))"

lemma parse_digits_append:
  "parse_digits b acc (s @ t) =
     (case parse_digits b acc s of None \<Rightarrow> None | Some n \<Rightarrow> parse_digits b n t)"
  by (induction s arbitrary: acc) (auto split: option.splits)

lemma digit_value_char: "d < 10 \<Longrightarrow> digit_value 10 (char_of (48 + d)) = Some d"
  by (simp add: digit_value_def Let_def)

lemma show_nat_not_Nil [simp]: "show_nat n \<noteq> []"
  by (subst show_nat.simps) simp

lemma parse_show_nat: "parse_digits 10 0 (show_nat n) = Some n"
proof (induction n rule: show_nat.induct)
  case (1 n)
  show ?case
  proof (cases "n < 10")
    case True
    then show ?thesis by (simp add: show_nat.simps [of n] digit_value_char)
  next
    case False
    then have "parse_digits 10 0 (show_nat (n div 10)) = Some (n div 10)" using 1 by simp
    then show ?thesis using False
      by (simp add: show_nat.simps [of n] parse_digits_append digit_value_char)
  qed
qed

lemma ParseUint_show: "n < 2 ^ bits \<Longrightarrow> ParseUint (show_nat n) 10 bits = Some (int n)"
  by (simp add: ParseUint_def parse_show_nat)

lemma ParseUint_range: "ParseUint s base bits = Some n \<Longrightarrow> 0 \<le> n \<and> n < 2 ^ bits"
  by (auto simp: ParseUint_def split: if_splits option.splits simp flip: of_nat_power)

lemma ParseInt_range:
  assumes "ParseInt s base bits = Some n"
  shows "- (2 ^ (bits - 1)) \<le> n \<and> n < 2 ^ (bits - 1)"
proof -
  obtain c r where s: "s = c # r" using assms by (cases s) (auto simp: ParseInt_def)
  obtain m where m: "ParseUint (if c = CHR ''-'' \<or> c = CHR ''+'' then r else s) base bits = Some m"
    using assms s by (auto simp: ParseInt_def Let_def split: option.splits if_splits)
  then have "0 \<le> m" using ParseUint_range by blast
  moreover from this have "- m < 2 ^ (bits - Suc 0)"
    by (simp add: order_le_less_trans [of "- m" 0])
  ultimately show ?thesis using assms s m
    by (auto simp: ParseInt_def Let_def split: if_splits)
qed

lemma ParseInt32_in_int32: "ParseInt s base 32 = Some n \<Longrightarrow> in_int32 n"
  by (drule ParseInt_range) simp

section \<open>Quoting\<close>

text \<open>\<open>strconv.Quote\<close> on ASCII text, as the verb \<open>%q\<close> prints it.\<close>

definition hex_char :: "nat \<Rightarrow> char" where
  "hex_char d = (if d < 10 then char_of (48 + d) else char_of (87 + d))"

definition quote_char :: "char \<Rightarrow> string" where
  "quote_char c =
     (let n = (of_char c :: nat) in
      if n = 34 then [CHR 0x5C, CHR 0x22]
      else if n = 92 then [CHR 0x5C, CHR 0x5C]
      else if n = 7 then [CHR 0x5C, CHR ''a'']
      else if n = 8 then [CHR 0x5C, CHR ''b'']
      else if n = 12 then [CHR 0x5C, CHR ''f'']
      else if n = 10 then [CHR 0x5C, CHR ''n'']
      else if n = 13 then [CHR 0x5C, CHR ''r'']
      else if n = 9 then [CHR 0x5C, CHR ''t'']
      else if n = 11 then [CHR 0x5C, CHR ''v'']
      else if n < 32 \<or> n = 127 then [CHR 0x5C, CHR ''x'', hex_char (n div 16), hex_char (n mod 16)]
      else [c])"

definition Quote :: "string \<Rightarrow> string" where
  "Quote s = CHR 0x22 # concat (map quote_char s) @ [CHR 0x22]"

section \<open>Errors\<close>

text \<open>
  gRPC status codes, and an \<open>error\<close> value: the text \<open>Error()\<close> returns, and what the code
  finds in it with \<open>errors.As\<close>, \<open>os.IsNotExist\<close>, \<open>mount.IsCorruptedMnt\<close>,
  \<open>apierrors.IsAlreadyExists\<close> or \<open>status.Convert\<close>.
\<close>

datatype code =
    InvalidArgument | NotFound | AlreadyExists | PermissionDenied | Aborted
  | Unimplemented | Internal | Unavailable | Unknown

datatype err_kind =
    Plain
  | ResponseError int
  | StatusError code
  | OsNotExist
  | OsExist
  | CorruptedMnt
  | K8sAlreadyExists
  | CredentialCacheSetup
  | OleError int
  | WmiNotFound
  | StopIteration
  | Panic

datatype goerr = GoErr (err_kind: err_kind) (err_text: string)

definition Errorf :: "string \<Rightarrow> goerr" where
  "Errorf s = GoErr Plain s"

definition Errorf_wrap :: "string \<Rightarrow> goerr \<Rightarrow> goerr" where
  "Errorf_wrap s e = GoErr (err_kind e) (s @ err_text e)"

fun code_text :: "code \<Rightarrow> string" where
  "code_text InvalidArgument = ''InvalidArgument''"
| "code_text NotFound = ''NotFound''"
| "code_text AlreadyExists = ''AlreadyExists''"
| "code_text PermissionDenied = ''PermissionDenied''"
| "code_text Aborted = ''Aborted''"
| "code_text Unimplemented = ''Unimplemented''"
| "code_text Internal = ''Internal''"
| "code_text Unavailable = ''Unavailable''"
| "code_text Unknown = ''Unknown''"

definition status_error :: "code \<Rightarrow> string \<Rightarrow> goerr" where
  "status_error c msg = GoErr (StatusError c) (''rpc error: code = '' @ code_text c @ '' desc = '' @ msg)"

definition status_code :: "goerr \<Rightarrow> code" where
  "status_code e = (case err_kind e of StatusError c \<Rightarrow> c | _ \<Rightarrow> Unknown)"

definition is_not_found_response :: "goerr \<Rightarrow> bool" where
  "is_not_found_response e \<longleftrightarrow> err_kind e = ResponseError 404"

text \<open>
  \<open>fmt.Sprintf\<close> on arguments already printed: a verb \<open>%s\<close>, \<open>%v\<close> or \<open>%d\<close> takes the next argument, \<open>%q\<close>
  quotes it, \<open>%%\<close> is a percent sign.
\<close>

fun sprintf :: "string \<Rightarrow> string list \<Rightarrow> string" where
  "sprintf (c # v # f) args =
     (if c \<noteq> CHR ''%'' then c # sprintf (v # f) args
      else if v = CHR ''%'' then CHR ''%'' # sprintf f args
      else case args of
             [] \<Rightarrow> sprintf f []
           | a # as \<Rightarrow> (if v = CHR ''q'' then Quote a else a) @ sprintf f as)"
| "sprintf f args = f"

declare sprintf.simps [simp del]

definition Statusf :: "code \<Rightarrow> string \<Rightarrow> string list \<Rightarrow> goerr" where
  "Statusf c f args = status_error c (sprintf f args)"

definition Fmterr :: "string \<Rightarrow> string list \<Rightarrow> goerr" where
  "Fmterr f args = Errorf (sprintf f args)"

text \<open>\<open>%w\<close>: the text is built like \<open>%v\<close> and the wrapped error stays visible to \<open>errors.As\<close> and \<open>errors.Is\<close>.\<close>

definition Fmterr_wrap :: "string \<Rightarrow> string list \<Rightarrow> goerr \<Rightarrow> goerr" where
  "Fmterr_wrap f args e = GoErr (err_kind e) (sprintf f (args @ [err_text e]))"

definition status_message :: "goerr \<Rightarrow> string" where
  "status_message e =
     (case err_kind e of
        StatusError c \<Rightarrow> drop (length (err_text (status_error c []))) (err_text e)
      | _ \<Rightarrow> err_text e)"

definition panic :: "string \<Rightarrow> goerr" where
  "panic what = GoErr Panic what"

text \<open>What a caller answers for an error \<open>e\<close> it wraps as \<open>w\<close>: a panic is not wrapped, it ends the caller too.\<close>

definition wrapped :: "goerr \<Rightarrow> goerr \<Rightarrow> goerr" where
  "wrapped e w = (if err_kind e = Panic then e else w)"

definition show_bool :: "bool \<Rightarrow> string" where
  "show_bool b = (if b then ''true'' else ''false'')"

definition show_list :: "string list \<Rightarrow> string" where
  "show_list xs = ''['' @ Join xs '' '' @ '']''"

definition show_err :: "goerr option \<Rightarrow> string" where
  "show_err e = (case e of None \<Rightarrow> ''<nil>'' | Some e \<Rightarrow> err_text e)"

lemma Statusf_kind [simp]: "err_kind (Statusf c f a) = StatusError c"
  by (simp add: Statusf_def status_error_def)

lemma status_code_Statusf [simp]: "status_code (Statusf c f a) = c"
  by (simp add: status_code_def)

lemma status_message_Statusf [simp]: "status_message (Statusf c f a) = sprintf f a"
  by (simp add: status_message_def Statusf_def status_error_def)

lemma Fmterr_kind [simp]: "err_kind (Fmterr f a) = Plain"
  by (simp add: Fmterr_def Errorf_def)

lemma status_code_Fmterr [simp]: "status_code (Fmterr f a) = Unknown"
  by (simp add: status_code_def)

end
