(* ===== verification/Util.thy ===== *)
theory Util
  imports GoNum
begin

text \<open>
  The package \<open>pkg/util\<close> (\<open>util.go\<close>) and the provisioning defaults of \<open>utils.go\<close>: sizes in GiB
  over 64-bit integers, generated volume names, the parsers of azcopy's job listing, and the default
  IOPS and bandwidth of a provisioned v2 share.
\<close>

section \<open>Sizes\<close>

definition GiB :: int where
  "GiB = 1073741824"

definition roundUpSize :: "int \<Rightarrow> int \<Rightarrow> int" where
  "roundUpSize volumeSizeBytes allocationUnitBytes =
     (let roundedUp = tdiv volumeSizeBytes allocationUnitBytes in
      if tmod volumeSizeBytes allocationUnitBytes > 0 then wrap64 (roundedUp + 1) else roundedUp)"

definition RoundUpBytes :: "int \<Rightarrow> int" where
  "RoundUpBytes volumeSizeBytes = wrap64 (roundUpSize volumeSizeBytes GiB * GiB)"

definition RoundUpGiB :: "int \<Rightarrow> int" where
  "RoundUpGiB volumeSizeBytes = roundUpSize volumeSizeBytes GiB"

definition BytesToGiB :: "int \<Rightarrow> int" where
  "BytesToGiB volumeSizeBytes = tdiv volumeSizeBytes GiB"

definition GiBToBytes :: "int \<Rightarrow> int" where
  "GiBToBytes volumeSizeGiB = wrap64 (volumeSizeGiB * GiB)"

lemma ceil_div_eq:
  assumes "0 < (g::int)"
  shows "(if 0 < b mod g then b div g + 1 else b div g) = (b + g - 1) div g"
proof -
  define q r where "q = b div g" and "r = b mod g"
  have b: "b = g * q + r" by (simp add: q_def r_def)
  have r: "0 \<le> r" "r < g" using assms by (simp_all add: r_def)
  show ?thesis
  proof (cases "0 < r")
    case True
    have "(b + g - 1) div g = q + 1"
      using r True by (intro int_div_pos_eq [where r = "r - 1"]) (auto simp: b algebra_simps)
    with True show ?thesis by (simp add: q_def r_def)
  next
    case False
    with r have "(b + g - 1) div g = q"
      by (intro int_div_pos_eq [where r = "g - 1"]) (auto simp: b algebra_simps)
    with False show ?thesis by (simp add: q_def r_def)
  qed
qed

lemma ceil_div_bounds:
  assumes "0 < (g::int)"
  shows "b \<le> (b + g - 1) div g * g" and "(b + g - 1) div g * g < b + g"
proof -
  define m where "m = b + g - 1"
  have "m = (m div g) * g + m mod g" "0 \<le> m mod g" "m mod g < g"
    using assms by simp_all
  then have "m - g < (m div g) * g" "(m div g) * g \<le> m" by linarith+
  then show "b \<le> (b + g - 1) div g * g" and "(b + g - 1) div g * g < b + g"
    by (simp_all add: m_def)
qed

lemma GiB_pos: "0 < GiB"
  by (simp add: GiB_def)

lemma RoundUpGiB_nonneg:
  assumes "0 \<le> b" "in_int64 b"
  shows "RoundUpGiB b = (b + GiB - 1) div GiB"
proof -
  have "0 \<le> b div GiB" using assms GiB_pos by (simp add: pos_imp_zdiv_nonneg_iff)
  moreover have "b div GiB \<le> b div 1"
    using assms by (intro zdiv_mono2) (auto simp: GiB_def)
  moreover have "b div GiB \<noteq> b" if "0 < b"
    using that int_div_less_self [of b GiB] by (simp add: GiB_def)
  ultimately have "0 \<le> b div GiB \<and> b div GiB < 9223372036854775807"
    using assms by (cases "b = 0") auto
  then have "RoundUpGiB b = (if 0 < b mod GiB then b div GiB + 1 else b div GiB)"
    using assms GiB_pos by (simp add: RoundUpGiB_def roundUpSize_def Let_def tdiv_nonneg tmod_nonneg)
  then show ?thesis by (simp add: ceil_div_eq [OF GiB_pos])
qed

lemma RoundUpGiB_ge: "0 \<le> b \<Longrightarrow> in_int64 b \<Longrightarrow> b \<le> RoundUpGiB b * GiB"
  using ceil_div_bounds [OF GiB_pos] by (simp add: RoundUpGiB_nonneg)

lemma RoundUpGiB_lt: "0 \<le> b \<Longrightarrow> in_int64 b \<Longrightarrow> RoundUpGiB b * GiB < b + GiB"
  using ceil_div_bounds [OF GiB_pos] by (simp add: RoundUpGiB_nonneg)

lemma RoundUpGiB_range:
  assumes "0 \<le> b" "in_int64 b"
  shows "0 \<le> RoundUpGiB b \<and> RoundUpGiB b \<le> 8589934592"
proof
  show "0 \<le> RoundUpGiB b"
    using RoundUpGiB_ge [OF assms] assms(1) GiB_pos by (metis order.trans zero_le_mult_iff not_less)
  have "RoundUpGiB b * GiB < 9223372036854775808 + GiB"
    using RoundUpGiB_lt [OF assms] assms by linarith
  then show "RoundUpGiB b \<le> 8589934592" by (simp add: GiB_def)
qed

section \<open>Generated volume names\<close>

text \<open>
  \<open>GenerateVolumeName\<close> slices its prefix when the whole name would be too long; a slice bound
  below zero is a run-time panic in Go, here \<open>None\<close>.
\<close>

definition GenerateVolumeName :: "string \<Rightarrow> string \<Rightarrow> int \<Rightarrow> string option" where
  "GenerateVolumeName clusterName pvName maxLength =
     (let prefix = clusterName @ ''-dynamic'';
          pvLen = int (length pvName)
      in if pvLen + 1 + int (length prefix) > maxLength
         then (if maxLength - pvLen - 1 < 0 then None
               else Some (take (nat (maxLength - pvLen - 1)) prefix @ ''-'' @ pvName))
         else Some (prefix @ ''-'' @ pvName))"

lemma GenerateVolumeName_length:
  "GenerateVolumeName c pv m = Some s \<Longrightarrow> int (length s) \<le> m"
  by (auto simp: GenerateVolumeName_def Let_def split: if_splits)

lemma GenerateVolumeName_suffix:
  "GenerateVolumeName c pv m = Some s \<Longrightarrow> HasSuffix s (''-'' @ pv)"
  by (auto simp: GenerateVolumeName_def Let_def HasSuffix_iff split: if_splits)

lemma GenerateVolumeName_total:
  "int (length pv) < m \<Longrightarrow> \<exists>s. GenerateVolumeName c pv m = Some s"
  by (auto simp: GenerateVolumeName_def Let_def)

section \<open>azcopy's job list\<close>

datatype AzcopyJobState =
    AzcopyJobError
  | AzcopyJobNotFound
  | AzcopyJobRunning
  | AzcopyJobCompleted
  | AzcopyJobCompletedWithErrors
  | AzcopyJobCompletedWithSkipped
  | AzcopyJobCompletedWithErrorsAndSkipped

definition newline :: string where
  "newline = [CHR 0x0A]"

text \<open>The state a job's status line ends the scan with; \<open>None\<close>: the scan goes on.\<close>

definition terminal_state :: "string \<Rightarrow> AzcopyJobState option" where
  "terminal_state status =
     (if status = ''Completed'' then Some AzcopyJobCompleted
      else if status = ''CompletedWithErrors'' then Some AzcopyJobCompletedWithErrors
      else if status = ''CompletedWithSkipped'' then Some AzcopyJobCompletedWithSkipped
      else if status = ''CompletedWithErrorsAndSkipped'' then Some AzcopyJobCompletedWithErrorsAndSkipped
      else None)"

fun parse_job_segments :: "string list \<Rightarrow> string \<Rightarrow> string \<times> AzcopyJobState \<times> goerr option" where
  "parse_job_segments [] jobid =
     (if jobid = [] then (jobid, AzcopyJobNotFound, None) else (jobid, AzcopyJobRunning, None))"
| "parse_job_segments (job # jobs) jobid =
     (let segments = Split job newline in
      if length segments < 4
      then (jobid, AzcopyJobError, Some (Errorf (''error parsing jobs list: '' @ job)))
      else
        let statusSegments = Split (segments ! 2) '': '' in
        if length statusSegments < 2
        then (jobid, AzcopyJobError, Some (Errorf (''error parsing jobs list status: '' @ segments ! 2)))
        else
          let status = statusSegments ! 1 in
          if status = ''InProgress'' then parse_job_segments jobs (segments ! 0)
          else case terminal_state status of
            Some st \<Rightarrow> (jobid, st, None)
          | None \<Rightarrow> parse_job_segments jobs jobid)"

definition parseAzcopyJobList :: "string \<Rightarrow> string \<times> AzcopyJobState \<times> goerr option" where
  "parseAzcopyJobList joblist =
     (let jobSegments = Split joblist ''JobId: '' in
      if length jobSegments < 2 then ([], AzcopyJobNotFound, None)
      else parse_job_segments (drop 1 jobSegments) [])"

definition parseAzcopyJobShow :: "string \<Rightarrow> AzcopyJobState \<times> string \<times> goerr option" where
  "parseAzcopyJobShow jobshow =
     (let segments = Split jobshow '': '' in
      if length segments < 2
      then (AzcopyJobError, [],
            Some (Errorf (''error parsing jobs summary: '' @ jobshow @ '' in Percent Complete (approx)'')))
      else (AzcopyJobRunning, ReplaceAll (segments ! 1) newline [], None))"

section \<open>Provisioned v2 defaults\<close>

text \<open>
  \<open>math.Ceil(0.2*float64(n))\<close> is the exact ceiling of \<open>n/5\<close>: the double nearest to 0.2 differs from it by
  less than one part in \<open>2 ^ 53\<close>, and \<open>n\<close> is at most \<open>2 ^ 33\<close>, so a non-multiple of 5 stays on its side of
  the integer and a multiple rounds to the integer itself; likewise for 0.02 and 0.1.
\<close>

definition ceil_ratio :: "int \<Rightarrow> int \<Rightarrow> int" where
  "ceil_ratio n d = - ((- n) div d)"

definition standardv2 :: string where "standardv2 = ''standardv2''"
definition premiumv2 :: string where "premiumv2 = ''premiumv2''"

definition getDefaultIOPS :: "int \<Rightarrow> string \<Rightarrow> int option" where
  "getDefaultIOPS requestGiB storageAccountType =
     (if Contains (ToLower storageAccountType) standardv2
      then Some (min (wrap32 (ceil_ratio requestGiB 5 + 1000)) 50000)
      else if Contains (ToLower storageAccountType) premiumv2
      then Some (min (wrap32 (wrap64 (requestGiB + 3000))) 102400)
      else None)"

definition getDefaultBandwidth :: "int \<Rightarrow> string \<Rightarrow> int option" where
  "getDefaultBandwidth requestGiB storageAccountType =
     (if Contains (ToLower storageAccountType) standardv2
      then Some (min (wrap32 (ceil_ratio requestGiB 50 + 60)) 5120)
      else if Contains (ToLower storageAccountType) premiumv2
      then Some (min (wrap32 (ceil_ratio requestGiB 10 + 100)) 10340)
      else None)"

lemma ceil_ratio_bounds:
  "0 < d \<Longrightarrow> n \<le> ceil_ratio n d * d \<and> ceil_ratio n d * d < n + d"
proof -
  assume d: "0 < d"
  define q where "q = (- n) div d"
  have "- n = q * d + (- n) mod d" "0 \<le> (- n) mod d" "(- n) mod d < d"
    using d by (simp_all add: q_def)
  then have "- n - d < q * d" "q * d \<le> - n" by linarith+
  then show ?thesis by (simp add: ceil_ratio_def flip: q_def)
qed

lemma ceil_ratio_range:
  assumes "0 < d" "0 \<le> n" "n \<le> m"
  shows "0 \<le> ceil_ratio n d \<and> ceil_ratio n d \<le> m"
proof -
  note b = ceil_ratio_bounds [OF assms(1), of n]
  have "0 \<le> ceil_ratio n d"
    using b assms(1,2) by (metis order.trans zero_le_mult_iff not_less)
  moreover have "ceil_ratio n d \<le> n"
  proof (rule ccontr)
    assume "\<not> ceil_ratio n d \<le> n"
    then have "(n + 1) * d \<le> ceil_ratio n d * d" using assms(1) by (intro mult_right_mono) auto
    moreover have "n * 1 \<le> n * d" using assms(1,2) by (intro mult_left_mono) auto
    ultimately show False using b by (simp add: algebra_simps)
  qed
  ultimately show ?thesis using assms(3) by simp
qed

section \<open>The job list as a whole\<close>

text \<open>A job of the listing: its id and its status, when the text has the lines and the status line the parser needs.\<close>

definition job_fields :: "string \<Rightarrow> (string \<times> string) option" where
  "job_fields job =
     (let segments = Split job newline in
      if length segments < 4 then None
      else let st = Split (segments ! 2) '': '' in
           if length st < 2 then None else Some (segments ! 0, st ! 1))"

definition finished :: "string \<times> string \<Rightarrow> bool" where
  "finished j \<longleftrightarrow> snd j \<noteq> ''InProgress'' \<and> terminal_state (snd j) \<noteq> None"

text \<open>The first finished job decides; without one, the last job in progress; else there is no job.\<close>

definition job_list_spec :: "(string \<times> string) list \<Rightarrow> string \<Rightarrow> string \<times> AzcopyJobState" where
  "job_list_spec js jobid =
     (let before = takeWhile (\<lambda>j. \<not> finished j) js;
          jid = foldl (\<lambda>a j. if snd j = ''InProgress'' then fst j else a) jobid before
      in case dropWhile (\<lambda>j. \<not> finished j) js of
           j # _ \<Rightarrow> (jid, the (terminal_state (snd j)))
         | [] \<Rightarrow> (jid, if jid = [] then AzcopyJobNotFound else AzcopyJobRunning))"

lemma parse_job_segments_spec:
  "list_all2 (\<lambda>job j. job_fields job = Some j) jobs js \<Longrightarrow>
   parse_job_segments jobs jobid = (fst (job_list_spec js jobid), snd (job_list_spec js jobid), None)"
proof (induction jobs arbitrary: js jobid)
  case Nil
  then show ?case by (simp add: job_list_spec_def)
next
  case (Cons job jobs)
  then obtain j js' where js: "js = j # js'" "job_fields job = Some j"
    and r: "list_all2 (\<lambda>job j. job_fields job = Some j) jobs js'"
    by (auto simp: list_all2_Cons1)
  obtain id0 st where j: "j = (id0, st)" by (cases j)
  have p: "parse_job_segments (job # jobs) jobid =
      (if st = ''InProgress'' then parse_job_segments jobs id0
       else case terminal_state st of Some x \<Rightarrow> (jobid, x, None) | None \<Rightarrow> parse_job_segments jobs jobid)"
    using js(2) by (auto simp: job_fields_def Let_def j split: if_splits)
  show ?case
  proof (cases "finished j")
    case True
    then show ?thesis unfolding p by (auto simp: js j job_list_spec_def finished_def)
  next
    case False
    then have "job_list_spec js jobid = job_list_spec js' (if st = ''InProgress'' then id0 else jobid)"
      by (simp add: js j job_list_spec_def)
    moreover from False have "st \<noteq> ''InProgress'' \<Longrightarrow> terminal_state st = None"
      by (simp add: finished_def j)
    ultimately show ?thesis unfolding p using Cons.IH [OF r] by (simp split: if_split)
  qed
qed

section \<open>Properties\<close>

text \<open>A requested size is rounded up to the least number of GiB that holds it, without overflow for any 64-bit size.\<close>

theorem RoundUpGiB_least:
  assumes "0 \<le> b" "in_int64 b"
  shows "b \<le> RoundUpGiB b * GiB \<and> (\<forall>n. b \<le> n * GiB \<longrightarrow> RoundUpGiB b \<le> n) \<and> in_int64 (RoundUpGiB b)"
proof (intro conjI allI impI)
  show "b \<le> RoundUpGiB b * GiB" by (rule RoundUpGiB_ge [OF assms])
  show "- 9223372036854775808 \<le> RoundUpGiB b" "RoundUpGiB b < 9223372036854775808"
    using RoundUpGiB_range [OF assms] by simp_all
next
  fix n assume "b \<le> n * GiB"
  with RoundUpGiB_lt [OF assms] have "RoundUpGiB b * GiB < (n + 1) * GiB" by (simp add: distrib_right)
  then show "RoundUpGiB b \<le> n" using GiB_pos by (simp add: mult_less_cancel_right)
qed

theorem RoundUpGiB_least_witness:
  "1572864000 \<le> RoundUpGiB 1572864000 * GiB \<and> RoundUpGiB 1572864000 \<le> 2 \<and> in_int64 (RoundUpGiB 1572864000)"
  using RoundUpGiB_least [of 1572864000] by (simp add: GiB_def)

text \<open>For a standard v2 account, and for a premium v2 account up to the 2 TiB-many GiB a 32-bit quota allows, the
  default IOPS and bandwidth are the documented formulas
  \<open>MIN(MAX(1000 + CEILING(0.2 * GiB), 500), 50000)\<close>, \<open>MIN(MAX(3000 + GiB, 3000), 102400)\<close>,
  \<open>MIN(MAX(60 + CEILING(0.02 * GiB), 60), 5120)\<close> and \<open>MIN(MAX(100 + CEILING(0.1 * GiB), 100), 10340)\<close>.\<close>

theorem provisioned_defaults_documented:
  assumes "0 \<le> g" "g < 2147480000"
  shows "getDefaultIOPS g ''StandardV2_LRS'' = Some (min (max (1000 + ceil_ratio g 5) 500) 50000)
    \<and> getDefaultIOPS g ''PremiumV2_LRS'' = Some (min (max (3000 + g) 3000) 102400)
    \<and> getDefaultBandwidth g ''StandardV2_LRS'' = Some (min (max (60 + ceil_ratio g 50) 60) 5120)
    \<and> getDefaultBandwidth g ''PremiumV2_LRS'' = Some (min (max (100 + ceil_ratio g 10) 100) 10340)
    \<and> getDefaultIOPS g ''Premium_LRS'' = None \<and> getDefaultBandwidth g ''Premium_LRS'' = None"
proof -
  have s: "Contains (ToLower ''StandardV2_LRS'') standardv2" "\<not> Contains (ToLower ''PremiumV2_LRS'') standardv2"
    "Contains (ToLower ''PremiumV2_LRS'') premiumv2" "\<not> Contains (ToLower ''Premium_LRS'') standardv2"
    "\<not> Contains (ToLower ''Premium_LRS'') premiumv2" by code_simp+
  have r: "0 \<le> ceil_ratio g n \<and> ceil_ratio g n \<le> 2147480000" if "0 < n" for n
    by (rule ceil_ratio_range) (use assms that in auto)
  from r [of 5] r [of 50] r [of 10] assms show ?thesis
    by (simp add: getDefaultIOPS_def getDefaultBandwidth_def s add.commute max_absorb1)
qed

theorem provisioned_defaults_documented_witness:
  "getDefaultIOPS 32 ''StandardV2_LRS'' = Some 1007 \<and> getDefaultIOPS 32 ''PremiumV2_LRS'' = Some 3032
    \<and> getDefaultBandwidth 32 ''StandardV2_LRS'' = Some 61 \<and> getDefaultBandwidth 32 ''PremiumV2_LRS'' = Some 104
    \<and> getDefaultIOPS 32 ''Premium_LRS'' = None \<and> getDefaultBandwidth 32 ''Premium_LRS'' = None"
  using provisioned_defaults_documented [of 32] by (simp add: ceil_ratio_def)

text \<open>Beyond that the 32-bit conversion wraps before the minimum is taken.\<close>

lemma premium_iops_wraps: "getDefaultIOPS 2147483647 ''PremiumV2_LRS'' = Some (- 2147480649)"
  by code_simp

text \<open>C39: the parser of azcopy's job list computes the state of the first finished job of the listing; without one it
  reports the last job in progress, and no job when there is none.\<close>

theorem azcopy_job_list_spec:
  assumes "Split listing ''JobId: '' = header # jobs" "list_all2 (\<lambda>job j. job_fields job = Some j) jobs js"
  shows "parseAzcopyJobList listing = (fst (job_list_spec js []), snd (job_list_spec js []), None)"
proof (cases jobs)
  case Nil
  with assms(2) have "js = []" by simp
  with assms(1) Nil show ?thesis by (simp add: parseAzcopyJobList_def job_list_spec_def)
next
  case (Cons j r)
  with assms(1) parse_job_segments_spec [OF assms(2), of "[]"] show ?thesis
    by (simp add: parseAzcopyJobList_def)
qed

definition sample_listing :: string where
  "sample_listing = ''JobId: id1'' @ newline @ ''Start Time: Monday'' @ newline @ ''Status: Failed'' @ newline
     @ ''Command: copy a b'' @ newline @ ''JobId: id2'' @ newline @ ''Start Time: Monday'' @ newline
     @ ''Status: InProgress'' @ newline @ ''Command: copy a b'' @ newline"

theorem azcopy_job_list_spec_witness:
  "parseAzcopyJobList sample_listing = (''id2'', AzcopyJobRunning, None)"
proof -
  define jobs where "jobs = drop 1 (Split sample_listing ''JobId: '')"
  have "Split sample_listing ''JobId: '' = [] # jobs" unfolding jobs_def by code_simp
  moreover have "list_all2 (\<lambda>job j. job_fields job = Some j) jobs [(''id1'', ''Failed''), (''id2'', ''InProgress'')]"
    unfolding jobs_def by code_simp
  ultimately have "parseAzcopyJobList sample_listing =
      (fst (job_list_spec [(''id1'', ''Failed''), (''id2'', ''InProgress'')] []),
       snd (job_list_spec [(''id1'', ''Failed''), (''id2'', ''InProgress'')] []), None)"
    by (rule azcopy_job_list_spec)
  then show ?thesis by (simp add: job_list_spec_def finished_def terminal_state_def)
qed

end
