(* ===== verification/Validation.thy ===== *)
theory Validation
  imports Util
begin

text \<open>
  The checks on names and parameters of \<open>utils.go\<close> and \<open>azurefile.go\<close>: the supported values of the
  storage class parameters, share name prefixes, generated share names, folder names, credentials
  put on a mount command line, and token file names.  The lists of supported values that come from the
  Azure SDK are the values its \<open>Possible...Values\<close> functions return.
\<close>

section \<open>Supported values\<close>

definition cifs :: string where "cifs = ''cifs''"
definition smb :: string where "smb = ''smb''"
definition nfs :: string where "nfs = ''nfs''"
definition aznfs :: string where "aznfs = ''aznfs''"
definition vhdSuffix :: string where "vhdSuffix = ''.vhd''"
definition trueValue :: string where "trueValue = ''true''"
definition falseValue :: string where "falseValue = ''false''"
definition oauth :: string where "oauth = ''oauth''"
definition privateEndpoint :: string where "privateEndpoint = ''privateendpoint''"
definition serviceEndpoint :: string where "serviceEndpoint = ''serviceendpoint''"
definition FSGroupChangeNone :: string where "FSGroupChangeNone = [CHR ''N''] @ ''one''"

lemmas value_defs = cifs_def smb_def nfs_def aznfs_def vhdSuffix_def trueValue_def falseValue_def
  oauth_def privateEndpoint_def serviceEndpoint_def FSGroupChangeNone_def

definition supportedFsTypeList :: "string list" where
  "supportedFsTypeList = [cifs, smb, nfs, ''ext4'', ''ext3'', ''ext2'', ''xfs'']"

definition supportedProtocolList :: "string list" where
  "supportedProtocolList = [smb, nfs]"

definition supportedDiskFsTypeList :: "string list" where
  "supportedDiskFsTypeList = [''ext4'', ''ext3'', ''ext2'', ''xfs'']"

definition supportedFSGroupChangePolicyList :: "string list" where
  "supportedFSGroupChangePolicyList = [FSGroupChangeNone, ''Always'', ''OnRootMismatch'']"

definition supportedNetworkEndpointTypeList :: "string list" where
  "supportedNetworkEndpointTypeList = [privateEndpoint, serviceEndpoint]"

definition isDiskFsType :: "string \<Rightarrow> bool" where
  "isDiskFsType fsType \<longleftrightarrow> list_ex (\<lambda>v. fsType = v) supportedDiskFsTypeList"

definition isSupportedFsType :: "string \<Rightarrow> bool" where
  "isSupportedFsType fsType \<longleftrightarrow> fsType = [] \<or> list_ex (\<lambda>v. fsType = v) supportedFsTypeList"

definition isSupportedProtocol :: "string \<Rightarrow> bool" where
  "isSupportedProtocol protocol \<longleftrightarrow> protocol = [] \<or> list_ex (\<lambda>v. protocol = v) supportedProtocolList"

definition isSupportedShareAccessTier :: "string \<Rightarrow> bool" where
  "isSupportedShareAccessTier tier \<longleftrightarrow>
     tier = [] \<or> list_ex (\<lambda>v. tier = v) [''Cool'', ''Hot'', ''Premium'', ''TransactionOptimized'']"

definition isSupportedAccountAccessTier :: "string \<Rightarrow> bool" where
  "isSupportedAccountAccessTier tier \<longleftrightarrow>
     tier = [] \<or> list_ex (\<lambda>v. tier = v) [''Cold'', ''Cool'', ''Hot'', ''Premium'']"

definition isSupportedPublicNetworkAccess :: "string \<Rightarrow> bool" where
  "isSupportedPublicNetworkAccess p \<longleftrightarrow>
     p = [] \<or> list_ex (\<lambda>v. p = v) [''Disabled'', ''Enabled'', ''SecuredByPerimeter'']"

definition isSupportedNetworkEndpointType :: "string \<Rightarrow> bool" where
  "isSupportedNetworkEndpointType t \<longleftrightarrow>
     t = [] \<or> list_ex (\<lambda>v. EqualFold t v) supportedNetworkEndpointTypeList"

definition isSupportedRootSquashType :: "string \<Rightarrow> bool" where
  "isSupportedRootSquashType r \<longleftrightarrow>
     r = [] \<or> list_ex (\<lambda>v. r = v) [''AllSquash'', ''NoRootSquash'', ''RootSquash'']"

definition isSupportedFSGroupChangePolicy :: "string \<Rightarrow> bool" where
  "isSupportedFSGroupChangePolicy policy \<longleftrightarrow>
     policy = [] \<or> list_ex (\<lambda>v. policy = v) supportedFSGroupChangePolicyList"

lemma isDiskFsType_supported: "isDiskFsType t \<Longrightarrow> isSupportedFsType t"
  by (auto simp: isDiskFsType_def isSupportedFsType_def supportedFsTypeList_def supportedDiskFsTypeList_def)

section \<open>Share names\<close>

definition isSupportedShareNamePrefix :: "string \<Rightarrow> bool" where
  "isSupportedShareNamePrefix pre \<longleftrightarrow>
     (if pre = [] then True
      else if length pre > 20 then False
      else if pre ! 0 = CHR ''-'' then False
      else list_all (\<lambda>v. v = CHR ''-'' \<or> is_lower_or_digit v) pre)"

definition fileShareNameMinLength :: nat where "fileShareNameMinLength = 3"
definition fileShareNameMaxLength :: nat where "fileShareNameMaxLength = 63"

text \<open>\<open>None\<close>: the index \<open>fileShareName[0]\<close> of an empty name panics.\<close>

definition checkShareNameBeginAndEnd :: "string \<Rightarrow> bool option" where
  "checkShareNameBeginAndEnd fileShareName =
     (if fileShareName = [] then None
      else Some (is_lower_or_digit (fileShareName ! 0)
                 \<and> is_lower_or_digit (fileShareName ! (length fileShareName - 1))))"

text \<open>\<open>uuid\<close> is what \<open>uuid.NewString()\<close> returns in this call.\<close>

definition getValidFileShareName :: "string \<Rightarrow> string \<Rightarrow> string option" where
  "getValidFileShareName uuid volumeName =
     (let fileShareName = ToLower volumeName;
          fileShareName = (if length fileShareName > fileShareNameMaxLength
                           then take fileShareNameMaxLength fileShareName else fileShareName)
      in case checkShareNameBeginAndEnd fileShareName of
           None \<Rightarrow> None
         | Some ok \<Rightarrow>
             (case (if \<not> ok \<or> length fileShareName < fileShareNameMinLength
                    then GenerateVolumeName ''pvc-file'' uuid (int fileShareNameMaxLength)
                    else Some fileShareName) of
                None \<Rightarrow> None
              | Some name \<Rightarrow> Some (ToLower (ReplaceAll name ''--'' ''-''))))"

text \<open>What a share name must satisfy besides the characters of the volume name itself.\<close>

definition share_name_shape :: "string \<Rightarrow> bool" where
  "share_name_shape s \<longleftrightarrow> 3 \<le> length s \<and> length s \<le> 63
     \<and> is_lower_or_digit (hd s) \<and> is_lower_or_digit (last s) \<and> ToLower s = s"

definition uuid_shape :: "string \<Rightarrow> bool" where
  "uuid_shape u \<longleftrightarrow> length u = 36 \<and> list_all (\<lambda>c. is_lower_or_digit c \<or> c = CHR ''-'') u
     \<and> is_lower_or_digit (last u)"

lemma is_lower_or_digit_lower [simp]: "is_lower_or_digit c \<Longrightarrow> lower_char c = c"
  by (auto simp: is_lower_or_digit_def lower_char_def Let_def)

lemma dash_lower [simp]: "lower_char (CHR ''-'') = CHR ''-''" "\<not> is_lower_or_digit (CHR ''-'')"
  by (simp_all add: lower_char_def is_lower_or_digit_def)

lemma ToLower_id_iff: "ToLower s = s \<longleftrightarrow> (\<forall>c \<in> set s. lower_char c = c)"
  by (induction s) (auto simp: ToLower_def)

lemma length_of_ends:
  assumes "s \<noteq> []" "d \<in> set s" "hd s \<noteq> d" "last s \<noteq> d"
  shows "3 \<le> length s"
  using assms by (cases s; cases "tl s"; cases "tl (tl s)") auto

lemma ReplaceAll_dash_shape:
  assumes "3 \<le> length s" "length s \<le> 63" "is_lower_or_digit (hd s)" "is_lower_or_digit (last s)"
    "ToLower s = s"
  shows "share_name_shape (ToLower (ReplaceAll s ''--'' ''-''))"
proof -
  let ?r = "ReplaceAll s ''--'' ''-''"
  have s: "s \<noteq> []" using assms(1) by auto
  have hd: "hd ?r = hd s" and last: "last ?r = last s" and set: "set ?r = set s"
    and le: "length ?r \<le> length s" and ne: "?r \<noteq> []"
    using s ReplaceAll_pair_facts [of s "CHR ''-''"] ReplaceAll_pair_last [of s "CHR ''-''"]
      ReplaceAll_pair_empty [of s "CHR ''-''"] by auto
  have low: "ToLower ?r = ?r"
    using assms(5) set by (simp add: ToLower_id_iff)
  have "3 \<le> length ?r"
  proof (cases "CHR ''-'' \<in> set s")
    case True
    show ?thesis
      by (rule length_of_ends [OF ne, of "CHR ''-''"])
        (use True assms(3,4) in \<open>auto simp: hd last set\<close>)
  next
    case False
    then have "\<not> Contains s ''--''" by (auto simp: Contains_iff)
    then show ?thesis using assms(1) by (simp add: ReplaceAll_absent)
  qed
  with assms hd last le low show ?thesis by (simp add: share_name_shape_def)
qed

lemma generated_name:
  assumes "uuid_shape u"
  shows "GenerateVolumeName ''pvc-file'' u 63 = Some (''pvc-file-dynamic-'' @ u)"
  using assms by (simp add: GenerateVolumeName_def uuid_shape_def)

lemma getValidFileShareName_shape:
  assumes "uuid_shape u" "v \<noteq> []"
  shows "\<exists>s. getValidFileShareName u v = Some s \<and> share_name_shape s"
proof -
  define n where "n = (if length (ToLower v) > fileShareNameMaxLength
    then take fileShareNameMaxLength (ToLower v) else ToLower v)"
  have n: "n \<noteq> []" "length n \<le> 63" "ToLower n = n"
    using assms(2) by (auto simp: n_def ToLower_def take_map fileShareNameMaxLength_def)
  define ok where "ok \<longleftrightarrow> is_lower_or_digit (n ! 0) \<and> is_lower_or_digit (n ! (length n - 1))"
  have c: "checkShareNameBeginAndEnd n = Some ok"
    using n(1) by (simp add: checkShareNameBeginAndEnd_def ok_def)
  define g where "g = (if \<not> ok \<or> length n < 3 then ''pvc-file-dynamic-'' @ u else n)"
  have "getValidFileShareName u v = Some (ToLower (ReplaceAll g ''--'' ''-''))"
    using c generated_name [OF assms(1)] unfolding getValidFileShareName_def Let_def n_def [symmetric]
    by (simp add: fileShareNameMaxLength_def fileShareNameMinLength_def g_def)
  moreover have "share_name_shape (ToLower (ReplaceAll g ''--'' ''-''))"
  proof (rule ReplaceAll_dash_shape)
    from assms(1) have u: "u \<noteq> []" "length u = 36" "is_lower_or_digit (last u)" "ToLower u = u"
      by (auto simp: uuid_shape_def ToLower_def list_all_iff intro!: map_idI)
    show "3 \<le> length g" "length g \<le> 63" using n u by (auto simp: g_def)
    show "is_lower_or_digit (hd g)" "is_lower_or_digit (last g)" "ToLower g = g"
      using n u by (auto simp: g_def ok_def hd_conv_nth last_conv_nth ToLower_def
          is_lower_or_digit_def lower_char_def)
  qed
  ultimately show ?thesis by blast
qed

section \<open>Folder names\<close>

text \<open>The character class of \<open>invalidFolderNameChars\<close>.\<close>

definition invalid_folder_char :: "char \<Rightarrow> bool" where
  "invalid_folder_char c \<longleftrightarrow>
     c = CHR 0x5C \<or> c = CHR '':'' \<or> c = CHR ''*'' \<or> c = CHR ''?'' \<or> c = CHR 0x22
     \<or> c = CHR ''<'' \<or> c = CHR ''>'' \<or> c = CHR ''|''"

definition is_control :: "char \<Rightarrow> bool" where
  "is_control c \<longleftrightarrow> (of_char c :: nat) \<le> 31"

definition folder_error :: "string \<Rightarrow> string \<Rightarrow> goerr" where
  "folder_error folderName what = Errorf (''folderName('' @ Quote folderName @ '') '' @ what)"

fun check_folder_segments :: "string \<Rightarrow> string list \<Rightarrow> goerr option" where
  "check_folder_segments folderName [] = None"
| "check_folder_segments folderName (seg # segs) =
     (if seg = [] then Some (Errorf ''folderName contains empty path segment'')
      else if seg = ''..'' \<or> seg = ''.''
      then Some (folder_error folderName (''contains disallowed path segment '' @ Quote seg))
      else if list_ex invalid_folder_char seg
      then Some (folder_error folderName (''contains invalid character in segment '' @ Quote seg @ '', characters ''
             @ [CHR 0x5C] @ '':*?'' @ [CHR 0x22] @ ''<>| are not allowed''))
      else if list_ex is_control seg
      then Some (folder_error folderName (''contains control character in segment '' @ Quote seg))
      else if HasSuffix seg ''.'' \<or> HasSuffix seg '' ''
      then Some (folder_error folderName (''segment '' @ Quote seg @ '' must not end with a period or space''))
      else check_folder_segments folderName segs)"

definition isValidFolderName :: "string \<Rightarrow> goerr option" where
  "isValidFolderName folderName =
     (if folderName = [] then None
      else if CHR 0x00 \<in> set folderName
      then Some (folder_error folderName ''contains null byte which is not allowed'')
      else check_folder_segments folderName (Split (Trim folderName ''/'') ''/''))"

text \<open>What a path segment of an accepted folder name is.\<close>

definition safe_segment :: "string \<Rightarrow> bool" where
  "safe_segment seg \<longleftrightarrow> seg \<noteq> [] \<and> seg \<noteq> ''.'' \<and> seg \<noteq> ''..'' \<and> CHR ''/'' \<notin> set seg
     \<and> (\<forall>c \<in> set seg. \<not> invalid_folder_char c \<and> \<not> is_control c)
     \<and> \<not> HasSuffix seg ''.'' \<and> \<not> HasSuffix seg '' ''"

lemma check_folder_segments_None:
  "check_folder_segments f segs = None \<longleftrightarrow>
     (\<forall>seg \<in> set segs. seg \<noteq> [] \<and> seg \<noteq> ''.'' \<and> seg \<noteq> ''..'' \<and>
        (\<forall>c \<in> set seg. \<not> invalid_folder_char c \<and> \<not> is_control c) \<and>
        \<not> HasSuffix seg ''.'' \<and> \<not> HasSuffix seg '' '')"
  by (induction segs) (auto simp: list_ex_iff)

lemma isValidFolderName_segments:
  assumes "isValidFolderName f = None" "f \<noteq> []" "seg \<in> set (Split (Trim f ''/'') ''/'')"
  shows "safe_segment seg"
proof -
  have "check_folder_segments f (Split (Trim f ''/'') ''/'') = None"
    using assms(1,2) by (simp add: isValidFolderName_def split: if_splits)
  moreover have "CHR ''/'' \<notin> set seg" by (rule Split_single_mem) (rule assms(3))
  ultimately show ?thesis using assms(3) by (auto simp: check_folder_segments_None safe_segment_def)
qed

lemma isValidFolderName_complete:
  assumes "f \<noteq> []" "\<And>seg. seg \<in> set (Split (Trim f ''/'') ''/'') \<Longrightarrow> safe_segment seg" "CHR 0x00 \<notin> set f"
  shows "isValidFolderName f = None"
  using assms by (auto simp: isValidFolderName_def check_folder_segments_None safe_segment_def)

lemma is_control_NUL: "is_control (CHR 0x00)"
  by (simp add: is_control_def)

section \<open>Credentials and token files\<close>

definition containsMountOptionDelimiter :: "string \<Rightarrow> bool" where
  "containsMountOptionDelimiter s \<longleftrightarrow> ContainsAny s [CHR '','', CHR 0x0A, CHR 0x0D, CHR 0x00]"

definition validateSMBCredentialValues :: "string \<Rightarrow> string \<Rightarrow> goerr option" where
  "validateSMBCredentialValues accountName accountKey =
     (if containsMountOptionDelimiter accountName
      then Some (Errorf ''invalid account name: must not contain comma, newline, carriage return or NUL characters'')
      else if containsMountOptionDelimiter accountKey
      then Some (Errorf ''invalid account key: must not contain comma, newline, carriage return or NUL characters'')
      else None)"

definition is_token_file_char :: "char \<Rightarrow> bool" where
  "is_token_file_char c \<longleftrightarrow> (let n = (of_char c :: nat) in
     (97 \<le> n \<and> n \<le> 122) \<or> (65 \<le> n \<and> n \<le> 90) \<or> (48 \<le> n \<and> n \<le> 57) \<or> c = CHR ''-'')"

definition isValidTokenFileName :: "string \<Rightarrow> bool" where
  "isValidTokenFileName fileName \<longleftrightarrow> fileName \<noteq> [] \<and> list_all is_token_file_char fileName"

lemma validateSMBCredentialValues_None:
  "validateSMBCredentialValues a k = None \<longleftrightarrow>
     \<not> containsMountOptionDelimiter a \<and> \<not> containsMountOptionDelimiter k"
  by (simp add: validateSMBCredentialValues_def)

lemma containsMountOptionDelimiter_comma: "\<not> containsMountOptionDelimiter s \<Longrightarrow> CHR '','' \<notin> set s"
  by (auto simp: containsMountOptionDelimiter_def ContainsAny_def list_ex_iff)

lemma token_file_one_segment:
  "isValidTokenFileName f \<Longrightarrow> Split f ''/'' = [f] \<and> f \<noteq> ''..'' \<and> f \<noteq> ''.'' \<and> f \<noteq> []"
  by (auto simp: isValidTokenFileName_def is_token_file_char_def list_all_iff Let_def intro!: Split_single_id)

section \<open>Properties\<close>

text \<open>The share name made from a volume name always has 3 to 63 characters, begins and ends with a lower-case
  letter or digit and holds no upper-case letter, and making it never panics.\<close>

theorem share_name_valid:
  assumes "uuid_shape u" "v \<noteq> []"
  shows "\<exists>s. getValidFileShareName u v = Some s \<and> 3 \<le> length s \<and> length s \<le> 63
    \<and> is_lower_or_digit (hd s) \<and> is_lower_or_digit (last s) \<and> ToLower s = s"
  using getValidFileShareName_shape [OF assms] by (auto simp: share_name_shape_def)

theorem share_name_valid_witness:
  "\<exists>s. getValidFileShareName ''46678f10-4bbb-447e-98e8-d2829589f2d8'' ''-My_Volume-'' = Some s
    \<and> 3 \<le> length s \<and> length s \<le> 63
    \<and> is_lower_or_digit (hd s) \<and> is_lower_or_digit (last s) \<and> ToLower s = s"
proof -
  have "uuid_shape ''46678f10-4bbb-447e-98e8-d2829589f2d8''" by code_simp
  then show ?thesis by (rule share_name_valid) simp
qed

text \<open>The comment of the function says the name cannot hold two consecutive hyphens; three of them leave two.\<close>

lemma share_name_two_hyphens: "getValidFileShareName u ''a---b'' = Some ''a--b''"
proof -
  have "ReplaceAll ''a---b'' ''--'' ''-'' = ''a--b''" by code_simp
  then show ?thesis
    by (simp add: getValidFileShareName_def checkShareNameBeginAndEnd_def fileShareNameMaxLength_def
        fileShareNameMinLength_def ToLower_def lower_char_def is_lower_or_digit_def)
qed

text \<open>The comment of the function says a prefix must end with a letter or a number; a trailing hyphen is accepted.\<close>

lemma share_prefix_trailing_hyphen: "isSupportedShareNamePrefix ''a-''"
  by code_simp

text \<open>C29: an accepted folder name stays inside the share: below any absolute directory its segments are
  appended as they are, none of them empty, \<open>.\<close> or \<open>..\<close>, none with a character the share forbids.\<close>

theorem folder_inside:
  assumes "isValidFolderName f = None" "f \<noteq> []" "HasPrefix base ''/''"
  shows "path_comps (base @ ''/'' @ Trim f ''/'') = path_comps base @ Split (Trim f ''/'') ''/''
    \<and> list_all safe_segment (Split (Trim f ''/'') ''/'')"
proof
  have safe: "safe_segment seg" if "seg \<in> set (Split (Trim f ''/'') ''/'')" for seg
    using isValidFolderName_segments [OF assms(1,2) that] .
  then have "''..'' \<notin> set (Split (Trim f ''/'') ''/'')" by (auto simp: safe_segment_def)
  moreover have "filter (\<lambda>c. c \<noteq> [] \<and> c \<noteq> ''.'') (Split (Trim f ''/'') ''/'') = Split (Trim f ''/'') ''/''"
    using safe by (intro filter_True) (auto simp: safe_segment_def)
  ultimately show "path_comps (base @ ''/'' @ Trim f ''/'') = path_comps base @ Split (Trim f ''/'') ''/''"
    using path_comps_append [OF assms(3), of "Trim f ''/''"] by simp
  show "list_all safe_segment (Split (Trim f ''/'') ''/'')" using safe by (simp add: list_all_iff)
qed

theorem folder_inside_witness:
  "path_comps (''/m'' @ ''/'' @ Trim ''/a/b c/'' ''/'') = path_comps ''/m'' @ Split (Trim ''/a/b c/'' ''/'') ''/''
    \<and> list_all safe_segment (Split (Trim ''/a/b c/'' ''/'') ''/'')"
proof -
  have "isValidFolderName ''/a/b c/'' = None" by code_simp
  then show ?thesis by (rule folder_inside) simp_all
qed

text \<open>C30: accepted credentials cannot add a mount option: in the option string of the SMB mount the account name
  and the key are one option each, whatever else they hold.\<close>

theorem smb_credentials_two_options:
  assumes "validateSMBCredentialValues a k = None"
  shows "Split (''username='' @ a @ '',password='' @ k) '','' = [''username='' @ a, ''password='' @ k]"
proof -
  have n: "CHR '','' \<notin> set (''username='' @ a)" "CHR '','' \<notin> set (''password='' @ k)"
    using assms by (auto simp: validateSMBCredentialValues_None dest: containsMountOptionDelimiter_comma)
  from Split_single_append [OF n(1), of "''password='' @ k"] Split_single_id [OF n(2)] show ?thesis by simp
qed

theorem smb_credentials_two_options_witness:
  "Split (''username='' @ ''acc'' @ '',password='' @ ''k3y=='') '','' = [''username='' @ ''acc'', ''password='' @ ''k3y=='']"
proof -
  have "validateSMBCredentialValues ''acc'' ''k3y=='' = None" by code_simp
  then show ?thesis by (rule smb_credentials_two_options)
qed

end
