(* ===== verification/GoMaps.thy ===== *)
theory GoMaps
  imports GoNum "HOL-Library.Multiset"
begin

text \<open>
  The string-map helpers of \<open>pkg/azurefile/utils.go\<close> and the readers built on them
  (\<open>getStorageAccount\<close> of \<open>azurefile.go\<close>).  A \<open>map[string]string\<close> is an association list with
  distinct keys; the order of the list is the order in which one run of \<open>range\<close> visits the map, so a
  statement about all lists is a statement about all iteration orders.  A nil map is \<open>None\<close> where the
  code tests for it and the empty list elsewhere (every read of a nil map is a read of an empty one).
\<close>

type_synonym smap = "(string \<times> string) list"

section \<open>Exact keys\<close>

definition map_get :: "smap \<Rightarrow> string \<Rightarrow> string" where
  "map_get m k = (case map_of m k of None \<Rightarrow> [] | Some v \<Rightarrow> v)"

fun map_put :: "smap \<Rightarrow> string \<Rightarrow> string \<Rightarrow> smap" where
  "map_put [] k v = [(k, v)]"
| "map_put ((k', v') # m) k v = (if k' = k then (k, v) # m else (k', v') # map_put m k v)"

definition map_merge :: "smap \<Rightarrow> smap \<Rightarrow> smap" where
  "map_merge m n = foldl (\<lambda>m (k, v). map_put m k v) m n"

abbreviation wf_map :: "smap \<Rightarrow> bool" where
  "wf_map m \<equiv> distinct (map fst m)"

lemma map_of_map_put [simp]: "map_of (map_put m k v) = (map_of m)(k \<mapsto> v)"
  by (induction m k v rule: map_put.induct) (auto simp: fun_eq_iff)

lemma keys_map_put: "set (map fst (map_put m k v)) = insert k (set (map fst m))"
  by (induction m k v rule: map_put.induct) auto

lemma wf_map_put [simp]: "wf_map m \<Longrightarrow> wf_map (map_put m k v)"
proof (induction m k v rule: map_put.induct)
  case (2 k' v' m k v)
  have "set (map fst (map_put m k v)) = insert k (set (map fst m))" by (rule keys_map_put)
  with 2 show ?case by auto
qed simp

lemma wf_map_merge: "wf_map m \<Longrightarrow> wf_map (map_merge m n)"
  unfolding map_merge_def by (induction n arbitrary: m) auto

section \<open>Case-insensitive keys\<close>

definition getValueInMap :: "smap \<Rightarrow> string \<Rightarrow> string" where
  "getValueInMap m key = (case find (\<lambda>(k, v). EqualFold k key) m of None \<Rightarrow> [] | Some (k, v) \<Rightarrow> v)"

definition set_fold :: "smap \<Rightarrow> string \<Rightarrow> string \<Rightarrow> smap" where
  "set_fold m key value = filter (\<lambda>(k, v). \<not> EqualFold k key) m @ [(key, value)]"

definition setKeyValueInMap :: "smap option \<Rightarrow> string \<Rightarrow> string \<Rightarrow> smap option" where
  "setKeyValueInMap m key value = (case m of None \<Rightarrow> None | Some m \<Rightarrow> Some (set_fold m key value))"

definition caseCollidingKey :: "smap \<Rightarrow> string \<times> bool" where
  "caseCollidingKey m =
     (case find (\<lambda>(a, b). a \<noteq> b \<and> EqualFold a b) (List.product (map fst m) (map fst m)) of
        None \<Rightarrow> ([], False)
      | Some (validatingKey, curKey) \<Rightarrow>
          (let firstKey = ToLower validatingKey; secondKey = ToLower curKey in
           if secondKey < firstKey then (secondKey @ '', '' @ firstKey, True)
           else (firstKey @ '', '' @ secondKey, True)))"

text \<open>No two keys are equal up to case: what \<open>caseCollidingKey\<close> establishes.\<close>

definition fold_distinct :: "smap \<Rightarrow> bool" where
  "fold_distinct m \<longleftrightarrow> distinct (map (\<lambda>(k, v). ToLower k) m)"

lemma find_Some_mem: "find P xs = Some x \<Longrightarrow> x \<in> set xs \<and> P x"
  by (induction xs) (auto split: if_splits)

lemma find_append: "find P (xs @ ys) = (case find P xs of None \<Rightarrow> find P ys | Some x \<Rightarrow> Some x)"
  by (induction xs) auto

lemma find_filter: "(\<And>x. P x \<Longrightarrow> Q x) \<Longrightarrow> find P (filter Q xs) = find P xs"
  by (induction xs) auto

lemma getValueInMap_Nil [simp]: "getValueInMap [] k = []"
  by (simp add: getValueInMap_def)

lemma getValueInMap_Cons:
  "getValueInMap ((k, v) # m) key = (if EqualFold k key then v else getValueInMap m key)"
  by (simp add: getValueInMap_def)

lemma getValueInMap_set_same:
  assumes "EqualFold k' k"
  shows "getValueInMap (set_fold m k v) k' = v"
proof -
  have "find (\<lambda>(x, y). EqualFold x k') (filter (\<lambda>(x, y). \<not> EqualFold x k) m) = None"
    unfolding find_None_iff using assms by (auto simp: EqualFold_def)
  then show ?thesis
    using assms by (simp add: getValueInMap_def set_fold_def find_append EqualFold_sym)
qed

lemma getValueInMap_set_other:
  assumes "\<not> EqualFold k' k"
  shows "getValueInMap (set_fold m k v) k' = getValueInMap m k'"
proof -
  have "find (\<lambda>(x, y). EqualFold x k') (filter (\<lambda>(x, y). \<not> EqualFold x k) m)
      = find (\<lambda>(x, y). EqualFold x k') m"
    using assms by (intro find_filter) (auto simp: EqualFold_def)
  then show ?thesis
    using assms by (simp add: getValueInMap_def set_fold_def find_append EqualFold_sym split: option.split)
qed

lemma fold_distinct_wf: "fold_distinct m \<Longrightarrow> wf_map m"
  by (induction m) (auto simp: fold_distinct_def)

lemma ToLower_key_mem: "ToLower x \<in> (\<lambda>(k, v). ToLower k) ` set m \<longleftrightarrow> (\<exists>k v. (k, v) \<in> set m \<and> EqualFold k x)"
  by (force simp: EqualFold_def)

lemma fold_distinct_set: "fold_distinct m \<Longrightarrow> fold_distinct (set_fold m k v)"
  unfolding fold_distinct_def set_fold_def
  by (induction m) (auto simp: EqualFold_def)

lemma fold_distinct_filter: "fold_distinct m \<Longrightarrow> fold_distinct (filter P m)"
  unfolding fold_distinct_def by (induction m) auto

lemma getValueInMap_mem:
  assumes "fold_distinct m" "(k, v) \<in> set m" "EqualFold k key"
  shows "getValueInMap m key = v"
  using assms
proof (induction m)
  case (Cons p m)
  then show ?case
    by (cases p) (auto simp: getValueInMap_Cons fold_distinct_def EqualFold_def image_iff)
qed simp

lemma getValueInMap_none:
  "\<not> (\<exists>k v. (k, v) \<in> set m \<and> EqualFold k key) \<Longrightarrow> getValueInMap m key = []"
proof (induction m)
  case (Cons p m)
  then show ?case by (cases p) (auto simp: getValueInMap_Cons)
qed simp

lemma getValueInMap_perm:
  assumes "fold_distinct m" "fold_distinct m'" "set m = set m'"
  shows "getValueInMap m key = getValueInMap m' key"
proof (cases "\<exists>k v. (k, v) \<in> set m \<and> EqualFold k key")
  case True
  then obtain k v where "(k, v) \<in> set m" "EqualFold k key" by blast
  with assms show ?thesis by (metis getValueInMap_mem)
next
  case False
  then have "getValueInMap m key = []" by (rule getValueInMap_none)
  moreover from False assms(3) have "\<not> (\<exists>k v. (k, v) \<in> set m' \<and> EqualFold k key)" by simp
  then have "getValueInMap m' key = []" by (rule getValueInMap_none)
  ultimately show ?thesis by simp
qed

lemma caseCollidingKey_False_iff:
  assumes "wf_map m"
  shows "\<not> snd (caseCollidingKey m) \<longleftrightarrow> fold_distinct m"
proof -
  have "\<not> snd (caseCollidingKey m) \<longleftrightarrow>
      (\<forall>a \<in> set (map fst m). \<forall>b \<in> set (map fst m). EqualFold a b \<longrightarrow> a = b)"
  proof (cases "find (\<lambda>(a, b). a \<noteq> b \<and> EqualFold a b) (List.product (map fst m) (map fst m))")
    case None
    then have "\<not> (a \<noteq> b \<and> EqualFold a b)" if "a \<in> set (map fst m)" "b \<in> set (map fst m)" for a b
    proof -
      have "(a, b) \<in> set (List.product (map fst m) (map fst m))"
        unfolding set_product using that by blast
      with None show ?thesis unfolding find_None_iff by blast
    qed
    then show ?thesis using None by (auto simp: caseCollidingKey_def)
  next
    case (Some p)
    obtain a b where p: "p = (a, b)" by (cases p)
    from find_Some_mem [OF Some] have "(a, b) \<in> set (List.product (map fst m) (map fst m))"
      and "a \<noteq> b \<and> EqualFold a b" by (simp_all add: p)
    then have "a \<in> set (map fst m)" "b \<in> set (map fst m)" "a \<noteq> b" "EqualFold a b" by auto
    then show ?thesis using Some by (auto simp: caseCollidingKey_def Let_def p simp del: set_map)
  qed
  also have "\<dots> \<longleftrightarrow> inj_on ToLower (set (map fst m))"
    by (auto simp: inj_on_def EqualFold_def)
  also have "\<dots> \<longleftrightarrow> distinct (map ToLower (map fst m))"
    using assms by (simp only: distinct_map [of ToLower] simp_thms)
  also have "\<dots> \<longleftrightarrow> fold_distinct m"
    by (simp add: fold_distinct_def case_prod_unfold o_def)
  finally show ?thesis .
qed

section \<open>The interface of a case-insensitive map\<close>

text \<open>
  What the request handlers rely on when they rewrite a volume context: a lookup sees the last value
  stored under any spelling of the key.
\<close>

locale fold_map =
  fixes get :: "'m \<Rightarrow> string \<Rightarrow> string"
    and put :: "'m \<Rightarrow> string \<Rightarrow> string \<Rightarrow> 'm"
    and ok :: "'m \<Rightarrow> bool"
  assumes get_put_same: "EqualFold k' k \<Longrightarrow> get (put m k v) k' = v"
    and get_put_other: "\<not> EqualFold k' k \<Longrightarrow> get (put m k v) k' = get m k'"
    and ok_put: "ok m \<Longrightarrow> ok (put m k v)"
begin

lemma get_put: "get (put m k v) k' = (if EqualFold k' k then v else get m k')"
  by (simp add: get_put_same get_put_other)

lemma put_put_same: "EqualFold k k' \<Longrightarrow> get (put (put m k v) k' w) x = get (put m k' w) x"
  by (auto simp: get_put EqualFold_def)

lemma put_put_swap:
  "\<not> EqualFold k k' \<Longrightarrow> get (put (put m k v) k' w) x = get (put (put m k' w) k v) x"
  by (auto simp: get_put EqualFold_def)

lemma ok_put_list:
  "ok m \<Longrightarrow> ok (foldl (\<lambda>m (k, v). put m k v) m kvs)"
  by (induction kvs arbitrary: m) (auto simp: ok_put)

end

interpretation ctx: fold_map getValueInMap set_fold fold_distinct
  by unfold_locales
    (simp_all add: getValueInMap_set_same getValueInMap_set_other fold_distinct_set)

declare ctx.get_put [simp]

section \<open>Readers of the secrets and of the volume context\<close>

definition secretNamespaceField :: string where "secretNamespaceField = ''secretnamespace''"
definition pvcNamespaceKey :: string where "pvcNamespaceKey = ''csi.storage.k8s.io/pvc/namespace''"
definition serviceAccountTokenField :: string where
  "serviceAccountTokenField = ''csi.storage.k8s.io/serviceAccount.tokens''"
definition defaultNamespace :: string where "defaultNamespace = ''default''"
definition defaultSecretAccountName :: string where "defaultSecretAccountName = ''azurestorageaccountname''"
definition defaultSecretAccountKey :: string where "defaultSecretAccountKey = ''azurestorageaccountkey''"

lemmas secret_field_defs = defaultSecretAccountName_def defaultSecretAccountKey_def

definition getSecretNamespace :: "smap \<Rightarrow> string" where
  "getSecretNamespace volumeContext =
     (let ns = getValueInMap volumeContext secretNamespaceField in
      if ns \<noteq> [] then ns
      else let ns = getValueInMap volumeContext pvcNamespaceKey in
           if ns \<noteq> [] then ns else defaultNamespace)"

definition getServiceAccountTokens :: "smap \<Rightarrow> smap \<Rightarrow> string" where
  "getServiceAccountTokens secrets volumeContext =
     (let tokens = getValueInMap secrets serviceAccountTokenField in
      if tokens \<noteq> [] then tokens else getValueInMap volumeContext serviceAccountTokenField)"

definition hasStorageAccountCredentials :: "smap \<Rightarrow> bool" where
  "hasStorageAccountCredentials secrets \<longleftrightarrow>
     list_ex (\<lambda>(k, v). ToLower k = ''accountname'' \<or> ToLower k = defaultSecretAccountName
                       \<or> ToLower k = ''accountkey'' \<or> ToLower k = defaultSecretAccountKey) secrets"

definition createStorageAccountSecret :: "string \<Rightarrow> string \<Rightarrow> smap" where
  "createStorageAccountSecret account key =
     map_put (map_put [] defaultSecretAccountName account) defaultSecretAccountKey key"

definition replaceWithMap :: "string \<Rightarrow> smap \<Rightarrow> string" where
  "replaceWithMap str m = foldl (\<lambda>str (k, v). if k \<noteq> [] then ReplaceAll str k v else str) str m"

text \<open>One step of the loop of \<open>getStorageAccount\<close> over the secrets, on (account name, account key).\<close>

definition account_step :: "string \<times> string \<Rightarrow> string \<times> string \<Rightarrow> string \<times> string" where
  "account_step acc kv =
     (let v = TrimSpace (snd kv); k = ToLower (fst kv) in
      if k = ''accountname'' \<or> k = defaultSecretAccountName then (v, snd acc)
      else if k = ''accountkey'' \<or> k = defaultSecretAccountKey then (fst acc, v)
      else acc)"

definition getStorageAccount :: "smap option \<Rightarrow> goerr + (string \<times> string)" where
  "getStorageAccount secrets =
     (case secrets of
        None \<Rightarrow> Inl (Errorf ''unexpected: getStorageAccount secrets is nil'')
      | Some m \<Rightarrow>
          (let (accountName, accountKey) = foldl account_step ([], []) m in
           if accountName = []
           then Inl (Errorf ''could not find accountname or azurestorageaccountname field in secrets'')
           else if accountKey = []
           then Inl (Errorf ''could not find accountkey or azurestorageaccountkey field in secrets'')
           else Inr (TrimSpace accountName, accountKey)))"

lemma account_step_fst:
  "fst (foldl account_step acc m) =
     (case find (\<lambda>(k, v). ToLower k = ''accountname'' \<or> ToLower k = defaultSecretAccountName) (rev m) of
        None \<Rightarrow> fst acc | Some (k, v) \<Rightarrow> TrimSpace v)"
proof (induction m arbitrary: acc rule: rev_induct)
  case (snoc kv m)
  then show ?case by (cases kv) (auto simp: account_step_def Let_def)
qed simp

lemma account_step_snd:
  "snd (foldl account_step acc m) =
     (case find (\<lambda>(k, v). ToLower k = ''accountkey'' \<or> ToLower k = defaultSecretAccountKey) (rev m) of
        None \<Rightarrow> snd acc | Some (k, v) \<Rightarrow> TrimSpace v)"
proof (induction m arbitrary: acc rule: rev_induct)
  case (snoc kv m)
  then show ?case by (cases kv) (auto simp: account_step_def Let_def secret_field_defs)
qed simp

lemma find_unique:
  assumes "set xs = set ys" "\<And>x y. x \<in> set xs \<Longrightarrow> y \<in> set xs \<Longrightarrow> P x \<Longrightarrow> P y \<Longrightarrow> x = y"
  shows "find P xs = find P ys"
proof (cases "\<exists>x \<in> set xs. P x")
  case True
  then obtain x where x: "x \<in> set xs" "P x" by blast
  have "find P zs = Some x" if "set zs = set xs" for zs
  proof (cases "find P zs")
    case None
    then show ?thesis using x that unfolding find_None_iff by blast
  next
    case (Some y)
    then have "y \<in> set zs \<and> P y" by (rule find_Some_mem)
    then show ?thesis using assms(2) x that Some by blast
  qed
  from this [of xs] this [of ys] assms(1) show ?thesis by simp
next
  case False
  then have "find P xs = None" "find P ys = None"
    using assms(1) unfolding find_None_iff by auto
  then show ?thesis by simp
qed

text \<open>At most one spelling of the account name and one of the account key is present.\<close>

definition one_credential :: "smap \<Rightarrow> bool" where
  "one_credential m \<longleftrightarrow>
     length (filter (\<lambda>(k, v). ToLower k = ''accountname'' \<or> ToLower k = defaultSecretAccountName) m) \<le> 1
   \<and> length (filter (\<lambda>(k, v). ToLower k = ''accountkey'' \<or> ToLower k = defaultSecretAccountKey) m) \<le> 1"

lemma filter_le_one_unique:
  assumes "length (filter P xs) \<le> 1" "x \<in> set xs" "y \<in> set xs" "P x" "P y"
  shows "x = y"
proof -
  have "x \<in> set (filter P xs)" "y \<in> set (filter P xs)" using assms by auto
  with assms(1) show ?thesis by (cases "filter P xs") auto
qed

lemma getStorageAccount_order:
  assumes "one_credential m" "set m = set m'"
  shows "getStorageAccount (Some m) = getStorageAccount (Some m')"
proof -
  note one = assms(1) [unfolded one_credential_def]
  have "fst (foldl account_step ([], []) m) = fst (foldl account_step ([], []) m')"
    unfolding account_step_fst
    by (subst find_unique [of "rev m" "rev m'"])
      (use assms(2) filter_le_one_unique [OF conjunct1 [OF one]] in \<open>auto simp del: One_nat_def\<close>)
  moreover have "snd (foldl account_step ([], []) m) = snd (foldl account_step ([], []) m')"
    unfolding account_step_snd
    by (subst find_unique [of "rev m" "rev m'"])
      (use assms(2) filter_le_one_unique [OF conjunct2 [OF one]] in \<open>auto simp del: One_nat_def\<close>)
  ultimately have "foldl account_step ([], []) m = foldl account_step ([], []) m'"
    by (rule prod_eqI)
  then show ?thesis by (simp add: getStorageAccount_def)
qed

lemma getStorageAccount_ok:
  assumes "getStorageAccount s = Inr (name, key)"
  shows "name \<noteq> [] \<and> key \<noteq> [] \<and> TrimSpace name = name \<and> TrimSpace key = key"
proof -
  obtain m where m: "s = Some m" using assms by (cases s) (auto simp: getStorageAccount_def)
  let ?r = "foldl account_step ([], []) m"
  have t1: "TrimSpace (fst ?r) = fst ?r"
    unfolding account_step_fst by (auto simp: TrimSpace_def split: option.split prod.split)
  have t2: "TrimSpace (snd ?r) = snd ?r"
    unfolding account_step_snd by (auto simp: TrimSpace_def split: option.split prod.split)
  obtain a b where ab: "?r = (a, b)" by (cases ?r)
  from assms have "a \<noteq> []" "b \<noteq> []" "name = TrimSpace a" "key = b"
    by (auto simp: getStorageAccount_def m ab split: if_splits)
  with t1 t2 show ?thesis by (simp add: ab)
qed

lemma getStorageAccount_nil: "isl (getStorageAccount None)"
  by (simp add: getStorageAccount_def)

lemma getStorageAccount_secret:
  "TrimSpace a \<noteq> [] \<Longrightarrow> TrimSpace k \<noteq> [] \<Longrightarrow>
   getStorageAccount (Some (createStorageAccountSecret a k)) = Inr (TrimSpace a, TrimSpace k)"
  by (simp add: getStorageAccount_def createStorageAccountSecret_def account_step_def
      secret_field_defs ToLower_def lower_char_def TrimSpace_def)

lemma hasStorageAccountCredentials_secret: "hasStorageAccountCredentials (createStorageAccountSecret a k)"
  by (simp add: hasStorageAccountCredentials_def createStorageAccountSecret_def secret_field_defs
      ToLower_def lower_char_def)

section \<open>Tags\<close>

definition tagKeyValueDelimiter :: string where "tagKeyValueDelimiter = ''=''"

definition tag_error :: "string \<Rightarrow> string \<Rightarrow> goerr" where
  "tag_error tags tagsDelimiter =
     Errorf ([CHR ''T''] @ ''ags '' @ [CHR 0x27] @ tags @ [CHR 0x27] @
       '' are invalid, the format should like: '' @ [CHR 0x27] @ ''key1=value1'' @ tagsDelimiter @
       ''key2=value2'' @ [CHR 0x27])"

fun convert_tags :: "string \<Rightarrow> string \<Rightarrow> string list \<Rightarrow> smap \<Rightarrow> goerr + smap" where
  "convert_tags tags tagsDelimiter [] m = Inr m"
| "convert_tags tags tagsDelimiter (tag # s) m =
     (case SplitN2 tag tagKeyValueDelimiter of
        [k, v] \<Rightarrow>
          (let key = TrimSpace k in
           if key = [] then Inl (tag_error tags tagsDelimiter)
           else convert_tags tags tagsDelimiter s (map_put m key (TrimSpace v)))
      | _ \<Rightarrow> Inl (tag_error tags tagsDelimiter))"

definition ConvertTagsToMap :: "string \<Rightarrow> string \<Rightarrow> goerr + smap" where
  "ConvertTagsToMap tags tagsDelimiter =
     (if tags = [] then Inr []
      else let tagsDelimiter = (if tagsDelimiter = [] then '','' else tagsDelimiter)
           in convert_tags tags tagsDelimiter (Split tags tagsDelimiter) [])"

text \<open>The text of a tag map: what the storage class parameter \<open>tags\<close> holds for it.\<close>

definition tag_text :: "smap \<Rightarrow> string" where
  "tag_text m = Join (map (\<lambda>(k, v). k @ ''='' @ v) m) '',''"

definition tag_pair_ok :: "string \<times> string \<Rightarrow> bool" where
  "tag_pair_ok kv \<longleftrightarrow> fst kv \<noteq> [] \<and> CHR ''='' \<notin> set (fst kv) \<and> CHR '','' \<notin> set (fst kv)
     \<and> CHR '','' \<notin> set (snd kv) \<and> TrimSpace (fst kv) = fst kv \<and> TrimSpace (snd kv) = snd kv"

lemma map_put_new: "k \<notin> fst ` set m \<Longrightarrow> map_put m k v = m @ [(k, v)]"
  by (induction m k v rule: map_put.induct) auto

lemma convert_tags_pairs:
  assumes "\<And>kv. kv \<in> set m \<Longrightarrow> tag_pair_ok kv" "wf_map (acc @ m)"
  shows "convert_tags t d (map (\<lambda>(k, v). k @ ''='' @ v) m) acc = Inr (acc @ m)"
  using assms
proof (induction m arbitrary: acc)
  case (Cons kv m)
  obtain k v where kv: "kv = (k, v)" by (cases kv)
  with Cons.prems(1) have ok: "tag_pair_ok (k, v)" by simp
  then have "SplitN2 (k @ ''='' @ v) tagKeyValueDelimiter = [k, v]"
    by (simp add: SplitN2_def tagKeyValueDelimiter_def Cut_single_append tag_pair_ok_def)
  moreover have "map_put acc k v = acc @ [(k, v)]"
    using Cons.prems(2) by (intro map_put_new) (auto simp: kv)
  ultimately show ?case
    using Cons.IH [of "acc @ [(k, v)]"] Cons.prems ok by (auto simp: kv tag_pair_ok_def)
qed simp

lemma ConvertTagsToMap_tag_text:
  assumes "\<And>kv. kv \<in> set m \<Longrightarrow> tag_pair_ok kv" "wf_map m"
  shows "ConvertTagsToMap (tag_text m) [] = Inr m"
proof (cases m)
  case (Cons kv r)
  let ?ps = "map (\<lambda>(k, v). k @ ''='' @ v) m"
  have "Split (Join ?ps '','') '','' = ?ps"
  proof (rule Split_Join)
    fix p assume "p \<in> set ?ps"
    then obtain k v where "(k, v) \<in> set m" "p = k @ ''='' @ v" by auto
    with assms(1) show "CHR '','' \<notin> set p" by (fastforce simp: tag_pair_ok_def)
  qed (simp add: Cons)
  moreover have "convert_tags t d ?ps [] = Inr m" for t d
    using convert_tags_pairs [of m "[]" t d] assms by simp
  moreover have "tag_text m \<noteq> []"
    using Cons by (cases r; cases kv) (auto simp: tag_text_def)
  ultimately show ?thesis by (simp add: ConvertTagsToMap_def tag_text_def Let_def)
qed (simp add: tag_text_def ConvertTagsToMap_def)

lemma convert_tags_wf:
  "convert_tags t0 d ts m = Inr m' \<Longrightarrow> wf_map m \<Longrightarrow> [] \<notin> fst ` set m \<Longrightarrow> wf_map m' \<and> [] \<notin> fst ` set m'"
proof (induction ts arbitrary: m)
  case (Cons t ts)
  then obtain k v where "SplitN2 t tagKeyValueDelimiter = [k, v]"
    by (auto split: list.splits)
  with Cons have k: "TrimSpace k \<noteq> []"
    and r: "convert_tags t0 d ts (map_put m (TrimSpace k) (TrimSpace v)) = Inr m'"
    by (auto simp: Let_def split: if_splits)
  have "set (map fst (map_put m (TrimSpace k) (TrimSpace v))) = insert (TrimSpace k) (set (map fst m))"
    by (rule keys_map_put)
  with k Cons.prems(3) have "[] \<notin> fst ` set (map_put m (TrimSpace k) (TrimSpace v))"
    by (simp flip: set_map)
  with Cons.IH [OF r] Cons.prems(2) show ?case by simp
qed simp

lemma ConvertTagsToMap_wf: "ConvertTagsToMap t d = Inr m \<Longrightarrow> wf_map m \<and> [] \<notin> fst ` set m"
  by (auto simp: ConvertTagsToMap_def Let_def split: if_splits dest: convert_tags_wf)

text \<open>
  \<open>json.Marshal\<close> of a string map on ASCII text: keys in sorted order; the two-character escapes, the
  \<open>\u00xx\<close> escapes of the other control characters and of the three characters HTML escaping covers.
\<close>

definition u_escape :: "nat \<Rightarrow> string" where
  "u_escape n = [CHR 0x5C] @ ''u00'' @ [hex_char (n div 16), hex_char (n mod 16)]"

definition json_char :: "char \<Rightarrow> string" where
  "json_char c =
     (let n = (of_char c :: nat) in
      if n = 34 \<or> n = 92 then [CHR 0x5C, c]
      else if n = 8 then [CHR 0x5C, CHR ''b'']
      else if n = 12 then [CHR 0x5C, CHR ''f'']
      else if n = 10 then [CHR 0x5C, CHR ''n'']
      else if n = 13 then [CHR 0x5C, CHR ''r'']
      else if n = 9 then [CHR 0x5C, CHR ''t'']
      else if n < 32 \<or> n = 60 \<or> n = 62 \<or> n = 38 then u_escape n
      else [c])"

definition json_string :: "string \<Rightarrow> string" where
  "json_string s = CHR 0x22 # concat (map json_char s) @ [CHR 0x22]"

definition serializeTags :: "smap \<Rightarrow> string" where
  "serializeTags tags =
     (if tags = [] then []
      else CHR 0x7B #
        Join (map (\<lambda>(k, v). json_string k @ '':'' @ json_string v) (sort_key fst tags)) '','' @ [CHR 0x7D])"

lemma serializeTags_order:
  assumes "wf_map m" "wf_map m'" "set m = set m'"
  shows "serializeTags m = serializeTags m'"
proof -
  have "sort_key fst m = sort_key fst m'"
  proof (rule map_sorted_distinct_set_unique [of fst])
    show "inj_on fst (set (sort_key fst m) \<union> set (sort_key fst m'))"
      using assms by (simp add: distinct_map)
  qed (use assms in \<open>simp_all add: distinct_map\<close>)
  moreover have "m = [] \<longleftrightarrow> m' = []" using assms(3) by auto
  ultimately show ?thesis by (simp add: serializeTags_def)
qed

section \<open>Properties\<close>

text \<open>In a volume context without case-colliding keys (what \<open>caseCollidingKey\<close> establishes) a lookup does not
  depend on the iteration order, finds every key under every spelling, and a rewrite of one key changes the lookups of its
  spellings only.\<close>

theorem context_lookup_laws:
  assumes "wf_map m" "snd (caseCollidingKey m) = False" "wf_map m'" "set m' = set m"
  shows "getValueInMap m' key = getValueInMap m key
    \<and> ((k, v) \<in> set m \<longrightarrow> EqualFold k key \<longrightarrow> getValueInMap m key = v)
    \<and> getValueInMap (set_fold m k0 v0) key = (if EqualFold key k0 then v0 else getValueInMap m key)
    \<and> snd (caseCollidingKey (set_fold m k0 v0)) = False"
proof -
  have d: "fold_distinct m" using caseCollidingKey_False_iff [OF assms(1)] assms(2) by simp
  have "distinct (map fst m)" "distinct (map fst m')" using assms by simp_all
  then have "mset m' = mset m" using assms(4) by (metis distinct_map set_eq_iff_mset_eq_distinct)
  then have d': "fold_distinct m'" using d unfolding fold_distinct_def by (metis mset_eq_imp_distinct_iff mset_map)
  have s: "fold_distinct (set_fold m k0 v0)" by (rule fold_distinct_set) (rule d)
  then have "snd (caseCollidingKey (set_fold m k0 v0)) = False"
    using caseCollidingKey_False_iff [OF fold_distinct_wf [OF s]] by simp
  then show ?thesis
    using getValueInMap_perm [OF d' d assms(4)] getValueInMap_mem [OF d] by (simp add: ctx.get_put)
qed

theorem context_lookup_laws_witness:
  "getValueInMap [(''b'', ''2''), (''Ab'', ''1'')] ''AB'' = getValueInMap [(''Ab'', ''1''), (''b'', ''2'')] ''AB''
    \<and> getValueInMap [(''Ab'', ''1''), (''b'', ''2'')] ''AB'' = ''1''
    \<and> getValueInMap (set_fold [(''Ab'', ''1''), (''b'', ''2'')] ''aB'' ''9'') ''AB'' = ''9''
    \<and> snd (caseCollidingKey (set_fold [(''Ab'', ''1''), (''b'', ''2'')] ''aB'' ''9'')) = False"
proof -
  have c: "snd (caseCollidingKey [(''Ab'', ''1''), (''b'', ''2'')]) = False" by code_simp
  have e: "EqualFold ''Ab'' ''AB''" "EqualFold ''AB'' ''aB''" by code_simp+
  show ?thesis
    using context_lookup_laws [OF _ c, of "[(''b'', ''2''), (''Ab'', ''1'')]" "''AB''" "''Ab''" "''1''" "''aB''" "''9''"] e
    by auto
qed

text \<open>The account name and key read from the secrets do not depend on the iteration order when each is present under
  one of its two names only; both are then non-empty and trimmed.\<close>

theorem secrets_order_independent:
  assumes "one_credential m" "set m = set m'" "getStorageAccount (Some m) = Inr (name, key)"
  shows "getStorageAccount (Some m') = Inr (name, key) \<and> name \<noteq> [] \<and> key \<noteq> []
    \<and> TrimSpace name = name \<and> TrimSpace key = key"
  using getStorageAccount_order [OF assms(1,2)] getStorageAccount_ok [OF assms(3)] assms(3) by simp

theorem secrets_order_independent_witness:
  "getStorageAccount (Some [(''accountkey'', '' k ''), (''azurestorageaccountname'', ''acc'')]) = Inr (''acc'', ''k'')
    \<and> ''acc'' \<noteq> [] \<and> ''k'' \<noteq> [] \<and> TrimSpace ''acc'' = ''acc'' \<and> TrimSpace ''k'' = ''k''"
proof (rule secrets_order_independent)
  show "one_credential [(''azurestorageaccountname'', ''acc''), (''accountkey'', '' k '')]" by code_simp
  show "getStorageAccount (Some [(''azurestorageaccountname'', ''acc''), (''accountkey'', '' k '')]) = Inr (''acc'', ''k'')"
    by code_simp
qed auto

text \<open>With both names present the result is that of the iteration order: two orders of one map, two accounts.\<close>

lemma secrets_order_dependent:
  "getStorageAccount (Some [(''accountname'', ''a''), (''azurestorageaccountname'', ''b''), (''accountkey'', ''k'')])
     = Inr (''b'', ''k'')
   \<and> getStorageAccount (Some [(''azurestorageaccountname'', ''b''), (''accountname'', ''a''), (''accountkey'', ''k'')])
     = Inr (''a'', ''k'')"
  by code_simp

text \<open>A tag map printed as the parameter \<open>tags\<close> is parsed back to itself, and what the parser accepts is a map
  (each key once) without empty keys.\<close>

theorem tags_roundtrip:
  assumes "list_all tag_pair_ok m" "wf_map m"
  shows "ConvertTagsToMap (tag_text m) [] = Inr m \<and>
    (ConvertTagsToMap t d = Inr m' \<longrightarrow> wf_map m' \<and> [] \<notin> fst ` set m')"
  using ConvertTagsToMap_tag_text [of m] ConvertTagsToMap_wf assms by (auto simp: list_all_iff)

theorem tags_roundtrip_witness:
  "ConvertTagsToMap (tag_text [(''a'', ''1''), (''b c'', []), (''d'', ''x=y'')]) []
     = Inr [(''a'', ''1''), (''b c'', []), (''d'', ''x=y'')]
   \<and> wf_map [(''k1'', ''v1''), (''k2'', ''v2'')] \<and> [] \<notin> fst ` set [(''k1'', ''v1''), (''k2'', ''v2'')]"
proof -
  have "list_all tag_pair_ok [(''a'', ''1''), (''b c'', []), (''d'', ''x=y'')]" by code_simp
  moreover have "ConvertTagsToMap ''k1=v1;k2=v2'' '';'' = Inr [(''k1'', ''v1''), (''k2'', ''v2'')]" by code_simp
  ultimately show ?thesis using tags_roundtrip [of "[(''a'', ''1''), (''b c'', []), (''d'', ''x=y'')]"
    "''k1=v1;k2=v2''" "'';''" "[(''k1'', ''v1''), (''k2'', ''v2'')]"] by simp
qed

end
