(* ===== verification/MountOptions.thy ===== *)
theory MountOptions
  imports Validation GoMaps
begin

text \<open>
  Mount options and mount servers on the node (\<open>azurefile.go\<close>, \<open>nodeserver.go\<close>, \<open>utils.go\<close>):
  the default options of an SMB and an NFS mount, the options an inline volume may set, and the
  server an inline volume may name, with the parts of Go's \<open>net/url\<close> and \<open>net\<close> the check uses.
\<close>

section \<open>Lists of options\<close>

definition checkGidPresentInMountFlags :: "string list \<Rightarrow> bool" where
  "checkGidPresentInMountFlags mountFlags \<longleftrightarrow> list_ex (\<lambda>f. HasPrefix f ''gid'') mountFlags"

text \<open>\<open>util.JoinMountOptions\<close> of k8s: the sorted set of both lists, empty user options dropped.\<close>

definition JoinMountOptions :: "string list \<Rightarrow> string list \<Rightarrow> string list" where
  "JoinMountOptions userOptions systemOptions =
     sort (remdups (filter (\<lambda>mo. mo \<noteq> []) userOptions @ systemOptions))"

fun removeOptionIfExists :: "string list \<Rightarrow> string \<Rightarrow> string list \<times> bool" where
  "removeOptionIfExists [] removeOption = ([], False)"
| "removeOptionIfExists (opt # options) removeOption =
     (if EqualFold opt removeOption then (options, True)
      else let (rest, found) = removeOptionIfExists options removeOption in (opt # rest, found))"

lemma set_JoinMountOptions: "set (JoinMountOptions us ss) = {u \<in> set us. u \<noteq> []} \<union> set ss"
  by (auto simp: JoinMountOptions_def)

lemma JoinMountOptions_sorted: "sorted (JoinMountOptions us ss) \<and> distinct (JoinMountOptions us ss)"
  by (simp add: JoinMountOptions_def)

lemma removeOptionIfExists_absent:
  "(\<And>mo. mo \<in> set os \<Longrightarrow> \<not> EqualFold mo r) \<Longrightarrow> removeOptionIfExists os r = (os, False)"
  by (induction os r rule: removeOptionIfExists.induct) auto

lemma removeOptionIfExists_present:
  "(\<And>mo. mo \<in> set a \<Longrightarrow> \<not> EqualFold mo r) \<Longrightarrow> EqualFold x r \<Longrightarrow>
   removeOptionIfExists (a @ x # b) r = (a @ b, True)"
  by (induction a) auto

lemma removeOptionIfExists_found:
  "snd (removeOptionIfExists os r) \<longleftrightarrow> (\<exists>mo \<in> set os. EqualFold mo r)"
  by (induction os r rule: removeOptionIfExists.induct) (auto split: prod.splits)

lemma removeOptionIfExists_subset: "set (fst (removeOptionIfExists os r)) \<subseteq> set os"
  by (induction os r rule: removeOptionIfExists.induct) (auto split: prod.splits)

section \<open>Default options\<close>

text \<open>
  The defaults are a Go map; \<open>ord\<close> is the order in which the run visits it (a permutation of the list
  it is given).  \<open>included\<close> is the set the first loop collects.
\<close>

definition actimeo :: string where "actimeo = ''actimeo''"
definition mfsymlinks :: string where "mfsymlinks = ''mfsymlinks''"

definition included :: "string list \<Rightarrow> string \<Rightarrow> bool" where
  "included mountOptions k \<longleftrightarrow> list_ex (\<lambda>mountOption. HasPrefix mountOption k) mountOptions"

definition included_actimeo :: "string list \<Rightarrow> bool" where
  "included_actimeo mountOptions \<longleftrightarrow>
     list_ex (\<lambda>mountOption. Contains mountOption ''acregmax'' \<or> Contains mountOption ''acdirmax'') mountOptions"

definition render_option :: "string \<times> string \<Rightarrow> string" where
  "render_option kv = (if snd kv \<noteq> [] then fst kv @ ''='' @ snd kv else fst kv)"

definition cifs_defaults :: "bool \<Rightarrow> bool \<Rightarrow> smap" where
  "cifs_defaults appendNoShareSockOption appendClosetimeoOption =
     [(''file_mode'', ''0777''), (''dir_mode'', ''0777''), (actimeo, ''30''), (mfsymlinks, [])]
     @ (if appendClosetimeoOption then [(''sloppy,closetimeo=0'', [])] else [])
     @ (if appendNoShareSockOption then [(''nosharesock'', [])] else [])"

definition appendDefaultCifsMountOptions ::
    "(smap \<Rightarrow> smap) \<Rightarrow> string list \<Rightarrow> bool \<Rightarrow> bool \<Rightarrow> string list" where
  "appendDefaultCifsMountOptions ord mountOptions appendNoShareSockOption appendClosetimeoOption =
     (let isIncluded = (\<lambda>k. included mountOptions k \<or> (k = actimeo \<and> included_actimeo mountOptions))
      in mountOptions @
         map render_option (filter (\<lambda>(k, v). \<not> isIncluded k)
           (ord (cifs_defaults appendNoShareSockOption appendClosetimeoOption))))"

definition nfs_defaults :: "bool \<Rightarrow> bool \<Rightarrow> smap" where
  "nfs_defaults appendNoResvPortOption appendActimeoOption =
     (if appendNoResvPortOption then [(''noresvport'', [])] else [])
     @ (if appendActimeoOption then [(actimeo, ''30'')] else [])"

definition appendDefaultNfsMountOptions ::
    "(smap \<Rightarrow> smap) \<Rightarrow> string list \<Rightarrow> bool \<Rightarrow> bool \<Rightarrow> string list" where
  "appendDefaultNfsMountOptions ord mountOptions appendNoResvPortOption appendActimeoOption =
     (let defaults = nfs_defaults appendNoResvPortOption appendActimeoOption in
      if defaults = [] then mountOptions
      else mountOptions @
        map render_option (filter (\<lambda>(k, v). \<not> included mountOptions k) (ord defaults)))"

abbreviation is_order :: "(smap \<Rightarrow> smap) \<Rightarrow> bool" where
  "is_order ord \<equiv> (\<forall>m. set (ord m) = set m)"

lemma appendDefaultCifs_prefix: "\<exists>r. appendDefaultCifsMountOptions ord os a b = os @ r"
  by (simp add: appendDefaultCifsMountOptions_def)

lemma set_appendDefaultCifs:
  assumes "is_order ord"
  shows "set (appendDefaultCifsMountOptions ord os a b) = set os \<union>
    render_option ` {(k, v) \<in> set (cifs_defaults a b).
      \<not> (included os k \<or> (k = actimeo \<and> included_actimeo os))}"
  using assms by (auto simp: appendDefaultCifsMountOptions_def Let_def)

lemma set_appendDefaultNfs:
  assumes "is_order ord"
  shows "set (appendDefaultNfsMountOptions ord os a b) = set os \<union>
    render_option ` {(k, v) \<in> set (nfs_defaults a b). \<not> included os k}"
  using assms by (auto simp: appendDefaultNfsMountOptions_def Let_def)

text \<open>Every default key is set by some option of the result, and a key the user set gets no default.\<close>

lemma render_option_prefix: "HasPrefix (render_option (k, v)) k"
  using HasPrefix_append [of k "[]"] by (simp add: render_option_def)

lemma cifs_defaults_all_set:
  assumes "is_order ord" "(k, v) \<in> set (cifs_defaults a b)" "k \<noteq> actimeo \<or> \<not> included_actimeo os"
  shows "\<exists>mo \<in> set (appendDefaultCifsMountOptions ord os a b). HasPrefix mo k"
proof (cases "included os k")
  case True
  then show ?thesis
    unfolding set_appendDefaultCifs [OF assms(1)] by (auto simp: included_def list_ex_iff)
next
  case False
  with assms(2,3) have "render_option (k, v) \<in> set (appendDefaultCifsMountOptions ord os a b)"
    unfolding set_appendDefaultCifs [OF assms(1)] by blast
  then show ?thesis using render_option_prefix by blast
qed

section \<open>Options of an inline volume\<close>

definition deniedInlineSMBMountOptions :: "string list" where
  "deniedInlineSMBMountOptions =
     [''bind'', ''rbind'', ''cred'', ''credentials'', ''addr'', ''ip'', ''unc'', ''target'', ''path'',
      ''sec'', ''cruid'', ''upcall_target'', ''cifsacl'', ''modefromsid'']"

definition option_key :: "string \<Rightarrow> string" where
  "option_key opt =
     TrimSpace (case Cut (TrimSpace opt) ''='' of None \<Rightarrow> TrimSpace opt | Some (key, v) \<Rightarrow> key)"

definition denied_option :: "string \<Rightarrow> bool" where
  "denied_option opt \<longleftrightarrow>
     option_key opt \<noteq> [] \<and> ToLower (option_key opt) \<in> set deniedInlineSMBMountOptions"

definition validateInlineSMBMountOptions :: "string list \<Rightarrow> goerr option" where
  "validateInlineSMBMountOptions mountOptions =
     (case find denied_option (concat (map (\<lambda>options. Split options '','') mountOptions)) of
        None \<Rightarrow> None
      | Some opt \<Rightarrow> Some (Errorf (''mount option '' @ Quote (option_key opt) @
                                   '' is not supported for ephemeral volumes'')))"

lemma validateInlineSMBMountOptions_None:
  "validateInlineSMBMountOptions mos = None \<longleftrightarrow>
     (\<forall>options \<in> set mos. \<forall>opt \<in> set (Split options '',''). \<not> denied_option opt)"
proof (cases "find denied_option (concat (map (\<lambda>options. Split options '','') mos))")
  case None
  then have "\<forall>options \<in> set mos. \<forall>opt \<in> set (Split options '',''). \<not> denied_option opt"
    unfolding find_None_iff by auto
  with None show ?thesis by (simp add: validateInlineSMBMountOptions_def)
next
  case (Some opt)
  then have "opt \<in> set (concat (map (\<lambda>options. Split options '','') mos)) \<and> denied_option opt"
    by (rule find_Some_mem)
  with Some show ?thesis by (auto simp: validateInlineSMBMountOptions_def)
qed

section \<open>The server of an inline volume\<close>

text \<open>
  What \<open>parseInlineVolumeServer\<close> reads of the \<open>*url.URL\<close> that \<open>url.Parse\<close> returns.  The parser itself
  and \<open>net.ParseIP\<close> are arguments (\<open>url_parse\<close>, \<open>parse_ip\<close>): what is shown of the accepted servers holds
  whatever they answer.
\<close>

record url_parts =
  url_scheme :: string
  url_user :: bool
  url_port :: string
  url_path :: string
  url_query :: string
  url_fragment :: string
  url_hostname :: string

datatype server_error =
    ServerEmpty
  | ServerWhitespace
  | ServerNotURL
  | ServerNotHTTPS
  | ServerUserInfo
  | ServerPort
  | ServerPath
  | ServerQuery
  | ServerNoHost
  | ServerIP
  | ServerConfiguration
  | ServerMismatch

definition parseInlineVolumeServer ::
    "(string \<Rightarrow> url_parts option) \<Rightarrow> (string \<Rightarrow> bool) \<Rightarrow> string \<Rightarrow> server_error + string" where
  "parseInlineVolumeServer url_parse parse_ip server =
     (if server = [] then Inl ServerEmpty
      else if TrimSpace server \<noteq> server then Inl ServerWhitespace
      else case url_parse (''https://'' @ server) of
        None \<Rightarrow> Inl ServerNotURL
      | Some parsed \<Rightarrow>
          if \<not> EqualFold (url_scheme parsed) ''https'' then Inl ServerNotHTTPS
          else if url_user parsed then Inl ServerUserInfo
          else if url_port parsed \<noteq> [] then Inl ServerPort
          else if url_path parsed \<noteq> [] \<and> url_path parsed \<noteq> ''/'' then Inl ServerPath
          else if url_query parsed \<noteq> [] \<or> url_fragment parsed \<noteq> [] then Inl ServerQuery
          else
            let host = ToLower (TrimSuffix (url_hostname parsed) ''.'') in
            if host = [] then Inl ServerNoHost
            else if parse_ip host then Inl ServerIP
            else Inr host)"

definition digit_between :: "nat \<Rightarrow> char \<Rightarrow> bool" where
  "digit_between lo c \<longleftrightarrow> (let n = (of_char c :: nat) in lo \<le> n \<and> n \<le> 57)"

definition isAzureDNSZoneStorageHost :: "string \<Rightarrow> string \<Rightarrow> bool" where
  "isAzureDNSZoneStorageHost host account =
     (let parts = Split host ''.'' in
      if length parts \<noteq> 6 \<and> length parts \<noteq> 7 then False
      else if parts ! 0 \<noteq> account \<and> parts ! 0 \<noteq> account @ ''-secondary'' then False
      else
        let (zoneID, hasZonePrefix) = CutPrefix (parts ! 1) ''z'' in
        if \<not> hasZonePrefix then False
        else if length zoneID = 1 \<and> \<not> digit_between 49 (zoneID ! 0) then False
        else if length zoneID = 2 \<and> (\<not> digit_between 49 (zoneID ! 0) \<or> \<not> digit_between 48 (zoneID ! 1)) then False
        else if length zoneID < 1 \<or> length zoneID > 2 then False
        else if length parts = 7 \<and> parts ! 2 \<noteq> ''privatelink'' then False
        else
          let serviceIndex = (if length parts = 7 then 3 else 2) in
          if parts ! serviceIndex \<noteq> ''file'' \<and> parts ! serviceIndex \<noteq> ''afs'' then False
          else Join (drop (serviceIndex + 1) parts) ''.'' = ''storage.azure.net'')"

definition defaultStorageEndPointSuffix :: string where
  "defaultStorageEndPointSuffix = ''core.windows.net''"

definition allowedHosts :: "string \<Rightarrow> string \<Rightarrow> string list" where
  "allowedHosts account sfx =
     (let secondaryAccount = account @ ''-secondary'' in
      [account @ ''.file.'' @ sfx, account @ ''.afs.'' @ sfx,
       account @ ''.privatelink.file.'' @ sfx, account @ ''.privatelink.afs.'' @ sfx,
       secondaryAccount @ ''.file.'' @ sfx, secondaryAccount @ ''.afs.'' @ sfx,
       secondaryAccount @ ''.privatelink.file.'' @ sfx, secondaryAccount @ ''.privatelink.afs.'' @ sfx])"

definition validateInlineVolumeServer ::
    "(string \<Rightarrow> url_parts option) \<Rightarrow> (string \<Rightarrow> bool) \<Rightarrow> string \<Rightarrow> string \<Rightarrow> string \<Rightarrow> server_error option" where
  "validateInlineVolumeServer url_parse parse_ip server accountName storageEndPointSuffix =
     (let account = ToLower (TrimSpace accountName);
          sfx = ToLower (Trim (TrimSpace storageEndPointSuffix) ''.'')
      in case parseInlineVolumeServer url_parse parse_ip server of
           Inl err \<Rightarrow> Some err
         | Inr host \<Rightarrow>
             if account = [] \<or> sfx = [] then Some ServerConfiguration
             else if TrimSuffix (ToLower server) ''.'' \<in> set (allowedHosts account sfx) then None
             else if sfx = defaultStorageEndPointSuffix \<and> isAzureDNSZoneStorageHost host account then None
             else Some ServerMismatch)"

text \<open>The DNS-zone host names, spelled out.\<close>

definition zone_label :: "string \<Rightarrow> bool" where
  "zone_label z \<longleftrightarrow>
     (\<exists>a. z = [CHR ''z'', a] \<and> digit_between 49 a)
   \<or> (\<exists>a b. z = [CHR ''z'', a, b] \<and> digit_between 49 a \<and> digit_between 48 b)"

definition zone_host :: "string \<Rightarrow> string \<Rightarrow> bool" where
  "zone_host host account \<longleftrightarrow>
     (\<exists>acc zone link svc.
        acc \<in> {account, account @ ''-secondary''} \<and> zone_label zone
        \<and> link \<in> {[], ''.privatelink''} \<and> svc \<in> {''file'', ''afs''}
        \<and> host = acc @ ''.'' @ zone @ link @ ''.'' @ svc @ ''.storage.azure.net'')"

lemma CutPrefix_z: "CutPrefix s ''z'' = (r, True) \<longleftrightarrow> s = CHR ''z'' # r"
  by (cases s) (auto simp: CutPrefix_def)

lemma zone_label_cases:
  assumes "CutPrefix s ''z'' = (r, True)" "length r = 1 \<longrightarrow> digit_between 49 (r ! 0)"
    "length r = 2 \<longrightarrow> digit_between 49 (r ! 0) \<and> digit_between 48 (r ! 1)" "r \<noteq> []" "\<not> 2 < length r"
  shows "zone_label s"
proof -
  have s: "s = CHR ''z'' # r" using assms(1) by (simp add: CutPrefix_z)
  from assms(4,5) consider a where "r = [a]" | a b where "r = [a, b]"
    by (cases r; cases "tl r") auto
  then show ?thesis by cases (use assms(2,3) in \<open>auto simp: s zone_label_def\<close>)
qed

lemma isAzureDNSZoneStorageHost_sound:
  assumes "isAzureDNSZoneStorageHost host account"
  shows "zone_host host account"
proof -
  define parts where "parts = Split host ''.''"
  obtain zoneID ok where z: "CutPrefix (parts ! 1) ''z'' = (zoneID, ok)" by (cases "CutPrefix (parts ! 1) ''z''")
  note a = assms [unfolded isAzureDNSZoneStorageHost_def Let_def, folded parts_def, unfolded z prod.case]
  have len: "length parts = 6 \<or> length parts = 7" using a by (auto split: if_splits)
  have acc: "parts ! 0 \<in> {account, account @ ''-secondary''}" using a by (auto split: if_splits)
  have zone: "zone_label (parts ! 1)"
    by (rule zone_label_cases [of _ zoneID]) (use a z in \<open>simp_all split: if_splits\<close>)
  have host: "host = Join parts ''.''" by (simp add: parts_def Join_Split)
  from len show ?thesis
  proof
    assume l: "length parts = 6"
    then obtain p0 p1 p2 p3 p4 p5 where p: "parts = [p0, p1, p2, p3, p4, p5]"
      by (auto simp: length_Suc_conv numeral_eq_Suc)
    have "p2 \<in> {''file'', ''afs''}" "Join [p3, p4, p5] ''.'' = ''storage.azure.net''"
      using a by (auto simp: p split: if_splits)
    then show ?thesis using acc zone unfolding zone_host_def host
      by (intro exI [of _ p0] exI [of _ p1] exI [of _ "[]"] exI [of _ p2]) (simp add: p)
  next
    assume l: "length parts = 7"
    then obtain p0 p1 p2 p3 p4 p5 p6 where p: "parts = [p0, p1, p2, p3, p4, p5, p6]"
      by (auto simp: length_Suc_conv numeral_eq_Suc)
    have "p2 = ''privatelink''" "p3 \<in> {''file'', ''afs''}" "Join [p4, p5, p6] ''.'' = ''storage.azure.net''"
      using a by (auto simp: p split: if_splits)
    then show ?thesis using acc zone unfolding zone_host_def host
      by (intro exI [of _ p0] exI [of _ p1] exI [of _ "''.privatelink''"] exI [of _ p3]) (simp add: p)
  qed
qed

lemma validateInlineVolumeServer_accepts:
  assumes "validateInlineVolumeServer up pip server account suf = None"
  shows "\<exists>host. parseInlineVolumeServer up pip server = Inr host \<and>
     (let acc = ToLower (TrimSpace account); sfx = ToLower (Trim (TrimSpace suf) ''.'') in
      acc \<noteq> [] \<and> sfx \<noteq> [] \<and>
      (TrimSuffix (ToLower server) ''.'' \<in> set (allowedHosts acc sfx)
       \<or> sfx = defaultStorageEndPointSuffix \<and> zone_host host acc))"
  using assms
  by (auto simp: validateInlineVolumeServer_def Let_def dest: isAzureDNSZoneStorageHost_sound
      split: sum.splits if_splits)

section \<open>The Kerberos host\<close>

definition getKerberosHost :: "string \<Rightarrow> string" where
  "getKerberosHost server = ReplaceFirst server ''.privatelink.file.'' ''.file.''"

lemma getKerberosHost_privatelink:
  assumes "CHR ''.'' \<notin> set acc"
  shows "getKerberosHost (acc @ ''.privatelink.file.'' @ suf) = acc @ ''.file.'' @ suf"
proof -
  have "Cut (acc @ ''.privatelink.file.'' @ suf) ''.privatelink.file.'' = Some (acc, suf)"
    using assms by (induction acc) auto
  then show ?thesis by (simp add: getKerberosHost_def ReplaceFirst_def)
qed

lemma getKerberosHost_other: "\<not> Contains s ''.privatelink.file.'' \<Longrightarrow> getKerberosHost s = s"
  by (simp add: getKerberosHost_def ReplaceFirst_def Cut_None_iff [THEN iffD2])

section \<open>Properties\<close>

text \<open>The options of an SMB mount are the user's options followed by a default for each default key no user option
  begins with; \<open>acregmax\<close> or \<open>acdirmax\<close> also stands for \<open>actimeo\<close>.  The result does not depend, as a
  set, on the iteration order.\<close>

theorem cifs_options_spec:
  assumes "is_order ord"
  shows "(\<exists>r. appendDefaultCifsMountOptions ord mos a b = mos @ r) \<and>
    set (appendDefaultCifsMountOptions ord mos a b) = set mos \<union>
      render_option ` {(k, v) \<in> set (cifs_defaults a b).
        \<not> (included mos k \<or> (k = actimeo \<and> included_actimeo mos))}"
  using appendDefaultCifs_prefix set_appendDefaultCifs [OF assms] by blast

theorem cifs_options_spec_witness:
  "appendDefaultCifsMountOptions rev [''file_mode=0600'', ''acregmax=5''] False False
      = [''file_mode=0600'', ''acregmax=5'', ''mfsymlinks'', ''dir_mode=0777''] \<and>
   set (appendDefaultCifsMountOptions rev [''file_mode=0600'', ''acregmax=5''] False False)
     = set [''file_mode=0600'', ''acregmax=5''] \<union> render_option ` {(k, v) \<in> set (cifs_defaults False False).
        \<not> (included [''file_mode=0600'', ''acregmax=5''] k
            \<or> (k = actimeo \<and> included_actimeo [''file_mode=0600'', ''acregmax=5'']))}"
proof
  show "appendDefaultCifsMountOptions rev [''file_mode=0600'', ''acregmax=5''] False False
      = [''file_mode=0600'', ''acregmax=5'', ''mfsymlinks'', ''dir_mode=0777'']"
    by code_simp
qed (rule conjunct2 [OF cifs_options_spec], simp)




definition plain_url :: "string \<Rightarrow> url_parts option" where
  "plain_url u = Some \<lparr>url_scheme = ''https'', url_user = False, url_port = [], url_path = [], url_query = [],
     url_fragment = [], url_hostname = drop 8 u\<rparr>"


text \<open>The Kerberos host of a private-link server of an account is the canonical host of the account.\<close>

theorem kerberos_host_canonical:
  assumes "CHR ''.'' \<notin> set acc"
  shows "getKerberosHost (acc @ ''.privatelink.file.'' @ suf) = acc @ ''.file.'' @ suf
    \<and> (\<not> Contains (acc @ ''.file.'' @ suf) ''.privatelink.file.''
       \<longrightarrow> getKerberosHost (acc @ ''.file.'' @ suf) = acc @ ''.file.'' @ suf)"
  using getKerberosHost_privatelink [OF assms] getKerberosHost_other by blast

theorem kerberos_host_canonical_witness:
  "getKerberosHost (''acc'' @ ''.privatelink.file.'' @ ''core.windows.net'') = ''acc'' @ ''.file.'' @ ''core.windows.net''
    \<and> getKerberosHost (''acc'' @ ''.file.'' @ ''core.windows.net'') = ''acc'' @ ''.file.'' @ ''core.windows.net''"
  using kerberos_host_canonical [of "''acc''" "''core.windows.net''"] by simp

end
