(* ===== verification/ErrorClass.thy ===== *)
theory ErrorClass
  imports GoNum
begin

text \<open>
  The classification of errors by their text (\<open>utils.go\<close>): which errors of the storage API are
  retried, which are throttling and how long to wait, and the reason label of a failed mount.
\<close>

section \<open>Retriable and throttling errors\<close>

definition accountNotProvisioned :: string where
  "accountNotProvisioned = ''StorageAccountIsNotProvisioned''"
definition tooManyRequests :: string where "tooManyRequests = [CHR ''T''] @ ''ooManyRequests''"
definition shareBeingDeleted :: string where
  "shareBeingDeleted = ''The specified share is being deleted''"
definition clientThrottled :: string where "clientThrottled = ''client throttled''"

definition retriableErrors :: "string list" where
  "retriableErrors = [accountNotProvisioned, tooManyRequests, shareBeingDeleted, clientThrottled]"

definition isRetriableError :: "goerr option \<Rightarrow> bool" where
  "isRetriableError err =
     (case err of
        None \<Rightarrow> False
      | Some e \<Rightarrow> list_ex (\<lambda>v. Contains (ToLower (err_text e)) (ToLower v)) retriableErrors)"

definition isThrottlingError :: "goerr option \<Rightarrow> bool" where
  "isThrottlingError err =
     (case err of
        None \<Rightarrow> False
      | Some e \<Rightarrow>
          (let errMsg = ToLower (err_text e) in
           Contains errMsg (ToLower tooManyRequests) \<or> Contains errMsg clientThrottled))"

definition maxThrottlingSleepSec :: int where "maxThrottlingSleepSec = 1200"
definition accountOpThrottlingSleepSec :: int where "accountOpThrottlingSleepSec = 16"
definition fileOpThrottlingSleepSec :: int where "fileOpThrottlingSleepSec = 180"

text \<open>The first submatch of the leftmost match of \<open>RetryAfter: (\d+)s\<close>.\<close>

fun find_retry_after :: "string \<Rightarrow> string option" where
  "find_retry_after [] = None"
| "find_retry_after (c # s) =
     (let digits = takeWhile is_digit_char (drop 12 (c # s));
          rest = dropWhile is_digit_char (drop 12 (c # s))
      in if HasPrefix (c # s) ''RetryAfter: '' \<and> digits \<noteq> [] \<and> HasPrefix rest ''s''
         then Some digits else find_retry_after s)"

definition getRetryAfterSeconds :: "goerr option \<Rightarrow> int" where
  "getRetryAfterSeconds err =
     (case err of
        None \<Rightarrow> 0
      | Some e \<Rightarrow>
          (case find_retry_after (err_text e) of
             None \<Rightarrow> 0
           | Some m \<Rightarrow>
               (case Atoi m of
                  None \<Rightarrow> 0
                | Some retryAfter \<Rightarrow>
                    if retryAfter > maxThrottlingSleepSec then maxThrottlingSleepSec else retryAfter)))"

text \<open>The seconds \<open>sleepIfThrottled\<close> sleeps; \<open>None\<close> when it returns at once.\<close>

definition sleepIfThrottled :: "goerr option \<Rightarrow> int \<Rightarrow> int option" where
  "sleepIfThrottled err defaultSleepSec =
     (if isThrottlingError err
      then (let retryAfter = getRetryAfterSeconds err in
            Some (if retryAfter = 0 then defaultSleepSec else retryAfter))
      else None)"

lemma isThrottling_isRetriable: "isThrottlingError err \<Longrightarrow> isRetriableError err"
  by (auto simp: isThrottlingError_def isRetriableError_def retriableErrors_def clientThrottled_def
      ToLower_def lower_char_def Let_def split: option.splits)

lemma find_retry_after_digits: "find_retry_after s = Some m \<Longrightarrow> m \<noteq> [] \<and> list_all is_digit_char m"
proof (induction s)
  case (Cons c s)
  then show ?case
    by (auto simp: Let_def list_all_iff split: if_splits dest: set_takeWhileD)
qed simp

lemma digits_Atoi_nonneg:
  assumes "list_all is_digit_char m" "Atoi m = Some n"
  shows "0 \<le> n"
proof (cases m)
  case (Cons c r)
  then have "c \<noteq> CHR ''-''" using assms(1) by (auto simp: is_digit_char_def Let_def)
  with Cons assms(2) show ?thesis
    by (auto simp: Atoi_def ParseInt_def Let_def dest!: ParseUint_range split: option.splits if_splits)
qed (use assms in \<open>simp add: Atoi_def ParseInt_def\<close>)

lemma getRetryAfterSeconds_range: "0 \<le> getRetryAfterSeconds err \<and> getRetryAfterSeconds err \<le> 1200"
  by (auto simp: getRetryAfterSeconds_def maxThrottlingSleepSec_def split: option.splits
      dest!: find_retry_after_digits dest: digits_Atoi_nonneg)

lemma sleepIfThrottled_range:
  assumes "sleepIfThrottled err d = Some n" "0 < d"
  shows "0 < n \<and> n \<le> max d 1200"
  using assms getRetryAfterSeconds_range [of err]
  by (auto simp: sleepIfThrottled_def Let_def max_def split: if_splits)

section \<open>Reasons of a mount failure\<close>

definition mount_error_timeout :: "string list" where
  "mount_error_timeout = [''timed out'', ''timeout'', ''deadline exceeded'']"
definition mount_error_access :: "string list" where
  "mount_error_access = [''permission denied'', ''error(13)'', ''access denied'']"
definition mount_error_busy :: "string list" where
  "mount_error_busy = [''error(16)'', ''device or resource busy'', ''target is busy'']"
definition mount_error_enoent :: "string list" where
  "mount_error_enoent = [''no such file or directory'', ''error(2)'']"
definition mount_error_network :: "string list" where
  "mount_error_network =
     [''connection reset'', ''host is down'', ''no route to host'', ''network is unreachable'',
      ''connection refused'', ''could not connect to'', ''could not resolve address'',
      ''unable to find suitable address'', ''error(101)'', ''error(111)'', ''error(112)'',
      ''error(113)'', ''error(115)'']"

definition contains_one :: "string \<Rightarrow> string list \<Rightarrow> bool" where
  "contains_one msg subs \<longleftrightarrow> list_ex (Contains msg) subs"

definition classifyMountError :: "goerr option \<Rightarrow> string" where
  "classifyMountError err =
     (case err of
        None \<Rightarrow> []
      | Some e \<Rightarrow>
          (let msg = ToLower (err_text e) in
           if contains_one msg mount_error_timeout then ''timeout''
           else if contains_one msg mount_error_access then ''access_denied''
           else if contains_one msg mount_error_busy then ''busy''
           else if contains_one msg mount_error_enoent then ''enoent''
           else if contains_one msg mount_error_network then ''network''
           else if err_kind e = CorruptedMnt then ''stale''
           else ''other''))"

lemma classifyMountError_range:
  "classifyMountError err \<in>
     {[], ''timeout'', ''access_denied'', ''busy'', ''enoent'', ''network'', ''stale'', ''other''}"
  by (simp add: classifyMountError_def Let_def split: option.split)

lemma classifyMountError_nil: "classifyMountError err = [] \<longleftrightarrow> err = None"
  by (auto simp: classifyMountError_def Let_def split: option.split if_splits)

section \<open>Properties\<close>

text \<open>Every throttling error is retried, and the driver then sleeps at least a second and at most the larger of the
  default and 1200 seconds, whatever number the \<open>RetryAfter\<close> text of the error holds.\<close>

theorem throttling_sleep_bounded:
  assumes "isThrottlingError err" "0 < d"
  shows "isRetriableError err \<and> (\<exists>n. sleepIfThrottled err d = Some n \<and> 0 < n \<and> n \<le> max d 1200)"
proof
  show "isRetriableError err" by (rule isThrottling_isRetriable) (rule assms(1))
  obtain n where n: "sleepIfThrottled err d = Some n"
    using assms(1) by (auto simp: sleepIfThrottled_def Let_def)
  with sleepIfThrottled_range [OF n assms(2)]
  show "\<exists>n. sleepIfThrottled err d = Some n \<and> 0 < n \<and> n \<le> max d 1200" by blast
qed

theorem throttling_sleep_bounded_witness:
  "isRetriableError (Some (Errorf ''client throttled, RetryAfter: 217s, HTTPStatusCode: 0'')) \<and>
   (\<exists>n. sleepIfThrottled (Some (Errorf ''client throttled, RetryAfter: 217s, HTTPStatusCode: 0'')) fileOpThrottlingSleepSec
      = Some n \<and> 0 < n \<and> n \<le> max fileOpThrottlingSleepSec 1200)"
proof -
  have "isThrottlingError (Some (Errorf ''client throttled, RetryAfter: 217s, HTTPStatusCode: 0''))" by code_simp
  then show ?thesis by (rule throttling_sleep_bounded) (simp add: fileOpThrottlingSleepSec_def)
qed

text \<open>The reason recorded for a mount is one of seven fixed labels for a failure, and empty exactly when there was none.\<close>

theorem mount_reason_bounded:
  "classifyMountError err \<in>
     {[], ''timeout'', ''access_denied'', ''busy'', ''enoent'', ''network'', ''stale'', ''other''}
   \<and> (classifyMountError err = [] \<longleftrightarrow> err = None)
   \<and> (classifyMountError err = ''stale'' \<longrightarrow> (\<exists>t. err = Some (GoErr CorruptedMnt t)))"
  using classifyMountError_range [of err] classifyMountError_nil [of err]
  by (auto simp: classifyMountError_def Let_def split: option.splits if_splits)
    (metis goerr.collapse)

theorem mount_reason_bounded_witness:
  "classifyMountError (Some (GoErr CorruptedMnt ''stale NFS file handle'')) = ''stale'' \<and>
   (\<exists>t. Some (GoErr CorruptedMnt ''stale NFS file handle'') = Some (GoErr CorruptedMnt t))"
proof -
  have s: "classifyMountError (Some (GoErr CorruptedMnt ''stale NFS file handle'')) = ''stale''" by code_simp
  with mount_reason_bounded [of "Some (GoErr CorruptedMnt ''stale NFS file handle'')"] show ?thesis by blast
qed

end
