(* ===== verification/Locks.thy ===== *)
theory Locks
  imports Prelude
begin

text \<open>
  The two lock structures of the driver: \<open>volumeLocks\<close> (\<open>volume_lock.go\<close>), a set of keys with an
  ongoing operation, acquired without waiting; and \<open>lockMap\<close> (\<open>utils.go\<close>), a map of mutexes acquired by
  waiting.  The requests of the driver run concurrently: their lock operations interleave as the step
  relations below.
\<close>

section \<open>Try-locks\<close>

definition newVolumeLocks :: "string set" where
  "newVolumeLocks = {}"

definition TryAcquire :: "string set \<Rightarrow> string \<Rightarrow> bool \<times> string set" where
  "TryAcquire locks volumeID =
     (if volumeID \<in> locks then (False, locks) else (True, insert volumeID locks))"

definition Release :: "string set \<Rightarrow> string \<Rightarrow> string set" where
  "Release locks volumeID = locks - {volumeID}"

text \<open>
  The contract of a try-lock, over any implementation \<open>'l\<close>: what a request that acquired a key relies
  on until it releases it.
\<close>

locale try_lock =
  fixes held :: "'l \<Rightarrow> string \<Rightarrow> bool"
    and acq :: "'l \<Rightarrow> string \<Rightarrow> bool \<times> 'l"
    and rel :: "'l \<Rightarrow> string \<Rightarrow> 'l"
  assumes acq_ok: "fst (acq l k) \<longleftrightarrow> \<not> held l k"
    and acq_held: "fst (acq l k) \<Longrightarrow> held (snd (acq l k)) x \<longleftrightarrow> x = k \<or> held l x"
    and acq_fail: "\<not> fst (acq l k) \<Longrightarrow> snd (acq l k) = l"
    and rel_held: "held (rel l k) x \<longleftrightarrow> x \<noteq> k \<and> held l x"
begin

lemma acq_rel: "fst (acq l k) \<Longrightarrow> held (rel (snd (acq l k)) k) x \<longleftrightarrow> held l x"
  by (auto simp: rel_held acq_held acq_ok)

lemma acq_twice: "fst (acq l k) \<Longrightarrow> \<not> fst (acq (snd (acq l k)) k)"
  by (simp add: acq_ok acq_held)

lemma acq_other: "fst (acq l k) \<Longrightarrow> k' \<noteq> k \<Longrightarrow> fst (acq (snd (acq l k)) k') = fst (acq l k')"
  by (simp add: acq_ok acq_held)

lemma rel_rel: "held (rel (rel l k) k) x \<longleftrightarrow> held (rel l k) x"
  by (simp add: rel_held)

end

interpretation vol: try_lock "\<lambda>l k. k \<in> l" TryAcquire Release
  by unfold_locales (auto simp: TryAcquire_def Release_def)

section \<open>Concurrent requests on the try-locks\<close>

text \<open>
  A state is the set of locked keys and, for each request (a number), the keys it has acquired and not
  released.  A request that releases a key twice is a step too (\<open>release\<close> does not ask that the
  request holds the key): \<open>disciplined\<close> steps are those where it does.
\<close>

type_synonym req_id = nat

record lock_state =
  locked :: "string set"
  owns :: "req_id \<Rightarrow> string set"

inductive lock_step :: "bool \<Rightarrow> lock_state \<Rightarrow> lock_state \<Rightarrow> bool" for disciplined :: bool where
  acquire: "TryAcquire (locked s) k = (True, l) \<Longrightarrow>
    lock_step disciplined s (s\<lparr>locked := l, owns := (owns s)(r := insert k (owns s r))\<rparr>)"
| refused: "TryAcquire (locked s) k = (False, l) \<Longrightarrow> lock_step disciplined s (s\<lparr>locked := l\<rparr>)"
| release: "(disciplined \<Longrightarrow> k \<in> owns s r) \<Longrightarrow>
    lock_step disciplined s
      (s\<lparr>locked := Release (locked s) k, owns := (owns s)(r := owns s r - {k})\<rparr>)"

inductive lock_run :: "bool \<Rightarrow> lock_state \<Rightarrow> bool" for disciplined :: bool where
  init: "lock_run disciplined \<lparr>locked = newVolumeLocks, owns = (\<lambda>r. {})\<rparr>"
| step: "lock_run disciplined s \<Longrightarrow> lock_step disciplined s t \<Longrightarrow> lock_run disciplined t"

inductive_cases lock_stepE: "lock_step disciplined s t"

definition exclusive :: "lock_state \<Rightarrow> bool" where
  "exclusive s \<longleftrightarrow> (\<forall>r k. k \<in> owns s r \<longrightarrow> k \<in> locked s \<and> (\<forall>r'. k \<in> owns s r' \<longrightarrow> r' = r))"

lemma exclusive_step:
  assumes "lock_step True s t" "exclusive s"
  shows "exclusive t"
  using assms(1)
proof (cases rule: lock_step.cases)
  case (acquire k l r)
  then have "k \<notin> locked s" "l = insert k (locked s)" by (auto simp: TryAcquire_def split: if_splits)
  with acquire assms(2) show ?thesis by (auto simp: exclusive_def)
next
  case (refused k l)
  then show ?thesis using assms(2) by (auto simp: TryAcquire_def exclusive_def split: if_splits)
next
  case (release k r)
  then show ?thesis using assms(2) by (auto simp: exclusive_def Release_def)
qed

lemma lock_run_exclusive: "lock_run True s \<Longrightarrow> exclusive s"
proof (induction rule: lock_run.induct)
  case init
  then show ?case by (simp add: exclusive_def)
next
  case (step s t)
  then show ?case by (blast intro: exclusive_step)
qed

section \<open>The map of mutexes\<close>

text \<open>
  \<open>lockMap\<close>: an entry is created unlocked by the first \<open>LockEntry\<close>.  \<open>LockEntry\<close> waits while the entry
  is locked (\<open>None\<close>: it does not return in this state); \<open>UnlockEntry\<close> of an unlocked mutex is a fatal
  error of Go's runtime, of an unknown entry a no-op.
\<close>

type_synonym lock_map = "string \<rightharpoonup> bool"

datatype unlock_result = Unlocked lock_map | FatalUnlock

definition newLockMap :: lock_map where
  "newLockMap = Map.empty"

definition addEntry :: "lock_map \<Rightarrow> string \<Rightarrow> lock_map" where
  "addEntry lm entry = lm(entry \<mapsto> False)"

definition LockEntry :: "lock_map \<Rightarrow> string \<Rightarrow> lock_map option" where
  "LockEntry lm entry =
     (let lm = (if lm entry = None then addEntry lm entry else lm) in
      if lm entry = Some True then None else Some (lm(entry \<mapsto> True)))"

definition UnlockEntry :: "lock_map \<Rightarrow> string \<Rightarrow> unlock_result" where
  "UnlockEntry lm entry =
     (case lm entry of
        None \<Rightarrow> Unlocked lm
      | Some True \<Rightarrow> Unlocked (lm(entry \<mapsto> False))
      | Some False \<Rightarrow> FatalUnlock)"

definition entry_locked :: "lock_map \<Rightarrow> string \<Rightarrow> bool" where
  "entry_locked lm entry \<longleftrightarrow> lm entry = Some True"

definition lock_entry_try :: "lock_map \<Rightarrow> string \<Rightarrow> bool \<times> lock_map" where
  "lock_entry_try lm entry = (case LockEntry lm entry of None \<Rightarrow> (False, lm) | Some lm' \<Rightarrow> (True, lm'))"

definition unlock_entry_held :: "lock_map \<Rightarrow> string \<Rightarrow> lock_map" where
  "unlock_entry_held lm entry = (case UnlockEntry lm entry of Unlocked lm' \<Rightarrow> lm' | FatalUnlock \<Rightarrow> lm)"

interpretation lm: try_lock entry_locked lock_entry_try unlock_entry_held
  by unfold_locales
    (auto simp: entry_locked_def lock_entry_try_def unlock_entry_held_def LockEntry_def UnlockEntry_def
      addEntry_def Let_def split: option.splits bool.splits if_splits)

lemma lock_unlock:
  "LockEntry lm k = Some lm' \<Longrightarrow> \<exists>lm''. UnlockEntry lm' k = Unlocked lm'' \<and> lm'' k = Some False
     \<and> (\<forall>x. entry_locked lm'' x = entry_locked lm x)"
  by (auto simp: LockEntry_def UnlockEntry_def entry_locked_def addEntry_def Let_def split: if_splits)

section \<open>Properties\<close>

text \<open>C15: as long as requests release only keys they hold, a key is held by at most one request at any time and
  a held key is locked, under every interleaving of any number of requests.\<close>

theorem volume_locks_exclusive:
  assumes "lock_run True s" "k \<in> owns s r"
  shows "k \<in> locked s \<and> (k \<in> owns s r' \<longrightarrow> r' = r) \<and> fst (TryAcquire (locked s) k) = False"
  using lock_run_exclusive [OF assms(1)] assms(2) by (auto simp: exclusive_def TryAcquire_def)

definition sample_locked :: lock_state where
  "sample_locked = \<lparr>locked = {''vol''}, owns = (\<lambda>r. {})(1 := {''vol''})\<rparr>"

lemma sample_locked_run: "lock_run d sample_locked"
proof -
  have "lock_step d \<lparr>locked = newVolumeLocks, owns = (\<lambda>r. {})\<rparr> sample_locked"
    using lock_step.acquire [of "\<lparr>locked = newVolumeLocks, owns = (\<lambda>r. {})\<rparr>" "''vol''" "{''vol''}" d 1]
    by (simp add: TryAcquire_def newVolumeLocks_def sample_locked_def)
  then show ?thesis by (rule lock_run.step [OF lock_run.init])
qed

theorem volume_locks_exclusive_witness:
  "''vol'' \<in> locked sample_locked \<and> ''vol'' \<notin> owns sample_locked 2 \<and> fst (TryAcquire (locked sample_locked) ''vol'') = False"
  using volume_locks_exclusive [OF sample_locked_run, of "''vol''" 1 2] by (simp add: sample_locked_def)

text \<open>A request that releases its key a second time (as \<open>CreateVolume\<close> does after it has retried itself: once
  before the inner call, once by its deferred release) can free the key while another request holds it.\<close>

theorem double_release_breaks_exclusion:
  "\<exists>s. lock_run False s \<and> ''vol'' \<in> owns s 2 \<and> fst (TryAcquire (locked s) ''vol'')"
proof -
  define s2 where "s2 = sample_locked\<lparr>locked := Release (locked sample_locked) ''vol'',
    owns := (owns sample_locked)(1 := owns sample_locked 1 - {''vol''})\<rparr>"
  have "lock_step False sample_locked s2" unfolding s2_def by (rule lock_step.release) simp
  then have 2: "lock_run False s2" by (rule lock_run.step [OF sample_locked_run])
  define s3 where "s3 = s2\<lparr>locked := {''vol''}, owns := (owns s2)(2 := insert ''vol'' (owns s2 2))\<rparr>"
  have "lock_step False s2 s3" unfolding s3_def
    by (rule lock_step.acquire) (simp add: s2_def sample_locked_def TryAcquire_def Release_def)
  then have 3: "lock_run False s3" by (rule lock_run.step [OF 2])
  define s4 where "s4 = s3\<lparr>locked := Release (locked s3) ''vol'', owns := (owns s3)(1 := owns s3 1 - {''vol''})\<rparr>"
  have "lock_step False s3 s4" unfolding s4_def by (rule lock_step.release) simp
  then have "lock_run False s4" by (rule lock_run.step [OF 3])
  moreover have "''vol'' \<in> owns s4 2 \<and> fst (TryAcquire (locked s4) ''vol'')"
    by (simp add: s4_def s3_def TryAcquire_def Release_def)
  ultimately show ?thesis by blast
qed

end
