(* ===== verification/VolumeId.thy ===== *)
theory VolumeId
  imports GoNum
begin

text \<open>
  Volume ids and snapshot ids (\<open>azurefile.go\<close>, and the code of \<open>controllerserver.go\<close> that builds
  them): \<open>GetFileShareInfo\<close>, \<open>validateVolumeIDSegment\<close>, \<open>GetInfoFromSnapshotID\<close>, the id formats, and
  what the parsers give back on the ids the driver hands out.
\<close>

section \<open>Parsing a volume id\<close>

definition separator :: string where "separator = ''#''"

text \<open>The results of \<open>GetFileShareInfo\<close>, in the order the Go function returns them.\<close>

record share_info =
  si_rg :: string
  si_account :: string
  si_share :: string
  si_disk :: string
  si_namespace :: string
  si_subs :: string

definition no_share_info :: share_info where
  "no_share_info = \<lparr>si_rg = [], si_account = [], si_share = [], si_disk = [], si_namespace = [], si_subs = []\<rparr>"

definition is_path_separator :: "char \<Rightarrow> bool" where
  "is_path_separator r \<longleftrightarrow> r = CHR ''/'' \<or> r = CHR 0x5C"

definition validateVolumeIDSegment :: "string \<Rightarrow> string \<Rightarrow> goerr option" where
  "validateVolumeIDSegment field value =
     (if value = [] then None
      else if list_ex (\<lambda>segment. segment = ''..'') (FieldsFunc value is_path_separator)
      then Some (Errorf (''invalid '' @ field @ '' '' @ Quote value @ '': contains directory traversal sequence''))
      else None)"

definition GetFileShareInfo :: "string \<Rightarrow> goerr + share_info" where
  "GetFileShareInfo ident =
     (let segments = Split ident separator in
      if length segments < 3
      then Inl (Errorf (''error parsing volume id: '' @ Quote ident @ '', should at least contain two #''))
      else
        let rg = segments ! 0;
            diskName = (if length segments > 3 then segments ! 3 else [])
        in case (if length segments > 3 then validateVolumeIDSegment ''diskName'' diskName else None) of
             Some err \<Rightarrow> Inl err
           | None \<Rightarrow>
               (let namespace =
                      (if rg = [] then (if length segments > 4 then segments ! 4 else [])
                       else (if length segments > 5 then segments ! 5 else []));
                    subsID = (if rg \<noteq> [] \<and> length segments > 6 then segments ! 6 else [])
                in case validateVolumeIDSegment ''namespace'' namespace of
                     Some err \<Rightarrow> Inl err
                   | None \<Rightarrow>
                       Inr \<lparr>si_rg = rg, si_account = segments ! 1, si_share = segments ! 2, si_disk = diskName,
                             si_namespace = namespace, si_subs = subsID\<rparr>))"

text \<open>A caller that ignores the error reads six empty strings.\<close>

definition share_info_or_empty :: "goerr + share_info \<Rightarrow> share_info" where
  "share_info_or_empty r = (case r of Inl _ \<Rightarrow> no_share_info | Inr i \<Rightarrow> i)"

section \<open>Parsing a snapshot id\<close>

text \<open>
  \<open>^[0-9a-fA-F]{8}-[0-9a-fA-F]{4}-[0-9a-fA-F]{4}-[0-9a-fA-F]{4}-[0-9a-fA-F]{12}$\<close>: five
  hyphen-separated runs of hexadecimal digits of these lengths.
\<close>

definition is_hex :: "char \<Rightarrow> bool" where
  "is_hex c \<longleftrightarrow> (let n = (of_char c :: nat) in
     (48 \<le> n \<and> n \<le> 57) \<or> (97 \<le> n \<and> n \<le> 102) \<or> (65 \<le> n \<and> n \<le> 70))"

definition isValidSubscriptionID :: "string \<Rightarrow> bool" where
  "isValidSubscriptionID subsID \<longleftrightarrow>
     map length (Split subsID ''-'') = [8, 4, 4, 4, 12] \<and> list_all (list_all is_hex) (Split subsID ''-'')"

type_synonym snapshot_info = "string \<times> string \<times> string \<times> string \<times> string"

definition GetInfoFromSnapshotID :: "string \<Rightarrow> goerr + snapshot_info" where
  "GetInfoFromSnapshotID ident =
     (let segments = Split ident separator in
      if length segments < 4
      then Inl (Errorf (''error parsing snapshot id: '' @ Quote ident @ '', should at least contain 3 #''))
      else
        let (snapshotTime, subsID) =
          (if length segments \<ge> 7
           then (if length segments > 7
                 then (if isValidSubscriptionID (segments ! 7) then (segments ! 6, segments ! 7)
                       else if isValidSubscriptionID (segments ! 6) then (segments ! 7, segments ! 6)
                       else (segments ! 6, []))
                 else (segments ! 6, []))
           else
             let lastIdx = length segments - 1 in
             if length segments \<ge> 5 \<and> isValidSubscriptionID (segments ! lastIdx)
             then (segments ! (lastIdx - 1), segments ! lastIdx)
             else if length segments \<ge> 5 \<and> isValidSubscriptionID (segments ! (lastIdx - 1))
             then (segments ! lastIdx, segments ! (lastIdx - 1))
             else (segments ! lastIdx, []))
        in Inr (segments ! 0, segments ! 1, segments ! 2, snapshotTime, subsID))"

section \<open>The ids the driver builds\<close>

definition create_volume_id ::
    "string \<Rightarrow> string \<Rightarrow> string \<Rightarrow> string \<Rightarrow> string \<Rightarrow> string \<Rightarrow> string \<Rightarrow> string \<Rightarrow> string" where
  "create_volume_id resourceGroup accountName shareName diskName uuid secretNamespace subsID cloudSubsID =
     (let volumeID = resourceGroup @ ''#'' @ accountName @ ''#'' @ shareName @ ''#'' @ diskName @ ''#''
                       @ uuid @ ''#'' @ secretNamespace
      in if subsID \<noteq> [] \<and> subsID \<noteq> cloudSubsID then volumeID @ ''#'' @ subsID else volumeID)"

definition create_snapshot_id :: "string \<Rightarrow> string \<Rightarrow> string \<Rightarrow> string" where
  "create_snapshot_id sourceVolumeID itemSnapshot subsID =
     sourceVolumeID @ ''#'' @ itemSnapshot @ ''#'' @ subsID"

section \<open>Round trips\<close>

abbreviation no_hash :: "string \<Rightarrow> bool" where
  "no_hash s \<equiv> CHR ''#'' \<notin> set s"

lemma Split_id_segments:
  "segs \<noteq> [] \<Longrightarrow> (\<And>s. s \<in> set segs \<Longrightarrow> no_hash s) \<Longrightarrow> Split (Join segs ''#'') separator = segs"
  unfolding separator_def by (rule Split_Join)

lemma create_volume_id_Join:
  "create_volume_id rg a s d u ns subs cs =
     Join ([rg, a, s, d, u, ns] @ (if subs \<noteq> [] \<and> subs \<noteq> cs then [subs] else [])) ''#''"
  by (simp add: create_volume_id_def Let_def)

lemma Split_create_volume_id:
  assumes "\<And>x. x \<in> {rg, a, s, d, u, ns, subs} \<Longrightarrow> no_hash x"
  shows "Split (create_volume_id rg a s d u ns subs cs) separator
    = [rg, a, s, d, u, ns] @ (if subs \<noteq> [] \<and> subs \<noteq> cs then [subs] else [])"
  unfolding create_volume_id_Join by (rule Split_id_segments) (use assms in auto)

lemma GetFileShareInfo_create_volume_id:
  assumes "\<And>x. x \<in> {rg, a, s, d, u, ns, subs} \<Longrightarrow> no_hash x"
    and "rg \<noteq> []" "validateVolumeIDSegment ''diskName'' d = None"
    and "validateVolumeIDSegment ''namespace'' ns = None"
  shows "GetFileShareInfo (create_volume_id rg a s d u ns subs cs) =
    Inr \<lparr>si_rg = rg, si_account = a, si_share = s, si_disk = d, si_namespace = ns,
         si_subs = (if subs \<noteq> [] \<and> subs \<noteq> cs then subs else [])\<rparr>"
proof -
  have s: "Split (create_volume_id rg a s d u ns subs cs) separator
    = [rg, a, s, d, u, ns] @ (if subs \<noteq> [] \<and> subs \<noteq> cs then [subs] else [])"
    by (rule Split_create_volume_id) (rule assms(1))
  show ?thesis
    using assms(2-) by (auto simp: GetFileShareInfo_def s)
qed

lemma create_snapshot_id_Join:
  "segs \<noteq> [] \<Longrightarrow> create_snapshot_id (Join segs ''#'') snap subs = Join (segs @ [snap, subs]) ''#''"
  by (induction segs rule: list_nonempty_induct) (simp_all add: create_snapshot_id_def Join_Cons)

lemma isValidSubscriptionID_no_hash: "isValidSubscriptionID s \<Longrightarrow> no_hash s"
proof
  assume v: "isValidSubscriptionID s" and h: "CHR ''#'' \<in> set s"
  have "s = Join (Split s ''-'') ''-''" by (simp add: Join_Split)
  moreover have "CHR ''#'' \<notin> set (Join ps ''-'')" if "list_all (list_all is_hex) ps" for ps
    using that by (induction ps rule: induct_list012) (auto simp: list_all_iff is_hex_def)
  ultimately show False using v h by (metis isValidSubscriptionID_def)
qed

lemma isValidSubscriptionID_Nil [simp]: "\<not> isValidSubscriptionID []"
  by (simp add: isValidSubscriptionID_def Split_single_id)

lemma Split_snapshot_id:
  assumes "segs \<noteq> []" "\<And>x. x \<in> set segs \<Longrightarrow> no_hash x" "no_hash snap" "no_hash subs"
  shows "Split (create_snapshot_id (Join segs ''#'') snap subs) separator = segs @ [snap, subs]"
  unfolding create_snapshot_id_Join [OF assms(1)]
  by (rule Split_id_segments) (use assms in auto)

lemma snapshot_id_roundtrip_segs:
  assumes "length segs \<in> {3, 4, 6}" "\<And>x. x \<in> set segs \<Longrightarrow> no_hash x" "no_hash snap"
    and "isValidSubscriptionID subs"
  shows "GetInfoFromSnapshotID (create_snapshot_id (Join segs ''#'') snap subs)
    = Inr (segs ! 0, segs ! 1, segs ! 2, snap, subs)"
proof -
  have "segs \<noteq> []" using assms(1) by auto
  with assms have s: "Split (create_snapshot_id (Join segs ''#'') snap subs) separator = segs @ [snap, subs]"
    by (intro Split_snapshot_id) (auto dest: isValidSubscriptionID_no_hash)
  from assms(1) consider "length segs = 3" | "length segs = 4" | "length segs = 6" by auto
  then show ?thesis
    by cases (use assms(4) in \<open>simp_all add: GetInfoFromSnapshotID_def s nth_append\<close>)
qed

lemma snapshot_id_roundtrip_segs_subs:
  assumes "length segs = 7" "\<And>x. x \<in> set segs \<Longrightarrow> no_hash x" "no_hash snap"
    and "isValidSubscriptionID (segs ! 6)" "\<not> isValidSubscriptionID snap" "no_hash subs"
  shows "GetInfoFromSnapshotID (create_snapshot_id (Join segs ''#'') snap subs)
    = Inr (segs ! 0, segs ! 1, segs ! 2, snap, segs ! 6)"
proof -
  have "segs \<noteq> []" using assms(1) by auto
  with assms have s: "Split (create_snapshot_id (Join segs ''#'') snap subs) separator = segs @ [snap, subs]"
    by (intro Split_snapshot_id) auto
  then show ?thesis using assms by (simp add: GetInfoFromSnapshotID_def s nth_append)
qed

lemma snapshot_id_five_segs:
  assumes "length segs = 5" "\<And>x. x \<in> set segs \<Longrightarrow> no_hash x" "no_hash snap" "no_hash subs"
  shows "GetInfoFromSnapshotID (create_snapshot_id (Join segs ''#'') snap subs)
    = Inr (segs ! 0, segs ! 1, segs ! 2, subs, [])"
proof -
  have "segs \<noteq> []" using assms(1) by auto
  with assms have s: "Split (create_snapshot_id (Join segs ''#'') snap subs) separator = segs @ [snap, subs]"
    by (intro Split_snapshot_id) auto
  then show ?thesis using assms by (simp add: GetInfoFromSnapshotID_def s nth_append)
qed

section \<open>Path safety\<close>

lemma validate_no_traversal:
  assumes "validateVolumeIDSegment f v = None"
  shows "''..'' \<notin> set (Split v ''/'')"
proof
  assume up: "''..'' \<in> set (Split v ''/'')"
  then have "''..'' \<in> set (split_pred is_path_separator v)"
    unfolding Split_split_pred
    by (rule split_pred_refine_mem [rotated]) (auto simp: is_path_separator_def)
  then have "''..'' \<in> set (FieldsFunc v is_path_separator)" by (simp add: FieldsFunc_def)
  moreover from up have "v \<noteq> []" by (auto simp: Split_single_id)
  ultimately show False using assms by (auto simp: validateVolumeIDSegment_def list_ex_iff split: if_splits)
qed

lemma GetFileShareInfo_disk_safe:
  "GetFileShareInfo ident = Inr i \<Longrightarrow> ''..'' \<notin> set (Split (si_disk i) ''/'')"
  by (auto simp: GetFileShareInfo_def Let_def Split_single_id dest: validate_no_traversal
      split: if_splits option.splits)

lemma GetFileShareInfo_namespace_safe:
  "GetFileShareInfo ident = Inr i \<Longrightarrow> ''..'' \<notin> set (Split (si_namespace i) ''/'')"
  by (auto simp: GetFileShareInfo_def Let_def Split_single_id dest: validate_no_traversal
      split: if_splits option.splits)

lemma GetFileShareInfo_segments:
  "GetFileShareInfo ident = Inr i \<Longrightarrow> no_hash (si_rg i) \<and> no_hash (si_account i) \<and> no_hash (si_share i)
     \<and> no_hash (si_disk i) \<and> no_hash (si_namespace i) \<and> no_hash (si_subs i)"
proof -
  assume g: "GetFileShareInfo ident = Inr i"
  have "no_hash (Split ident separator ! n)" if "n < length (Split ident separator)" for n
    using Split_single_mem [OF nth_mem] that unfolding separator_def by blast
  moreover from this [of 0] have "no_hash (Split ident separator ! 0)"
    by (simp add: Split_not_Nil separator_def)
  ultimately show ?thesis using g
    by (auto simp: GetFileShareInfo_def Let_def split: if_splits option.splits)
qed

section \<open>Properties\<close>

text \<open>C25: the volume id \<open>CreateVolume\<close> builds is read back by \<open>GetFileShareInfo\<close>: the resource group,
  account, share, disk, namespace and (for a volume of another subscription) the subscription come out
  as they went in, when no segment holds the separator and disk and namespace hold no \<open>..\<close> segment.\<close>

theorem volume_id_roundtrip:
  assumes "no_hash rg" "no_hash a" "no_hash s" "no_hash d" "no_hash u" "no_hash ns" "no_hash subs"
    and "rg \<noteq> []" "validateVolumeIDSegment ''diskName'' d = None"
    and "validateVolumeIDSegment ''namespace'' ns = None"
  shows "GetFileShareInfo (create_volume_id rg a s d u ns subs cs) =
    Inr \<lparr>si_rg = rg, si_account = a, si_share = s, si_disk = d, si_namespace = ns,
         si_subs = (if subs \<noteq> [] \<and> subs \<noteq> cs then subs else [])\<rparr>"
  by (rule GetFileShareInfo_create_volume_id) (use assms in auto)

theorem volume_id_roundtrip_witness:
  "GetFileShareInfo (create_volume_id ''rg'' ''acc'' ''share'' ''d.vhd'' ''vol'' ''ns'' ''s1'' ''s2'') =
    Inr \<lparr>si_rg = ''rg'', si_account = ''acc'', si_share = ''share'', si_disk = ''d.vhd'', si_namespace = ''ns'',
         si_subs = ''s1''\<rparr>"
  using volume_id_roundtrip [of "''rg''" "''acc''" "''share''" "''d.vhd''" "''vol''" "''ns''" "''s1''" "''s2''"]
  by (simp add: validateVolumeIDSegment_def FieldsFunc_def is_path_separator_def)

text \<open>The snapshot id \<open>CreateSnapshot\<close> builds for a volume with the id of a driver-created volume is read back by
  \<open>GetInfoFromSnapshotID\<close>: resource group, account and share of the source, the snapshot time, and the subscription.\<close>

theorem snapshot_id_roundtrip:
  assumes "no_hash rg" "no_hash a" "no_hash s" "no_hash d" "no_hash u" "no_hash ns" "no_hash snap"
    and "isValidSubscriptionID cs" "subs = [] \<or> isValidSubscriptionID subs" "\<not> isValidSubscriptionID snap"
  shows "GetInfoFromSnapshotID
      (create_snapshot_id (create_volume_id rg a s d u ns subs cs) snap (if subs = [] then cs else subs))
    = Inr (rg, a, s, snap, if subs = [] then cs else subs)"
proof (cases "subs \<noteq> [] \<and> subs \<noteq> cs")
  case True
  then have v: "isValidSubscriptionID subs" using assms by simp
  with True assms snapshot_id_roundtrip_segs_subs [of "[rg, a, s, d, u, ns, subs]" snap subs]
  show ?thesis by (auto simp: create_volume_id_Join dest: isValidSubscriptionID_no_hash)
next
  case False
  then have e: "(if subs = [] then cs else subs) = cs" by auto
  have "GetInfoFromSnapshotID (create_snapshot_id (Join [rg, a, s, d, u, ns] ''#'') snap cs)
    = Inr ([rg, a, s, d, u, ns] ! 0, [rg, a, s, d, u, ns] ! 1, [rg, a, s, d, u, ns] ! 2, snap, cs)"
    by (rule snapshot_id_roundtrip_segs) (use assms in auto)
  with False show ?thesis unfolding e create_volume_id_Join by auto
qed

definition sample_subs :: string where
  "sample_subs = ''46678f10-4bbb-447e-98e8-d2829589f2d8''"

lemma sample_subs_valid: "isValidSubscriptionID sample_subs"
  by code_simp

lemma sample_snap_invalid: "\<not> isValidSubscriptionID ''2025-09-05T07:51:41.0000000Z''"
  by code_simp

theorem snapshot_id_roundtrip_witness:
  "GetInfoFromSnapshotID
      (create_snapshot_id (create_volume_id ''rg'' ''a'' ''s'' [] [] ''ns'' [] sample_subs)
        ''2025-09-05T07:51:41.0000000Z'' sample_subs)
    = Inr (''rg'', ''a'', ''s'', ''2025-09-05T07:51:41.0000000Z'', sample_subs)"
  using snapshot_id_roundtrip [of "''rg''" "''a''" "''s''" "[]" "[]" "''ns''" "''2025-09-05T07:51:41.0000000Z''" sample_subs "[]"]
  by (simp add: sample_subs_valid sample_snap_invalid)

text \<open>For a source volume id of five segments (the csi-migration form \<open>#account#share#disk#namespace\<close>, or a
  volume with a uuid but no namespace) the snapshot id \<open>CreateSnapshot\<close> builds is misread: the
  subscription is taken for the snapshot time, and the snapshot is lost.\<close>

theorem snapshot_id_five_segments:
  assumes "no_hash rg" "no_hash a" "no_hash s" "no_hash d" "no_hash ns" "no_hash snap" "no_hash subs"
  shows "GetInfoFromSnapshotID (create_snapshot_id (Join [rg, a, s, d, ns] ''#'') snap subs)
    = Inr (rg, a, s, subs, [])"
  using snapshot_id_five_segs [of "[rg, a, s, d, ns]" snap subs] assms by auto

theorem snapshot_id_five_segments_witness:
  "GetInfoFromSnapshotID (create_snapshot_id ''#acc#share##ns'' ''2025-09-05T07:51:41.0000000Z'' sample_subs)
    = Inr ([], ''acc'', ''share'', sample_subs, [])"
  using snapshot_id_five_segments [of "[]" "''acc''" "''share''" "[]" "''ns''" "''2025-09-05T07:51:41.0000000Z''" sample_subs]
  by (simp add: isValidSubscriptionID_no_hash [OF sample_subs_valid])

text \<open>C26: the disk a volume id names stays below the directory it is joined to: resolving the joined path
  component by component, as \<open>filepath.Join\<close> does, keeps every component of the (absolute) directory.\<close>

theorem disk_path_inside:
  assumes "GetFileShareInfo ident = Inr i" "HasPrefix base ''/''" "si_disk i \<noteq> []"
  shows "\<exists>rest. path_comps (base @ ''/'' @ si_disk i) = path_comps base @ rest \<and> ''..'' \<notin> set rest
    \<and> path_join [base, si_disk i] = Clean (base @ ''/'' @ si_disk i)"
proof -
  from assms(2) have "base \<noteq> []" by auto
  with assms(3) have "path_join [base, si_disk i] = Clean (base @ ''/'' @ si_disk i)"
    by (simp add: path_join_def)
  moreover note path_comps_append [OF assms(2) GetFileShareInfo_disk_safe [OF assms(1)]]
  ultimately show ?thesis using GetFileShareInfo_disk_safe [OF assms(1)]
    by (intro exI [of _ "filter (\<lambda>c. c \<noteq> [] \<and> c \<noteq> ''.'') (Split (si_disk i) ''/'')"]) auto
qed

lemma sample_disk_parse:
  "GetFileShareInfo ''rg#acc#share#dir/d.vhd'' =
    Inr \<lparr>si_rg = ''rg'', si_account = ''acc'', si_share = ''share'', si_disk = ''dir/d.vhd'',
         si_namespace = [], si_subs = []\<rparr>"
  by code_simp

theorem disk_path_inside_witness:
  "\<exists>rest. path_comps (''/m/proxy-mount'' @ ''/'' @ ''dir/d.vhd'') = path_comps ''/m/proxy-mount'' @ rest
     \<and> ''..'' \<notin> set rest \<and> path_join [''/m/proxy-mount'', ''dir/d.vhd''] = Clean (''/m/proxy-mount'' @ ''/'' @ ''dir/d.vhd'')"
  using disk_path_inside [OF sample_disk_parse, of "''/m/proxy-mount''"] by simp

end
