(* ===== verification/Driver.thy ===== *)
theory Driver
  imports MountOptions ErrorClass Locks VolumeId
begin

text \<open>
  The driver object (\<open>Driver\<close> in \<open>azurefile.go\<close>): its configuration, its mutable state (locks, maps and
  timed caches), the calls it makes to the outside world, and the state monad its methods run in.

  A method is a program over the state \<open>drv\<close>.  A call to Azure, Kubernetes, azcopy or the node is an event
  (\<open>ext\<close>) appended to the \<open>trace\<close>; its answer is a function of the trace so far and the event, one
  function per type of answer in the record \<open>env\<close>, so an answer may depend on everything that happened before.
  The driver is modelled after \<open>Run\<close> has set \<open>d.cloud\<close>, which is then never nil.
\<close>

section \<open>Configuration\<close>

text \<open>The fields of \<open>Driver\<close> and of \<open>d.cloud\<close> that no request changes.\<close>

record config =
  cfg_Name :: string
  cfg_NodeID :: string
  enableAzurefileProxy :: bool
  cfg_fsGroupChangePolicy :: string
  allowInlineVolumeKeyAccessWithIdentity :: bool
  inlineVolumeSecretAuthz :: string
  enableVHDDiskFeature :: bool
  enableGetVolumeStats :: bool
  enableVolumeMountGroup :: bool
  appendMountErrorHelpLink :: bool
  cfg_mountPermissions :: int
  appendClosetimeoOption :: bool
  appendNoShareSockOption :: bool
  appendNoResvPortOption :: bool
  appendActimeoOption :: bool
  enableKataCCMount :: bool
  useAZNFSForNFSMounts :: bool
  sasTokenExpirationMinutes :: int
  waitForAzCopyTimeoutMinutes :: int
  requiredAzCopyToTrust :: bool
  hasKubeClient :: bool
  hasClientFactory :: bool
  hasAuthProvider :: bool
  hasNetworkFactory :: bool
  hasSubnetClient :: bool
  cloud_ResourceGroup :: string
  cloud_SubscriptionID :: string
  cloud_NetworkSubscriptionID :: string
  cloud_TenantID :: string
  cloud_Location :: string
  cloud_VnetResourceGroup :: string
  cloud_VnetName :: string
  cloud_SubnetName :: string
  cloud_StorageEndpointSuffix :: string
  cloud_ActiveDirectoryEndpoint :: string
  cloud_StorageResource :: string
  cloud_BackoffRetries :: int
  cloud_UseManagedIdentity :: bool
  cloud_UserAssignedIdentityID :: string
  cloud_AADClientID :: string
  cloud_AADClientSecret :: string

definition getStorageEndPointSuffix :: "config \<Rightarrow> string" where
  "getStorageEndPointSuffix d =
     (if cloud_StorageEndpointSuffix d = [] then defaultStorageEndPointSuffix
      else cloud_StorageEndpointSuffix d)"

definition getActiveDirectoryEndpoint :: "config \<Rightarrow> string" where
  "getActiveDirectoryEndpoint d =
     (if cloud_ActiveDirectoryEndpoint d = [] then ''https://login.microsoftonline.com/''
      else cloud_ActiveDirectoryEndpoint d)"

definition getStorageResource :: "config \<Rightarrow> string" where
  "getStorageResource d =
     (if cloud_StorageResource d = [] then ''https://storage.azure.com/'' else cloud_StorageResource d)"

definition getSubnetResourceID :: "config \<Rightarrow> string \<Rightarrow> string \<Rightarrow> string \<Rightarrow> string" where
  "getSubnetResourceID d vnetResourceGroup vnetName subnetName =
     (let subsID = (if cloud_NetworkSubscriptionID d \<noteq> [] then cloud_NetworkSubscriptionID d
                    else cloud_SubscriptionID d);
          vnetResourceGroup =
            (if vnetResourceGroup = []
             then (if cloud_VnetResourceGroup d \<noteq> [] then cloud_VnetResourceGroup d else cloud_ResourceGroup d)
             else vnetResourceGroup);
          vnetName = (if vnetName = [] then cloud_VnetName d else vnetName);
          subnetName = (if subnetName = [] then cloud_SubnetName d else subnetName)
      in ''/subscriptions/'' @ subsID @ ''/resourceGroups/'' @ vnetResourceGroup
           @ ''/providers/'' @ [CHR ''M''] @ ''icrosoft.Network/virtualNetworks/'' @ vnetName @ ''/subnets/'' @ subnetName)"

definition getFileServiceURL :: "string \<Rightarrow> string \<Rightarrow> string" where
  "getFileServiceURL accountName storageEndpointSuffix =
     ''https://'' @ accountName @ ''.file.'' @
       (if storageEndpointSuffix = [] then defaultStorageEndPointSuffix else storageEndpointSuffix)"

definition secret_name :: "string \<Rightarrow> string" where
  "secret_name accountName = ''azure-storage-account-'' @ accountName @ ''-secret''"

definition getBackOff :: "config \<Rightarrow> nat" where
  "getBackOff d = (if cloud_BackoffRetries d < 1 then 1 else nat (cloud_BackoffRetries d))"

lemma getBackOff_pos: "1 \<le> getBackOff d"
  unfolding getBackOff_def by (cases "cloud_BackoffRetries d < 1") (simp_all add: nat_le_eq_zle flip: One_nat_def nat_1)

section \<open>Calls to the outside\<close>

datatype protocol = SMB | NFS

record share_props =
  sp_quota :: "int option"
  sp_iops :: "int option"
  sp_bandwidth :: "int option"

text \<open>The body of a share creation and of an account search (\<open>armstorage.FileShare\<close>, \<open>storage.AccountOptions\<close>).\<close>

record share_body =
  sb_iops :: "int option"
  sb_bandwidth :: "int option"
  sb_quota :: "int option"
  sb_nfs :: bool
  sb_tier :: "string option"
  sb_squash :: "string option"
  sb_metadata :: smap

record account_options =
  ao_Name :: string
  ao_Type :: string
  ao_Kind :: string
  ao_SubscriptionID :: string
  ao_ResourceGroup :: string
  ao_Location :: string
  ao_EnableHTTPSTrafficOnly :: bool
  ao_MatchTags :: bool
  ao_Tags :: smap
  ao_VirtualNetworkResourceIDs :: "string list"
  ao_CreateAccount :: bool
  ao_CreatePrivateEndpoint :: "bool option"
  ao_PrivateDNSZoneResourceGroup :: string
  ao_EnableLargeFileShare :: "bool option"
  ao_DisableFileServiceDeleteRetentionPolicy :: "bool option"
  ao_AllowBlobPublicAccess :: "bool option"
  ao_AllowSharedKeyAccess :: "bool option"
  ao_AllowCrossTenantReplication :: "bool option"
  ao_PublicNetworkAccess :: string
  ao_VNetResourceGroup :: string
  ao_VNetName :: string
  ao_VNetLinkName :: string
  ao_SubnetName :: string
  ao_RequireInfrastructureEncryption :: "bool option"
  ao_AccessTier :: string
  ao_StorageEndpointSuffix :: string
  ao_IsMultichannelEnabled :: "bool option"
  ao_IsSmbOAuthEnabled :: "bool option"
  ao_IsNFSEncryptionInTransitEnabled :: "bool option"
  ao_SkipHTTPSTrafficOnlyMatch :: bool
  ao_PickRandomMatchingAccount :: bool
  ao_GetLatestAccountKey :: bool
  ao_SourceAccountName :: string

text \<open>A data-plane service client: an account with its key, or with an OAuth credential; the second string is the service URL.\<close>

datatype dp_client = KeyClient (dp_account: string) string string | OAuthClient (dp_account: string) string

text \<open>The data-plane API of the storage account, reached with a service client.\<close>

datatype share_ext =
    NewSharedKeyCredential string string
  | NewClientWithSharedKey string
  | NewClientWithOAuth string
  | DpShareCreate dp_client string int
  | DpShareDelete dp_client string
  | DpWithSnapshot dp_client string string
  | DpSnapshotDelete dp_client string string
  | DpShareGetProperties dp_client string
  | DpShareSetQuota dp_client string int
  | DpShareSetProvisioned dp_client string "int option" "int option"
  | DpCreateSnapshot dp_client string smap
  | DpListShares dp_client
  | DpDirGetProperties dp_client string string
  | DpDirCreate dp_client string string
  | DpFileCreate dp_client string string int
  | DpUploadRange dp_client string string int int
  | GetSASURL dp_client int

text \<open>The resource manager: shares (subscription, resource group, account, share).\<close>

datatype rm_ext =
    RmClientForSub string
  | RmShareCreate string string string string share_body
  | RmSnapshotCreate string string string string smap
  | RmShareDelete string string string string "string option"
  | RmShareGet string string string string
  | RmSnapshotGet string string string string string
  | RmShareUpdate string string string string share_props
  | RmShareList string string string "string option"

text \<open>The resource manager: accounts and subnets.\<close>

datatype account_ext =
    AccountClientForSub string
  | AccountProperties string string string
  | ListAccountKey string string string bool
  | AccountKeyFromToken string string string string string string
  | EnsureStorageAccount account_options string
  | AddStorageAccountTags string string string
  | RemoveStorageAccountTagCall string string string string
  | SubnetGet string string string
  | SubnetList string string
  | SubnetUpdate string string string "string list" string

datatype kube_ext =
    SecretGet string string
  | SecretCreate string string string string
  | PodGet string string
  | SubjectAccessReview string "string list" string string
  | RuntimeClassGet string
  | NodeGet string

text \<open>What the node keeps of a mount for a confidential guest (\<open>volume.MountInfo\<close> of the kata library).\<close>

record mount_info =
  mi_type :: string
  mi_device :: string
  mi_fsType :: string
  mi_sensitive :: string
  mi_options :: "string list"

datatype node_ext =
    ReadFile string
  | WriteFile string string
  | RemoveFile string
  | Glob string
  | Lstat string
  | Chmod string int
  | MkdirAll string int
  | IsLikelyNotMountPoint string
  | PathExists string
  | ListMounts
  | ReadDir string
  | Unmount string
  | Mount string string string "string list" "string list"
  | ProxyConnect
  | ProxyMount string string string "string list" "string list"
  | FormatAndMount string string string "string list"
  | CleanupMountPoint string bool
  | AuthManager "string list"
  | DirectVolumeInfo string
  | DirectVolumeAdd string mount_info
  | DirectVolumeRemove string
  | ResolveIPAddr string
  | StatFS string
  | SetOwnership string int string

datatype tool_ext =
    RunCommand string "string list"
  | AzcopyCopy string string "string list" "string list"
  | Timeout string
  | Sleep int
  | LockWait string
  | LockFree string

text \<open>A Windows node: its files, PowerShell, and the calls of the two versions of the CSI proxy service.\<close>

datatype path_context = PathContext_PLUGIN | PathContext_POD

datatype beta_ext =
    BetaMapping string string string string
  | BetaLink string string
  | BetaRmdir string path_context
  | BetaIsMountPoint string
  | BetaMkdir string path_context
  | BetaExists string

datatype win_ext =
    WLstat string
  | WReadlink string
  | WReadDir string
  | WSymlink string string
  | WMkdirAll string int
  | WRemoveAll string
  | WRemove string
  | WAttributes string
  | DiskFree string
  | PowerShell string "string list"
  | PxNewClient string
  | PxMapping string string string string
  | PxSymlink string string
  | PxRmdir string
  | PxIsSymlink string
  | PxMkdir string
  | PxExists string
  | PxBeta beta_ext

text \<open>
  COM: a call of a member of an object (\<open>None\<close>: of the library itself), a step of an enumerator, and the references to an
  object that are taken (\<open>Hold\<close>) and given back (\<open>Drop\<close>).
\<close>

datatype com_ext =
    LockOSThread
  | UnlockOSThread
  | CoInitializeEx
  | CoUninitialize
  | CoInitializeSecurity
  | ComCall "nat option" string "string list"
  | EnumNext nat
  | Hold nat
  | Drop nat

datatype ext =
    Share share_ext | Rm rm_ext | Account account_ext | Kube kube_ext | Node node_ext | Tool tool_ext
  | Win win_ext | Com com_ext

section \<open>Answers\<close>

record listed_share =
  ls_name :: "string option"
  ls_snapshot :: "string option"
  ls_time :: string
  ls_quota :: "int option"
  ls_initiator :: "string option"

record subnet =
  sn_name :: "string option"
  sn_services :: "string list"

record pod_info =
  pod_serviceAccount :: string
  pod_runtimeClass :: "string option"

record file_info =
  fi_regular :: bool
  fi_mode :: int

record volume_stats =
  vs_available :: int
  vs_capacity :: int
  vs_used :: int
  vs_inodesFree :: int
  vs_inodes :: int
  vs_inodesUsed :: int

text \<open>An OLE \<open>VARIANT\<close>: its type tag, its 64 bits as a signed number, and its text.\<close>

record variant =
  va_vt :: int
  va_val :: int
  va_text :: string

text \<open>The timed caches whose values are strings; the other three have their own fields in the state.\<close>

datatype cache =
    secretCache | accountSearchCache | skipMatchingTagCache | accountCache | dataPlaneAPIAccountCache
  | azcopySasTokenCache | resizeFileShareFailureCache | subnetCache | volStatsCache | getFileShareSizeCache

text \<open>
  The environment of one run.  \<open>fresh\<close> tells whether an entry of a timed cache has not expired yet, \<open>ord\<close>
  is the iteration order of the maps a method builds itself.
\<close>

record env =
  ans_err :: "ext list \<Rightarrow> ext \<Rightarrow> goerr option"
  ans_str :: "ext list \<Rightarrow> ext \<Rightarrow> goerr + string"
  ans_bool :: "ext list \<Rightarrow> ext \<Rightarrow> goerr + bool"
  ans_flag :: "ext list \<Rightarrow> ext \<Rightarrow> bool"
  ans_strs :: "ext list \<Rightarrow> ext \<Rightarrow> goerr + string list"
  ans_optstr :: "ext list \<Rightarrow> ext \<Rightarrow> goerr + string option"
  ans_map :: "ext list \<Rightarrow> ext \<Rightarrow> goerr + smap"
  ans_out :: "ext list \<Rightarrow> ext \<Rightarrow> string \<times> goerr option"
  ans_mnt :: "ext list \<Rightarrow> ext \<Rightarrow> bool \<times> goerr option"
  ans_share :: "ext list \<Rightarrow> ext \<Rightarrow> goerr + share_props option"
  ans_listed :: "ext list \<Rightarrow> ext \<Rightarrow> goerr + listed_share list option"
  ans_pages :: "ext list \<Rightarrow> ext \<Rightarrow> (goerr + listed_share list) list"
  ans_item :: "ext list \<Rightarrow> ext \<Rightarrow> goerr + listed_share"
  ans_account :: "ext list \<Rightarrow> ext \<Rightarrow> goerr + (string \<times> string)"
  ans_subnets :: "ext list \<Rightarrow> ext \<Rightarrow> goerr + subnet list"
  ans_pod :: "ext list \<Rightarrow> ext \<Rightarrow> goerr + pod_info"
  ans_file :: "ext list \<Rightarrow> ext \<Rightarrow> goerr + file_info"
  ans_info :: "ext list \<Rightarrow> ext \<Rightarrow> goerr + mount_info option"
  ans_stats :: "ext list \<Rightarrow> ext \<Rightarrow> goerr + volume_stats"
  ans_int :: "ext list \<Rightarrow> ext \<Rightarrow> goerr + int"
  ans_space :: "ext list \<Rightarrow> ext \<Rightarrow> goerr + int \<times> int"
  ans_dir :: "ext list \<Rightarrow> ext \<Rightarrow> goerr + (string \<times> bool) list"
  ans_variant :: "ext list \<Rightarrow> ext \<Rightarrow> goerr + variant"
  ans_next :: "ext list \<Rightarrow> ext \<Rightarrow> (goerr + nat) list"
  fresh :: "ext list \<Rightarrow> cache \<Rightarrow> string \<Rightarrow> bool"
  new_uuid :: "ext list \<Rightarrow> string"
  ord :: "smap \<Rightarrow> smap"
  cwd :: string
  sha256_hex :: "string \<Rightarrow> string"
  unmarshal_token :: "string \<Rightarrow> goerr + string"
  url_parse :: "string \<Rightarrow> url_parts option"
  parse_ip :: "string \<Rightarrow> bool"

section \<open>State\<close>

record drv =
  volumeLocks :: "string set"
  volMap :: "string \<rightharpoonup> string"
  dataPlaneAPIVolMap :: "string \<rightharpoonup> string"
  oauthTokenSHAMap :: "string \<rightharpoonup> string"
  caches :: "cache \<Rightarrow> string \<rightharpoonup> string"
  sizeCache :: "string \<rightharpoonup> int"
  statsCache :: "string \<rightharpoonup> volume_stats"
  vnetCache :: "string \<rightharpoonup> string list"
  isKataNode :: bool
  trace :: "ext list"

type_synonym 'a prog = "(drv, 'a) state"

definition get :: "(drv \<Rightarrow> 'a) \<Rightarrow> 'a prog" where
  "get f = State (\<lambda>s. (f s, s))"

definition modify :: "(drv \<Rightarrow> drv) \<Rightarrow> unit prog" where
  "modify f = State (\<lambda>s. ((), f s))"

text \<open>A call: the event is appended to the trace and the answer read from the environment.\<close>

definition call :: "(ext list \<Rightarrow> ext \<Rightarrow> 'a) \<Rightarrow> ext \<Rightarrow> 'a prog" where
  "call ans c = State (\<lambda>s. (ans (trace s) c, s\<lparr>trace := trace s @ [c]\<rparr>))"

definition note_event :: "ext \<Rightarrow> unit prog" where
  "note_event c = call (\<lambda>_ _. ()) c"

definition final :: "'a prog \<Rightarrow> drv \<Rightarrow> drv" where
  "final m s = snd (run_state m s)"

definition result :: "'a prog \<Rightarrow> drv \<Rightarrow> 'a" where
  "result m s = fst (run_state m s)"

lemma run_get [run_simps]: "run_state (get f) s = (f s, s)"
  by (simp add: get_def)

lemma run_modify [run_simps]: "run_state (modify f) s = ((), f s)"
  by (simp add: modify_def)

lemma run_call [run_simps]: "run_state (call ans c) s = (ans (trace s) c, s\<lparr>trace := trace s @ [c]\<rparr>)"
  by (simp add: call_def)

lemma run_note [run_simps]: "run_state (note_event c) s = ((), s\<lparr>trace := trace s @ [c]\<rparr>)"
  by (simp add: note_event_def run_call)

lemma run_return [run_simps]: "run_state (State_Monad.return x) s = (x, s)"
  by (simp add: State_Monad.return_def)

lemma run_bind [run_simps]:
  "run_state (State_Monad.bind m f) s = (case run_state m s of (a, t) \<Rightarrow> run_state (f a) t)"
  by (simp add: State_Monad.bind_def)

section \<open>Timed caches\<close>

definition cache_get :: "env \<Rightarrow> cache \<Rightarrow> string \<Rightarrow> string option prog" where
  "cache_get E c k = get (\<lambda>s. if fresh E (trace s) c k then caches s c k else None)"

definition cache_set :: "cache \<Rightarrow> string \<Rightarrow> string \<Rightarrow> unit prog" where
  "cache_set c k v = modify (\<lambda>s. s\<lparr>caches := (caches s)(c := (caches s c)(k \<mapsto> v))\<rparr>)"

definition cache_delete :: "cache \<Rightarrow> string \<Rightarrow> unit prog" where
  "cache_delete c k = modify (\<lambda>s. s\<lparr>caches := (caches s)(c := (caches s c)(k := None))\<rparr>)"

section \<open>Retrying\<close>

text \<open>\<open>wait.ExponentialBackoff\<close>: at most \<open>steps\<close> runs of the condition, an error or \<open>done\<close> ends it.\<close>

definition wait_timeout :: goerr where
  "wait_timeout = Errorf ''timed out waiting for the condition''"

fun ExponentialBackoff :: "nat \<Rightarrow> (bool \<times> goerr option) prog \<Rightarrow> goerr option prog" where
  "ExponentialBackoff 0 condition = State_Monad.return (Some wait_timeout)"
| "ExponentialBackoff (Suc steps) condition = do {
     (ok, err) \<leftarrow> condition;
     (if err \<noteq> None \<or> ok then State_Monad.return err else ExponentialBackoff steps condition) }"

definition sleep_if_throttled :: "goerr option \<Rightarrow> int \<Rightarrow> unit prog" where
  "sleep_if_throttled err defaultSleepSec =
     (case sleepIfThrottled err defaultSleepSec of
        None \<Rightarrow> State_Monad.return ()
      | Some n \<Rightarrow> note_event (Tool (Sleep n)))"

section \<open>Frames\<close>

text \<open>
  \<open>keeps R m\<close>: every run of \<open>m\<close> relates its first state to its last by \<open>R\<close>.  A frame is a relation the
  control structure of the programs preserves; which calls a program makes, and which parts of the state it
  leaves alone, are frames.
\<close>

definition keeps :: "(drv \<Rightarrow> drv \<Rightarrow> bool) \<Rightarrow> 'a prog \<Rightarrow> bool" where
  "keeps R m \<longleftrightarrow> (\<forall>s. R s (final m s))"

locale frame =
  fixes R :: "drv \<Rightarrow> drv \<Rightarrow> bool"
  assumes refl: "R s s"
    and trans: "R s t \<Longrightarrow> R t u \<Longrightarrow> R s u"
begin

lemma keeps_return: "keeps R (State_Monad.return x)"
  by (simp add: keeps_def final_def run_simps refl)

lemma keeps_get: "keeps R (get f)"
  by (simp add: keeps_def final_def run_simps refl)

lemma keeps_cache_get: "keeps R (cache_get E c k)"
  unfolding cache_get_def by (rule keeps_get)

lemma keeps_bind: "keeps R m \<Longrightarrow> (\<And>a. keeps R (f a)) \<Longrightarrow> keeps R (State_Monad.bind m f)"
  unfolding keeps_def final_def by (auto simp: run_simps split: prod.split) (metis trans snd_conv)

lemma keeps_backoff: "keeps R m \<Longrightarrow> keeps R (ExponentialBackoff n m)"
proof (induction n)
  case 0
  show ?case by (simp add: keeps_return)
next
  case (Suc n)
  then show ?case by (auto intro!: keeps_bind keeps_return split: prod.split)
qed

lemmas keeps_control = keeps_return keeps_get keeps_cache_get keeps_bind keeps_backoff

end

text \<open>The control structure between the calls.\<close>

context frame begin

lemma keeps_if: "keeps R m \<Longrightarrow> keeps R n \<Longrightarrow> keeps R (if b then m else n)"
  by simp

lemma keeps_let: "(\<And>x. keeps R (f x)) \<Longrightarrow> keeps R (Let v f)"
  by simp

lemma keeps_option: "keeps R m \<Longrightarrow> (\<And>x. keeps R (f x)) \<Longrightarrow> keeps R (case v of None \<Rightarrow> m | Some x \<Rightarrow> f x)"
  by (simp split: option.split)

lemma keeps_sum: "(\<And>x. keeps R (f x)) \<Longrightarrow> (\<And>x. keeps R (g x)) \<Longrightarrow> keeps R (case v of Inl x \<Rightarrow> f x | Inr x \<Rightarrow> g x)"
  by (simp split: sum.split)

lemma keeps_prod: "(\<And>x y. keeps R (f x y)) \<Longrightarrow> keeps R (case v of (x, y) \<Rightarrow> f x y)"
  by (simp split: prod.split)

lemma keeps_list: "keeps R m \<Longrightarrow> (\<And>x xs. keeps R (f x xs)) \<Longrightarrow> keeps R (case v of [] \<Rightarrow> m | x # xs \<Rightarrow> f x xs)"
  by (simp split: list.split)

lemma keeps_bool: "keeps R m \<Longrightarrow> keeps R n \<Longrightarrow> keeps R (case b of True \<Rightarrow> m | False \<Rightarrow> n)"
  by (simp split: bool.split)

lemmas keeps_cases = keeps_bool keeps_if keeps_let keeps_option keeps_sum keeps_prod keeps_list

end

text \<open>The state but for the trace is unchanged and the new events satisfy \<open>P\<close>.\<close>

definition emits :: "(ext \<Rightarrow> bool) \<Rightarrow> drv \<Rightarrow> drv \<Rightarrow> bool" where
  "emits P s t \<longleftrightarrow> (\<exists>evs. trace t = trace s @ evs \<and> list_all P evs)"

definition only_calls :: "(ext \<Rightarrow> bool) \<Rightarrow> drv \<Rightarrow> drv \<Rightarrow> bool" where
  "only_calls P s t \<longleftrightarrow> emits P s t \<and> t = s\<lparr>trace := trace t\<rparr>"

definition same_locks :: "drv \<Rightarrow> drv \<Rightarrow> bool" where
  "same_locks s t \<longleftrightarrow> volumeLocks t = volumeLocks s"

lemma emits_refl: "emits P s s"
  by (auto simp: emits_def)

lemma emits_trans: "emits P s t \<Longrightarrow> emits P t u \<Longrightarrow> emits P s u"
  unfolding emits_def by (metis append.assoc list_all_append)

interpretation em: frame "emits P" for P
  by unfold_locales (blast intro: emits_refl emits_trans)+

lemma only_calls_trans: "only_calls P s t \<Longrightarrow> only_calls P t u \<Longrightarrow> only_calls P s u"
  unfolding only_calls_def by (metis emits_trans drv.surjective drv.update_convs(10))

interpretation oc: frame "only_calls P" for P
  by unfold_locales (simp add: only_calls_def emits_refl, blast intro: only_calls_trans)

interpretation lk: frame same_locks
  by unfold_locales (auto simp: same_locks_def)

lemma keeps_emits_call: "P c \<Longrightarrow> keeps (emits P) (call ans c)"
  by (simp add: keeps_def final_def run_simps emits_def)

lemma keeps_emits_note: "P c \<Longrightarrow> keeps (emits P) (note_event c)"
  by (simp add: keeps_def final_def run_simps emits_def)

lemma keeps_emits_set: "keeps (emits P) (cache_set c k v)" "keeps (emits P) (cache_delete c k)"
  by (simp_all add: keeps_def final_def run_simps emits_def cache_set_def cache_delete_def)

lemma keeps_emits_modify: "(\<And>s. trace (f s) = trace s) \<Longrightarrow> keeps (emits P) (modify f)"
  by (simp add: keeps_def final_def run_simps emits_def)

lemma keeps_only_call: "P c \<Longrightarrow> keeps (only_calls P) (call ans c)"
  by (simp add: keeps_def final_def run_simps emits_def only_calls_def)

lemma keeps_only_note: "P c \<Longrightarrow> keeps (only_calls P) (note_event c)"
  by (simp add: keeps_def final_def run_simps emits_def only_calls_def)

lemma keeps_locks_call: "keeps same_locks (call ans c)"
  by (simp add: keeps_def final_def run_simps same_locks_def)

lemma keeps_locks_note: "keeps same_locks (note_event c)"
  by (simp add: keeps_def final_def run_simps same_locks_def)

lemma keeps_locks_set: "keeps same_locks (cache_set c k v)" "keeps same_locks (cache_delete c k)"
  by (simp_all add: keeps_def final_def run_simps same_locks_def cache_set_def cache_delete_def)

lemma keeps_locks_modify: "(\<And>s. volumeLocks (f s) = volumeLocks s) \<Longrightarrow> keeps same_locks (modify f)"
  by (simp add: keeps_def final_def run_simps same_locks_def)

lemmas keeps_emits = em.keeps_control keeps_emits_call keeps_emits_note keeps_emits_set
lemmas keeps_only = oc.keeps_control keeps_only_call keeps_only_note
lemmas keeps_locks = lk.keeps_control keeps_locks_call keeps_locks_note keeps_locks_set

lemma keeps_emits_mono: "keeps (emits P) m \<Longrightarrow> (\<And>c. P c \<Longrightarrow> Q c) \<Longrightarrow> keeps (emits Q) m"
  unfolding keeps_def emits_def by (metis list.pred_mono_strong)

lemma keeps_only_mono: "keeps (only_calls P) m \<Longrightarrow> (\<And>c. P c \<Longrightarrow> Q c) \<Longrightarrow> keeps (only_calls Q) m"
  unfolding keeps_def only_calls_def emits_def by (metis list.pred_mono_strong)

lemma keeps_only_emits: "keeps (only_calls P) m \<Longrightarrow> keeps (emits P) m"
  by (simp add: keeps_def only_calls_def)

lemma keeps_only_locks: "keeps (only_calls P) m \<Longrightarrow> keeps same_locks m"
  unfolding keeps_def only_calls_def same_locks_def by (metis drv.select_convs(1) drv.surjective drv.update_convs(10))

lemma sleep_keeps: "(\<And>n. P (Tool (Sleep n))) \<Longrightarrow> keeps (only_calls P) (sleep_if_throttled e n)"
  unfolding sleep_if_throttled_def by (auto intro: keeps_only split: option.split)

end
