(* ===== verification/FileShare.thy ===== *)
theory FileShare
  imports Driver
begin

text \<open>
  File shares: the two clients of a share (\<open>azurefile_dataplane_client.go\<close>, \<open>azurefile_mgmt_client.go\<close>)
  behind the interface \<open>azureFileClient\<close>, and the driver's methods that create, delete, resize, modify and
  inspect a share (\<open>azurefile.go\<close>).
\<close>

record share_options =
  so_Name :: string
  so_Protocol :: protocol
  so_RequestGiB :: int
  so_AccessTier :: string
  so_RootSquash :: string
  so_Metadata :: smap
  so_Bandwidth :: "int option"
  so_Iops :: "int option"

abbreviation ret :: "'a \<Rightarrow> 'a prog" where
  "ret \<equiv> State_Monad.return"

section \<open>The data-plane client\<close>

definition newAzureFileClient :: "env \<Rightarrow> string \<Rightarrow> string \<Rightarrow> string \<Rightarrow> (goerr + dp_client) prog" where
  "newAzureFileClient E accountName accountKey storageEndpointSuffix = do {
     err \<leftarrow> call (ans_err E) (Share (NewSharedKeyCredential accountName accountKey));
     (case err of
        Some e \<Rightarrow> ret (Inl (Fmterr ''error creating azure client: %v'' [err_text e]))
      | None \<Rightarrow> do {
          let serviceURL = getFileServiceURL accountName storageEndpointSuffix;
          err \<leftarrow> call (ans_err E) (Share (NewClientWithSharedKey serviceURL));
          (case err of
             Some e \<Rightarrow> ret (Inl (Fmterr ''error creating azure client: %v'' [err_text e]))
           | None \<Rightarrow> ret (Inr (KeyClient accountName accountKey serviceURL))) }) }"

definition newAzureFileClientWithOAuth :: "env \<Rightarrow> string \<Rightarrow> string \<Rightarrow> (goerr + dp_client) prog" where
  "newAzureFileClientWithOAuth E accountName storageEndpointSuffix = do {
     let serviceURL = getFileServiceURL accountName storageEndpointSuffix;
     err \<leftarrow> call (ans_err E) (Share (NewClientWithOAuth serviceURL));
     (case err of
        Some e \<Rightarrow> ret (Inl (Fmterr ''error creating azure client with oauth: %v'' [err_text e]))
      | None \<Rightarrow> ret (Inr (OAuthClient accountName serviceURL))) }"

definition dp_CreateFileShare :: "env \<Rightarrow> dp_client \<Rightarrow> share_options \<Rightarrow> goerr option prog" where
  "dp_CreateFileShare E f shareOptions =
     call (ans_err E) (Share (DpShareCreate f (so_Name shareOptions) (wrap32 (so_RequestGiB shareOptions))))"

definition dp_DeleteFileShare :: "env \<Rightarrow> dp_client \<Rightarrow> string \<Rightarrow> goerr option prog" where
  "dp_DeleteFileShare E f shareName = call (ans_err E) (Share (DpShareDelete f shareName))"

definition dp_ResizeFileShare :: "env \<Rightarrow> dp_client \<Rightarrow> string \<Rightarrow> int \<Rightarrow> goerr option prog" where
  "dp_ResizeFileShare E f shareName sizeGiB = do {
     shareProps \<leftarrow> call (ans_share E) (Share (DpShareGetProperties f shareName));
     (case shareProps of
        Inl err \<Rightarrow> ret (Some (Fmterr ''failed to set quota on file share %s, err: %v'' [shareName, err_text err]))
      | Inr props \<Rightarrow>
          (case Option.bind props sp_quota of
             None \<Rightarrow> ret (Some (panic ''nil Quota''))
           | Some quota \<Rightarrow>
               if quota \<ge> wrap32 sizeGiB then ret None
               else do {
                 err \<leftarrow> call (ans_err E) (Share (DpShareSetQuota f shareName (wrap32 sizeGiB)));
                 ret (map_option (\<lambda>e. Fmterr ''failed to set quota on file share %s, err: %v''
                                       [shareName, err_text e]) err) })) }"

definition dp_GetFileShareQuota :: "env \<Rightarrow> dp_client \<Rightarrow> string \<Rightarrow> (goerr + int) prog" where
  "dp_GetFileShareQuota E f name = do {
     shareProps \<leftarrow> call (ans_share E) (Share (DpShareGetProperties f name));
     (case shareProps of
        Inl err \<Rightarrow> ret (Inl err)
      | Inr props \<Rightarrow> ret (Inr (case Option.bind props sp_quota of None \<Rightarrow> 0 | Some q \<Rightarrow> q))) }"

definition dp_ModifyFileShare ::
    "env \<Rightarrow> dp_client \<Rightarrow> string \<Rightarrow> int option \<Rightarrow> int option \<Rightarrow> goerr option prog" where
  "dp_ModifyFileShare E f name provisionedIops provisionedBandwidthMibps = do {
     err \<leftarrow> call (ans_err E) (Share (DpShareSetProvisioned f name provisionedIops provisionedBandwidthMibps));
     ret (map_option (\<lambda>e. Fmterr ''failed to modify file share %s, err: %v'' [name, err_text e]) err) }"

section \<open>The management client\<close>

record mgmt_client =
  mc_subs :: string
  mc_rg :: string
  mc_account :: string

definition getFileShareClientForSub :: "env \<Rightarrow> config \<Rightarrow> string \<Rightarrow> goerr option prog" where
  "getFileShareClientForSub E d subscriptionID =
     (if \<not> hasClientFactory d then ret (Some (Errorf ''cloud or ComputeClientFactory is nil''))
      else call (ans_err E) (Rm (RmClientForSub subscriptionID)))"

definition newAzureFileMgmtClient :: "env \<Rightarrow> config \<Rightarrow> string \<Rightarrow> string \<Rightarrow> string \<Rightarrow> (goerr + mgmt_client) prog" where
  "newAzureFileMgmtClient E d subscriptionID resourceGroup name =
     (if \<not> hasClientFactory d then ret (Inl (Errorf ''cloud provider is not initialized''))
      else do {
        err \<leftarrow> call (ans_err E) (Rm (RmClientForSub subscriptionID));
        (case err of
           Some e \<Rightarrow> ret (Inl (Fmterr_wrap ''failed to get file share client for subscription %s: %w'' [subscriptionID] e))
         | None \<Rightarrow> ret (Inr \<lparr>mc_subs = subscriptionID, mc_rg = resourceGroup, mc_account = name\<rparr>)) })"

definition share_ops :: "share_options \<Rightarrow> share_body" where
  "share_ops shareOptions =
     \<lparr>sb_iops = so_Iops shareOptions, sb_bandwidth = so_Bandwidth shareOptions,
      sb_quota = (if so_RequestGiB shareOptions > 0 then Some (wrap32 (so_RequestGiB shareOptions)) else None),
      sb_nfs = (so_Protocol shareOptions = NFS),
      sb_tier = (if so_AccessTier shareOptions \<noteq> [] then Some (so_AccessTier shareOptions) else None),
      sb_squash = (if so_RootSquash shareOptions \<noteq> [] then Some (so_RootSquash shareOptions) else None),
      sb_metadata = so_Metadata shareOptions\<rparr>"

definition mgmt_CreateFileShare :: "env \<Rightarrow> mgmt_client \<Rightarrow> share_options \<Rightarrow> goerr option prog" where
  "mgmt_CreateFileShare E az shareOptions = do {
     err \<leftarrow> call (ans_err E) (Rm (RmShareCreate (mc_subs az) (mc_rg az) (mc_account az) (so_Name shareOptions)
                                  (share_ops shareOptions)));
     ret (map_option (Fmterr_wrap ''failed to create share %s in account %s: %w''
                       [so_Name shareOptions, mc_account az]) err) }"

definition mgmt_DeleteFileShare :: "env \<Rightarrow> mgmt_client \<Rightarrow> string \<Rightarrow> goerr option prog" where
  "mgmt_DeleteFileShare E az shareName =
     call (ans_err E) (Rm (RmShareDelete (mc_subs az) (mc_rg az) (mc_account az) shareName None))"

definition mgmt_ResizeFileShare :: "env \<Rightarrow> mgmt_client \<Rightarrow> string \<Rightarrow> int \<Rightarrow> goerr option prog" where
  "mgmt_ResizeFileShare E az name sizeGiB = do {
     fileShare \<leftarrow> call (ans_share E) (Rm (RmShareGet (mc_subs az) (mc_rg az) (mc_account az) name));
     (case fileShare of
        Inl err \<Rightarrow> ret (Some err)
      | Inr props \<Rightarrow>
          (case props of
             None \<Rightarrow> ret (Some (panic ''nil FileShareProperties''))
           | Some p \<Rightarrow>
               (case sp_quota p of
                  None \<Rightarrow> ret (Some (panic ''nil ShareQuota''))
                | Some quota \<Rightarrow>
                    if quota \<ge> sizeGiB then ret None
                    else call (ans_err E) (Rm (RmShareUpdate (mc_subs az) (mc_rg az) (mc_account az) name
                           (p\<lparr>sp_quota := Some (wrap32 sizeGiB)\<rparr>)))))) }"

definition mgmt_GetFileShareQuota :: "env \<Rightarrow> mgmt_client \<Rightarrow> string \<Rightarrow> (goerr + int) prog" where
  "mgmt_GetFileShareQuota E az name = do {
     share \<leftarrow> call (ans_share E) (Rm (RmShareGet (mc_subs az) (mc_rg az) (mc_account az) name));
     (case share of
        Inl err \<Rightarrow> ret (Inl err)
      | Inr props \<Rightarrow>
          (case Option.bind props sp_quota of
             None \<Rightarrow> ret (Inl (Errorf ''FileShareProperties or FileShareProperties.ShareQuota is nil''))
           | Some quota \<Rightarrow> ret (Inr quota))) }"

definition mgmt_ModifyFileShare ::
    "env \<Rightarrow> mgmt_client \<Rightarrow> string \<Rightarrow> int option \<Rightarrow> int option \<Rightarrow> goerr option prog" where
  "mgmt_ModifyFileShare E az name provisionedIops provisionedBandwidthMibps = do {
     fileShare \<leftarrow> call (ans_share E) (Rm (RmShareGet (mc_subs az) (mc_rg az) (mc_account az) name));
     (case fileShare of
        Inl err \<Rightarrow> ret (Some err)
      | Inr props \<Rightarrow>
          (case props of
             None \<Rightarrow> ret (Some (Fmterr ''FileShareProperties is nil for share(%s)'' [name]))
           | Some p \<Rightarrow>
               (let p = (if provisionedIops \<noteq> None then p\<lparr>sp_iops := provisionedIops\<rparr> else p);
                    p = (if provisionedBandwidthMibps \<noteq> None
                         then p\<lparr>sp_bandwidth := provisionedBandwidthMibps\<rparr> else p)
                in call (ans_err E) (Rm (RmShareUpdate (mc_subs az) (mc_rg az) (mc_account az) name p))))) }"

section \<open>The interface\<close>

datatype azureFileClient = DpClient dp_client | MgmtClient mgmt_client

fun client_CreateFileShare :: "env \<Rightarrow> azureFileClient \<Rightarrow> share_options \<Rightarrow> goerr option prog" where
  "client_CreateFileShare E (DpClient f) = dp_CreateFileShare E f"
| "client_CreateFileShare E (MgmtClient az) = mgmt_CreateFileShare E az"

fun client_GetFileShareQuota :: "env \<Rightarrow> azureFileClient \<Rightarrow> string \<Rightarrow> (goerr + int) prog" where
  "client_GetFileShareQuota E (DpClient f) = dp_GetFileShareQuota E f"
| "client_GetFileShareQuota E (MgmtClient az) = mgmt_GetFileShareQuota E az"

text \<open>
  The choice \<open>getFileShareQuota\<close> and \<open>CreateFileShare\<close> make: the account key in the secrets, the driver's
  OAuth credential, or the resource manager.
\<close>

definition select_client ::
    "env \<Rightarrow> config \<Rightarrow> account_options \<Rightarrow> smap \<Rightarrow> string \<Rightarrow> (goerr + azureFileClient) prog" where
  "select_client E d accountOptions secrets useDataPlaneAPI =
     (if secrets \<noteq> []
      then (case getStorageAccount (Some secrets) of
              Inl rerr \<Rightarrow> ret (Inl rerr)
            | Inr (accountName, accountKey) \<Rightarrow> do {
                let storageEndPointSuffix =
                  (if ao_StorageEndpointSuffix accountOptions \<noteq> [] then ao_StorageEndpointSuffix accountOptions
                   else getStorageEndPointSuffix d);
                c \<leftarrow> newAzureFileClient E accountName accountKey storageEndPointSuffix;
                ret (map_sum id DpClient c) })
      else if hasAuthProvider d \<and> EqualFold useDataPlaneAPI oauth
      then do {
        c \<leftarrow> newAzureFileClientWithOAuth E (ao_Name accountOptions) (getStorageEndPointSuffix d);
        ret (map_sum id DpClient c) }
      else do {
        c \<leftarrow> newAzureFileMgmtClient E d (ao_SubscriptionID accountOptions) (ao_ResourceGroup accountOptions)
               (ao_Name accountOptions);
        ret (map_sum id MgmtClient c) })"

text \<open>\<open>Inr (-1)\<close> means that the share does not exist.\<close>

definition getFileShareQuota ::
    "env \<Rightarrow> config \<Rightarrow> account_options \<Rightarrow> string \<Rightarrow> smap \<Rightarrow> string \<Rightarrow> (goerr + int) prog" where
  "getFileShareQuota E d accountOptions fileShareName secrets useDataPlaneAPI = do {
     fileClient \<leftarrow> select_client E d accountOptions secrets useDataPlaneAPI;
     (case fileClient of
        Inl err \<Rightarrow> ret (Inl err)
      | Inr fc \<Rightarrow> do {
          quota \<leftarrow> client_GetFileShareQuota E fc fileShareName;
          (case quota of
             Inl err \<Rightarrow> if is_not_found_response err then ret (Inr (- 1)) else ret (Inl err)
           | Inr q \<Rightarrow> ret (Inr q)) }) }"

section \<open>Creating a share\<close>

definition accountLimitExceedManagementAPI :: string where
  "accountLimitExceedManagementAPI = ''TotalSharesProvisionedCapacityExceedsAccountLimit''"
definition accountLimitExceedDataPlaneAPI :: string where
  "accountLimitExceedDataPlaneAPI = ''specified share does not exist''"
definition ShareAlreadyExists :: string where "ShareAlreadyExists = ''ShareAlreadyExists''"
definition fileShareNotFound :: string where "fileShareNotFound = ''ShareNotFound''"
definition statusCodeNotFound :: string where "statusCodeNotFound = ''StatusCode=404''"
definition httpCodeNotFound :: string where "httpCodeNotFound = [CHR ''H''] @ ''TTPStatusCode: 404''"

text \<open>One run of the closure \<open>CreateFileShare\<close> retries, after it has a client.\<close>

definition create_share_once ::
    "env \<Rightarrow> (string \<Rightarrow> (goerr + int) prog) \<Rightarrow> (share_options \<Rightarrow> goerr option prog) \<Rightarrow> share_options
      \<Rightarrow> (bool \<times> goerr option) prog" where
  "create_share_once E get_quota create shareOptions = do {
     quota \<leftarrow> get_quota (so_Name shareOptions);
     (case quota of
        Inr _ \<Rightarrow> ret (True, None)
      | Inl _ \<Rightarrow> do {
          err \<leftarrow> create shareOptions;
          (case err of
             None \<Rightarrow> ret (True, None)
           | Some e \<Rightarrow>
               if Contains (err_text e) ShareAlreadyExists then ret (True, None)
               else if isRetriableError err
               then do { sleep_if_throttled err fileOpThrottlingSleepSec; ret (False, None) }
               else ret (True, err)) }) }"

definition CreateFileShare ::
    "env \<Rightarrow> config \<Rightarrow> account_options \<Rightarrow> share_options \<Rightarrow> smap \<Rightarrow> string \<Rightarrow> goerr option prog" where
  "CreateFileShare E d accountOptions shareOptions secrets useDataPlaneAPI =
     ExponentialBackoff (getBackOff d) (do {
       fileClient \<leftarrow> select_client E d accountOptions secrets useDataPlaneAPI;
       (case fileClient of
          Inl err \<Rightarrow> ret (True, Some err)
        | Inr fc \<Rightarrow> create_share_once E (client_GetFileShareQuota E fc) (client_CreateFileShare E fc) shareOptions) })"

section \<open>Deleting, resizing and modifying a share\<close>

definition not_found_text :: "goerr \<Rightarrow> bool" where
  "not_found_text e \<longleftrightarrow> Contains (err_text e) statusCodeNotFound \<or> Contains (err_text e) httpCodeNotFound
     \<or> Contains (err_text e) fileShareNotFound"

definition delete_call ::
    "env \<Rightarrow> config \<Rightarrow> string \<Rightarrow> string \<Rightarrow> string \<Rightarrow> string \<Rightarrow> smap \<Rightarrow> string \<Rightarrow> (goerr + goerr option) prog" where
  "delete_call E d subsID resourceGroup accountName shareName secrets useDataPlaneAPI =
     (if secrets \<noteq> []
      then (case getStorageAccount (Some secrets) of
              Inl rerr \<Rightarrow> ret (Inl rerr)
            | Inr (name, key) \<Rightarrow> do {
                fileClient \<leftarrow> newAzureFileClient E name key (getStorageEndPointSuffix d);
                (case fileClient of
                   Inl rerr \<Rightarrow> ret (Inl rerr)
                 | Inr f \<Rightarrow> do { err \<leftarrow> dp_DeleteFileShare E f shareName; ret (Inr err) }) })
      else if hasAuthProvider d \<and> EqualFold useDataPlaneAPI oauth
      then do {
        fileClient \<leftarrow> newAzureFileClientWithOAuth E accountName (getStorageEndPointSuffix d);
        (case fileClient of
           Inl rerr \<Rightarrow> ret (Inl rerr)
         | Inr f \<Rightarrow> do { err \<leftarrow> dp_DeleteFileShare E f shareName; ret (Inr err) }) }
      else do {
        errGetClient \<leftarrow> getFileShareClientForSub E d subsID;
        (case errGetClient of
           Some e \<Rightarrow> ret (Inl e)
         | None \<Rightarrow> do {
             err \<leftarrow> call (ans_err E) (Rm (RmShareDelete subsID resourceGroup accountName shareName None));
             ret (Inr err) }) })"

definition delete_share_once ::
    "env \<Rightarrow> config \<Rightarrow> string \<Rightarrow> string \<Rightarrow> string \<Rightarrow> string \<Rightarrow> smap \<Rightarrow> string \<Rightarrow> (bool \<times> goerr option) prog" where
  "delete_share_once E d subsID resourceGroup accountName shareName secrets useDataPlaneAPI = do {
     r \<leftarrow> delete_call E d subsID resourceGroup accountName shareName secrets useDataPlaneAPI;
     (case r of
        Inl rerr \<Rightarrow> ret (True, Some rerr)
      | Inr err \<Rightarrow>
          if (case err of None \<Rightarrow> False | Some e \<Rightarrow> not_found_text e) then ret (True, None)
          else if isRetriableError err
          then (if isThrottlingError err
                then do { cache_set dataPlaneAPIAccountCache accountName []; ret (True, err) }
                else ret (False, None))
          else ret (True, err)) }"

definition DeleteFileShare ::
    "env \<Rightarrow> config \<Rightarrow> string \<Rightarrow> string \<Rightarrow> string \<Rightarrow> string \<Rightarrow> smap \<Rightarrow> string \<Rightarrow> goerr option prog" where
  "DeleteFileShare E d subsID resourceGroup accountName shareName secrets useDataPlaneAPI =
     ExponentialBackoff (getBackOff d)
       (delete_share_once E d subsID resourceGroup accountName shareName secrets useDataPlaneAPI)"

definition resize_call ::
    "env \<Rightarrow> config \<Rightarrow> string \<Rightarrow> string \<Rightarrow> string \<Rightarrow> string \<Rightarrow> int \<Rightarrow> smap \<Rightarrow> string \<Rightarrow> (goerr option + goerr option) prog" where
  "resize_call E d subsID resourceGroup accountName shareName sizeGiB secrets useDataPlaneAPI =
     (if secrets \<noteq> []
      then (case getStorageAccount (Some secrets) of
              Inl rerr \<Rightarrow> ret (Inl (Some rerr))
            | Inr (name, key) \<Rightarrow> do {
                fileClient \<leftarrow> newAzureFileClient E name key (getStorageEndPointSuffix d);
                (case fileClient of
                   Inl rerr \<Rightarrow> ret (Inl (Some rerr))
                 | Inr f \<Rightarrow> do { err \<leftarrow> dp_ResizeFileShare E f shareName sizeGiB; ret (Inr err) }) })
      else if hasAuthProvider d \<and> EqualFold useDataPlaneAPI oauth
      then do {
        fileClient \<leftarrow> newAzureFileClientWithOAuth E accountName (getStorageEndPointSuffix d);
        (case fileClient of
           Inl rerr \<Rightarrow> ret (Inl (Some rerr))
         | Inr f \<Rightarrow> do { err \<leftarrow> dp_ResizeFileShare E f shareName sizeGiB; ret (Inr err) }) }
      else do {
        rerr \<leftarrow> getFileShareClientForSub E d subsID;
        (case rerr of
           Some e \<Rightarrow> ret (Inl (Some e))
         | None \<Rightarrow> do {
             fileShare \<leftarrow> call (ans_share E) (Rm (RmShareGet subsID resourceGroup accountName shareName));
             (case fileShare of
                Inl e \<Rightarrow> ret (Inl (Some e))
              | Inr None \<Rightarrow> ret (Inl (Some (panic ''nil FileShareProperties'')))
              | Inr (Some p) \<Rightarrow>
                  if (case sp_quota p of None \<Rightarrow> 0 | Some q \<Rightarrow> q) \<ge> wrap32 sizeGiB then ret (Inl None)
                  else do {
                    err \<leftarrow> call (ans_err E) (Rm (RmShareUpdate subsID resourceGroup accountName shareName
                             (p\<lparr>sp_quota := Some (wrap32 sizeGiB)\<rparr>)));
                    ret (Inr err) }) }) })"

text \<open>\<open>Inl err\<close> of \<open>resize_call\<close> is an early return of \<open>(true, err)\<close>, \<open>Inr err\<close> the error the end of the closure sees.\<close>

definition retry_result :: "goerr option + goerr option \<Rightarrow> (bool \<times> goerr option) prog" where
  "retry_result r =
     (case r of
        Inl err \<Rightarrow> ret (True, err)
      | Inr err \<Rightarrow>
          if isRetriableError err
          then do { sleep_if_throttled err fileOpThrottlingSleepSec; ret (False, None) }
          else ret (True, err))"

definition ResizeFileShare ::
    "env \<Rightarrow> config \<Rightarrow> string \<Rightarrow> string \<Rightarrow> string \<Rightarrow> string \<Rightarrow> int \<Rightarrow> smap \<Rightarrow> string \<Rightarrow> goerr option prog" where
  "ResizeFileShare E d subsID resourceGroup accountName shareName sizeGiB secrets useDataPlaneAPI =
     ExponentialBackoff (getBackOff d) (do {
       r \<leftarrow> resize_call E d subsID resourceGroup accountName shareName sizeGiB secrets useDataPlaneAPI;
       retry_result r })"

definition modify_call ::
    "env \<Rightarrow> config \<Rightarrow> string \<Rightarrow> string \<Rightarrow> string \<Rightarrow> string \<Rightarrow> int option \<Rightarrow> int option \<Rightarrow> smap \<Rightarrow> string
      \<Rightarrow> (goerr option + goerr option) prog" where
  "modify_call E d subsID resourceGroup accountName shareName iops bandwidth secrets useDataPlaneAPI =
     (if secrets \<noteq> []
      then (case getStorageAccount (Some secrets) of
              Inl rerr \<Rightarrow> ret (Inl (Some rerr))
            | Inr (name, key) \<Rightarrow> do {
                fileClient \<leftarrow> newAzureFileClient E name key (getStorageEndPointSuffix d);
                (case fileClient of
                   Inl rerr \<Rightarrow> ret (Inl (Some rerr))
                 | Inr f \<Rightarrow> do { err \<leftarrow> dp_ModifyFileShare E f shareName iops bandwidth; ret (Inr err) }) })
      else if hasAuthProvider d \<and> EqualFold useDataPlaneAPI oauth
      then do {
        fileClient \<leftarrow> newAzureFileClientWithOAuth E accountName (getStorageEndPointSuffix d);
        (case fileClient of
           Inl rerr \<Rightarrow> ret (Inl (Some rerr))
         | Inr f \<Rightarrow> do { err \<leftarrow> dp_ModifyFileShare E f shareName iops bandwidth; ret (Inr err) }) }
      else do {
        mgmtClient \<leftarrow> newAzureFileMgmtClient E d subsID resourceGroup accountName;
        (case mgmtClient of
           Inl rerr \<Rightarrow> ret (Inl (Some rerr))
         | Inr az \<Rightarrow> do { err \<leftarrow> mgmt_ModifyFileShare E az shareName iops bandwidth; ret (Inr err) }) })"

definition ModifyFileShare ::
    "env \<Rightarrow> config \<Rightarrow> string \<Rightarrow> string \<Rightarrow> string \<Rightarrow> string \<Rightarrow> int option \<Rightarrow> int option \<Rightarrow> smap \<Rightarrow> string
      \<Rightarrow> goerr option prog" where
  "ModifyFileShare E d subsID resourceGroup accountName shareName iops bandwidth secrets useDataPlaneAPI =
     ExponentialBackoff (getBackOff d) (do {
       r \<leftarrow> modify_call E d subsID resourceGroup accountName shareName iops bandwidth secrets useDataPlaneAPI;
       retry_result r })"

text \<open>\<open>GetTotalAccountQuota\<close>: the sum and the number of the shares of an account; the sum wraps at 32 bits.\<close>

definition GetTotalAccountQuota :: "env \<Rightarrow> config \<Rightarrow> string \<Rightarrow> string \<Rightarrow> string \<Rightarrow> (goerr + int \<times> int) prog" where
  "GetTotalAccountQuota E d subsID resourceGroup accountName = do {
     err \<leftarrow> getFileShareClientForSub E d subsID;
     (case err of
        Some e \<Rightarrow> ret (Inl e)
      | None \<Rightarrow> do {
          fileshares \<leftarrow> call (ans_listed E) (Rm (RmShareList subsID resourceGroup accountName None));
          (case fileshares of
             Inl e \<Rightarrow> ret (Inl e)
           | Inr fs \<Rightarrow>
               (let shares = (case fs of None \<Rightarrow> [] | Some xs \<Rightarrow> xs)
                in ret (Inr (foldl (\<lambda>t s. case ls_quota s of None \<Rightarrow> t | Some q \<Rightarrow> wrap32 (t + q)) 0 shares,
                             wrap32 (int (length shares)))))) }) }"

section \<open>What the methods call\<close>

definition creates_share :: "ext \<Rightarrow> bool" where
  "creates_share c \<longleftrightarrow> (case c of Share (DpShareCreate _ _ _) \<Rightarrow> True | Rm (RmShareCreate _ _ _ _ _) \<Rightarrow> True | _ \<Rightarrow> False)"

definition deletes_share :: "ext \<Rightarrow> bool" where
  "deletes_share c \<longleftrightarrow> (case c of Share (DpShareDelete _ _) \<Rightarrow> True | Rm (RmShareDelete _ _ _ _ _) \<Rightarrow> True | _ \<Rightarrow> False)"

definition updates_share :: "ext \<Rightarrow> bool" where
  "updates_share c \<longleftrightarrow>
     (case c of Share (DpShareSetQuota _ _ _) \<Rightarrow> True | Share (DpShareSetProvisioned _ _ _ _) \<Rightarrow> True
      | Rm (RmShareUpdate _ _ _ _ _) \<Rightarrow> True | _ \<Rightarrow> False)"

definition writes_share :: "ext \<Rightarrow> bool" where
  "writes_share c \<longleftrightarrow> creates_share c \<or> deletes_share c \<or> updates_share c"

lemma write_events [simp]:
  "\<not> creates_share (Share (NewSharedKeyCredential x1_0 x1_1))"
  "\<not> deletes_share (Share (NewSharedKeyCredential x2_0 x2_1))"
  "\<not> updates_share (Share (NewSharedKeyCredential x3_0 x3_1))"
  "\<not> writes_share (Share (NewSharedKeyCredential x4_0 x4_1))"
  "\<not> creates_share (Share (NewClientWithSharedKey x5_0))"
  "\<not> deletes_share (Share (NewClientWithSharedKey x6_0))"
  "\<not> updates_share (Share (NewClientWithSharedKey x7_0))"
  "\<not> writes_share (Share (NewClientWithSharedKey x8_0))"
  "\<not> creates_share (Share (NewClientWithOAuth x9_0))"
  "\<not> deletes_share (Share (NewClientWithOAuth x10_0))"
  "\<not> updates_share (Share (NewClientWithOAuth x11_0))"
  "\<not> writes_share (Share (NewClientWithOAuth x12_0))"
  "creates_share (Share (DpShareCreate x13_0 x13_1 x13_2))"
  "\<not> deletes_share (Share (DpShareCreate x14_0 x14_1 x14_2))"
  "\<not> updates_share (Share (DpShareCreate x15_0 x15_1 x15_2))"
  "writes_share (Share (DpShareCreate x16_0 x16_1 x16_2))"
  "\<not> creates_share (Share (DpShareDelete x17_0 x17_1))"
  "deletes_share (Share (DpShareDelete x18_0 x18_1))"
  "\<not> updates_share (Share (DpShareDelete x19_0 x19_1))"
  "writes_share (Share (DpShareDelete x20_0 x20_1))"
  "\<not> creates_share (Share (DpWithSnapshot x21_0 x21_1 x21_2))"
  "\<not> deletes_share (Share (DpWithSnapshot x22_0 x22_1 x22_2))"
  "\<not> updates_share (Share (DpWithSnapshot x23_0 x23_1 x23_2))"
  "\<not> writes_share (Share (DpWithSnapshot x24_0 x24_1 x24_2))"
  "\<not> creates_share (Share (DpSnapshotDelete x25_0 x25_1 x25_2))"
  "\<not> deletes_share (Share (DpSnapshotDelete x26_0 x26_1 x26_2))"
  "\<not> updates_share (Share (DpSnapshotDelete x27_0 x27_1 x27_2))"
  "\<not> writes_share (Share (DpSnapshotDelete x28_0 x28_1 x28_2))"
  "\<not> creates_share (Share (DpShareGetProperties x29_0 x29_1))"
  "\<not> deletes_share (Share (DpShareGetProperties x30_0 x30_1))"
  "\<not> updates_share (Share (DpShareGetProperties x31_0 x31_1))"
  "\<not> writes_share (Share (DpShareGetProperties x32_0 x32_1))"
  "\<not> creates_share (Share (DpShareSetQuota x33_0 x33_1 x33_2))"
  "\<not> deletes_share (Share (DpShareSetQuota x34_0 x34_1 x34_2))"
  "updates_share (Share (DpShareSetQuota x35_0 x35_1 x35_2))"
  "writes_share (Share (DpShareSetQuota x36_0 x36_1 x36_2))"
  "\<not> creates_share (Share (DpShareSetProvisioned x37_0 x37_1 x37_2 x37_3))"
  "\<not> deletes_share (Share (DpShareSetProvisioned x38_0 x38_1 x38_2 x38_3))"
  "updates_share (Share (DpShareSetProvisioned x39_0 x39_1 x39_2 x39_3))"
  "writes_share (Share (DpShareSetProvisioned x40_0 x40_1 x40_2 x40_3))"
  "\<not> creates_share (Share (DpCreateSnapshot x41_0 x41_1 x41_2))"
  "\<not> deletes_share (Share (DpCreateSnapshot x42_0 x42_1 x42_2))"
  "\<not> updates_share (Share (DpCreateSnapshot x43_0 x43_1 x43_2))"
  "\<not> writes_share (Share (DpCreateSnapshot x44_0 x44_1 x44_2))"
  "\<not> creates_share (Share (DpListShares x45_0))"
  "\<not> deletes_share (Share (DpListShares x46_0))"
  "\<not> updates_share (Share (DpListShares x47_0))"
  "\<not> writes_share (Share (DpListShares x48_0))"
  "\<not> creates_share (Share (DpDirGetProperties x49_0 x49_1 x49_2))"
  "\<not> deletes_share (Share (DpDirGetProperties x50_0 x50_1 x50_2))"
  "\<not> updates_share (Share (DpDirGetProperties x51_0 x51_1 x51_2))"
  "\<not> writes_share (Share (DpDirGetProperties x52_0 x52_1 x52_2))"
  "\<not> creates_share (Share (DpDirCreate x53_0 x53_1 x53_2))"
  "\<not> deletes_share (Share (DpDirCreate x54_0 x54_1 x54_2))"
  "\<not> updates_share (Share (DpDirCreate x55_0 x55_1 x55_2))"
  "\<not> writes_share (Share (DpDirCreate x56_0 x56_1 x56_2))"
  "\<not> creates_share (Share (DpFileCreate x57_0 x57_1 x57_2 x57_3))"
  "\<not> deletes_share (Share (DpFileCreate x58_0 x58_1 x58_2 x58_3))"
  "\<not> updates_share (Share (DpFileCreate x59_0 x59_1 x59_2 x59_3))"
  "\<not> writes_share (Share (DpFileCreate x60_0 x60_1 x60_2 x60_3))"
  "\<not> creates_share (Share (DpUploadRange x61_0 x61_1 x61_2 x61_3 x61_4))"
  "\<not> deletes_share (Share (DpUploadRange x62_0 x62_1 x62_2 x62_3 x62_4))"
  "\<not> updates_share (Share (DpUploadRange x63_0 x63_1 x63_2 x63_3 x63_4))"
  "\<not> writes_share (Share (DpUploadRange x64_0 x64_1 x64_2 x64_3 x64_4))"
  "\<not> creates_share (Share (GetSASURL x65_0 x65_1))"
  "\<not> deletes_share (Share (GetSASURL x66_0 x66_1))"
  "\<not> updates_share (Share (GetSASURL x67_0 x67_1))"
  "\<not> writes_share (Share (GetSASURL x68_0 x68_1))"
  "\<not> creates_share (Rm (RmClientForSub x69_0))"
  "\<not> deletes_share (Rm (RmClientForSub x70_0))"
  "\<not> updates_share (Rm (RmClientForSub x71_0))"
  "\<not> writes_share (Rm (RmClientForSub x72_0))"
  "creates_share (Rm (RmShareCreate x73_0 x73_1 x73_2 x73_3 x73_4))"
  "\<not> deletes_share (Rm (RmShareCreate x74_0 x74_1 x74_2 x74_3 x74_4))"
  "\<not> updates_share (Rm (RmShareCreate x75_0 x75_1 x75_2 x75_3 x75_4))"
  "writes_share (Rm (RmShareCreate x76_0 x76_1 x76_2 x76_3 x76_4))"
  "\<not> creates_share (Rm (RmSnapshotCreate x77_0 x77_1 x77_2 x77_3 x77_4))"
  "\<not> deletes_share (Rm (RmSnapshotCreate x78_0 x78_1 x78_2 x78_3 x78_4))"
  "\<not> updates_share (Rm (RmSnapshotCreate x79_0 x79_1 x79_2 x79_3 x79_4))"
  "\<not> writes_share (Rm (RmSnapshotCreate x80_0 x80_1 x80_2 x80_3 x80_4))"
  "\<not> creates_share (Rm (RmShareDelete x81_0 x81_1 x81_2 x81_3 x81_4))"
  "deletes_share (Rm (RmShareDelete x82_0 x82_1 x82_2 x82_3 x82_4))"
  "\<not> updates_share (Rm (RmShareDelete x83_0 x83_1 x83_2 x83_3 x83_4))"
  "writes_share (Rm (RmShareDelete x84_0 x84_1 x84_2 x84_3 x84_4))"
  "\<not> creates_share (Rm (RmShareGet x85_0 x85_1 x85_2 x85_3))"
  "\<not> deletes_share (Rm (RmShareGet x86_0 x86_1 x86_2 x86_3))"
  "\<not> updates_share (Rm (RmShareGet x87_0 x87_1 x87_2 x87_3))"
  "\<not> writes_share (Rm (RmShareGet x88_0 x88_1 x88_2 x88_3))"
  "\<not> creates_share (Rm (RmSnapshotGet x89_0 x89_1 x89_2 x89_3 x89_4))"
  "\<not> deletes_share (Rm (RmSnapshotGet x90_0 x90_1 x90_2 x90_3 x90_4))"
  "\<not> updates_share (Rm (RmSnapshotGet x91_0 x91_1 x91_2 x91_3 x91_4))"
  "\<not> writes_share (Rm (RmSnapshotGet x92_0 x92_1 x92_2 x92_3 x92_4))"
  "\<not> creates_share (Rm (RmShareUpdate x93_0 x93_1 x93_2 x93_3 x93_4))"
  "\<not> deletes_share (Rm (RmShareUpdate x94_0 x94_1 x94_2 x94_3 x94_4))"
  "updates_share (Rm (RmShareUpdate x95_0 x95_1 x95_2 x95_3 x95_4))"
  "writes_share (Rm (RmShareUpdate x96_0 x96_1 x96_2 x96_3 x96_4))"
  "\<not> creates_share (Rm (RmShareList x97_0 x97_1 x97_2 x97_3))"
  "\<not> deletes_share (Rm (RmShareList x98_0 x98_1 x98_2 x98_3))"
  "\<not> updates_share (Rm (RmShareList x99_0 x99_1 x99_2 x99_3))"
  "\<not> writes_share (Rm (RmShareList x100_0 x100_1 x100_2 x100_3))"
  "\<not> creates_share (Tool yTool)"
  "\<not> deletes_share (Tool yTool)"
  "\<not> updates_share (Tool yTool)"
  "\<not> writes_share (Tool yTool)"
  "\<not> creates_share (Node yNode)"
  "\<not> deletes_share (Node yNode)"
  "\<not> updates_share (Node yNode)"
  "\<not> writes_share (Node yNode)"
  "\<not> creates_share (Kube yKube)"
  "\<not> deletes_share (Kube yKube)"
  "\<not> updates_share (Kube yKube)"
  "\<not> writes_share (Kube yKube)"
  "\<not> creates_share (Account yAccount)"
  "\<not> deletes_share (Account yAccount)"
  "\<not> updates_share (Account yAccount)"
  "\<not> writes_share (Account yAccount)"
  by (simp_all add: creates_share_def deletes_share_def updates_share_def writes_share_def)

text \<open>The clients are built without touching a share.\<close>

lemma newAzureFileClient_reads: "keeps (only_calls (\<lambda>c. \<not> writes_share c)) (newAzureFileClient E a k s)"
  unfolding newAzureFileClient_def Let_def
  by (intro keeps_only) (auto intro!: keeps_only split: option.split)

lemma newAzureFileClientWithOAuth_reads:
  "keeps (only_calls (\<lambda>c. \<not> writes_share c)) (newAzureFileClientWithOAuth E a s)"
  unfolding newAzureFileClientWithOAuth_def Let_def
  by (intro keeps_only) (auto intro!: keeps_only split: option.split)

lemma newAzureFileMgmtClient_reads:
  "keeps (only_calls (\<lambda>c. \<not> writes_share c)) (newAzureFileMgmtClient E d subs rg n)"
  unfolding newAzureFileMgmtClient_def
  by (auto intro!: keeps_only split: option.split)

lemma getFileShareClientForSub_reads:
  "keeps (only_calls (\<lambda>c. \<not> writes_share c)) (getFileShareClientForSub E d subs)"
  unfolding getFileShareClientForSub_def by (auto intro!: keeps_only)

lemmas client_reads = newAzureFileClient_reads newAzureFileClientWithOAuth_reads
  newAzureFileMgmtClient_reads getFileShareClientForSub_reads

lemma select_client_reads: "keeps (only_calls (\<lambda>c. \<not> writes_share c)) (select_client E d ao secrets u)"
  unfolding select_client_def Let_def
  by (auto intro!: keeps_only client_reads split: sum.split prod.split)

lemma client_GetFileShareQuota_reads:
  "keeps (only_calls (\<lambda>c. \<not> writes_share c)) (client_GetFileShareQuota E fc n)"
  by (cases fc) (auto intro!: keeps_only simp: dp_GetFileShareQuota_def mgmt_GetFileShareQuota_def
      split: sum.split option.split)

lemma getFileShareQuota_reads: "keeps (only_calls (\<lambda>c. \<not> writes_share c)) (getFileShareQuota E d ao n secrets u)"
  unfolding getFileShareQuota_def
  by (auto intro!: keeps_only select_client_reads client_GetFileShareQuota_reads split: sum.split)

text \<open>
  The contract of \<open>azureFileClient\<close> that creating a share rests on: asking for the quota writes nothing,
  and creating changes nothing of the driver but the trace.
\<close>

locale share_client =
  fixes get_quota :: "string \<Rightarrow> (goerr + int) prog"
    and create :: "share_options \<Rightarrow> goerr option prog"
  assumes quota_reads: "keeps (only_calls (\<lambda>c. \<not> writes_share c)) (get_quota n)"
    and create_only: "keeps (only_calls (\<lambda>c. writes_share c \<longrightarrow> creates_share c)) (create so)"
begin

lemma once_only_creates:
  "keeps (only_calls (\<lambda>c. writes_share c \<longrightarrow> creates_share c)) (create_share_once E get_quota create so)"
proof -
  have q: "keeps (only_calls (\<lambda>c. writes_share c \<longrightarrow> creates_share c)) (get_quota n)" for n
    by (rule keeps_only_mono [OF quota_reads]) simp
  show ?thesis unfolding create_share_once_def
    by (auto intro!: keeps_only q create_only sleep_keeps split: sum.split option.split)
qed

lemma once_existing:
  assumes "result (get_quota (so_Name so)) s = Inr q"
  shows "result (create_share_once E get_quota create so) s = (True, None)"
    and "final (create_share_once E get_quota create so) s = final (get_quota (so_Name so)) s"
  using assms by (auto simp: create_share_once_def result_def final_def run_simps split: prod.splits)

lemma once_existing_reads:
  "result (get_quota (so_Name so)) s = Inr q \<Longrightarrow>
   only_calls (\<lambda>c. \<not> writes_share c) s (final (create_share_once E get_quota create so) s)"
  using quota_reads [of "so_Name so"] by (simp add: once_existing keeps_def)

end

interpretation dp: share_client "dp_GetFileShareQuota E f" "dp_CreateFileShare E f" for E f
  by unfold_locales
    (auto intro!: keeps_only simp: dp_GetFileShareQuota_def dp_CreateFileShare_def split: sum.split)

interpretation mgmt: share_client "mgmt_GetFileShareQuota E az" "mgmt_CreateFileShare E az" for E az
  by unfold_locales
    (auto intro!: keeps_only simp: mgmt_GetFileShareQuota_def mgmt_CreateFileShare_def
      split: sum.split option.split)

interpretation cl: share_client "client_GetFileShareQuota E fc" "client_CreateFileShare E fc" for E fc
  by (cases fc) (simp_all add: dp.share_client_axioms mgmt.share_client_axioms)

lemma CreateFileShare_only_creates:
  "keeps (only_calls (\<lambda>c. writes_share c \<longrightarrow> creates_share c)) (CreateFileShare E d ao so secrets u)"
proof -
  have s: "keeps (only_calls (\<lambda>c. writes_share c \<longrightarrow> creates_share c)) (select_client E d ao secrets u)"
    by (rule keeps_only_mono [OF select_client_reads]) simp
  show ?thesis unfolding CreateFileShare_def
    by (auto intro!: keeps_only s cl.once_only_creates split: sum.split)
qed

section \<open>How often the methods call\<close>

definition at_most :: "nat \<Rightarrow> (ext \<Rightarrow> bool) \<Rightarrow> 'a prog \<Rightarrow> bool" where
  "at_most n P m \<longleftrightarrow> (\<forall>s. \<exists>evs. trace (final m s) = trace s @ evs \<and> length (filter P evs) \<le> n)"

lemma at_most_zero: "keeps (emits (\<lambda>c. \<not> P c)) m \<Longrightarrow> at_most 0 P m"
  unfolding keeps_def emits_def at_most_def by (metis filter_False le_zero_eq list.size(3) list_all_iff)

lemma at_most_call: "at_most (Suc 0) P (call ans c)"
  by (auto simp: at_most_def final_def run_simps)

lemma at_most_bind:
  assumes "at_most i P m" "\<And>a. at_most j P (f a)" "i + j \<le> n"
  shows "at_most n P (State_Monad.bind m f)"
  unfolding at_most_def
proof
  fix s
  obtain a t where m: "run_state m s = (a, t)" by (cases "run_state m s")
  from assms(1) obtain e1 where e1: "trace t = trace s @ e1" "length (filter P e1) \<le> i"
    unfolding at_most_def final_def by (metis m snd_conv)
  from assms(2) obtain e2 where e2: "trace (final (f a) t) = trace t @ e2" "length (filter P e2) \<le> j"
    unfolding at_most_def by blast
  have "final (State_Monad.bind m f) s = final (f a) t"
    by (simp add: final_def run_simps m)
  with e1 e2 assms(3) show "\<exists>evs. trace (final (State_Monad.bind m f) s) = trace s @ evs \<and> length (filter P evs) \<le> n"
    by (intro exI [of _ "e1 @ e2"]) simp
qed

lemma at_most_return: "at_most n P (ret x)"
  by (auto simp: at_most_def final_def run_simps)

lemma at_most_mono: "at_most i P m \<Longrightarrow> i \<le> n \<Longrightarrow> at_most n P m"
  unfolding at_most_def by (meson le_trans)

lemma at_most_backoff: "at_most i P m \<Longrightarrow> at_most (k * i) P (ExponentialBackoff k m)"
proof (induction k)
  case 0
  show ?case by (simp add: at_most_return)
next
  case (Suc k)
  then have "at_most (k * i) P (if c then ret err else ExponentialBackoff k m)" for c err
    by (simp add: at_most_return)
  then show ?case using Suc.prems
    by (auto intro!: at_most_bind [of i _ _ "k * i"] split: prod.split)
qed

lemma only_zero: "keeps (only_calls (\<lambda>c. \<not> writes_share c)) m \<Longrightarrow> (\<And>c. P c \<Longrightarrow> writes_share c) \<Longrightarrow> at_most 0 P m"
  by (rule at_most_zero) (blast intro: keeps_only_emits keeps_only_mono)

lemma creates_writes: "creates_share c \<Longrightarrow> writes_share c" "deletes_share c \<Longrightarrow> writes_share c"
  "updates_share c \<Longrightarrow> writes_share c"
  by (simp_all add: writes_share_def)

lemma client_CreateFileShare_one: "at_most (Suc 0) P (client_CreateFileShare E fc so)"
  by (cases fc) (auto simp: dp_CreateFileShare_def mgmt_CreateFileShare_def
      intro!: at_most_call at_most_bind [of "Suc 0" _ _ 0] at_most_return)

lemma sleep_zero: "(\<And>n. \<not> P (Tool (Sleep n))) \<Longrightarrow> at_most 0 P (sleep_if_throttled e n)"
  by (rule at_most_zero, rule keeps_only_emits, rule sleep_keeps)

lemma create_share_once_one:
  "at_most (Suc 0) creates_share (create_share_once E (client_GetFileShareQuota E fc) (client_CreateFileShare E fc) so)"
proof -
  have q: "at_most 0 creates_share (client_GetFileShareQuota E fc n)" for n
    by (rule only_zero [OF client_GetFileShareQuota_reads]) (rule creates_writes)
  have r: "at_most 0 creates_share (case err of None \<Rightarrow> ret (True, None)
       | Some e \<Rightarrow> if Contains (err_text e) ShareAlreadyExists then ret (True, None)
           else if isRetriableError err
           then do { sleep_if_throttled err fileOpThrottlingSleepSec; ret (False, None) }
           else ret (True, err))" for err
    by (auto split: option.split intro!: at_most_return at_most_bind [of 0 _ _ 0] sleep_zero)
  show ?thesis unfolding create_share_once_def
    by (intro at_most_bind [OF q, of "Suc 0"])
      (auto split: sum.split intro!: at_most_return at_most_bind [OF client_CreateFileShare_one r])
qed

lemma CreateFileShare_bound: "at_most (getBackOff d) creates_share (CreateFileShare E d ao so secrets u)"
proof -
  have c: "at_most 0 creates_share (select_client E d ao secrets u)"
    by (rule only_zero [OF select_client_reads]) (rule creates_writes)
  have "at_most (Suc 0) creates_share (do {
       fileClient \<leftarrow> select_client E d ao secrets u;
       (case fileClient of
          Inl err \<Rightarrow> ret (True, Some err)
        | Inr fc \<Rightarrow> create_share_once E (client_GetFileShareQuota E fc) (client_CreateFileShare E fc) so) })"
    by (intro at_most_bind [OF c, of "Suc 0"])
      (auto split: sum.split intro!: at_most_return create_share_once_one)
  from at_most_backoff [OF this, of "getBackOff d"] show ?thesis by (simp add: CreateFileShare_def)
qed

section \<open>An existing share\<close>

definition share_exists_answers :: "env \<Rightarrow> bool" where
  "share_exists_answers E \<longleftrightarrow>
     (\<forall>tr c n. \<exists>p. ans_share E tr (Share (DpShareGetProperties c n)) = Inr p)
   \<and> (\<forall>tr su rg a n. \<exists>p q. ans_share E tr (Rm (RmShareGet su rg a n)) = Inr (Some p) \<and> sp_quota p = Some q)"

lemma quota_of_existing:
  assumes "share_exists_answers E"
  shows "\<exists>q. result (client_GetFileShareQuota E fc n) s = Inr q"
proof (cases fc)
  case (DpClient c)
  from assms obtain p where "ans_share E (trace s) (Share (DpShareGetProperties c n)) = Inr p"
    unfolding share_exists_answers_def by blast
  with DpClient show ?thesis by (simp add: result_def dp_GetFileShareQuota_def run_simps)
next
  case (MgmtClient az)
  from assms obtain p q
    where "ans_share E (trace s) (Rm (RmShareGet (mc_subs az) (mc_rg az) (mc_account az) n)) = Inr (Some p)"
      "sp_quota p = Some q"
    unfolding share_exists_answers_def by blast
  with MgmtClient show ?thesis by (simp add: result_def mgmt_GetFileShareQuota_def run_simps)
qed

lemma CreateFileShare_existing:
  assumes "share_exists_answers E"
  shows "keeps (only_calls (\<lambda>c. \<not> writes_share c)) (CreateFileShare E d ao so secrets u)"
proof -
  have "keeps (only_calls (\<lambda>c. \<not> writes_share c))
     (create_share_once E (client_GetFileShareQuota E fc) (client_CreateFileShare E fc) so)" for fc
    unfolding keeps_def using quota_of_existing [OF assms] by (metis cl.once_existing_reads)
  then show ?thesis unfolding CreateFileShare_def
    by (auto intro!: keeps_only select_client_reads split: sum.split)
qed

section \<open>Resizing only grows\<close>

definition quota_of :: "share_props \<Rightarrow> int" where
  "quota_of p = (case sp_quota p of None \<Rightarrow> 0 | Some q \<Rightarrow> q)"

text \<open>An update of a quota comes right after a read of the same share that answered a smaller one.\<close>

definition grows :: "env \<Rightarrow> ext list \<Rightarrow> ext \<Rightarrow> bool" where
  "grows E tr c \<longleftrightarrow>
     (case c of
        Rm (RmShareUpdate su rg a n p) \<Rightarrow>
          (\<exists>tr0 p0. tr = tr0 @ [Rm (RmShareGet su rg a n)]
             \<and> ans_share E tr0 (Rm (RmShareGet su rg a n)) = Inr (Some p0) \<and> quota_of p0 < quota_of p)
      | Share (DpShareSetQuota f n q) \<Rightarrow>
          (\<exists>tr0 p0. tr = tr0 @ [Share (DpShareGetProperties f n)]
             \<and> ans_share E tr0 (Share (DpShareGetProperties f n)) = Inr (Some p0) \<and> quota_of p0 < q)
      | _ \<Rightarrow> True)"

definition growing :: "env \<Rightarrow> ext list \<Rightarrow> bool" where
  "growing E tr \<longleftrightarrow> (\<forall>pre c post. tr = pre @ c # post \<longrightarrow> grows E pre c)"

definition keeps_growing :: "env \<Rightarrow> drv \<Rightarrow> drv \<Rightarrow> bool" where
  "keeps_growing E s t \<longleftrightarrow> (growing E (trace s) \<longrightarrow> growing E (trace t))"

lemma growing_Nil: "growing E []"
  by (simp add: growing_def)

lemma growing_snoc: "growing E (tr @ [c]) \<longleftrightarrow> growing E tr \<and> grows E tr c"
proof
  assume g: "growing E (tr @ [c])"
  then have "grows E tr c" by (simp add: growing_def)
  moreover have "growing E tr" unfolding growing_def
  proof (intro allI impI)
    fix pre d post
    assume "tr = pre @ d # post"
    then have "tr @ [c] = pre @ d # (post @ [c])" by simp
    with g show "grows E pre d" unfolding growing_def by blast
  qed
  ultimately show "growing E tr \<and> grows E tr c" by blast
next
  assume "growing E tr \<and> grows E tr c"
  then show "growing E (tr @ [c])"
    unfolding growing_def by (auto simp: append_eq_append_conv2 append_eq_Cons_conv Cons_eq_append_conv)
qed

lemma growing_snoc2: "growing E (tr @ [c, d]) \<longleftrightarrow> growing E tr \<and> grows E tr c \<and> grows E (tr @ [c]) d"
  using growing_snoc [of E "tr @ [c]" d] by (simp add: growing_snoc)

interpretation gr: frame "keeps_growing E" for E
  by unfold_locales (simp_all add: keeps_growing_def)

lemma keeps_growing_call: "(\<And>tr. grows E tr c) \<Longrightarrow> keeps (keeps_growing E) (call ans c)"
  by (simp add: keeps_def keeps_growing_def final_def run_simps growing_snoc)

lemma grows_reads: "\<not> updates_share c \<Longrightarrow> grows E tr c"
  by (auto simp: grows_def updates_share_def split: ext.split share_ext.split rm_ext.split)

lemma only_growing:
  assumes "keeps (only_calls (\<lambda>c. \<not> writes_share c)) m"
  shows "keeps (keeps_growing E) m"
proof -
  have "growing E (tr @ evs)" if "growing E tr" "list_all (\<lambda>c. \<not> writes_share c) evs" for tr evs
    using that
  proof (induction evs rule: rev_induct)
    case (snoc c evs)
    then have "\<not> updates_share c" by (auto simp: writes_share_def)
    with snoc show ?case by (simp add: growing_snoc grows_reads flip: append_assoc)
  qed simp
  with assms show ?thesis
    unfolding keeps_def only_calls_def emits_def keeps_growing_def by metis
qed

lemma dp_ResizeFileShare_grows: "keeps (keeps_growing E) (dp_ResizeFileShare E f n sz)"
proof -
  have "grows E (tr @ [Share (DpShareGetProperties f n)]) (Share (DpShareSetQuota f n q))"
    if "ans_share E tr (Share (DpShareGetProperties f n)) = Inr (Some p)" "sp_quota p = Some q0" "\<not> q \<le> q0"
    for tr p q0 q
    using that by (auto simp: grows_def quota_of_def)
  then show ?thesis
    by (auto simp: keeps_def keeps_growing_def final_def dp_ResizeFileShare_def run_simps growing_snoc
        growing_snoc2 grows_reads
        split: sum.split option.split prod.split bind_splits)
qed

lemma RmShareGet_grows:
  "ans_share E tr (Rm (RmShareGet su rg a n)) = Inr (Some p) \<Longrightarrow> \<not> q \<le> quota_of p \<Longrightarrow>
   grows E (tr @ [Rm (RmShareGet su rg a n)]) (Rm (RmShareUpdate su rg a n (p\<lparr>sp_quota := Some q\<rparr>)))"
  by (auto simp: grows_def quota_of_def)

lemma sleep_growing: "keeps (keeps_growing E) (sleep_if_throttled e n)"
  by (rule only_growing, rule sleep_keeps) simp

lemma retry_result_growing: "keeps (keeps_growing E) (retry_result r)"
  unfolding retry_result_def
  by (auto intro!: gr.keeps_control sleep_growing split: sum.split)

lemma resize_call_grows: "keeps (keeps_growing E) (resize_call E d su rg a n sz secrets u)"
proof -
  have rm: "keeps (keeps_growing E) (do {
      fileShare \<leftarrow> call (ans_share E) (Rm (RmShareGet su rg a n));
      (case fileShare of
         Inl e \<Rightarrow> ret (Inl (Some e))
       | Inr None \<Rightarrow> ret (Inl (Some (panic ''nil FileShareProperties'')))
       | Inr (Some p) \<Rightarrow>
           if (case sp_quota p of None \<Rightarrow> 0 | Some q \<Rightarrow> q) \<ge> wrap32 sz then ret (Inl None)
           else do {
             err \<leftarrow> call (ans_err E) (Rm (RmShareUpdate su rg a n (p\<lparr>sp_quota := Some (wrap32 sz)\<rparr>)));
             ret (Inr err) }) })"
    by (auto simp: keeps_def keeps_growing_def final_def run_simps growing_snoc growing_snoc2 grows_reads
        RmShareGet_grows
        simp flip: quota_of_def split: sum.split option.split)
  show ?thesis unfolding resize_call_def
    by (auto intro!: gr.keeps_bind gr.keeps_return rm dp_ResizeFileShare_grows only_growing [OF client_reads(1)]
        only_growing [OF client_reads(2)] only_growing [OF client_reads(4)] split: sum.split prod.split option.split)
qed

lemma ResizeFileShare_grows: "keeps (keeps_growing E) (ResizeFileShare E d su rg a n sz secrets u)"
  unfolding ResizeFileShare_def
  by (intro gr.keeps_control resize_call_grows retry_result_growing)

section \<open>Deleting\<close>

lemma getBackOff_Suc: "\<exists>k. getBackOff d = Suc k"
  using getBackOff_pos [of d] by (cases "getBackOff d") auto

lemma DeleteFileShare_not_found:
  assumes "result (delete_call E d su rg a n secrets u) s = Inr (Some e)" "not_found_text e"
  shows "result (DeleteFileShare E d su rg a n secrets u) s = None"
  using assms getBackOff_Suc [of d]
  by (auto simp: DeleteFileShare_def delete_share_once_def result_def run_simps split: prod.splits)

lemma DeleteFileShare_throttled:
  assumes "result (delete_call E d su rg a n secrets u) s = Inr (Some e)" "\<not> not_found_text e"
    "isThrottlingError (Some e)"
  shows "result (DeleteFileShare E d su rg a n secrets u) s = Some e"
    and "caches (final (DeleteFileShare E d su rg a n secrets u) s) dataPlaneAPIAccountCache a = Some []"
    and "dataPlaneAPIVolMap (final (DeleteFileShare E d su rg a n secrets u) s)
      = dataPlaneAPIVolMap (final (delete_call E d su rg a n secrets u) s)"
  using assms getBackOff_Suc [of d] isThrottling_isRetriable [of "Some e"]
  by (auto simp: DeleteFileShare_def delete_share_once_def result_def final_def run_simps cache_set_def
      split: prod.splits)

lemma dp_DeleteFileShare_only: "(\<And>f n. P (Share (DpShareDelete f n))) \<Longrightarrow> keeps (only_calls P) (dp_DeleteFileShare E f n)"
  unfolding dp_DeleteFileShare_def by (intro keeps_only)

lemma delete_call_only: "keeps (only_calls (\<lambda>c. writes_share c \<longrightarrow> deletes_share c)) (delete_call E d su rg a n secrets u)"
  unfolding delete_call_def
  by (auto intro!: keeps_only dp_DeleteFileShare_only keeps_only_mono [OF client_reads(1)]
      keeps_only_mono [OF client_reads(2)] keeps_only_mono [OF client_reads(4)]
      split: sum.split prod.split option.split)

section \<open>The data-plane API by volume\<close>

definition useDataPlaneAPI :: "env \<Rightarrow> string \<Rightarrow> string \<Rightarrow> string prog" where
  "useDataPlaneAPI E volumeID accountName = do {
     v \<leftarrow> get (\<lambda>s. dataPlaneAPIVolMap s volumeID);
     (case v of
        Some v \<Rightarrow> ret v
      | None \<Rightarrow> do {
          cache \<leftarrow> cache_get E dataPlaneAPIAccountCache accountName;
          (case cache of Some v \<Rightarrow> ret v | None \<Rightarrow> ret []) }) }"

text \<open>Every value the driver stores in \<open>dataPlaneAPIAccountCache\<close> is the empty string.\<close>

definition only_empty_marks :: "drv \<Rightarrow> bool" where
  "only_empty_marks s \<longleftrightarrow> (\<forall>a v. caches s dataPlaneAPIAccountCache a = Some v \<longrightarrow> v = [])"

lemma useDataPlaneAPI_mark:
  "only_empty_marks s \<Longrightarrow>
   result (useDataPlaneAPI E v a) s = (case dataPlaneAPIVolMap s v of None \<Rightarrow> [] | Some u \<Rightarrow> u)"
  by (auto simp: useDataPlaneAPI_def only_empty_marks_def result_def run_simps cache_get_def split: option.split)

lemma useDataPlaneAPI_state: "final (useDataPlaneAPI E v a) s = s"
  by (simp add: useDataPlaneAPI_def final_def run_simps cache_get_def split: option.split)

section \<open>Properties\<close>

text \<open>A concrete configuration and environment for the witnesses: every call succeeds, shares exist with 100 GiB.\<close>

definition sample_config :: config where
  "sample_config =
     \<lparr>cfg_Name = ''file.csi.azure.com'', cfg_NodeID = ''node'', enableAzurefileProxy = False,
      cfg_fsGroupChangePolicy = [], allowInlineVolumeKeyAccessWithIdentity = False, inlineVolumeSecretAuthz = [],
      enableVHDDiskFeature = True, enableGetVolumeStats = True, enableVolumeMountGroup = True,
      appendMountErrorHelpLink = False, cfg_mountPermissions = 511, appendClosetimeoOption = False,
      appendNoShareSockOption = False, appendNoResvPortOption = False, appendActimeoOption = False,
      enableKataCCMount = False, useAZNFSForNFSMounts = False, sasTokenExpirationMinutes = 180,
      waitForAzCopyTimeoutMinutes = 5, requiredAzCopyToTrust = False, hasKubeClient = True, hasClientFactory = True,
      hasAuthProvider = False, hasNetworkFactory = True, hasSubnetClient = True, cloud_ResourceGroup = ''rg'',
      cloud_SubscriptionID = ''46678f10-4bbb-447e-98e8-d2829589f2d8'', cloud_NetworkSubscriptionID = [],
      cloud_TenantID = ''tenant'', cloud_Location = ''eastus'', cloud_VnetResourceGroup = [], cloud_VnetName = ''vnet'',
      cloud_SubnetName = ''subnet'', cloud_StorageEndpointSuffix = [], cloud_ActiveDirectoryEndpoint = [],
      cloud_StorageResource = [], cloud_BackoffRetries = 3, cloud_UseManagedIdentity = True,
      cloud_UserAssignedIdentityID = [], cloud_AADClientID = [], cloud_AADClientSecret = []\<rparr>"

definition sample_props :: share_props where
  "sample_props = \<lparr>sp_quota = Some 100, sp_iops = None, sp_bandwidth = None\<rparr>"

definition sample_env :: "(ext list \<Rightarrow> ext \<Rightarrow> goerr option) \<Rightarrow> env" where
  "sample_env err =
     \<lparr>ans_err = err, ans_str = (\<lambda>_ _. Inr ''key''), ans_bool = (\<lambda>_ _. Inr True), ans_flag = (\<lambda>_ _. False),
      ans_strs = (\<lambda>_ _. Inr []), ans_optstr = (\<lambda>_ _. Inr None),
      ans_map = (\<lambda>_ _. Inr (createStorageAccountSecret ''acc'' ''key'')), ans_out = (\<lambda>_ _. ([], None)),
      ans_mnt = (\<lambda>_ _. (True, None)), ans_share = (\<lambda>_ _. Inr (Some sample_props)),
      ans_listed = (\<lambda>_ _. Inr None), ans_pages = (\<lambda>_ _. []),
      ans_item = (\<lambda>_ _. Inl (Errorf ''no item'')), ans_account = (\<lambda>_ _. Inr (''acc'', ''key'')),
      ans_subnets = (\<lambda>_ _. Inr []), ans_pod = (\<lambda>_ _. Inr \<lparr>pod_serviceAccount = [], pod_runtimeClass = None\<rparr>),
      ans_file = (\<lambda>_ _. Inr \<lparr>fi_regular = True, fi_mode = 511\<rparr>),
      ans_info = (\<lambda>_ _. Inr None),
      ans_stats = (\<lambda>_ _. Inr \<lparr>vs_available = 1, vs_capacity = 2, vs_used = 1, vs_inodesFree = 1, vs_inodes = 2, vs_inodesUsed = 1\<rparr>),
      ans_int = (\<lambda>_ _. Inr 0), ans_space = (\<lambda>_ _. Inr (2, 1)), ans_dir = (\<lambda>_ _. Inr []),
      ans_variant = (\<lambda>_ _. Inr \<lparr>va_vt = 0, va_val = 0, va_text = []\<rparr>), ans_next = (\<lambda>_ _. []),
      fresh = (\<lambda>_ _ _. True), new_uuid = (\<lambda>_. ''46678f10-4bbb-447e-98e8-d2829589f2d8''), ord = id,
      cwd = ''/'', sha256_hex = id, unmarshal_token = Inr, url_parse = plain_url, parse_ip = (\<lambda>_. False)\<rparr>"

definition no_error :: "ext list \<Rightarrow> ext \<Rightarrow> goerr option" where
  "no_error tr c = None"

definition initial_state :: drv where
  "initial_state =
     \<lparr>volumeLocks = newVolumeLocks, volMap = Map.empty, dataPlaneAPIVolMap = Map.empty, oauthTokenSHAMap = Map.empty,
      caches = (\<lambda>_. Map.empty), sizeCache = Map.empty, statsCache = Map.empty, vnetCache = Map.empty,
      isKataNode = False, trace = []\<rparr>"

lemma sample_share_exists: "share_exists_answers (sample_env err)"
  by (simp add: share_exists_answers_def sample_env_def sample_props_def)

text \<open>Creating a share that exists only reads: no request that creates, deletes or changes a share is made and nothing
  of the driver's state changes.\<close>

theorem create_existing_share_reads_only:
  assumes "share_exists_answers E"
  shows "only_calls (\<lambda>c. \<not> writes_share c) s (final (CreateFileShare E d ao so secrets u) s)"
  using CreateFileShare_existing [OF assms] by (simp add: keeps_def)

theorem create_existing_share_reads_only_witness:
  "\<forall>ao so. only_calls (\<lambda>c. \<not> writes_share c) initial_state
     (final (CreateFileShare (sample_env no_error) sample_config ao so [] []) initial_state)"
  by (intro allI create_existing_share_reads_only sample_share_exists)

text \<open>C38: one call of \<open>CreateFileShare\<close> sends at most as many creation requests as the configured number of retries
  (at least one), whatever the storage service answers, and no request that deletes or changes a share.\<close>

theorem create_share_bounded:
  "\<exists>evs. trace (final (CreateFileShare E d ao so secrets u) s) = trace s @ evs
     \<and> length (filter creates_share evs) \<le> getBackOff d
     \<and> list_all (\<lambda>c. \<not> deletes_share c \<and> \<not> updates_share c) evs"
proof -
  from CreateFileShare_bound [of d E ao so secrets u] obtain evs
    where e: "trace (final (CreateFileShare E d ao so secrets u) s) = trace s @ evs"
      "length (filter creates_share evs) \<le> getBackOff d"
    unfolding at_most_def by blast
  from CreateFileShare_only_creates [of E d ao so secrets u] obtain evs'
    where e': "trace (final (CreateFileShare E d ao so secrets u) s) = trace s @ evs'"
      "list_all (\<lambda>c. writes_share c \<longrightarrow> creates_share c) evs'"
    unfolding keeps_def only_calls_def emits_def by blast
  have "\<not> deletes_share c \<and> \<not> updates_share c" if "writes_share c \<longrightarrow> creates_share c" for c
    using that by (auto simp: writes_share_def creates_share_def deletes_share_def updates_share_def
        split: ext.splits share_ext.splits rm_ext.splits)
  with e e' show ?thesis by (auto simp: list_all_iff)
qed

text \<open>C16: resizing never shrinks a share: every request that sets a quota comes right after a read of the same share
  that answered a smaller quota.\<close>

theorem resize_never_shrinks:
  "growing E (trace (final (ResizeFileShare E d su rg a n sz secrets u) (s\<lparr>trace := []\<rparr>)))"
  using ResizeFileShare_grows [of E d su rg a n sz secrets u]
  by (simp add: keeps_def keeps_growing_def growing_Nil)

text \<open>Deleting a share that is already gone succeeds: when the first deletion request is answered by a not-found
  error, \<open>DeleteFileShare\<close> returns no error and sends no further request.\<close>

theorem delete_missing_share_succeeds:
  assumes "result (delete_call E d su rg a n secrets u) s = Inr (Some e)" "not_found_text e"
  shows "result (DeleteFileShare E d su rg a n secrets u) s = None
    \<and> trace (final (DeleteFileShare E d su rg a n secrets u) s) = trace (final (delete_call E d su rg a n secrets u) s)"
  using DeleteFileShare_not_found [OF assms] assms getBackOff_Suc [of d]
  by (auto simp: DeleteFileShare_def delete_share_once_def result_def final_def run_simps split: prod.splits)

definition gone_error :: "ext list \<Rightarrow> ext \<Rightarrow> goerr option" where
  "gone_error tr c = (if deletes_share c then Some (GoErr (ResponseError 404) ''ERROR CODE: ShareNotFound'') else None)"

theorem delete_missing_share_succeeds_witness:
  "result (DeleteFileShare (sample_env gone_error) sample_config ''sub'' ''rg'' ''acc'' ''share'' [] []) initial_state = None
   \<and> trace (final (DeleteFileShare (sample_env gone_error) sample_config ''sub'' ''rg'' ''acc'' ''share'' [] []) initial_state)
     = trace (final (delete_call (sample_env gone_error) sample_config ''sub'' ''rg'' ''acc'' ''share'' [] []) initial_state)"
proof (rule delete_missing_share_succeeds)
  show "result (delete_call (sample_env gone_error) sample_config ''sub'' ''rg'' ''acc'' ''share'' [] []) initial_state
      = Inr (Some (GoErr (ResponseError 404) ''ERROR CODE: ShareNotFound''))"
    by (simp add: delete_call_def result_def run_simps getFileShareClientForSub_def sample_config_def sample_env_def
        gone_error_def)
  show "not_found_text (GoErr (ResponseError 404) ''ERROR CODE: ShareNotFound'')" by code_simp
qed

text \<open>The switch to the data-plane API that a throttled deletion announces has no effect: the mark it leaves is the empty
  string, which \<open>useDataPlaneAPI\<close> also returns when there is no mark, so the next request for the volume takes the
  same path.\<close>

theorem throttle_mark_without_effect:
  assumes "result (delete_call E d su rg a n secrets u) s = Inr (Some e)" "\<not> not_found_text e"
    "isThrottlingError (Some e)" "only_empty_marks (final (delete_call E d su rg a n secrets u) s)"
  shows "result (DeleteFileShare E d su rg a n secrets u) s = Some e
    \<and> result (useDataPlaneAPI E v a) (final (DeleteFileShare E d su rg a n secrets u) s)
      = result (useDataPlaneAPI E v a) (final (delete_call E d su rg a n secrets u) s)"
proof -
  note t = DeleteFileShare_throttled [OF assms(1-3)]
  have "only_empty_marks (final (DeleteFileShare E d su rg a n secrets u) s)"
    using assms getBackOff_Suc [of d] isThrottling_isRetriable [of "Some e"]
    by (auto simp: DeleteFileShare_def delete_share_once_def result_def final_def run_simps cache_set_def
        only_empty_marks_def split: prod.splits if_splits)
  with t assms(4) show ?thesis by (simp add: useDataPlaneAPI_mark)
qed

definition throttle_error :: "ext list \<Rightarrow> ext \<Rightarrow> goerr option" where
  "throttle_error tr c = (if deletes_share c then Some (GoErr (ResponseError 429) ''client throttled'') else None)"

theorem throttle_mark_without_effect_witness:
  "result (DeleteFileShare (sample_env throttle_error) sample_config ''sub'' ''rg'' ''acc'' ''share'' [] []) initial_state
     = Some (GoErr (ResponseError 429) ''client throttled'')
   \<and> result (useDataPlaneAPI (sample_env throttle_error) ''vol'' ''acc'')
       (final (DeleteFileShare (sample_env throttle_error) sample_config ''sub'' ''rg'' ''acc'' ''share'' [] []) initial_state)
     = result (useDataPlaneAPI (sample_env throttle_error) ''vol'' ''acc'')
       (final (delete_call (sample_env throttle_error) sample_config ''sub'' ''rg'' ''acc'' ''share'' [] []) initial_state)"
proof (rule throttle_mark_without_effect)
  show "result (delete_call (sample_env throttle_error) sample_config ''sub'' ''rg'' ''acc'' ''share'' [] []) initial_state
      = Inr (Some (GoErr (ResponseError 429) ''client throttled''))"
    by (simp add: delete_call_def result_def run_simps getFileShareClientForSub_def sample_config_def sample_env_def
        throttle_error_def)
  show "only_empty_marks (final (delete_call (sample_env throttle_error) sample_config ''sub'' ''rg'' ''acc'' ''share'' [] []) initial_state)"
    by (simp add: delete_call_def final_def run_simps getFileShareClientForSub_def sample_config_def sample_env_def
        throttle_error_def only_empty_marks_def initial_state_def)
qed code_simp+

end
