(* ===== verification/Account.thy ===== *)
theory Account
  imports FileShare
begin

text \<open>
  Accounts and credentials (\<open>azurefile.go\<close>): where the account, its key, the share and the identity of a request
  come from (\<open>GetAccountInfo\<close>), the account key (\<open>GetStorageAccesskey\<close>), the Kubernetes secret that stores it
  (\<open>GetStorageAccountFromSecret\<close>, \<open>SetAzureCredentials\<close>), and the folders and disks made with a key.
\<close>

section \<open>Names\<close>

definition subscriptionIDField :: string where "subscriptionIDField = ''subscriptionid''"
definition resourceGroupField :: string where "resourceGroupField = ''resourcegroup''"
definition storageAccountField :: string where "storageAccountField = ''storageaccount''"
definition getAccountKeyFromSecretField :: string where "getAccountKeyFromSecretField = ''getaccountkeyfromsecret''"
definition shareNameField :: string where "shareNameField = ''sharename''"
definition diskNameField :: string where "diskNameField = ''diskname''"
definition protocolField :: string where "protocolField = ''protocol''"
definition secretNameField :: string where "secretNameField = ''secretname''"
definition getLatestAccountKeyField :: string where "getLatestAccountKeyField = ''getlatestaccountkey''"
definition clientIDField :: string where "clientIDField = ''clientid''"
definition tenantIDField :: string where "tenantIDField = ''tenantid''"
definition mountWithManagedIdentityField :: string where "mountWithManagedIdentityField = ''mountwithmanagedidentity''"
definition mountWithOAuthTokenField :: string where "mountWithOAuthTokenField = ''mountwithoauthtoken''"
definition mountWithWITokenField :: string where "mountWithWITokenField = ''mountwithworkloadidentitytoken''"
definition createFolderIfNotExistField :: string where "createFolderIfNotExistField = ''createfolderifnotexist''"
definition folderNameField :: string where "folderNameField = ''foldername''"
definition ephemeralField :: string where "ephemeralField = ''csi.storage.k8s.io/ephemeral''"
definition defaultSecretOAuthToken :: string where "defaultSecretOAuthToken = ''oauthtoken''"
definition DefaultTokenAudience :: string where "DefaultTokenAudience = ''api://AzureADTokenExchange/.default''"
definition defaultAzureOAuthTokenDir :: string where
  "defaultAzureOAuthTokenDir = ''/var/lib/kubelet/plugins/file.csi.azure.com''"

lemmas account_field_defs = subscriptionIDField_def resourceGroupField_def storageAccountField_def
  getAccountKeyFromSecretField_def shareNameField_def diskNameField_def protocolField_def secretNameField_def
  getLatestAccountKeyField_def clientIDField_def tenantIDField_def mountWithManagedIdentityField_def
  mountWithOAuthTokenField_def mountWithWITokenField_def createFolderIfNotExistField_def folderNameField_def
  ephemeralField_def secretNamespaceField_def pvcNamespaceKey_def

section \<open>The account key and its secret\<close>

text \<open>The three values \<open>GetStorageAccountFromSecret\<close> reads; a caller that ignores the error reads empty strings.\<close>

record secret_account =
  sa_name :: string
  sa_key :: string
  sa_token :: string

definition no_secret_account :: secret_account where
  "no_secret_account = \<lparr>sa_name = [], sa_key = [], sa_token = []\<rparr>"

definition GetStorageAccountFromSecret ::
    "env \<Rightarrow> config \<Rightarrow> string \<Rightarrow> string \<Rightarrow> (secret_account \<times> goerr option) prog" where
  "GetStorageAccountFromSecret E d secretName secretNamespace =
     (if \<not> hasKubeClient d
      then ret (no_secret_account,
                Some (Fmterr ''could not get credentials from secret(%s): KubeClient is nil'' [secretName]))
      else do {
        secret \<leftarrow> call (ans_map E) (Kube (SecretGet secretNamespace secretName));
        (case secret of
           Inl err \<Rightarrow> ret (no_secret_account,
                         Some (Fmterr ''could not get secret(%v): %v'' [secretName, err_text err]))
         | Inr data \<Rightarrow>
             ret (\<lparr>sa_name = TrimSpace (map_get data defaultSecretAccountName),
                   sa_key = TrimSpace (map_get data defaultSecretAccountKey),
                   sa_token = TrimSpace (map_get data defaultSecretOAuthToken)\<rparr>, None)) })"

definition GetStorageAccesskeyWithSubsID ::
    "env \<Rightarrow> config \<Rightarrow> string \<Rightarrow> string \<Rightarrow> string \<Rightarrow> bool \<Rightarrow> (goerr + string) prog" where
  "GetStorageAccesskeyWithSubsID E d subsID account resourceGroup getLatestAccountKey =
     (if \<not> hasClientFactory d
      then ret (Inl (Errorf ''could not get account key: cloud or ComputeClientFactory is nil''))
      else do {
        err \<leftarrow> call (ans_err E) (Account (AccountClientForSub subsID));
        (case err of
           Some e \<Rightarrow> ret (Inl e)
         | None \<Rightarrow> call (ans_str E) (Account (ListAccountKey subsID account resourceGroup getLatestAccountKey))) })"

text \<open>The end of \<open>GetStorageAccesskey\<close>: a key that was found is remembered in \<open>accountCacheMap\<close>.\<close>

definition remember_key :: "string \<Rightarrow> goerr + string \<Rightarrow> (goerr + string) prog" where
  "remember_key accountName r =
     (case r of
        Inr accountKey \<Rightarrow>
          (if accountKey \<noteq> []
           then do { cache_set accountCache accountName accountKey; ret r } else ret r)
      | Inl _ \<Rightarrow> ret r)"

definition GetStorageAccesskey ::
    "env \<Rightarrow> config \<Rightarrow> account_options \<Rightarrow> smap \<Rightarrow> string \<Rightarrow> string \<Rightarrow> (goerr + string) prog" where
  "GetStorageAccesskey E d accountOptions secrets secretName secretNamespace =
     (if secrets \<noteq> []
      then ret (map_sum id snd (getStorageAccount (Some secrets)))
      else do {
        let accountName = ao_Name accountOptions;
        cached \<leftarrow> cache_get E accountCache accountName;
        (case cached of
           Some key \<Rightarrow> ret (Inr key)
         | None \<Rightarrow> do {
             let secretName = (if secretName = [] then secret_name accountName else secretName);
             (sa, err) \<leftarrow> GetStorageAccountFromSecret E d secretName secretNamespace;
             r \<leftarrow> (case err of
                    Some _ \<Rightarrow> GetStorageAccesskeyWithSubsID E d (ao_SubscriptionID accountOptions) (ao_Name accountOptions)
                                (ao_ResourceGroup accountOptions) (ao_GetLatestAccountKey accountOptions)
                  | None \<Rightarrow> ret (Inr (sa_key sa)));
             remember_key accountName r }) })"

definition SetAzureCredentials ::
    "env \<Rightarrow> config \<Rightarrow> string \<Rightarrow> string \<Rightarrow> string \<Rightarrow> string \<Rightarrow> (goerr + string) prog" where
  "SetAzureCredentials E d accountName accountKey secretName secretNamespace =
     (if \<not> hasKubeClient d then ret (Inr [])
      else if accountName = [] \<or> accountKey = []
      then ret (Inl (Fmterr ''the account info is not enough, accountName(%v), accountKey(%v)'' [accountName, accountKey]))
      else do {
        let secretName = (if secretName = [] then secret_name accountName else secretName);
        err \<leftarrow> call (ans_err E) (Kube (SecretCreate secretNamespace secretName accountName accountKey));
        (case err of
           None \<Rightarrow> ret (Inr secretName)
         | Some e \<Rightarrow>
             if err_kind e = K8sAlreadyExists then ret (Inr secretName)
             else ret (Inl (Fmterr ''couldn't create secret %v'' [err_text e]))) })"

text \<open>The tag is marked as touched whatever the removal answers: \<open>Set\<close> is deferred.\<close>

definition RemoveStorageAccountTag ::
    "env \<Rightarrow> string \<Rightarrow> string \<Rightarrow> string \<Rightarrow> string \<Rightarrow> goerr option prog" where
  "RemoveStorageAccountTag E subsID resourceGroup account key = do {
     cached \<leftarrow> cache_get E skipMatchingTagCache account;
     (case cached of
        Some _ \<Rightarrow> ret None
      | None \<Rightarrow> do {
          rerr \<leftarrow> call (ans_err E) (Account (RemoveStorageAccountTagCall subsID resourceGroup account key));
          cache_set skipMatchingTagCache account [];
          ret rerr }) }"

section \<open>Account information of a volume\<close>

text \<open>The local variables of \<open>GetAccountInfo\<close> that the volume context sets.\<close>

record account_vars =
  av_rg :: string
  av_account :: string
  av_share :: string
  av_disk :: string
  av_namespace :: string
  av_subs :: string
  av_protocol :: string
  av_secretName :: string
  av_pvcNamespace :: string
  av_clientID :: string
  av_tenantID :: string
  av_fromSecret :: bool
  av_latestKey :: bool
  av_managed :: bool
  av_oauth :: bool
  av_wi :: bool

text \<open>Its results, in the order the Go function returns them; the error comes beside them.\<close>

record account_info =
  ai_rg :: string
  ai_account :: string
  ai_key :: string
  ai_share :: string
  ai_disk :: string
  ai_subs :: string
  ai_tenantID :: string
  ai_tokenFile :: string

definition initial_account_vars :: "string \<Rightarrow> account_vars" where
  "initial_account_vars volumeID =
     (let i = share_info_or_empty (GetFileShareInfo volumeID) in
      \<lparr>av_rg = si_rg i, av_account = si_account i, av_share = si_share i, av_disk = si_disk i,
       av_namespace = si_namespace i, av_subs = si_subs i, av_protocol = [], av_secretName = [],
       av_pvcNamespace = [], av_clientID = [], av_tenantID = [], av_fromSecret = False, av_latestKey = False,
       av_managed = False, av_oauth = False, av_wi = False\<rparr>)"

definition context_flag :: "string \<Rightarrow> string \<Rightarrow> (bool \<Rightarrow> account_vars) \<Rightarrow> goerr + account_vars" where
  "context_flag field v upd =
     (case ParseBool v of
        None \<Rightarrow> Inl (Fmterr ''invalid %s: %s in volume context'' [field, v])
      | Some b \<Rightarrow> Inr (upd b))"

definition context_param :: "account_vars \<Rightarrow> string \<Rightarrow> string \<Rightarrow> goerr + account_vars" where
  "context_param a key v =
     (let k = ToLower key in
      if k = subscriptionIDField then Inr (a\<lparr>av_subs := v\<rparr>)
      else if k = resourceGroupField then Inr (a\<lparr>av_rg := v\<rparr>)
      else if k = storageAccountField then Inr (a\<lparr>av_account := v\<rparr>)
      else if k = getAccountKeyFromSecretField
           then Inr (if EqualFold v trueValue then a\<lparr>av_fromSecret := True\<rparr> else a)
      else if k = shareNameField then Inr (a\<lparr>av_share := v\<rparr>)
      else if k = diskNameField then Inr (a\<lparr>av_disk := v\<rparr>)
      else if k = protocolField then Inr (a\<lparr>av_protocol := v\<rparr>)
      else if k = secretNameField then Inr (a\<lparr>av_secretName := v\<rparr>)
      else if k = secretNamespaceField then Inr (a\<lparr>av_namespace := v\<rparr>)
      else if k = pvcNamespaceKey then Inr (a\<lparr>av_pvcNamespace := v\<rparr>)
      else if k = getLatestAccountKeyField then context_flag k v (\<lambda>b. a\<lparr>av_latestKey := b\<rparr>)
      else if k = clientIDField then Inr (a\<lparr>av_clientID := v\<rparr>)
      else if k = mountWithManagedIdentityField then context_flag k v (\<lambda>b. a\<lparr>av_managed := b\<rparr>)
      else if k = mountWithOAuthTokenField then context_flag k v (\<lambda>b. a\<lparr>av_oauth := b\<rparr>)
      else if k = mountWithWITokenField then context_flag k v (\<lambda>b. a\<lparr>av_wi := b\<rparr>)
      else if k = tenantIDField then Inr (a\<lparr>av_tenantID := v\<rparr>)
      else Inr a)"

text \<open>The loop over the volume context stops at the first error, with the variables set so far.\<close>

fun context_params :: "account_vars \<Rightarrow> smap \<Rightarrow> account_vars \<times> goerr option" where
  "context_params a [] = (a, None)"
| "context_params a ((k, v) # m) =
     (case context_param a k v of Inl err \<Rightarrow> (a, Some err) | Inr a \<Rightarrow> context_params a m)"

definition account_defaults :: "config \<Rightarrow> account_vars \<Rightarrow> account_vars" where
  "account_defaults d a =
     a\<lparr>av_tenantID := (if av_tenantID a = [] then cloud_TenantID d else av_tenantID a),
       av_rg := (if av_rg a = [] then cloud_ResourceGroup d else av_rg a),
       av_subs := (if av_subs a = [] then cloud_SubscriptionID d else av_subs a)\<rparr>"

text \<open>An NFS share needs no account key, unless a folder is to be created in it.\<close>

definition nfs_without_key :: "account_vars \<Rightarrow> smap \<Rightarrow> bool" where
  "nfs_without_key a reqContext \<longleftrightarrow> av_protocol a = nfs \<and> av_share a \<noteq> [] \<and>
     (let needAccountKey = EqualFold (getValueInMap reqContext createFolderIfNotExistField) trueValue;
          hasFolder = getValueInMap reqContext folderNameField \<noteq> []
      in \<not> needAccountKey \<or> \<not> hasFolder)"

definition default_namespace :: "account_vars \<Rightarrow> account_vars" where
  "default_namespace a =
     (if av_namespace a = []
      then a\<lparr>av_namespace := (if av_pvcNamespace a = [] then defaultNamespace else av_pvcNamespace a)\<rparr>
      else a)"

definition account_result :: "account_vars \<Rightarrow> string \<Rightarrow> string \<Rightarrow> account_info" where
  "account_result a accountKey tokenFilePath =
     \<lparr>ai_rg = av_rg a, ai_account = av_account a, ai_key = accountKey, ai_share = av_share a, ai_disk = av_disk a,
      ai_subs = av_subs a, ai_tenantID = av_tenantID a, ai_tokenFile = tokenFilePath\<rparr>"

section \<open>Identities\<close>

definition parseServiceAccountToken :: "env \<Rightarrow> string \<Rightarrow> goerr + string" where
  "parseServiceAccountToken E tokenStr =
     (if tokenStr = [] then Inl (Errorf ''service account token is empty'')
      else case unmarshal_token E tokenStr of
             Inl err \<Rightarrow> Inl (Fmterr_wrap ''failed to unmarshal service account tokens, error: %w'' [] err)
           | Inr token \<Rightarrow>
               if token = [] then Inl (Fmterr ''token for audience %s not found'' [DefaultTokenAudience])
               else Inr token)"

text \<open>The first eight bytes of the digest, two hexadecimal digits each.\<close>

definition hashVolumeIDForTokenFile :: "env \<Rightarrow> string \<Rightarrow> string" where
  "hashVolumeIDForTokenFile E volumeID = take 16 (sha256_hex E volumeID)"

definition oauth_account :: "env \<Rightarrow> config \<Rightarrow> account_vars \<Rightarrow> (account_info \<times> goerr option) prog" where
  "oauth_account E d a =
     (if av_account a = [] \<and> av_secretName a \<noteq> []
      then do {
        (sa, err) \<leftarrow> GetStorageAccountFromSecret E d (av_secretName a) (av_namespace a);
        (case err of
           Some e \<Rightarrow> ret (account_result a [] [],
             Some (Fmterr ''failed to get account name from secret for mountWithOAuthToken: %v'' [err_text e]))
         | None \<Rightarrow>
             ret (account_result (if sa_name sa \<noteq> [] then a\<lparr>av_account := sa_name sa\<rparr> else a) [] [], None)) }
      else ret (account_result a [] [], None))"

definition write_token_file ::
    "env \<Rightarrow> account_vars \<Rightarrow> smap \<Rightarrow> string \<Rightarrow> string \<Rightarrow> (account_info \<times> goerr option) prog" where
  "write_token_file E a reqContext tokenFilePath token = do {
     existingToken \<leftarrow> call (ans_str E) (Node (ReadFile tokenFilePath));
     (if existingToken = Inr token
      then (if EqualFold (getValueInMap reqContext ephemeralField) trueValue
            then ret (account_result a [] tokenFilePath, None)
            else ret (account_result a [] [], None))
      else do {
        err \<leftarrow> call (ans_err E) (Node (WriteFile tokenFilePath token));
        (case err of
           Some e \<Rightarrow> ret (account_result a [] tokenFilePath,
             Some (Fmterr ''failed to write azure oAuth token file(%s): %v'' [tokenFilePath, err_text e]))
         | None \<Rightarrow> ret (account_result a [] tokenFilePath, None)) }) }"

definition workload_identity_account ::
    "env \<Rightarrow> config \<Rightarrow> string \<Rightarrow> account_vars \<Rightarrow> smap \<Rightarrow> string \<Rightarrow> (account_info \<times> goerr option) prog" where
  "workload_identity_account E d volumeID a reqContext serviceAccountToken =
     (let clientID = (if av_clientID a = [] then cloud_UserAssignedIdentityID d else av_clientID a) in
      if clientID = []
      then ret (account_result a [] [], Some (Errorf ''clientID is empty for workload identity auth''))
      else case parseServiceAccountToken E serviceAccountToken of
             Inl err \<Rightarrow> ret (account_result a [] [],
               Some (Fmterr ''failed to parse service account token: %v'' [err_text err]))
           | Inr token \<Rightarrow>
               (let tokenFileName = clientID @ ''-'' @ av_account a @ ''-'' @ hashVolumeIDForTokenFile E volumeID in
                if \<not> isValidTokenFileName tokenFileName
                then ret (account_result a [] [],
                  Some (Fmterr ''invalid token file name(%s) generated for clientID(%s) and accountName(%s)''
                         [tokenFileName, clientID, av_account a]))
                else write_token_file E a reqContext (path_join [defaultAzureOAuthTokenDir, tokenFileName]) token))"

section \<open>GetAccountInfo\<close>

text \<open>The account key when the request names no identity: from the secrets, the cache, the Kubernetes secret, or Azure.\<close>

definition key_from_secret_or_identity ::
    "env \<Rightarrow> config \<Rightarrow> account_vars \<Rightarrow> (account_vars \<times> (string \<times> goerr option)) prog" where
  "key_from_secret_or_identity E d a =
     (let secretName = (if av_secretName a = [] \<and> av_account a \<noteq> [] then secret_name (av_account a)
                        else av_secretName a) in
      if secretName = [] then ret (a, [], None)
      else do {
        (sa, err) \<leftarrow> GetStorageAccountFromSecret E d secretName (av_namespace a);
        let a = (if sa_name sa \<noteq> [] then a\<lparr>av_account := sa_name sa\<rparr> else a);
        (if err \<noteq> None \<and> \<not> av_fromSecret a \<and> av_account a \<noteq> []
         then do {
           r \<leftarrow> GetStorageAccesskeyWithSubsID E d (av_subs a) (av_account a) (av_rg a) (av_latestKey a);
           (case r of Inl e \<Rightarrow> ret (a, [], Some e) | Inr key \<Rightarrow> ret (a, key, None)) }
         else ret (a, sa_key sa, err)) })"

definition account_key ::
    "env \<Rightarrow> config \<Rightarrow> smap \<Rightarrow> account_vars \<Rightarrow> (account_info \<times> goerr option) prog" where
  "account_key E d secrets a =
     (if \<not> hasStorageAccountCredentials secrets
      then do {
        cached \<leftarrow> cache_get E accountCache (av_account a);
        (case cached of
           Some key \<Rightarrow> ret (account_result a key [], None)
         | None \<Rightarrow> do {
             (a, accountKey, err) \<leftarrow> key_from_secret_or_identity E d a;
             (if err = None \<and> accountKey \<noteq> []
              then do { cache_set accountCache (av_account a) accountKey; ret (account_result a accountKey [], err) }
              else ret (account_result a accountKey [], err)) }) }
      else case getStorageAccount (Some secrets) of
             Inl err \<Rightarrow> ret (account_result a [] [], Some err)
           | Inr (account, accountKey) \<Rightarrow> do {
               let a = (if account \<noteq> [] then a\<lparr>av_account := account\<rparr> else a);
               (if accountKey \<noteq> []
                then do { cache_set accountCache (av_account a) accountKey; ret (account_result a accountKey [], None) }
                else ret (account_result a accountKey [], None)) })"

definition GetAccountInfo ::
    "env \<Rightarrow> config \<Rightarrow> string \<Rightarrow> smap \<Rightarrow> smap \<Rightarrow> (account_info \<times> goerr option) prog" where
  "GetAccountInfo E d volumeID secrets reqContext =
     (let serviceAccountToken = getServiceAccountTokens secrets reqContext in
      case context_params (initial_account_vars volumeID) reqContext of
        (a, Some err) \<Rightarrow> ret (account_result a [] [], Some err)
      | (a, None) \<Rightarrow>
          (let a = account_defaults d a in
           if nfs_without_key a reqContext then ret (account_result a [] [], None)
           else
             let a = default_namespace a in
             if av_managed a then ret (account_result a [] [], None)
             else if av_oauth a then oauth_account E d a
             else if av_wi a then workload_identity_account E d volumeID a reqContext serviceAccountToken
             else if av_clientID a \<noteq> []
             then do {
               r \<leftarrow> call (ans_str E) (Account (AccountKeyFromToken (av_subs a) (av_account a) (av_rg a)
                                               (av_clientID a) (av_tenantID a) serviceAccountToken));
               (case r of
                  Inl err \<Rightarrow> ret (account_result a [] [], Some err)
                | Inr accountKey \<Rightarrow> ret (account_result a accountKey [], None)) }
             else account_key E d secrets a))"

section \<open>Folders and disks in a share\<close>

definition folder_missing :: "goerr \<Rightarrow> bool" where
  "folder_missing err \<longleftrightarrow> err_kind err = ResponseError 404"

text \<open>One level of the path: nothing is done where the directory exists, a conflict on creation means somebody else made it.\<close>

definition create_folder_level :: "env \<Rightarrow> dp_client \<Rightarrow> string \<Rightarrow> string \<Rightarrow> goerr option prog" where
  "create_folder_level E f shareName currentPath = do {
     err \<leftarrow> call (ans_err E) (Share (DpDirGetProperties f shareName currentPath));
     (case err of
        None \<Rightarrow> ret None
      | Some e \<Rightarrow>
          if \<not> folder_missing e
          then ret (Some (Fmterr_wrap ''failed to check if directory %s exists: %w'' [currentPath] e))
          else do {
            err \<leftarrow> call (ans_err E) (Share (DpDirCreate f shareName currentPath));
            (case err of
               None \<Rightarrow> ret None
             | Some e \<Rightarrow>
                 if err_kind e = ResponseError 409 then ret None
                 else ret (Some (Fmterr_wrap ''failed to create directory %s: %w'' [currentPath] e))) }) }"

fun create_folder_levels ::
    "env \<Rightarrow> dp_client \<Rightarrow> string \<Rightarrow> string \<Rightarrow> string list \<Rightarrow> goerr option prog" where
  "create_folder_levels E f shareName currentPath [] = ret None"
| "create_folder_levels E f shareName currentPath (component # components) =
     (if component = [] then create_folder_levels E f shareName currentPath components
      else do {
        let currentPath = (if currentPath \<noteq> [] then currentPath @ ''/'' else currentPath) @ component;
        err \<leftarrow> create_folder_level E f shareName currentPath;
        (if err \<noteq> None then ret err else create_folder_levels E f shareName currentPath components) })"

definition createFolderIfNotExists ::
    "env \<Rightarrow> string \<Rightarrow> string \<Rightarrow> string \<Rightarrow> string \<Rightarrow> string \<Rightarrow> goerr option prog" where
  "createFolderIfNotExists E accountName accountKey fileShareName folderName storageEndpointSuffix =
     (if accountName = [] then ret (Some (Errorf ''accountName is empty''))
      else if fileShareName = [] then ret (Some (Errorf ''fileShareName is empty''))
      else do {
        fileClient \<leftarrow> newAzureFileClient E accountName accountKey storageEndpointSuffix;
        (case fileClient of
           Inl err \<Rightarrow> ret (Some (Fmterr_wrap ''create Azure File client(%s) failed: %w'' [accountName] err))
         | Inr f \<Rightarrow> do {
             err \<leftarrow> call (ans_err E) (Share (DpDirGetProperties f fileShareName folderName));
             (case err of
                None \<Rightarrow> ret None
              | Some e \<Rightarrow>
                  if \<not> folder_missing e
                  then ret (Some (Fmterr_wrap ''failed to check if folder path %s exists: %w'' [folderName] e))
                  else create_folder_levels E f fileShareName [] (Split (Trim folderName ''/'') ''/'')) }) })"

definition getDirectoryClient ::
    "env \<Rightarrow> string \<Rightarrow> string \<Rightarrow> string \<Rightarrow> string \<Rightarrow> string \<Rightarrow> (goerr + dp_client) prog" where
  "getDirectoryClient E accountName accountKey storageEndpointSuffix fileShareName diskName = do {
     err \<leftarrow> call (ans_err E) (Share (NewSharedKeyCredential accountName accountKey));
     (case err of
        Some e \<Rightarrow> ret (Inl (Fmterr ''NewSharedKeyCredential(%s) failed with error: %v'' [accountName, err_text e]))
      | None \<Rightarrow>
          (case url_parse E (sprintf ''https://%s.file.%s/%s/%s'' [accountName, storageEndpointSuffix, fileShareName, diskName]) of
             None \<Rightarrow> ret (Inl (Errorf ''parse fileURLTemplate error''))
           | Some _ \<Rightarrow> do {
               let serviceURL = getFileServiceURL accountName storageEndpointSuffix;
               err \<leftarrow> call (ans_err E) (Share (NewClientWithSharedKey serviceURL));
               (case err of
                  Some e \<Rightarrow> ret (Inl (Fmterr ''NewClientWithSharedKeyCredential(%s) failed with error: %v''
                              [serviceURL, err_text e]))
                | None \<Rightarrow> ret (Inr (KeyClient accountName accountKey serviceURL))) })) }"

text \<open>The size of the footer a fixed disk ends with (\<open>vhd.VHD_HEADER_SIZE\<close>).\<close>

definition VHD_HEADER_SIZE :: int where "VHD_HEADER_SIZE = 512"

definition createDisk ::
    "env \<Rightarrow> string \<Rightarrow> string \<Rightarrow> string \<Rightarrow> string \<Rightarrow> string \<Rightarrow> int \<Rightarrow> goerr option prog" where
  "createDisk E accountName accountKey storageEndpointSuffix fileShareName diskName diskSizeBytes = do {
     let start = diskSizeBytes - VHD_HEADER_SIZE;
     let end_offset = diskSizeBytes - 1;
     fileClient \<leftarrow> getDirectoryClient E accountName accountKey storageEndpointSuffix fileShareName diskName;
     (case fileClient of
        Inl err \<Rightarrow> ret (Some err)
      | Inr f \<Rightarrow> do {
          err \<leftarrow> call (ans_err E) (Share (DpFileCreate f fileShareName diskName diskSizeBytes));
          (if err \<noteq> None then ret err
           else call (ans_err E) (Share (DpUploadRange f fileShareName diskName (end_offset - start) VHD_HEADER_SIZE))) }) }"

section \<open>Pods and nodes\<close>

definition getRuntimeClassForPod :: "env \<Rightarrow> config \<Rightarrow> string \<Rightarrow> string \<Rightarrow> (goerr + string) prog" where
  "getRuntimeClassForPod E d podName podNameSpace =
     (if \<not> hasKubeClient d then ret (Inl (Errorf ''kubeClient is nil''))
      else do {
        pod \<leftarrow> call (ans_pod E) (Kube (PodGet podNameSpace podName));
        ret (map_sum id (\<lambda>p. case pod_runtimeClass p of None \<Rightarrow> [] | Some c \<Rightarrow> c) pod) })"

definition isConfidentialRuntimeClass :: "env \<Rightarrow> config \<Rightarrow> string \<Rightarrow> string \<Rightarrow> (goerr + bool) prog" where
  "isConfidentialRuntimeClass E d runtimeClassName runtimeClassHandler =
     (if runtimeClassName = [] then ret (Inr False)
      else if \<not> hasKubeClient d then ret (Inl (Errorf ''kubeClient is nil''))
      else do {
        handler \<leftarrow> call (ans_str E) (Kube (RuntimeClassGet runtimeClassName));
        ret (map_sum id (\<lambda>h. h = runtimeClassHandler) handler) })"

definition isKataNode_check :: "env \<Rightarrow> config \<Rightarrow> string \<Rightarrow> string \<Rightarrow> bool prog" where
  "isKataNode_check E d nodeID confidentialContainerLabel =
     (if nodeID = [] then ret False
      else if \<not> hasKubeClient d then ret False
      else do {
        node \<leftarrow> call (ans_map E) (Kube (NodeGet nodeID));
        (case node of
           Inl _ \<Rightarrow> ret False
         | Inr labels \<Rightarrow> ret (map_of labels confidentialContainerLabel \<noteq> None)) })"

section \<open>Service endpoints of a subnet\<close>

definition storageService :: string where "storageService = ''Microsoft.Storage''"

fun get_subnets :: "env \<Rightarrow> string \<Rightarrow> string \<Rightarrow> string \<Rightarrow> string list \<Rightarrow> (goerr + subnet list) prog" where
  "get_subnets E rg vnet subnetName [] = ret (Inr [])"
| "get_subnets E rg vnet subnetName (sn # sns) = do {
     r \<leftarrow> call (ans_subnets E) (Account (SubnetGet rg vnet (TrimSpace sn)));
     (case r of
        Inl rerr \<Rightarrow> ret (Inl (Fmterr ''failed to get the subnet %s under rg %s vnet %s: %v''
                          [subnetName, rg, vnet, err_text rerr]))
      | Inr found \<Rightarrow> do {
          rest \<leftarrow> get_subnets E rg vnet subnetName sns;
          ret (map_sum id (\<lambda>l. found @ l) rest) }) }"

definition has_storage_endpoint :: "subnet \<Rightarrow> bool" where
  "has_storage_endpoint sn = list_ex (\<lambda>s. HasPrefix s storageService) (sn_services sn)"

text \<open>The loop over the subnets; it returns the resource ids of the subnets handled before an error.\<close>

fun update_subnets ::
    "env \<Rightarrow> config \<Rightarrow> string \<Rightarrow> string \<Rightarrow> string list \<Rightarrow> subnet list \<Rightarrow> (string list \<times> goerr option) prog" where
  "update_subnets E d rg vnet ids [] = ret (ids, None)"
| "update_subnets E d rg vnet ids (subnet # subnets) =
     (case sn_name subnet of
        None \<Rightarrow> ret (ids, Some (Errorf ''subnet name is nil''))
      | Some sn \<Rightarrow> do {
          let ids = ids @ [getSubnetResourceID d rg vnet sn];
          err \<leftarrow> (if has_storage_endpoint subnet then ret None
                 else call (ans_err E) (Account (SubnetUpdate rg vnet sn (sn_services subnet @ [storageService]) (cloud_Location d))));
          (case err of
             Some e \<Rightarrow> ret (ids, Some (Fmterr ''failed to update the subnet %s under vnet %s: %v'' [sn, vnet, err_text e]))
           | None \<Rightarrow> update_subnets E d rg vnet ids subnets) })"

definition subnet_lock_key :: "string \<Rightarrow> string \<Rightarrow> string \<Rightarrow> string" where
  "subnet_lock_key vnetResourceGroup vnetName subnetName = vnetResourceGroup @ vnetName @ subnetName"

definition list_and_update_subnets ::
    "env \<Rightarrow> config \<Rightarrow> string \<Rightarrow> string \<Rightarrow> string \<Rightarrow> (string list \<times> goerr option) prog" where
  "list_and_update_subnets E d rg vnet subnetName = do {
     subnets \<leftarrow>
       (if subnetName \<noteq> [] then get_subnets E rg vnet subnetName (Split subnetName '','')
        else do {
          r \<leftarrow> call (ans_subnets E) (Account (SubnetList rg vnet));
          ret (case r of
                 Inl rerr \<Rightarrow> Inl (Fmterr ''failed to list the subnets under rg %s vnet %s: %v'' [rg, vnet, err_text rerr])
               | Inr l \<Rightarrow> Inr l) });
     (case subnets of
        Inl err \<Rightarrow> ret ([], Some err)
      | Inr l \<Rightarrow> do {
          (ids, err) \<leftarrow> update_subnets E d rg vnet [] l;
          (if err \<noteq> None then ret (ids, err)
           else do {
             modify (\<lambda>s. s\<lparr>vnetCache := (vnetCache s)(subnet_lock_key rg vnet subnetName \<mapsto> ids)\<rparr>);
             ret (ids, None) }) }) }"

definition updateSubnetServiceEndpoints ::
    "env \<Rightarrow> config \<Rightarrow> string \<Rightarrow> string \<Rightarrow> string \<Rightarrow> (string list \<times> goerr option) prog" where
  "updateSubnetServiceEndpoints E d vnetResourceGroup vnetName subnetName =
     (if \<not> hasNetworkFactory d then ret ([], Some (panic ''nil NetworkClientFactory''))
      else if \<not> hasSubnetClient d then ret ([], Some (Errorf ''SubnetsClient is nil''))
      else
        let vnetResourceGroup =
              (if vnetResourceGroup = []
               then (if cloud_VnetResourceGroup d \<noteq> [] then cloud_VnetResourceGroup d else cloud_ResourceGroup d)
               else vnetResourceGroup);
            location = cloud_Location d;
            vnetName = (if vnetName = [] then cloud_VnetName d else vnetName)
        in if vnetName = [] \<or> location = [] then ret ([], Some (Errorf ''vnetName or location is empty''))
           else do {
             let lockKey = subnet_lock_key vnetResourceGroup vnetName subnetName;
             cached \<leftarrow> get (\<lambda>s. if fresh E (trace s) subnetCache lockKey then vnetCache s lockKey else None);
             (case cached of
                Some ids \<Rightarrow> ret (ids, None)
              | None \<Rightarrow> do {
                  note_event (Tool (LockWait lockKey));
                  r \<leftarrow> list_and_update_subnets E d vnetResourceGroup vnetName subnetName;
                  note_event (Tool (LockFree lockKey));
                  ret r }) })"

end
