(* ===== verification/Capability.thy ===== *)
theory Capability
  imports Account
begin

text \<open>
  Capabilities: those the driver declares (\<open>Run\<close> of \<open>azurefile.go\<close> through \<open>csi-common/driver.go\<close>), the checks of a
  request against them, the checks of a volume's capabilities (\<open>controllerserver.go\<close>), the identity service, and the
  frame every locked request runs in.
\<close>

section \<open>Capabilities of a volume\<close>

datatype access_mode =
    UNKNOWN
  | SINGLE_NODE_WRITER
  | SINGLE_NODE_READER_ONLY
  | MULTI_NODE_READER_ONLY
  | MULTI_NODE_SINGLE_WRITER
  | MULTI_NODE_MULTI_WRITER
  | SINGLE_NODE_SINGLE_WRITER
  | SINGLE_NODE_MULTI_WRITER

fun mode_text :: "access_mode \<Rightarrow> string" where
  "mode_text UNKNOWN = ''UNKNOWN''"
| "mode_text SINGLE_NODE_WRITER = ''SINGLE_NODE_WRITER''"
| "mode_text SINGLE_NODE_READER_ONLY = ''SINGLE_NODE_READER_ONLY''"
| "mode_text MULTI_NODE_READER_ONLY = ''MULTI_NODE_READER_ONLY''"
| "mode_text MULTI_NODE_SINGLE_WRITER = ''MULTI_NODE_SINGLE_WRITER''"
| "mode_text MULTI_NODE_MULTI_WRITER = ''MULTI_NODE_MULTI_WRITER''"
| "mode_text SINGLE_NODE_SINGLE_WRITER = ''SINGLE_NODE_SINGLE_WRITER''"
| "mode_text SINGLE_NODE_MULTI_WRITER = ''SINGLE_NODE_MULTI_WRITER''"

text \<open>What the driver reads of a \<open>csi.VolumeCapability\<close>; an access mode that is absent is \<open>None\<close>.\<close>

record volume_capability =
  vc_block :: bool
  vc_mount :: bool
  vc_mountFlags :: "string list"
  vc_mountGroup :: string
  vc_mode :: "access_mode option"

definition GetMode :: "volume_capability \<Rightarrow> access_mode" where
  "GetMode c = (case vc_mode c of None \<Rightarrow> UNKNOWN | Some m \<Rightarrow> m)"

definition volumeCaps :: "access_mode list" where
  "volumeCaps = [SINGLE_NODE_WRITER, SINGLE_NODE_READER_ONLY, SINGLE_NODE_SINGLE_WRITER, SINGLE_NODE_MULTI_WRITER,
     MULTI_NODE_READER_ONLY, MULTI_NODE_SINGLE_WRITER, MULTI_NODE_MULTI_WRITER]"

definition hasSupport :: "volume_capability \<Rightarrow> goerr option" where
  "hasSupport c =
     (if vc_block c then Some (Errorf ''driver does not support block volumes'')
      else if GetMode c \<in> set volumeCaps then None
      else Some (Fmterr ''driver does not support access mode %v'' [mode_text (GetMode c)]))"

fun first_unsupported :: "volume_capability list \<Rightarrow> goerr option" where
  "first_unsupported [] = None"
| "first_unsupported (c # cs) = (case hasSupport c of Some err \<Rightarrow> Some err | None \<Rightarrow> first_unsupported cs)"

definition isValidVolumeCapabilities :: "volume_capability list \<Rightarrow> goerr option" where
  "isValidVolumeCapabilities volCaps =
     (if volCaps = [] then Some (Errorf ''CreateVolume Volume capabilities must be provided'')
      else first_unsupported volCaps)"

definition isReadOnlyFromCapability :: "volume_capability \<Rightarrow> bool" where
  "isReadOnlyFromCapability vc =
     (case vc_mode vc of
        None \<Rightarrow> False
      | Some mode \<Rightarrow> mode = MULTI_NODE_READER_ONLY \<or> mode = SINGLE_NODE_READER_ONLY)"

section \<open>Capabilities of the driver\<close>

datatype rpc_type =
    RPC_UNKNOWN
  | CREATE_DELETE_VOLUME
  | CREATE_DELETE_SNAPSHOT
  | EXPAND_VOLUME
  | RPC_SINGLE_NODE_MULTI_WRITER
  | CLONE_VOLUME
  | MODIFY_VOLUME

fun rpc_text :: "rpc_type \<Rightarrow> string" where
  "rpc_text RPC_UNKNOWN = ''UNKNOWN''"
| "rpc_text CREATE_DELETE_VOLUME = ''CREATE_DELETE_VOLUME''"
| "rpc_text CREATE_DELETE_SNAPSHOT = ''CREATE_DELETE_SNAPSHOT''"
| "rpc_text EXPAND_VOLUME = ''EXPAND_VOLUME''"
| "rpc_text RPC_SINGLE_NODE_MULTI_WRITER = ''SINGLE_NODE_MULTI_WRITER''"
| "rpc_text CLONE_VOLUME = ''CLONE_VOLUME''"
| "rpc_text MODIFY_VOLUME = ''MODIFY_VOLUME''"

definition ValidateControllerServiceRequest :: "rpc_type list \<Rightarrow> rpc_type \<Rightarrow> goerr option" where
  "ValidateControllerServiceRequest Cap c =
     (if c = RPC_UNKNOWN \<or> c \<in> set Cap then None else Some (status_error InvalidArgument (rpc_text c)))"

text \<open>The capabilities \<open>Run\<close> declares for the controller and for the node.\<close>

definition controller_Cap :: "rpc_type list" where
  "controller_Cap = [CREATE_DELETE_VOLUME, CREATE_DELETE_SNAPSHOT, EXPAND_VOLUME, RPC_SINGLE_NODE_MULTI_WRITER,
     CLONE_VOLUME, MODIFY_VOLUME]"

datatype node_rpc_type = NODE_UNKNOWN | STAGE_UNSTAGE_VOLUME | NODE_SINGLE_NODE_MULTI_WRITER | VOLUME_MOUNT_GROUP | GET_VOLUME_STATS

definition node_Cap :: "config \<Rightarrow> node_rpc_type list" where
  "node_Cap d = [STAGE_UNSTAGE_VOLUME, NODE_SINGLE_NODE_MULTI_WRITER]
     @ (if enableVolumeMountGroup d then [VOLUME_MOUNT_GROUP] else [])
     @ (if enableGetVolumeStats d then [GET_VOLUME_STATS] else [])"

definition NodeGetCapabilities :: "config \<Rightarrow> node_rpc_type list" where
  "NodeGetCapabilities d = node_Cap d"

definition NodeGetInfo :: "config \<Rightarrow> string" where
  "NodeGetInfo d = cfg_NodeID d"

section \<open>The identity service\<close>

definition GetPluginInfo :: "string \<Rightarrow> string \<Rightarrow> goerr + string \<times> string" where
  "GetPluginInfo name version =
     (if name = [] then Inl (status_error Unavailable ''Driver name not configured'')
      else if version = [] then Inl (status_error Unavailable ''Driver is missing version'')
      else Inr (name, version))"

text \<open>\<open>Probe\<close> answers that the plugin is ready, whatever its state.\<close>

definition Probe :: "goerr + bool" where "Probe = Inr True"

datatype plugin_service = CONTROLLER_SERVICE

definition GetPluginCapabilities :: "goerr + plugin_service list" where
  "GetPluginCapabilities = Inr [CONTROLLER_SERVICE]"

section \<open>Controller methods without an implementation\<close>

definition ControllerGetCapabilities :: "rpc_type list \<Rightarrow> goerr + rpc_type list" where
  "ControllerGetCapabilities Cap = Inr Cap"

definition ControllerGetVolume :: "goerr + unit" where "ControllerGetVolume = Inl (status_error Unimplemented [])"
definition GetCapacity :: "goerr + unit" where "GetCapacity = Inl (status_error Unimplemented [])"
definition ListVolumes :: "goerr + unit" where "ListVolumes = Inl (status_error Unimplemented [])"
definition ControllerPublishVolume :: "goerr + unit" where "ControllerPublishVolume = Inl (status_error Unimplemented [])"
definition ControllerUnpublishVolume :: "goerr + unit" where "ControllerUnpublishVolume = Inl (status_error Unimplemented [])"
definition ListSnapshots :: "goerr + unit" where "ListSnapshots = Inl (status_error Unimplemented [])"

section \<open>Requests under a volume lock\<close>

definition volumeOperationAlreadyExistsFmt :: string where
  "volumeOperationAlreadyExistsFmt = ''An operation with the given Volume ID %s already exists''"

definition try_acquire :: "string \<Rightarrow> bool prog" where
  "try_acquire key = State (\<lambda>s. (case TryAcquire (volumeLocks s) key of (ok, l) \<Rightarrow> (ok, s\<lparr>volumeLocks := l\<rparr>)))"

definition release :: "string \<Rightarrow> unit prog" where
  "release key = modify (\<lambda>s. s\<lparr>volumeLocks := Release (volumeLocks s) key\<rparr>)"

text \<open>\<open>TryAcquire\<close>, the body, and the deferred \<open>Release\<close>.\<close>

definition with_volume_lock :: "string \<Rightarrow> 'a prog \<Rightarrow> 'a prog \<Rightarrow> 'a prog" where
  "with_volume_lock key aborted body = do {
     acquired \<leftarrow> try_acquire key;
     (if \<not> acquired then aborted
      else do { r \<leftarrow> body; release key; ret r }) }"

lemma with_volume_lock_held:
  "key \<in> volumeLocks s \<Longrightarrow> run_state (with_volume_lock key aborted body) s = run_state aborted s"
  by (simp add: with_volume_lock_def try_acquire_def run_simps TryAcquire_def)

lemma with_volume_lock_free:
  assumes "key \<notin> volumeLocks s"
  shows "run_state (with_volume_lock key aborted body) s =
    (case run_state body (s\<lparr>volumeLocks := insert key (volumeLocks s)\<rparr>) of
       (r, t) \<Rightarrow> (r, t\<lparr>volumeLocks := volumeLocks t - {key}\<rparr>))"
  using assms
  by (simp add: with_volume_lock_def try_acquire_def release_def run_simps TryAcquire_def Release_def split: prod.split)

lemma with_volume_lock_locks:
  assumes "keeps same_locks body" "keeps same_locks aborted"
  shows "keeps same_locks (with_volume_lock key aborted body)"
  unfolding keeps_def
proof
  fix s
  show "same_locks s (final (with_volume_lock key aborted body) s)"
  proof (cases "key \<in> volumeLocks s")
    case True
    then show ?thesis using assms(2) by (simp add: keeps_def final_def with_volume_lock_held)
  next
    case False
    obtain r t where rt: "run_state body (s\<lparr>volumeLocks := insert key (volumeLocks s)\<rparr>) = (r, t)"
      by (cases "run_state body (s\<lparr>volumeLocks := insert key (volumeLocks s)\<rparr>)") blast
    have "same_locks u (final body u)" for u using assms(1) by (simp add: keeps_def)
    from this [of "s\<lparr>volumeLocks := insert key (volumeLocks s)\<rparr>"] rt
    have "volumeLocks t = insert key (volumeLocks s)" by (simp add: final_def same_locks_def)
    with False rt show ?thesis by (simp add: final_def with_volume_lock_free same_locks_def)
  qed
qed

lemma emits_same_trace: "trace t = trace s \<Longrightarrow> emits P s t"
  by (simp add: emits_def)

lemma trace_lock_ops:
  "trace (final (try_acquire key) s) = trace s" "trace (final (release key) s) = trace s"
  by (simp_all add: try_acquire_def release_def final_def run_modify TryAcquire_def)

lemma keeps_emits_locks: "keeps (emits P) (try_acquire key)" "keeps (emits P) (release key)"
  unfolding keeps_def by (blast intro: emits_same_trace trace_lock_ops)+

lemma with_volume_lock_emits:
  "keeps (emits P) body \<Longrightarrow> keeps (emits P) aborted \<Longrightarrow> keeps (emits P) (with_volume_lock key aborted body)"
  unfolding with_volume_lock_def by (auto intro!: keeps_emits keeps_emits_locks)

end
