(* ===== verification/Azcopy.thy ===== *)
theory Azcopy
  imports Account Util
begin

text \<open>
  Copies driven by the \<open>azcopy\<close> tool: the job of a share (\<open>GetAzcopyJob\<close> of \<open>pkg/util/util.go\<close>), the
  authorization of the tool, and the copy of a share or of a snapshot into a new share (\<open>controllerserver.go\<close>,
  \<open>copyFileShare\<close> of \<open>azurefile.go\<close>).  A command is an event; its output is an answer of the environment.
\<close>

section \<open>The job of a share\<close>

fun state_text :: "AzcopyJobState \<Rightarrow> string" where
  "state_text AzcopyJobError = ''Error''"
| "state_text AzcopyJobNotFound = ''NotFound''"
| "state_text AzcopyJobRunning = ''Running''"
| "state_text AzcopyJobCompleted = ''Completed''"
| "state_text AzcopyJobCompletedWithErrors = ''CompletedWithErrors''"
| "state_text AzcopyJobCompletedWithSkipped = ''CompletedWithSkipped''"
| "state_text AzcopyJobCompletedWithErrorsAndSkipped = ''CompletedWithErrorsAndSkipped''"

definition completed_state :: "AzcopyJobState \<Rightarrow> bool" where
  "completed_state st \<longleftrightarrow> st = AzcopyJobCompleted \<or> st = AzcopyJobCompletedWithErrors
     \<or> st = AzcopyJobCompletedWithSkipped \<or> st = AzcopyJobCompletedWithErrorsAndSkipped"

type_synonym job_info = "AzcopyJobState \<times> string \<times> goerr option"

definition show_job :: "env \<Rightarrow> string \<Rightarrow> string list \<Rightarrow> job_info prog" where
  "show_job E jobid authAzcopyEnv = do {
     (summary, err) \<leftarrow> call (ans_out E) (Tool (RunCommand (sprintf ''azcopy jobs show %s | grep Percent'' [jobid]) authAzcopyEnv));
     (case err of
        Some e \<Rightarrow> ret (AzcopyJobError, [], Some (Fmterr ''couldn't show jobs summary in azcopy %v'' [err_text e]))
      | None \<Rightarrow>
          (let (jobState, percent, err) = parseAzcopyJobShow summary in
           if err \<noteq> None \<or> jobState = AzcopyJobError
           then ret (AzcopyJobError, [], Some (Fmterr ''couldn't parse azcopy job show in azcopy %v'' [show_err err]))
           else ret (jobState, percent, None))) }"

text \<open>What \<open>GetAzcopyJob\<close> does with the output of the job list.\<close>

definition job_of_list :: "env \<Rightarrow> string list \<Rightarrow> string \<Rightarrow> job_info prog" where
  "job_of_list E authAzcopyEnv out =
     (let (jobid, jobState, err) = parseAzcopyJobList out in
      if err \<noteq> None \<or> jobState = AzcopyJobError
      then ret (AzcopyJobError, [], Some (Fmterr ''couldn't parse azcopy job list in azcopy %v'' [show_err err]))
      else if completed_state jobState then ret (jobState, ''100.0'', err)
      else if jobid = [] then ret (jobState, [], err)
      else show_job E jobid authAzcopyEnv)"

definition GetAzcopyJob :: "env \<Rightarrow> string \<Rightarrow> string list \<Rightarrow> job_info prog" where
  "GetAzcopyJob E dstFileshare authAzcopyEnv = do {
     (out, err) \<leftarrow> call (ans_out E) (Tool (RunCommand (sprintf ''azcopy jobs list | grep %s -B 3'' [dstFileshare]) authAzcopyEnv));
     (if (case err of None \<Rightarrow> False | Some e \<Rightarrow> err_text e \<noteq> ''exit status 1'')
      then ret (AzcopyJobError, [], Some (Fmterr ''couldn't list jobs in azcopy %v'' [show_err err]))
      else job_of_list E authAzcopyEnv out) }"

definition CleanJobs :: "env \<Rightarrow> (string \<times> goerr option) prog" where
  "CleanJobs E = call (ans_out E) (Tool (RunCommand ''azcopy jobs clean'' []))"

text \<open>
  \<open>WaitUntilTimeout\<close>: the function runs; when the timer fires first its result is dropped and the answer is the one of
  \<open>timeoutFunc\<close>.
\<close>

definition WaitUntilTimeout ::
    "env \<Rightarrow> string \<Rightarrow> goerr option prog \<Rightarrow> goerr option prog \<Rightarrow> goerr option prog" where
  "WaitUntilTimeout E timeout execFunc timeoutFunc = do {
     err \<leftarrow> execFunc;
     late \<leftarrow> call (ans_flag E) (Tool (Timeout timeout));
     (if late then timeoutFunc else ret err) }"

text \<open>
  \<open>wait.PollUntilContextTimeout\<close> with an immediate first run: the condition runs once, then again after every
  interval, at most \<open>ticks\<close> times, until it is done or fails or the deadline has passed.
\<close>

definition deadline_exceeded :: goerr where
  "deadline_exceeded = Errorf ''context deadline exceeded''"

fun PollUntilContextTimeout :: "env \<Rightarrow> nat \<Rightarrow> int \<Rightarrow> (bool \<times> goerr option) prog \<Rightarrow> goerr option prog" where
  "PollUntilContextTimeout E ticks interval condition = do {
     (ok, err) \<leftarrow> condition;
     (if err \<noteq> None \<or> ok then ret err
      else case ticks of
             0 \<Rightarrow> ret (Some deadline_exceeded)
           | Suc n \<Rightarrow> do {
               note_event (Tool (Sleep interval));
               late \<leftarrow> call (ans_flag E) (Tool (Timeout ''poll''));
               (if late then ret (Some deadline_exceeded) else PollUntilContextTimeout E n interval condition) }) }"

section \<open>Authorization of azcopy\<close>

definition authorizeAzcopyWithIdentity :: "config \<Rightarrow> string list \<times> goerr option" where
  "authorizeAzcopyWithIdentity d =
     (if cloud_UseManagedIdentity d
      then ([''AZCOPY_AUTO_LOGIN_TYPE=MSI'']
              @ (if cloud_UserAssignedIdentityID d \<noteq> [] then [''AZCOPY_MSI_CLIENT_ID='' @ cloud_UserAssignedIdentityID d]
                 else []), None)
      else if cloud_AADClientSecret d \<noteq> []
      then (if cloud_AADClientID d = [] \<or> cloud_TenantID d = []
            then ([], Some (Errorf ''AADClientID and TenantID must be set when use service principal''))
            else ([''AZCOPY_AUTO_LOGIN_TYPE=SPN'', ''AZCOPY_SPA_APPLICATION_ID='' @ cloud_AADClientID d,
                   ''AZCOPY_SPA_CLIENT_SECRET='' @ cloud_AADClientSecret d, ''AZCOPY_TENANT_ID='' @ cloud_TenantID d], None))
      else ([], Some (Errorf ''neither the service principal nor the managed identity has been set'')))"

definition generateSASToken ::
    "env \<Rightarrow> string \<Rightarrow> string \<Rightarrow> string \<Rightarrow> int \<Rightarrow> (goerr + string) prog" where
  "generateSASToken E accountName accountKey storageEndpointSuffix expiryTime = do {
     cached \<leftarrow> cache_get E azcopySasTokenCache accountName;
     (case cached of
        Some token \<Rightarrow> ret (Inr token)
      | None \<Rightarrow> do {
          err \<leftarrow> call (ans_err E) (Share (NewSharedKeyCredential accountName accountKey));
          (case err of
             Some e \<Rightarrow> ret (Inl (Statusf Internal ''failed to generate sas token in creating new shared key credential, accountName: %s, err: %s''
                                     [accountName, err_text e]))
           | None \<Rightarrow> do {
               let serviceURL = getFileServiceURL accountName storageEndpointSuffix;
               err \<leftarrow> call (ans_err E) (Share (NewClientWithSharedKey serviceURL));
               (case err of
                  Some e \<Rightarrow> ret (Inl (Statusf Internal ''failed to generate sas token in creating new client with shared key credential, accountName: %s, err: %s''
                                          [accountName, err_text e]))
                | None \<Rightarrow> do {
                    sasURL \<leftarrow> call (ans_str E) (Share (GetSASURL (KeyClient accountName accountKey serviceURL) expiryTime));
                    (case sasURL of
                       Inl e \<Rightarrow> ret (Inl e)
                     | Inr u \<Rightarrow>
                         (case url_parse E u of
                            None \<Rightarrow> ret (Inl (Errorf ''parse error''))
                          | Some p \<Rightarrow> do {
                              let sasToken = ''?'' @ url_query p;
                              cache_set azcopySasTokenCache accountName sasToken;
                              ret (Inr sasToken) })) }) }) }) }"

text \<open>A token and no environment, or an environment and no token.\<close>

definition sas_auth ::
    "env \<Rightarrow> config \<Rightarrow> string \<Rightarrow> string \<Rightarrow> string \<Rightarrow> account_options \<Rightarrow> smap \<Rightarrow> string \<Rightarrow> string
      \<Rightarrow> (goerr + string \<times> string list) prog" where
  "sas_auth E d accountName accountKey storageEndpointSuffix accountOptions secrets secretName secretNamespace = do {
     key \<leftarrow> (if accountKey = [] then GetStorageAccesskey E d accountOptions secrets secretName secretNamespace
            else ret (Inr accountKey));
     (case key of
        Inl err \<Rightarrow> ret (Inl err)
      | Inr key \<Rightarrow> do {
          token \<leftarrow> generateSASToken E accountName key storageEndpointSuffix (sasTokenExpirationMinutes d);
          ret (map_sum id (\<lambda>t. (t, [])) token) }) }"

definition getAzcopyAuth ::
    "env \<Rightarrow> config \<Rightarrow> string \<Rightarrow> string \<Rightarrow> string \<Rightarrow> account_options \<Rightarrow> smap \<Rightarrow> string \<Rightarrow> string \<Rightarrow> bool
      \<Rightarrow> (goerr + string \<times> string list) prog" where
  "getAzcopyAuth E d accountName accountKey storageEndpointSuffix accountOptions secrets secretName secretNamespace useSasToken = do {
     useDataPlane \<leftarrow> useDataPlaneAPI E [] accountName;
     cached \<leftarrow> cache_get E azcopySasTokenCache accountName;
     let identity = \<not> useSasToken \<and> \<not> EqualFold useDataPlane trueValue \<and> secrets = [] \<and> secretName = [];
     (if identity \<and> cached \<noteq> None
      then ret (Inr (case cached of None \<Rightarrow> [] | Some t \<Rightarrow> t, []))
      else
        let authAzcopyEnv = (if identity then fst (authorizeAzcopyWithIdentity d) else [])
        in if secrets \<noteq> [] \<or> secretName \<noteq> [] \<or> authAzcopyEnv = [] \<or> useSasToken
           then sas_auth E d accountName accountKey storageEndpointSuffix accountOptions secrets secretName secretNamespace
           else ret (Inr ([], authAzcopyEnv))) }"

section \<open>Copying\<close>

definition execAzcopyCopy ::
    "env \<Rightarrow> config \<Rightarrow> string \<Rightarrow> string \<Rightarrow> string list \<Rightarrow> string list \<Rightarrow> (string \<times> goerr option) prog" where
  "execAzcopyCopy E d srcPath dstPath azcopyCopyOptions authAzcopyEnv =
     (let options = (if requiredAzCopyToTrust d
                     then azcopyCopyOptions @ [sprintf ''--trusted-microsoft-suffixes=%s'' [getStorageEndPointSuffix d]]
                     else azcopyCopyOptions)
      in call (ans_out E) (Tool (AzcopyCopy srcPath dstPath options authAzcopyEnv)))"

definition azcopyCloneVolumeOptions :: "string list" where
  "azcopyCloneVolumeOptions = [''--recursive'', ''--check-length=false'', ''--log-level=ERROR'']"

definition azcopySnapshotRestoreOptions :: "string list" where
  "azcopySnapshotRestoreOptions = [''--recursive'', ''--check-length=true'', ''--log-level=ERROR'']"

definition poll_job :: "env \<Rightarrow> string \<Rightarrow> string list \<Rightarrow> (bool \<times> goerr option) prog" where
  "poll_job E dstFileShareName authAzcopyEnv = do {
     (jobState, percent, err) \<leftarrow> GetAzcopyJob E dstFileShareName authAzcopyEnv;
     (if err \<noteq> None then ret (False, err)
      else if jobState = AzcopyJobRunning then ret (False, None)
      else ret (True, None)) }"

text \<open>Twenty seconds between two polls, three polls a minute.\<close>

definition poll_ticks :: "config \<Rightarrow> nat" where
  "poll_ticks d = nat (3 * waitForAzCopyTimeoutMinutes d)"

definition source_path :: "string \<Rightarrow> string \<Rightarrow> string \<Rightarrow> string" where
  "source_path srcPath snapshot accountSASToken =
     (if snapshot = [] then srcPath
      else if accountSASToken = [] then srcPath @ ''?sharesnapshot='' @ snapshot
      else srcPath @ ''&sharesnapshot='' @ snapshot)"

definition copy_options :: "string \<Rightarrow> protocol \<Rightarrow> string list" where
  "copy_options snapshot p =
     (if snapshot \<noteq> [] then azcopySnapshotRestoreOptions else azcopyCloneVolumeOptions)
       @ (if p = NFS then [''--from-to=FileNFSFileNFS''] else [])"

text \<open>The end of the copy: finished jobs are cleaned when there was no error.\<close>

definition finish_copy :: "env \<Rightarrow> goerr option \<Rightarrow> goerr option prog" where
  "finish_copy E err =
     (if err \<noteq> None then ret err else do { _ \<leftarrow> CleanJobs E; ret None })"

definition copyFileShareByAzcopy ::
    "env \<Rightarrow> config \<Rightarrow> string \<Rightarrow> string \<Rightarrow> string \<Rightarrow> string \<Rightarrow> string \<Rightarrow> string \<Rightarrow> string \<Rightarrow> string
      \<Rightarrow> string list \<Rightarrow> share_options \<Rightarrow> goerr option prog" where
  "copyFileShareByAzcopy E d srcFileShareName dstFileShareName srcPath dstPath snapshot srcAccountName dstAccountName
       accountSASToken authAzcopyEnv shareOptions = do {
     (jobState, percent, err) \<leftarrow> GetAzcopyJob E dstFileShareName authAzcopyEnv;
     (if jobState = AzcopyJobError \<or> completed_state jobState then ret err
      else if jobState = AzcopyJobRunning
      then do {
        err \<leftarrow> PollUntilContextTimeout E (poll_ticks d) 20 (poll_job E dstFileShareName authAzcopyEnv);
        finish_copy E err }
      else do {
        err \<leftarrow> WaitUntilTimeout E ''azcopy copy''
                 (do { (out, err) \<leftarrow> execAzcopyCopy E d (source_path srcPath snapshot accountSASToken) dstPath
                                      (copy_options snapshot (so_Protocol shareOptions)) authAzcopyEnv;
                       ret (map_option (\<lambda>e. Fmterr ''exec error: %v, output: %v'' [err_text e, out]) err) })
                 (do { (jobState, percent, _) \<leftarrow> GetAzcopyJob E dstFileShareName authAzcopyEnv;
                       ret (Some (Fmterr ''azcopy job status: %s, timeout waiting for copy fileshare %s:%s to %s:%s complete, current copy percent: %s%%''
                              [state_text jobState, srcAccountName, srcFileShareName, dstAccountName, dstFileShareName, percent])) });
        finish_copy E err }) }"

text \<open>The options the account key of the source account is read with.\<close>

definition source_account_options :: "string \<Rightarrow> string \<Rightarrow> string \<Rightarrow> bool \<Rightarrow> account_options" where
  "source_account_options name resourceGroup subsID getLatest =
     \<lparr>ao_Name = name, ao_Type = [], ao_Kind = [], ao_SubscriptionID = subsID, ao_ResourceGroup = resourceGroup,
      ao_Location = [], ao_EnableHTTPSTrafficOnly = False, ao_MatchTags = False, ao_Tags = [],
      ao_VirtualNetworkResourceIDs = [], ao_CreateAccount = False, ao_CreatePrivateEndpoint = None,
      ao_PrivateDNSZoneResourceGroup = [], ao_EnableLargeFileShare = None,
      ao_DisableFileServiceDeleteRetentionPolicy = None, ao_AllowBlobPublicAccess = None,
      ao_AllowSharedKeyAccess = None, ao_AllowCrossTenantReplication = None, ao_PublicNetworkAccess = [],
      ao_VNetResourceGroup = [], ao_VNetName = [], ao_VNetLinkName = [], ao_SubnetName = [],
      ao_RequireInfrastructureEncryption = None, ao_AccessTier = [], ao_StorageEndpointSuffix = [],
      ao_IsMultichannelEnabled = None, ao_IsSmbOAuthEnabled = None, ao_IsNFSEncryptionInTransitEnabled = None,
      ao_SkipHTTPSTrafficOnlyMatch = False, ao_PickRandomMatchingAccount = False,
      ao_GetLatestAccountKey = getLatest, ao_SourceAccountName = []\<rparr>"

text \<open>
  The common part of \<open>restoreSnapshot\<close> and \<open>copyFileShare\<close>: a token for the source account is made when the
  destination uses one and the accounts differ.
\<close>

definition copy_between ::
    "env \<Rightarrow> config \<Rightarrow> string \<Rightarrow> string \<Rightarrow> string \<Rightarrow> string \<Rightarrow> string \<Rightarrow> string \<Rightarrow> string \<Rightarrow> string list \<Rightarrow> string
      \<Rightarrow> share_options \<Rightarrow> account_options \<Rightarrow> string \<Rightarrow> goerr option prog" where
  "copy_between E d srcResourceGroup srcAccount srcShare snapshot srcSubs dstAccountName dstAccountSasToken authAzcopyEnv
       secretNamespace shareOptions accountOptions storageEndpointSuffix =
     (let dstAccountName = (if dstAccountName = [] then srcAccount else dstAccountName);
          dstShare = so_Name shareOptions
      in if srcAccount = [] \<or> srcShare = [] \<or> dstShare = []
         then ret (Some (Fmterr ''one or more of srcAccountName(%s), srcFileShareName(%s), dstFileShareName(%s) are empty''
                           [srcAccount, srcShare, dstShare]))
         else do {
           token \<leftarrow>
             (if srcAccount \<noteq> dstAccountName \<and> dstAccountSasToken \<noteq> []
              then do {
                r \<leftarrow> getAzcopyAuth E d srcAccount [] storageEndpointSuffix
                       (source_account_options srcAccount srcResourceGroup srcSubs (ao_GetLatestAccountKey accountOptions))
                       [] [] secretNamespace True;
                ret (map_sum id fst r) }
              else ret (Inr dstAccountSasToken));
           (case token of
              Inl err \<Rightarrow> ret (Some err)
            | Inr srcToken \<Rightarrow>
                copyFileShareByAzcopy E d
                  (if snapshot = [] then srcShare else sprintf ''%s(snapshot: %s)'' [srcShare, snapshot]) dstShare
                  (sprintf ''https://%s.file.%s/%s%s'' [srcAccount, storageEndpointSuffix, srcShare, srcToken])
                  (sprintf ''https://%s.file.%s/%s%s'' [dstAccountName, storageEndpointSuffix, dstShare, dstAccountSasToken])
                  snapshot srcAccount dstAccountName srcToken authAzcopyEnv shareOptions) })"

definition restoreSnapshot ::
    "env \<Rightarrow> config \<Rightarrow> string \<Rightarrow> string \<Rightarrow> string \<Rightarrow> string list \<Rightarrow> string \<Rightarrow> share_options \<Rightarrow> account_options \<Rightarrow> string
      \<Rightarrow> goerr option prog" where
  "restoreSnapshot E d sourceSnapshotID dstAccountName dstAccountSasToken authAzcopyEnv secretNamespace shareOptions
       accountOptions storageEndpointSuffix =
     (case GetInfoFromSnapshotID sourceSnapshotID of
        Inl err \<Rightarrow> ret (Some (status_error NotFound (err_text err)))
      | Inr (srcResourceGroup, srcAccount, srcShare, snapshot, srcSubs) \<Rightarrow>
          if snapshot = [] then ret (Some (status_error NotFound ''snapshot name is empty''))
          else copy_between E d srcResourceGroup srcAccount srcShare snapshot
                 (if isValidSubscriptionID srcSubs then srcSubs else cloud_SubscriptionID d)
                 dstAccountName dstAccountSasToken authAzcopyEnv secretNamespace shareOptions accountOptions
                 storageEndpointSuffix)"

definition copyFileShare ::
    "env \<Rightarrow> config \<Rightarrow> string \<Rightarrow> string \<Rightarrow> string \<Rightarrow> string list \<Rightarrow> string \<Rightarrow> share_options \<Rightarrow> account_options \<Rightarrow> string
      \<Rightarrow> goerr option prog" where
  "copyFileShare E d sourceVolumeID dstAccountName dstAccountSasToken authAzcopyEnv secretNamespace shareOptions
       accountOptions storageEndpointSuffix =
     (case GetFileShareInfo sourceVolumeID of
        Inl err \<Rightarrow> ret (Some (status_error NotFound (err_text err)))
      | Inr i \<Rightarrow>
          copy_between E d (si_rg i) (si_account i) (si_share i) [] (si_subs i) dstAccountName dstAccountSasToken
            authAzcopyEnv secretNamespace shareOptions accountOptions storageEndpointSuffix)"

datatype content_source = SnapshotSource string | VolumeSource string | OtherSource

fun copyVolume ::
    "env \<Rightarrow> config \<Rightarrow> content_source \<Rightarrow> string \<Rightarrow> string \<Rightarrow> string list \<Rightarrow> string \<Rightarrow> share_options \<Rightarrow> account_options \<Rightarrow> string
      \<Rightarrow> goerr option prog" where
  "copyVolume E d (SnapshotSource sid) = restoreSnapshot E d sid"
| "copyVolume E d (VolumeSource vid) = copyFileShare E d vid"
| "copyVolume E d OtherSource = (\<lambda>_ _ _ _ _ _ _. ret (Some (Statusf InvalidArgument ''%v is not a proper volume source'' [[]])))"

end
