(* ===== verification/Snapshot.thy ===== *)
theory Snapshot
  imports Capability Azcopy
begin

text \<open>
  Snapshots (\<open>controllerserver.go\<close>): \<open>CreateSnapshot\<close> with its search for an existing snapshot, \<open>DeleteSnapshot\<close>,
  and the data-plane client both use.  Times are the strings the code formats them to.
\<close>

section \<open>The client of the source share\<close>

definition getServiceClient ::
    "env \<Rightarrow> config \<Rightarrow> string \<Rightarrow> smap \<Rightarrow> string \<Rightarrow> (goerr + dp_client \<times> string) prog" where
  "getServiceClient E d sourceVolumeID secrets dataPlane = do {
     (i, err) \<leftarrow> GetAccountInfo E d sourceVolumeID secrets [];
     (case err of
        Some e \<Rightarrow> ret (Inl e)
      | None \<Rightarrow>
          if ai_account i = [] \<or> ai_share i = []
          then ret (Inl (Fmterr ''failed to get account name or file share from %s'' [sourceVolumeID]))
          else do {
            c \<leftarrow> (if hasAuthProvider d \<and> EqualFold dataPlane oauth
                  then newAzureFileClientWithOAuth E (ai_account i) (getStorageEndPointSuffix d)
                  else newAzureFileClient E (ai_account i) (ai_key i) (getStorageEndPointSuffix d));
            ret (map_sum id (\<lambda>f. (f, ai_share i)) c) }) }"

definition getShareClient ::
    "env \<Rightarrow> config \<Rightarrow> string \<Rightarrow> smap \<Rightarrow> string \<Rightarrow> (goerr + dp_client \<times> string) prog" where
  "getShareClient E d sourceVolumeID secrets dataPlane = do {
     r \<leftarrow> getServiceClient E d sourceVolumeID secrets dataPlane;
     ret (map_sum (\<lambda>err. Statusf Internal ''failed to get share client with (%s): %v'' [sourceVolumeID, err_text err]) id r) }"

section \<open>Looking for a snapshot\<close>

definition snapshotNameKey :: string where "snapshotNameKey = ''initiator''"

text \<open>Whether it exists, its \<open>x-ms-snapshot\<close> value, its time, its quota, and an error.\<close>

type_synonym found_snapshot = "bool \<times> string \<times> string \<times> int \<times> goerr option"

definition other_source_error :: "string \<Rightarrow> string \<Rightarrow> string \<Rightarrow> string \<Rightarrow> goerr" where
  "other_source_error snapshotName name fileShareName sourceVolumeID =
     Fmterr ''snapshot(%s) already exists, while the current file share name(%s) does not equal to %s, SourceVolumeId(%s)''
       [snapshotName, name, fileShareName, sourceVolumeID]"

text \<open>
  A share of the data-plane listing that carries the snapshot's name.  The log line before the test of
  \<open>share.Snapshot\<close> reads the pointer already.
\<close>

definition listed_match :: "string \<Rightarrow> string \<Rightarrow> string \<Rightarrow> listed_share \<Rightarrow> found_snapshot" where
  "listed_match sourceVolumeID snapshotName fileShareName sh =
     (case ls_name sh of
        None \<Rightarrow> (False, [], [], 0, Some (panic ''nil Name''))
      | Some name \<Rightarrow>
          if name = fileShareName
          then (case ls_snapshot sh of
                  None \<Rightarrow> (False, [], [], 0, Some (panic ''nil Snapshot''))
                | Some snapshot \<Rightarrow>
                    (case ls_quota sh of
                       None \<Rightarrow> (False, [], [], 0, Some (panic ''nil Quota''))
                     | Some quota \<Rightarrow> (True, snapshot, ls_time sh, quota, None)))
          else (True, [], [], 0, Some (other_source_error snapshotName name fileShareName sourceVolumeID)))"

fun search_shares :: "string \<Rightarrow> string \<Rightarrow> string \<Rightarrow> listed_share list \<Rightarrow> found_snapshot option" where
  "search_shares sourceVolumeID snapshotName fileShareName [] = None"
| "search_shares sourceVolumeID snapshotName fileShareName (sh # shares) =
     (if ls_initiator sh = Some snapshotName
      then Some (listed_match sourceVolumeID snapshotName fileShareName sh)
      else search_shares sourceVolumeID snapshotName fileShareName shares)"

fun search_pages :: "string \<Rightarrow> string \<Rightarrow> string \<Rightarrow> (goerr + listed_share list) list \<Rightarrow> found_snapshot" where
  "search_pages sourceVolumeID snapshotName fileShareName [] = (False, [], [], 0, None)"
| "search_pages sourceVolumeID snapshotName fileShareName (page # pages) =
     (case page of
        Inl err \<Rightarrow> (False, [], [], 0, Some err)
      | Inr shares \<Rightarrow>
          (case search_shares sourceVolumeID snapshotName fileShareName shares of
             Some r \<Rightarrow> r
           | None \<Rightarrow> search_pages sourceVolumeID snapshotName fileShareName pages))"

text \<open>The management listing: every snapshot is read again for its metadata; a failed read ends the search.\<close>

fun search_management ::
    "env \<Rightarrow> string \<Rightarrow> string \<Rightarrow> string \<Rightarrow> string \<Rightarrow> string \<Rightarrow> string \<Rightarrow> listed_share list \<Rightarrow> found_snapshot prog" where
  "search_management E subsID rgName accountName sourceVolumeID snapshotName fileShareName [] = ret (False, [], [], 0, None)"
| "search_management E subsID rgName accountName sourceVolumeID snapshotName fileShareName (sh # shares) =
     (case ls_snapshot sh of
        None \<Rightarrow> search_management E subsID rgName accountName sourceVolumeID snapshotName fileShareName shares
      | Some shareSnapshotTime \<Rightarrow> do {
          let name = (case ls_name sh of None \<Rightarrow> [] | Some n \<Rightarrow> n);
          r \<leftarrow> call (ans_item E) (Rm (RmSnapshotGet subsID rgName accountName name shareSnapshotTime));
          (case r of
             Inl _ \<Rightarrow> ret (False, [], [], 0, None)
           | Inr item \<Rightarrow>
               if (case ls_initiator item of None \<Rightarrow> False | Some i \<Rightarrow> i = snapshotName)
               then (if (case ls_name item of None \<Rightarrow> [] | Some n \<Rightarrow> n) = fileShareName
                     then ret (True, shareSnapshotTime, ls_time sh, (case ls_quota sh of None \<Rightarrow> 0 | Some q \<Rightarrow> q), None)
                     else ret (True, [], [], 0,
                            Some (other_source_error snapshotName name fileShareName sourceVolumeID)))
               else search_management E subsID rgName accountName sourceVolumeID snapshotName fileShareName shares) })"

definition snapshotExists ::
    "env \<Rightarrow> config \<Rightarrow> string \<Rightarrow> string \<Rightarrow> smap \<Rightarrow> string \<Rightarrow> found_snapshot prog" where
  "snapshotExists E d sourceVolumeID snapshotName secrets dataPlane =
     (if secrets \<noteq> [] \<or> dataPlane \<noteq> []
      then do {
        r \<leftarrow> getServiceClient E d sourceVolumeID secrets dataPlane;
        (case r of
           Inl err \<Rightarrow> ret (False, [], [], 0, Some err)
         | Inr (f, fileShareName) \<Rightarrow>
             if fileShareName = []
             then ret (False, [], [], 0, Some (Fmterr ''file share is empty after parsing sourceVolumeID: %s'' [sourceVolumeID]))
             else do {
               pages \<leftarrow> call (ans_pages E) (Share (DpListShares f));
               ret (search_pages sourceVolumeID snapshotName fileShareName pages) }) }
      else
        case GetFileShareInfo sourceVolumeID of
          Inl err \<Rightarrow> ret (False, [], [], 0, Some err)
        | Inr i \<Rightarrow>
            if si_share i = []
            then ret (False, [], [], 0, Some (Fmterr ''file share is empty after parsing sourceVolumeID: %s'' [sourceVolumeID]))
            else do {
              err \<leftarrow> getFileShareClientForSub E d (si_subs i);
              (case err of
                 Some e \<Rightarrow> ret (False, [], [], 0,
                   Some (Statusf Internal ''failed to get snapshot client for subID(%s): %v'' [si_subs i, err_text e]))
               | None \<Rightarrow> do {
                   l \<leftarrow> call (ans_listed E) (Rm (RmShareList (si_subs i) (si_rg i) (si_account i)
                          (Some (sprintf ''startswith(name, %s)'' [si_share i]))));
                   (case l of
                      Inl e \<Rightarrow> ret (False, [], [], 0, Some e)
                    | Inr None \<Rightarrow> ret (False, [], [], 0, None)
                    | Inr (Some shares) \<Rightarrow>
                        search_management E (si_subs i) (si_rg i) (si_account i) sourceVolumeID snapshotName
                          (si_share i) shares) }) })"

section \<open>CreateSnapshot\<close>

definition useDataPlaneAPIField :: string where "useDataPlaneAPIField = ''usedataplaneapi''"
definition metadataField :: string where "metadataField = ''metadata''"
definition defaultAzureFileQuota :: int where "defaultAzureFileQuota = 100"

definition valid_data_plane :: "string \<Rightarrow> bool" where
  "valid_data_plane v \<longleftrightarrow> EqualFold v trueValue \<or> EqualFold v falseValue \<or> EqualFold v oauth"

text \<open>The parameters of the snapshot class: the data-plane choice and the metadata.\<close>

fun snapshot_params :: "string \<times> smap \<Rightarrow> smap \<Rightarrow> goerr + string \<times> smap" where
  "snapshot_params acc [] = Inr acc"
| "snapshot_params acc ((k, v) # m) =
     (let key = ToLower k in
      if key = useDataPlaneAPIField
      then (if valid_data_plane v then snapshot_params (v, snd acc) m
            else Inl (Statusf InvalidArgument ''invalid %s: %s in snapshot storage class'' [useDataPlaneAPIField, v]))
      else if key = metadataField
      then (case ConvertTagsToMap v [] of
              Inl err \<Rightarrow> Inl (Statusf InvalidArgument ''invalid %s in snapshot storage class: %v'' [metadataField, err_text err])
            | Inr tags \<Rightarrow>
                if list_ex (\<lambda>(t, _). EqualFold t snapshotNameKey) tags
                then Inl (Statusf InvalidArgument ''%q is reserved snapshot metadata'' [snapshotNameKey])
                else snapshot_params (fst acc, tags) m)
      else Inl (Statusf InvalidArgument ''invalid parameter %q in storage class'' [k]))"

definition getSnapshotMetadata :: "string \<Rightarrow> smap \<Rightarrow> smap" where
  "getSnapshotMetadata snapshotName snapshotMetadata = map_merge (map_put [] snapshotNameKey snapshotName) snapshotMetadata"

record snapshot_response =
  sr_SizeBytes :: int
  sr_SnapshotId :: string
  sr_SourceVolumeId :: string
  sr_CreationTime :: string

definition snapshot_answer :: "string \<Rightarrow> string \<Rightarrow> string \<Rightarrow> string \<Rightarrow> int \<Rightarrow> snapshot_response" where
  "snapshot_answer sourceVolumeID itemSnapshot subsID itemTime quota =
     \<lparr>sr_SizeBytes = GiBToBytes quota, sr_SnapshotId = create_snapshot_id sourceVolumeID itemSnapshot subsID,
      sr_SourceVolumeId = sourceVolumeID, sr_CreationTime = itemTime\<rparr>"

text \<open>The two ways to take the snapshot: its name, its time and its quota.\<close>

definition snapshot_by_data_plane ::
    "env \<Rightarrow> config \<Rightarrow> string \<Rightarrow> smap \<Rightarrow> string \<Rightarrow> smap \<Rightarrow> (goerr + string \<times> string \<times> int) prog" where
  "snapshot_by_data_plane E d sourceVolumeID secrets dataPlane metadata = do {
     c \<leftarrow> getShareClient E d sourceVolumeID secrets dataPlane;
     (case c of
        Inl err \<Rightarrow> ret (Inl (Statusf Internal ''failed to get share url with (%s): %v'' [sourceVolumeID, err_text err]))
      | Inr (f, shareName) \<Rightarrow> do {
          r \<leftarrow> call (ans_optstr E) (Share (DpCreateSnapshot f shareName metadata));
          (case r of
             Inl err \<Rightarrow> ret (Inl (Statusf Internal ''create snapshot from(%s) failed with %v'' [sourceVolumeID, err_text err]))
           | Inr snapshot \<Rightarrow> do {
               p \<leftarrow> call (ans_item E) (Share (DpShareGetProperties f shareName));
               (case snapshot of
                  None \<Rightarrow> ret (Inl (panic ''nil Snapshot''))
                | Some snap \<Rightarrow>
                    (case p of
                       Inl err \<Rightarrow> ret (Inl (Statusf Internal ''failed to get snapshot properties from (%s): %v''
                                               [snap, err_text err]))
                     | Inr props \<Rightarrow>
                         (case ls_quota props of
                            None \<Rightarrow> ret (Inl (panic ''nil Quota''))
                          | Some q \<Rightarrow> ret (Inr (snap, ls_time props, q))))) }) }) }"

definition snapshot_by_management ::
    "env \<Rightarrow> config \<Rightarrow> string \<Rightarrow> string \<Rightarrow> string \<Rightarrow> string \<Rightarrow> string \<Rightarrow> smap \<Rightarrow> (goerr + string \<times> string \<times> int) prog" where
  "snapshot_by_management E d sourceVolumeID subsID rgName accountName fileShareName metadata = do {
     err \<leftarrow> getFileShareClientForSub E d subsID;
     (case err of
        Some e \<Rightarrow> ret (Inl (Statusf Internal ''failed to get snapshot client for subID(%s): %v'' [subsID, err_text e]))
      | None \<Rightarrow> do {
          r \<leftarrow> call (ans_item E) (Rm (RmSnapshotCreate subsID rgName accountName fileShareName metadata));
          (case r of
             Inl e \<Rightarrow> do {
               (if isThrottlingError (Some e) then cache_set dataPlaneAPIAccountCache accountName [] else ret ());
               ret (Inl (Statusf Internal ''create snapshot from(%s) failed with %v, accountName: %q''
                           [sourceVolumeID, err_text e, accountName])) }
           | Inr item \<Rightarrow>
               (case ls_snapshot item of
                  None \<Rightarrow> ret (Inl (Statusf Internal ''Last modified time of snapshot is null'' []))
                | Some snap \<Rightarrow> ret (Inr (snap, ls_time item, case ls_quota item of None \<Rightarrow> 0 | Some q \<Rightarrow> q)))) }) }"

text \<open>A quota of zero is replaced by the quota of the share, from the cache or from the management API.\<close>

definition share_size ::
    "env \<Rightarrow> config \<Rightarrow> string \<Rightarrow> string \<Rightarrow> string \<Rightarrow> string \<Rightarrow> (goerr + int) prog" where
  "share_size E d subsID rgName accountName fileShareName = do {
     let key = accountName @ ''-'' @ fileShareName;
     cached \<leftarrow> get (\<lambda>s. if fresh E (trace s) getFileShareSizeCache key then sizeCache s key else None);
     (case cached of
        Some q \<Rightarrow> ret (Inr q)
      | None \<Rightarrow> do {
          err \<leftarrow> getFileShareClientForSub E d subsID;
          (case err of
             Some e \<Rightarrow> ret (Inl (Statusf Internal ''failed to get file share client for subID(%s): %v'' [subsID, err_text e]))
           | None \<Rightarrow> do {
               r \<leftarrow> call (ans_share E) (Rm (RmShareGet subsID rgName accountName fileShareName));
               (case r of
                  Inl e \<Rightarrow> ret (Inl (Statusf Internal ''failed to get file share(%s) quota: %v'' [fileShareName, err_text e]))
                | Inr None \<Rightarrow> ret (Inl (panic ''nil FileShareProperties''))
                | Inr (Some p) \<Rightarrow> do {
                    let q = (case sp_quota p of None \<Rightarrow> defaultAzureFileQuota | Some q \<Rightarrow> q);
                    modify (\<lambda>s. s\<lparr>sizeCache := (sizeCache s)(key \<mapsto> q)\<rparr>);
                    ret (Inr q) }) }) }) }"

definition take_snapshot ::
    "env \<Rightarrow> config \<Rightarrow> string \<Rightarrow> string \<Rightarrow> string \<Rightarrow> string \<Rightarrow> string \<Rightarrow> smap \<Rightarrow> string \<Rightarrow> smap
      \<Rightarrow> (goerr + snapshot_response) prog" where
  "take_snapshot E d sourceVolumeID subsID rgName accountName fileShareName secrets dataPlane metadata = do {
     r \<leftarrow> (if secrets \<noteq> [] \<or> dataPlane \<noteq> []
          then snapshot_by_data_plane E d sourceVolumeID secrets dataPlane metadata
          else snapshot_by_management E d sourceVolumeID subsID rgName accountName fileShareName metadata);
     (case r of
        Inl err \<Rightarrow> ret (Inl err)
      | Inr (itemSnapshot, itemTime, quota) \<Rightarrow> do {
          q \<leftarrow> (if quota = 0 then share_size E d subsID rgName accountName fileShareName else ret (Inr quota));
          ret (map_sum id (snapshot_answer sourceVolumeID itemSnapshot subsID itemTime) q) }) }"

definition CreateSnapshot ::
    "env \<Rightarrow> config \<Rightarrow> string \<Rightarrow> string \<Rightarrow> smap \<Rightarrow> smap \<Rightarrow> (goerr + snapshot_response) prog" where
  "CreateSnapshot E d sourceVolumeID snapshotName parameters secrets =
     (if snapshotName = [] then ret (Inl (status_error InvalidArgument ''Snapshot name must be provided''))
      else if sourceVolumeID = []
      then ret (Inl (status_error InvalidArgument ''CreateSnapshot Source Volume ID must be provided''))
      else case GetFileShareInfo sourceVolumeID of
        Inl err \<Rightarrow> ret (Inl (Statusf Internal ''GetFileShareInfo(%s) failed with error: %v'' [sourceVolumeID, err_text err]))
      | Inr i \<Rightarrow>
          (let rgName = (if si_rg i = [] then cloud_ResourceGroup d else si_rg i);
               subsID = (if isValidSubscriptionID (si_subs i) then si_subs i else cloud_SubscriptionID d)
           in case snapshot_params ([], []) parameters of
                Inl err \<Rightarrow> ret (Inl err)
              | Inr (dp, snapshotMetadata) \<Rightarrow> do {
                  dataPlane \<leftarrow> (if dp = [] then useDataPlaneAPI E sourceVolumeID (si_account i) else ret dp);
                  (exists, itemSnapshot, itemTime, quota, err)
                    \<leftarrow> snapshotExists E d sourceVolumeID snapshotName secrets dataPlane;
                  (case err of
                     Some e \<Rightarrow>
                       if exists then ret (Inl (wrapped e (Statusf AlreadyExists ''%v'' [err_text e])))
                       else ret (Inl (wrapped e (Statusf Internal ''failed to check if snapshot(%v) exists: %v'' [snapshotName, err_text e])))
                   | None \<Rightarrow>
                       if exists then ret (Inr (snapshot_answer sourceVolumeID itemSnapshot subsID itemTime quota))
                       else take_snapshot E d sourceVolumeID subsID rgName (si_account i) (si_share i) secrets dataPlane
                              (getSnapshotMetadata snapshotName snapshotMetadata)) }))"

section \<open>DeleteSnapshot\<close>

definition delete_snapshot_call ::
    "env \<Rightarrow> config \<Rightarrow> string \<Rightarrow> string \<Rightarrow> string \<Rightarrow> string \<Rightarrow> string \<Rightarrow> string \<Rightarrow> smap \<Rightarrow> (goerr + goerr option) option prog" where
  "delete_snapshot_call E d snapshotID subsID rgName accountName fileShareName snapshot secrets =
     (if secrets \<noteq> []
      then do {
        dataPlane \<leftarrow> useDataPlaneAPI E snapshotID accountName;
        c \<leftarrow> getShareClient E d snapshotID secrets dataPlane;
        (case c of
           Inl _ \<Rightarrow> ret None
         | Inr (f, shareName) \<Rightarrow> do {
             err \<leftarrow> call (ans_err E) (Share (DpWithSnapshot f shareName snapshot));
             (case err of
                Some e \<Rightarrow> ret (Some (Inl (Statusf Internal ''failed to get snapshot client for snapshot(%s): %v''
                                           [snapshot, err_text e])))
              | None \<Rightarrow> do {
                  deleteErr \<leftarrow> call (ans_err E) (Share (DpSnapshotDelete f shareName snapshot));
                  ret (Some (Inr deleteErr)) }) }) }
      else do {
        err \<leftarrow> getFileShareClientForSub E d subsID;
        (case err of
           Some e \<Rightarrow> ret (Some (Inl (Statusf Internal ''failed to get snapshot client for subID(%s): %v'' [subsID, err_text e])))
         | None \<Rightarrow> do {
             deleteErr \<leftarrow> call (ans_err E) (Rm (RmShareDelete subsID rgName accountName fileShareName (Some snapshot)));
             ret (Some (Inr deleteErr)) }) })"

definition DeleteSnapshot :: "env \<Rightarrow> config \<Rightarrow> string \<Rightarrow> smap \<Rightarrow> (goerr + unit) prog" where
  "DeleteSnapshot E d snapshotID secrets =
     (if snapshotID = [] then ret (Inl (status_error InvalidArgument ''Snapshot ID must be provided''))
      else case GetInfoFromSnapshotID snapshotID of
        Inl _ \<Rightarrow> ret (Inr ())
      | Inr (rgName, accountName, fileShareName, snapshot, subsID) \<Rightarrow>
          if fileShareName = [] then ret (Inr ())
          else if snapshot = []
          then ret (Inl (Statusf Internal ''failed to get snapshot name with (%s): snapshot name is empty'' [snapshotID]))
          else do {
            r \<leftarrow> delete_snapshot_call E d snapshotID
                   (if isValidSubscriptionID subsID then subsID else cloud_SubscriptionID d)
                   (if rgName = [] then cloud_ResourceGroup d else rgName) accountName fileShareName snapshot secrets;
            (case r of
               None \<Rightarrow> ret (Inr ())
             | Some (Inl err) \<Rightarrow> ret (Inl err)
             | Some (Inr None) \<Rightarrow> ret (Inr ())
             | Some (Inr (Some deleteErr)) \<Rightarrow>
                 if Contains (err_text deleteErr) ''ShareSnapshotNotFound'' then ret (Inr ())
                 else ret (Inl (Statusf Internal ''failed to delete snapshot(%s): %v'' [snapshot, err_text deleteErr]))) })"

end
