(* ===== verification/Controller.thy ===== *)
theory Controller
  imports Snapshot
begin

text \<open>
  The controller's requests on an existing volume (\<open>controllerserver.go\<close>): deletion, expansion, modification and the
  validation of capabilities.
\<close>

section \<open>Credentials for the data plane\<close>

text \<open>
  \<open>DeleteVolume\<close>, \<open>ControllerExpandVolume\<close> and \<open>ControllerModifyVolume\<close> read the account key when the volume uses the
  data-plane API and the request carries no secrets.
\<close>

definition data_plane_secrets ::
    "env \<Rightarrow> config \<Rightarrow> string \<Rightarrow> string \<Rightarrow> string \<Rightarrow> smap \<Rightarrow> string \<Rightarrow> (goerr + smap) prog" where
  "data_plane_secrets E d volumeID accountName secretNamespace secrets dataPlane =
     (if secrets = [] \<and> EqualFold dataPlane trueValue
      then do {
        let reqContext = (if secretNamespace \<noteq> [] then set_fold [] secretNamespaceField secretNamespace else []);
        (i, err) \<leftarrow> GetAccountInfo E d volumeID secrets reqContext;
        (case err of
           Some e \<Rightarrow> ret (Inl (Statusf NotFound ''get account info from(%s) failed with error: %v'' [volumeID, err_text e]))
         | None \<Rightarrow> ret (Inr (createStorageAccountSecret accountName (ai_key i)))) }
      else ret (Inr secrets))"

section \<open>DeleteVolume\<close>

definition SkipMatchingTag :: string where "SkipMatchingTag = ''skip-matching''"

definition delete_volume_locked :: "env \<Rightarrow> config \<Rightarrow> string \<Rightarrow> smap \<Rightarrow> (goerr + unit) prog" where
  "delete_volume_locked E d volumeID reqSecrets =
     (case GetFileShareInfo volumeID of
        Inl _ \<Rightarrow> ret (Inr ())
      | Inr i \<Rightarrow> do {
          let resourceGroupName = (if si_rg i = [] then cloud_ResourceGroup d else si_rg i);
          let subsID = (if isValidSubscriptionID (si_subs i) then si_subs i else cloud_SubscriptionID d);
          dataPlane \<leftarrow> useDataPlaneAPI E volumeID (si_account i);
          secret \<leftarrow> data_plane_secrets E d volumeID (si_account i) (si_namespace i) reqSecrets dataPlane;
          (case secret of
             Inl err \<Rightarrow> ret (Inl err)
           | Inr secret \<Rightarrow> do {
               err \<leftarrow> DeleteFileShare E d subsID resourceGroupName (si_account i) (si_share i) secret dataPlane;
               (case err of
                  Some e \<Rightarrow> ret (Inl (Statusf Internal ''DeleteFileShare %s under account(%s) rg(%s) failed with error: %v''
                                         [si_share i, si_account i, resourceGroupName, err_text e]))
                | None \<Rightarrow> do {
                    _ \<leftarrow> RemoveStorageAccountTag E subsID resourceGroupName (si_account i) SkipMatchingTag;
                    ret (Inr ()) }) }) })"

text \<open>The printed request in the message of an undeclared capability is abbreviated to its volume id.\<close>

definition DeleteVolume :: "env \<Rightarrow> config \<Rightarrow> rpc_type list \<Rightarrow> string \<Rightarrow> smap \<Rightarrow> (goerr + unit) prog" where
  "DeleteVolume E d Cap volumeID reqSecrets =
     (if volumeID = [] then ret (Inl (status_error InvalidArgument ''Volume ID missing in request''))
      else if ValidateControllerServiceRequest Cap CREATE_DELETE_VOLUME \<noteq> None
      then ret (Inl (Statusf InvalidArgument ''invalid delete volume request: %v'' [volumeID]))
      else with_volume_lock volumeID
             (ret (Inl (Statusf Aborted volumeOperationAlreadyExistsFmt [volumeID])))
             (delete_volume_locked E d volumeID reqSecrets))"

section \<open>ControllerExpandVolume\<close>

definition limit_error :: "goerr \<Rightarrow> bool" where
  "limit_error e \<longleftrightarrow> Contains (err_text e) accountLimitExceedManagementAPI
     \<or> Contains (err_text e) accountLimitExceedDataPlaneAPI"

definition expand_share ::
    "env \<Rightarrow> config \<Rightarrow> string \<Rightarrow> share_info \<Rightarrow> int \<Rightarrow> int \<Rightarrow> smap \<Rightarrow> (goerr + int) prog" where
  "expand_share E d volumeID i requestGiB capacityBytes reqSecrets = do {
     let resourceGroupName = (if si_rg i = [] then cloud_ResourceGroup d else si_rg i);
     let subsID = (if isValidSubscriptionID (si_subs i) then si_subs i else cloud_SubscriptionID d);
     dataPlane \<leftarrow> useDataPlaneAPI E volumeID (si_account i);
     secrets \<leftarrow> data_plane_secrets E d volumeID (si_account i) (si_namespace i) reqSecrets dataPlane;
     (case secrets of
        Inl err \<Rightarrow> ret (Inl err)
      | Inr secrets \<Rightarrow> do {
          err \<leftarrow> ResizeFileShare E d subsID resourceGroupName (si_account i) (si_share i) requestGiB secrets dataPlane;
          (case err of
             None \<Rightarrow> ret (Inr capacityBytes)
           | Some e \<Rightarrow>
               if err_kind e = Panic then ret (Inl e)
               else do {
                 (if limit_error e \<and> si_account i \<noteq> []
                  then cache_set resizeFileShareFailureCache (si_account i) [] else ret ());
                 ret (Inl (Statusf Internal ''expand volume error: %v'' [err_text e])) }) }) }"

definition ControllerExpandVolume ::
    "env \<Rightarrow> config \<Rightarrow> rpc_type list \<Rightarrow> string \<Rightarrow> int \<Rightarrow> smap \<Rightarrow> (goerr + int) prog" where
  "ControllerExpandVolume E d Cap volumeID capacityBytes reqSecrets =
     (if volumeID = [] then ret (Inl (status_error InvalidArgument ''Volume ID missing in request''))
      else if capacityBytes = 0
      then ret (Inl (status_error InvalidArgument ''volume capacity range missing in request''))
      else if ValidateControllerServiceRequest Cap EXPAND_VOLUME \<noteq> None
      then ret (Inl (Statusf InvalidArgument ''invalid expand volume request: %v'' [volumeID]))
      else case GetFileShareInfo volumeID of
        Inl err \<Rightarrow> ret (Inl (Statusf InvalidArgument ''GetFileShareInfo(%s) failed with error: %v'' [volumeID, err_text err]))
      | Inr i \<Rightarrow>
          if HasSuffix (si_disk i) vhdSuffix
          then ret (Inl (Statusf Unimplemented ''vhd disk volume(%s, diskName:%s) is not supported on ControllerExpandVolume''
                           [volumeID, si_disk i]))
          else do {
            cached \<leftarrow> (if si_account i \<noteq> [] then cache_get E resizeFileShareFailureCache (si_account i) else ret None);
            (if cached \<noteq> None
             then ret (Inl (Statusf Internal ''account(%s) is in %s, wait for a few minutes to retry''
                              [si_account i, accountLimitExceedManagementAPI]))
             else expand_share E d volumeID i (RoundUpGiB capacityBytes) capacityBytes reqSecrets) })"

section \<open>ControllerModifyVolume\<close>

definition provisionedIopsField :: string where "provisionedIopsField = ''provisionediops''"
definition provisionedBandwidthField :: string where "provisionedBandwidthField = ''provisionedbandwidth''"

text \<open>A 32-bit decimal number that is not negative.\<close>

definition parse_provisioned :: "string \<Rightarrow> int option" where
  "parse_provisioned v = (case ParseInt v 10 32 of None \<Rightarrow> None | Some n \<Rightarrow> if n < 0 then None else Some n)"

fun modify_params :: "int option \<times> int option \<Rightarrow> smap \<Rightarrow> goerr + int option \<times> int option" where
  "modify_params acc [] = Inr acc"
| "modify_params acc ((k, v) # m) =
     (let key = ToLower k in
      if key = provisionedIopsField
      then (case parse_provisioned v of
              None \<Rightarrow> Inl (Statusf InvalidArgument ''invalid %s: %s'' [provisionedIopsField, v])
            | Some n \<Rightarrow> modify_params (Some n, snd acc) m)
      else if key = provisionedBandwidthField
      then (case parse_provisioned v of
              None \<Rightarrow> Inl (Statusf InvalidArgument ''invalid %s: %s'' [provisionedBandwidthField, v])
            | Some n \<Rightarrow> modify_params (fst acc, Some n) m)
      else Inl (Statusf InvalidArgument ''unsupported mutable parameter: %s'' [k]))"

definition modify_share ::
    "env \<Rightarrow> config \<Rightarrow> string \<Rightarrow> share_info \<Rightarrow> int option \<Rightarrow> int option \<Rightarrow> smap \<Rightarrow> (goerr + unit) prog" where
  "modify_share E d volumeID i iops bandwidth reqSecrets = do {
     let resourceGroupName = (if si_rg i = [] then cloud_ResourceGroup d else si_rg i);
     let subsID = (if isValidSubscriptionID (si_subs i) then si_subs i else cloud_SubscriptionID d);
     dataPlane \<leftarrow> useDataPlaneAPI E volumeID (si_account i);
     secrets \<leftarrow> data_plane_secrets E d volumeID (si_account i) (si_namespace i) reqSecrets dataPlane;
     (case secrets of
        Inl err \<Rightarrow> ret (Inl err)
      | Inr secrets \<Rightarrow> do {
          err \<leftarrow> ModifyFileShare E d subsID resourceGroupName (si_account i) (si_share i) iops bandwidth secrets dataPlane;
          ret (case err of
                 None \<Rightarrow> Inr ()
               | Some e \<Rightarrow> Inl (Statusf Internal ''modify volume(%s) failed with error: %v'' [volumeID, err_text e])) }) }"

definition ControllerModifyVolume ::
    "env \<Rightarrow> config \<Rightarrow> rpc_type list \<Rightarrow> string \<Rightarrow> smap \<Rightarrow> smap \<Rightarrow> (goerr + unit) prog" where
  "ControllerModifyVolume E d Cap volumeID mutableParams reqSecrets =
     (if volumeID = [] then ret (Inl (status_error InvalidArgument ''Volume ID missing in request''))
      else case ValidateControllerServiceRequest Cap MODIFY_VOLUME of
        Some err \<Rightarrow> ret (Inl err)
      | None \<Rightarrow>
          (case GetFileShareInfo volumeID of
             Inl err \<Rightarrow> ret (Inl (Statusf NotFound ''GetFileShareInfo(%s) failed with error: %v'' [volumeID, err_text err]))
           | Inr i \<Rightarrow>
               if mutableParams = [] then ret (Inr ())
               else case modify_params (None, None) mutableParams of
                 Inl err \<Rightarrow> ret (Inl err)
               | Inr (iops, bandwidth) \<Rightarrow>
                   if iops = None \<and> bandwidth = None
                   then ret (Inl (status_error InvalidArgument
                          ''at least one of provisionedIOPS or provisionedBandwidth must be specified''))
                   else modify_share E d volumeID i iops bandwidth reqSecrets))"

section \<open>ValidateVolumeCapabilities\<close>

text \<open>The capabilities confirmed for a disk volume; a capability without an access mode is a nil pointer the code follows.\<close>

fun confirm_disk_caps :: "volume_capability list \<Rightarrow> volume_capability list \<Rightarrow> goerr + volume_capability list option" where
  "confirm_disk_caps volCaps [] = Inr (Some volCaps)"
| "confirm_disk_caps volCaps (c # cs) =
     (case vc_mode c of
        None \<Rightarrow> Inl (panic ''nil AccessMode'')
      | Some m \<Rightarrow> if m = MULTI_NODE_SINGLE_WRITER then Inr None else confirm_disk_caps volCaps cs)"

definition ValidateVolumeCapabilities ::
    "env \<Rightarrow> config \<Rightarrow> string \<Rightarrow> volume_capability list \<Rightarrow> smap \<Rightarrow> smap \<Rightarrow> (goerr + volume_capability list option) prog" where
  "ValidateVolumeCapabilities E d volumeID volCaps secrets volumeContext =
     (if volumeID = [] then ret (Inl (status_error InvalidArgument ''Volume ID not provided''))
      else if volCaps = [] then ret (Inl (status_error InvalidArgument ''Volume capabilities not provided''))
      else do {
        (i, err) \<leftarrow> GetAccountInfo E d volumeID secrets volumeContext;
        (if err \<noteq> None \<or> ai_account i = [] \<or> ai_share i = []
         then ret (Inl (Statusf NotFound ''get account info from(%s) failed with error: %v'' [volumeID, show_err err]))
         else do {
           let accountOptions = source_account_options (ai_account i)
                 (if ai_rg i = [] then cloud_ResourceGroup d else ai_rg i)
                 (if ai_subs i = [] then cloud_SubscriptionID d else ai_subs i) False;
           dataPlane \<leftarrow> useDataPlaneAPI E volumeID (ai_account i);
           quota \<leftarrow> getFileShareQuota E d accountOptions (ai_share i) secrets dataPlane;
           (case quota of
              Inl e \<Rightarrow> ret (Inl (Statusf Internal ''error checking if volume(%s) exists: %v'' [volumeID, err_text e]))
            | Inr q \<Rightarrow>
                if q = - 1
                then ret (Inl (Statusf NotFound ''the requested volume(%s) does not exist.'' [volumeID]))
                else if \<not> HasSuffix (ai_disk i) vhdSuffix then ret (Inr (Some volCaps))
                else ret (confirm_disk_caps volCaps volCaps)) }) })"

end
