(* ===== verification/StorageClass.thy ===== *)
theory StorageClass
  imports Controller
begin

text \<open>
  The parameters of \<open>CreateVolume\<close> (\<open>controllerserver.go\<close>): the switch over the keys of the storage class, and the
  checks on the values it leaves in the local variables.
\<close>

section \<open>Keys\<close>

definition skuNameField :: string where "skuNameField = ''skuname''"
definition storageAccountTypeField :: string where "storageAccountTypeField = ''storageaccounttype''"
definition locationField :: string where "locationField = ''location''"
definition fsTypeField :: string where "fsTypeField = ''fstype''"
definition storeAccountKeyField :: string where "storeAccountKeyField = ''storeaccountkey''"
definition selectRandomMatchingAccountField :: string where
  "selectRandomMatchingAccountField = ''selectrandommatchingaccount''"
definition matchTagsField :: string where "matchTagsField = ''matchtags''"
definition tagsField :: string where "tagsField = ''tags''"
definition createAccountField :: string where "createAccountField = ''createaccount''"
definition useSecretCacheField :: string where "useSecretCacheField = ''usesecretcache''"
definition enableLargeFileSharesField :: string where "enableLargeFileSharesField = ''enablelargefileshares''"
definition disableDeleteRetentionPolicyField :: string where
  "disableDeleteRetentionPolicyField = ''disabledeleteretentionpolicy''"
definition storageEndpointSuffixField :: string where "storageEndpointSuffixField = ''storageendpointsuffix''"
definition networkEndpointTypeField :: string where "networkEndpointTypeField = ''networkendpointtype''"
definition privateDNSZoneResourceGroupField :: string where
  "privateDNSZoneResourceGroupField = ''privatednszoneresourcegroup''"
definition accessTierField :: string where "accessTierField = ''accesstier''"
definition shareAccessTierField :: string where "shareAccessTierField = ''shareaccesstier''"
definition accountAccessTierField :: string where "accountAccessTierField = ''accountaccesstier''"
definition rootSquashTypeField :: string where "rootSquashTypeField = ''rootsquashtype''"
definition allowBlobPublicAccessField :: string where "allowBlobPublicAccessField = ''allowblobpublicaccess''"
definition publicNetworkAccessField :: string where "publicNetworkAccessField = ''publicnetworkaccess''"
definition allowSharedKeyAccessField :: string where "allowSharedKeyAccessField = ''allowsharedkeyaccess''"
definition allowCrossTenantReplicationField :: string where
  "allowCrossTenantReplicationField = ''allowcrosstenantreplication''"
definition pvcNameKey :: string where "pvcNameKey = ''csi.storage.k8s.io/pvc/name''"
definition pvNameKey :: string where "pvNameKey = ''csi.storage.k8s.io/pv/name''"
definition pvcNameMetadata :: string where "pvcNameMetadata = ''${pvc.metadata.name}''"
definition pvcNamespaceMetadata :: string where "pvcNamespaceMetadata = ''${pvc.metadata.namespace}''"
definition pvNameMetadata :: string where "pvNameMetadata = ''${pv.metadata.name}''"
definition serverNameField :: string where "serverNameField = ''server''"
definition confidentialContainerLabelField :: string where
  "confidentialContainerLabelField = ''confidentialcontainerlabel''"
definition runtimeClassHandlerField :: string where "runtimeClassHandlerField = ''runtimeclasshandler''"
definition fsGroupChangePolicyField :: string where "fsGroupChangePolicyField = ''fsgroupchangepolicy''"
definition mountPermissionsField :: string where "mountPermissionsField = ''mountpermissions''"
definition vnetResourceGroupField :: string where "vnetResourceGroupField = ''vnetresourcegroup''"
definition vnetNameField :: string where "vnetNameField = ''vnetname''"
definition vnetLinkNameField :: string where "vnetLinkNameField = ''vnetlinkname''"
definition subnetNameField :: string where "subnetNameField = ''subnetname''"
definition shareNamePrefixField :: string where "shareNamePrefixField = ''sharenameprefix''"
definition requireInfraEncryptionField :: string where "requireInfraEncryptionField = ''requireinfraencryption''"
definition enableMultichannelField :: string where "enableMultichannelField = ''enablemultichannel''"
definition accountQuotaField :: string where "accountQuotaField = ''accountquota''"
definition tagValueDelimiterField :: string where "tagValueDelimiterField = ''tagvaluedelimiter''"
definition encryptInTransitField :: string where "encryptInTransitField = ''encryptintransit''"
definition minimumAccountQuota :: int where "minimumAccountQuota = 100"

lemmas class_field_defs = skuNameField_def storageAccountTypeField_def locationField_def fsTypeField_def
  storeAccountKeyField_def selectRandomMatchingAccountField_def matchTagsField_def tagsField_def
  createAccountField_def useSecretCacheField_def enableLargeFileSharesField_def
  disableDeleteRetentionPolicyField_def storageEndpointSuffixField_def networkEndpointTypeField_def
  privateDNSZoneResourceGroupField_def accessTierField_def shareAccessTierField_def accountAccessTierField_def
  rootSquashTypeField_def allowBlobPublicAccessField_def publicNetworkAccessField_def
  allowSharedKeyAccessField_def allowCrossTenantReplicationField_def pvcNameKey_def pvNameKey_def
  serverNameField_def confidentialContainerLabelField_def runtimeClassHandlerField_def
  fsGroupChangePolicyField_def mountPermissionsField_def vnetResourceGroupField_def vnetNameField_def
  vnetLinkNameField_def subnetNameField_def shareNamePrefixField_def requireInfraEncryptionField_def
  enableMultichannelField_def accountQuotaField_def tagValueDelimiterField_def encryptInTransitField_def
  useDataPlaneAPIField_def provisionedIopsField_def provisionedBandwidthField_def account_field_defs

section \<open>Local variables\<close>

record class_text =
  ct_sku :: string
  ct_subsID :: string
  ct_resourceGroup :: string
  ct_location :: string
  ct_account :: string
  ct_fileShareName :: string
  ct_diskName :: string
  ct_fsType :: string
  ct_secretName :: string
  ct_secretNamespace :: string
  ct_pvcNamespace :: string
  ct_protocol :: string
  ct_customTags :: string
  ct_storageEndpointSuffix :: string
  ct_networkEndpointType :: string
  ct_shareAccessTier :: string
  ct_accountAccessTier :: string
  ct_rootSquashType :: string
  ct_tagValueDelimiter :: string
  ct_vnetResourceGroup :: string
  ct_vnetName :: string
  ct_vnetLinkName :: string
  ct_publicNetworkAccess :: string
  ct_subnetName :: string
  ct_shareNamePrefix :: string
  ct_fsGroupChangePolicy :: string
  ct_privateDNSZoneResourceGroup :: string
  ct_replaceMap :: smap

record class_flags =
  cf_createAccount :: bool
  cf_useSecretCache :: bool
  cf_matchTags :: bool
  cf_selectRandom :: bool
  cf_getLatestAccountKey :: bool
  cf_encryptInTransit :: bool
  cf_managedIdentity :: bool
  cf_WIToken :: bool
  cf_OAuthToken :: bool
  cf_storeAccountKey :: bool
  cf_requireInfraEncryption :: "bool option"
  cf_disableDeleteRetention :: "bool option"
  cf_enableLFS :: "bool option"
  cf_multichannel :: "bool option"
  cf_allowSharedKey :: "bool option"
  cf_allowCrossTenant :: "bool option"
  cf_allowBlobPublic :: "bool option"
  cf_bandwidth :: "int option"
  cf_iops :: "int option"
  cf_accountQuota :: int
  cf_dataPlane :: string

definition initial_text :: class_text where
  "initial_text =
     \<lparr>ct_sku = [], ct_subsID = [], ct_resourceGroup = [], ct_location = [], ct_account = [], ct_fileShareName = [],
      ct_diskName = [], ct_fsType = [], ct_secretName = [], ct_secretNamespace = [], ct_pvcNamespace = [],
      ct_protocol = [], ct_customTags = [], ct_storageEndpointSuffix = [], ct_networkEndpointType = [],
      ct_shareAccessTier = [], ct_accountAccessTier = [], ct_rootSquashType = [], ct_tagValueDelimiter = [],
      ct_vnetResourceGroup = [], ct_vnetName = [], ct_vnetLinkName = [], ct_publicNetworkAccess = [],
      ct_subnetName = [], ct_shareNamePrefix = [], ct_fsGroupChangePolicy = [],
      ct_privateDNSZoneResourceGroup = [], ct_replaceMap = []\<rparr>"

definition initial_flags :: class_flags where
  "initial_flags =
     \<lparr>cf_createAccount = False, cf_useSecretCache = False, cf_matchTags = False, cf_selectRandom = False,
      cf_getLatestAccountKey = False, cf_encryptInTransit = False, cf_managedIdentity = False, cf_WIToken = False,
      cf_OAuthToken = False, cf_storeAccountKey = True, cf_requireInfraEncryption = None,
      cf_disableDeleteRetention = None, cf_enableLFS = None, cf_multichannel = None, cf_allowSharedKey = None,
      cf_allowCrossTenant = None, cf_allowBlobPublic = Some False, cf_bandwidth = None, cf_iops = None,
      cf_accountQuota = 0, cf_dataPlane = []\<rparr>"

section \<open>The switch\<close>

text \<open>The cases that copy the value into a variable.\<close>

definition text_param :: "class_text \<Rightarrow> string \<Rightarrow> string \<Rightarrow> class_text option" where
  "text_param t k v =
     (if k = skuNameField \<or> k = storageAccountTypeField then Some (t\<lparr>ct_sku := v\<rparr>)
      else if k = locationField then Some (t\<lparr>ct_location := v\<rparr>)
      else if k = storageAccountField then Some (t\<lparr>ct_account := v\<rparr>)
      else if k = subscriptionIDField then Some (t\<lparr>ct_subsID := v\<rparr>)
      else if k = resourceGroupField then Some (t\<lparr>ct_resourceGroup := v\<rparr>)
      else if k = shareNameField then Some (t\<lparr>ct_fileShareName := v\<rparr>)
      else if k = diskNameField then Some (t\<lparr>ct_diskName := v\<rparr>)
      else if k = fsTypeField then Some (t\<lparr>ct_fsType := v\<rparr>)
      else if k = secretNameField then Some (t\<lparr>ct_secretName := v\<rparr>)
      else if k = secretNamespaceField then Some (t\<lparr>ct_secretNamespace := v\<rparr>)
      else if k = protocolField then Some (t\<lparr>ct_protocol := v\<rparr>)
      else if k = tagsField then Some (t\<lparr>ct_customTags := v\<rparr>)
      else if k = pvcNamespaceKey
           then Some (t\<lparr>ct_pvcNamespace := v, ct_replaceMap := map_put (ct_replaceMap t) pvcNamespaceMetadata v\<rparr>)
      else if k = storageEndpointSuffixField then Some (t\<lparr>ct_storageEndpointSuffix := v\<rparr>)
      else if k = networkEndpointTypeField then Some (t\<lparr>ct_networkEndpointType := v\<rparr>)
      else if k = privateDNSZoneResourceGroupField then Some (t\<lparr>ct_privateDNSZoneResourceGroup := v\<rparr>)
      else if k = accessTierField \<or> k = shareAccessTierField then Some (t\<lparr>ct_shareAccessTier := v\<rparr>)
      else if k = accountAccessTierField then Some (t\<lparr>ct_accountAccessTier := v\<rparr>)
      else if k = rootSquashTypeField then Some (t\<lparr>ct_rootSquashType := v\<rparr>)
      else if k = publicNetworkAccessField then Some (t\<lparr>ct_publicNetworkAccess := v\<rparr>)
      else if k = pvcNameKey then Some (t\<lparr>ct_replaceMap := map_put (ct_replaceMap t) pvcNameMetadata v\<rparr>)
      else if k = pvNameKey then Some (t\<lparr>ct_replaceMap := map_put (ct_replaceMap t) pvNameMetadata v\<rparr>)
      else if k = fsGroupChangePolicyField then Some (t\<lparr>ct_fsGroupChangePolicy := v\<rparr>)
      else if k = vnetResourceGroupField then Some (t\<lparr>ct_vnetResourceGroup := v\<rparr>)
      else if k = vnetNameField then Some (t\<lparr>ct_vnetName := v\<rparr>)
      else if k = vnetLinkNameField then Some (t\<lparr>ct_vnetLinkName := v\<rparr>)
      else if k = subnetNameField then Some (t\<lparr>ct_subnetName := v\<rparr>)
      else if k = shareNamePrefixField then Some (t\<lparr>ct_shareNamePrefix := v\<rparr>)
      else if k = tagValueDelimiterField then Some (t\<lparr>ct_tagValueDelimiter := v\<rparr>)
      else None)"

definition class_bool :: "string \<Rightarrow> string \<Rightarrow> (bool \<Rightarrow> class_flags) \<Rightarrow> goerr + class_flags" where
  "class_bool field v upd =
     (case ParseBool v of
        None \<Rightarrow> Inl (Statusf InvalidArgument ''invalid %s: %s in storage class'' [field, v])
      | Some b \<Rightarrow> Inr (upd b))"

definition class_number :: "string \<Rightarrow> string \<Rightarrow> (int \<Rightarrow> class_flags) \<Rightarrow> goerr + class_flags" where
  "class_number fmt v upd =
     (case parse_provisioned v of
        None \<Rightarrow> Inl (Statusf InvalidArgument fmt [v])
      | Some n \<Rightarrow> Inr (upd n))"

text \<open>The cases that parse the value; \<open>None\<close>: the key is none of them.\<close>

definition flag_param :: "class_flags \<Rightarrow> string \<Rightarrow> string \<Rightarrow> (goerr + class_flags) option" where
  "flag_param f k v =
     (if k = storeAccountKeyField
      then Some (Inr (if EqualFold v falseValue then f\<lparr>cf_storeAccountKey := False\<rparr> else f))
      else if k = selectRandomMatchingAccountField then Some (class_bool k v (\<lambda>b. f\<lparr>cf_selectRandom := b\<rparr>))
      else if k = matchTagsField then Some (Inr (f\<lparr>cf_matchTags := EqualFold v trueValue\<rparr>))
      else if k = createAccountField then Some (Inr (f\<lparr>cf_createAccount := EqualFold v trueValue\<rparr>))
      else if k = useSecretCacheField then Some (Inr (f\<lparr>cf_useSecretCache := EqualFold v trueValue\<rparr>))
      else if k = enableLargeFileSharesField then Some (class_bool k v (\<lambda>b. f\<lparr>cf_enableLFS := Some b\<rparr>))
      else if k = useDataPlaneAPIField
      then Some (if valid_data_plane v then Inr (f\<lparr>cf_dataPlane := v\<rparr>)
                 else Inl (Statusf InvalidArgument ''invalid %s: %s in storage class'' [k, v]))
      else if k = disableDeleteRetentionPolicyField
      then Some (class_bool k v (\<lambda>b. f\<lparr>cf_disableDeleteRetention := Some b\<rparr>))
      else if k = allowBlobPublicAccessField then Some (class_bool k v (\<lambda>b. f\<lparr>cf_allowBlobPublic := Some b\<rparr>))
      else if k = allowSharedKeyAccessField then Some (class_bool k v (\<lambda>b. f\<lparr>cf_allowSharedKey := Some b\<rparr>))
      else if k = allowCrossTenantReplicationField
      then Some (class_bool k v (\<lambda>b. f\<lparr>cf_allowCrossTenant := Some b\<rparr>))
      else if k = requireInfraEncryptionField
      then Some (class_bool k v (\<lambda>b. f\<lparr>cf_requireInfraEncryption := Some b\<rparr>))
      else if k = enableMultichannelField then Some (class_bool k v (\<lambda>b. f\<lparr>cf_multichannel := Some b\<rparr>))
      else if k = getLatestAccountKeyField then Some (class_bool k v (\<lambda>b. f\<lparr>cf_getLatestAccountKey := b\<rparr>))
      else if k = accountQuotaField
      then Some (case ParseInt v 10 32 of
                   None \<Rightarrow> Inl (Statusf InvalidArgument
                            ''invalid accountQuota %s in storage class, minimum quota: %d'' [v, ''100''])
                 | Some n \<Rightarrow>
                     if n < minimumAccountQuota
                     then Inl (Statusf InvalidArgument
                            ''invalid accountQuota %s in storage class, minimum quota: %d'' [v, ''100''])
                     else Inr (f\<lparr>cf_accountQuota := n\<rparr>))
      else if k = encryptInTransitField then Some (class_bool k v (\<lambda>b. f\<lparr>cf_encryptInTransit := b\<rparr>))
      else if k = provisionedBandwidthField
      then Some (class_number ''invalid provisionedBandwidth %s in storage class'' v (\<lambda>n. f\<lparr>cf_bandwidth := Some n\<rparr>))
      else if k = provisionedIopsField
      then Some (class_number ''invalid provisionedIops %s in storage class'' v (\<lambda>n. f\<lparr>cf_iops := Some n\<rparr>))
      else if k = mountWithManagedIdentityField then Some (class_bool k v (\<lambda>b. f\<lparr>cf_managedIdentity := b\<rparr>))
      else if k = mountWithWITokenField then Some (class_bool k v (\<lambda>b. f\<lparr>cf_WIToken := b\<rparr>))
      else if k = mountWithOAuthTokenField then Some (class_bool k v (\<lambda>b. f\<lparr>cf_OAuthToken := b\<rparr>))
      else None)"

text \<open>The cases that only check the value or ignore it.\<close>

definition checked_param :: "string \<Rightarrow> string \<Rightarrow> goerr option option" where
  "checked_param k v =
     (if k = folderNameField
      then Some (if Trim v ''/'' = [] then None
                 else map_option (\<lambda>err. Statusf InvalidArgument ''invalid folderName in storage class: %v'' [err_text err])
                        (isValidFolderName (Trim v ''/'')))
      else if k = mountPermissionsField
      then Some (case ParseUint v 8 32 of
                   None \<Rightarrow> Some (Statusf InvalidArgument ''invalid mountPermissions %s in storage class'' [v])
                 | Some _ \<Rightarrow> None)
      else if k \<in> set [serverNameField, clientIDField, tenantIDField, confidentialContainerLabelField,
                      runtimeClassHandlerField, createFolderIfNotExistField]
      then Some None
      else None)"

definition class_param :: "class_text \<times> class_flags \<Rightarrow> string \<Rightarrow> string \<Rightarrow> goerr + class_text \<times> class_flags" where
  "class_param tf key v =
     (let k = ToLower key in
      case text_param (fst tf) k v of
        Some t \<Rightarrow> Inr (t, snd tf)
      | None \<Rightarrow>
          (case flag_param (snd tf) k v of
             Some r \<Rightarrow> map_sum id (\<lambda>f. (fst tf, f)) r
           | None \<Rightarrow>
               (case checked_param k v of
                  Some None \<Rightarrow> Inr tf
                | Some (Some err) \<Rightarrow> Inl err
                | None \<Rightarrow> Inl (Statusf InvalidArgument ''invalid parameter %q in storage class'' [key]))))"

fun class_params :: "class_text \<times> class_flags \<Rightarrow> smap \<Rightarrow> goerr + class_text \<times> class_flags" where
  "class_params tf [] = Inr tf"
| "class_params tf ((k, v) # m) = (case class_param tf k v of Inl err \<Rightarrow> Inl err | Inr tf \<Rightarrow> class_params tf m)"

section \<open>Checks\<close>

text \<open>A sequence of \<open>if condition { return error }\<close>.\<close>

definition first_error :: "(bool \<times> goerr) list \<Rightarrow> goerr option" where
  "first_error checks = map_option snd (find fst checks)"

lemma first_error_None: "first_error checks = None \<longleftrightarrow> list_all (\<lambda>check. \<not> fst check) checks"
  unfolding first_error_def by (induction checks) simp_all

lemma first_error_Some: "first_error checks = Some e \<Longrightarrow> e \<in> snd ` set checks"
  unfolding first_error_def
proof (induction checks)
  case (Cons check checks)
  then show ?case by (cases "fst check") simp_all
qed simp

definition invalid :: "string \<Rightarrow> string list \<Rightarrow> goerr" where
  "invalid fmt args = Statusf InvalidArgument fmt args"

definition identity_mount :: "class_flags \<Rightarrow> bool" where
  "identity_mount f \<longleftrightarrow> cf_managedIdentity f \<or> cf_WIToken f \<or> cf_OAuthToken f"

definition identity_checks :: "config \<Rightarrow> class_text \<Rightarrow> class_flags \<Rightarrow> (bool \<times> goerr) list" where
  "identity_checks d t f =
     [(cf_managedIdentity f \<and> cf_WIToken f \<or> cf_managedIdentity f \<and> cf_OAuthToken f \<or> cf_WIToken f \<and> cf_OAuthToken f,
       invalid ''only one of %s, %s, and %s can be true in storage class''
         [mountWithManagedIdentityField, mountWithOAuthTokenField, mountWithWITokenField]),
      (cf_OAuthToken f \<and> ct_secretName t = [],
       invalid ''%s is required when %s is true'' [secretNameField, mountWithOAuthTokenField]),
      (cf_OAuthToken f \<and> (ct_protocol t = nfs \<or> ct_fsType t = nfs),
       invalid ''%s is not supported with NFS protocol'' [mountWithOAuthTokenField]),
      (cf_matchTags f \<and> ct_account t \<noteq> [],
       invalid ''matchTags must set as false when storageAccount(%s) is provided'' [ct_account t]),
      (ct_subsID t \<noteq> [] \<and> ct_subsID t \<noteq> cloud_SubscriptionID d \<and> ct_resourceGroup t = [],
       invalid ''resourceGroup must be provided in cross subscription(%s)'' [ct_subsID t])]"

definition value_checks :: "config \<Rightarrow> class_text \<Rightarrow> (bool \<times> goerr) list" where
  "value_checks d t =
     [(\<not> enableVHDDiskFeature d \<and> ct_fsType t \<noteq> [],
       invalid ''fsType storage class parameter enables experimental VDH disk feature which is currently disabled, use --enable-vhd driver option to enable it'' []),
      (\<not> isSupportedFsType (ct_fsType t),
       invalid ''fsType(%s) is not supported, supported fsType list: %v'' [ct_fsType t, show_list supportedFsTypeList]),
      (\<not> isSupportedProtocol (ct_protocol t),
       invalid ''protocol(%s) is not supported, supported protocol list: %v''
         [ct_protocol t, show_list supportedProtocolList]),
      (\<not> isSupportedShareAccessTier (ct_shareAccessTier t),
       invalid ''shareAccessTier(%s) is not supported, supported ShareAccessTier list: %v''
         [ct_shareAccessTier t, ''[Cool Hot Premium TransactionOptimized]'']),
      (\<not> isSupportedAccountAccessTier (ct_accountAccessTier t),
       invalid ''accountAccessTier(%s) is not supported, supported AccountAccessTier list: %v''
         [ct_accountAccessTier t, ''[Cold Cool Hot Premium]'']),
      (\<not> isSupportedRootSquashType (ct_rootSquashType t),
       invalid ''rootSquashType(%s) is not supported, supported RootSquashType list: %v''
         [ct_rootSquashType t, ''[AllSquash NoRootSquash RootSquash]'']),
      (\<not> isSupportedFSGroupChangePolicy (ct_fsGroupChangePolicy t),
       invalid ''fsGroupChangePolicy(%s) is not supported, supported fsGroupChangePolicy list: %v''
         [ct_fsGroupChangePolicy t, show_list supportedFSGroupChangePolicyList]),
      (\<not> isSupportedShareNamePrefix (ct_shareNamePrefix t),
       invalid ''shareNamePrefix(%s) can only contain lowercase letters, numbers, hyphens, and length should be less than 21''
         [ct_shareNamePrefix t]),
      (\<not> isSupportedPublicNetworkAccess (ct_publicNetworkAccess t),
       invalid ''publicNetworkAccess(%s) is not supported, supported PublicNetworkAccess list: %v''
         [ct_publicNetworkAccess t, ''[Disabled Enabled SecuredByPerimeter]'']),
      (\<not> isSupportedNetworkEndpointType (ct_networkEndpointType t),
       invalid ''networkEndpointType(%s) is not supported, supported networkEndpointType list: %v''
         [ct_networkEndpointType t, show_list supportedNetworkEndpointTypeList]),
      (ct_protocol t = nfs \<and> ct_fsType t \<noteq> [] \<and> ct_fsType t \<noteq> nfs,
       invalid ''fsType(%s) is not supported with protocol(%s)'' [ct_fsType t, ct_protocol t]),
      (EqualFold (ct_networkEndpointType t) privateEndpoint \<and> Contains (ct_subnetName t) '','',
       invalid ''subnetName(%s) can only contain one subnet for private endpoint'' [ct_subnetName t]),
      (\<not> EqualFold (ct_networkEndpointType t) privateEndpoint \<and> ct_privateDNSZoneResourceGroup t \<noteq> [],
       invalid ''%s(%s) is only supported with private endpoint''
         [privateDNSZoneResourceGroupField, ct_privateDNSZoneResourceGroup t]),
      ((ct_fsType t = nfs \<or> ct_protocol t = nfs) \<and> ct_sku t \<noteq> [] \<and> HasPrefix (ToLower (ct_sku t)) ''standard'',
       invalid ''nfs protocol only supports premium storage, current account type: %s'' [ct_sku t])]"

text \<open>\<open>secretNamespace\<close> as it is after its defaults.\<close>

definition class_namespace :: "class_text \<Rightarrow> string" where
  "class_namespace t =
     (if ct_secretNamespace t \<noteq> [] then ct_secretNamespace t
      else if ct_pvcNamespace t = [] then defaultNamespace else ct_pvcNamespace t)"

section \<open>Protocol and network\<close>

definition wants_nfs :: "class_text \<Rightarrow> bool" where
  "wants_nfs t \<longleftrightarrow> ct_fsType t = nfs \<or> ct_protocol t = nfs"

definition private_endpoint :: "class_text \<Rightarrow> bool" where
  "private_endpoint t \<longleftrightarrow> EqualFold (ct_networkEndpointType t) privateEndpoint"

text \<open>An NFS share is only reached from a secured network: a service endpoint unless there is a private one.\<close>

definition createServiceEndpoint :: "class_text \<Rightarrow> bool" where
  "createServiceEndpoint t \<longleftrightarrow>
     (if private_endpoint t then False
      else EqualFold (ct_networkEndpointType t) serviceEndpoint \<or> wants_nfs t)"

text \<open>The variables after the NFS branch: the account type, the protocol, and whether the account key is stored.\<close>

definition nfs_text :: "class_text \<Rightarrow> class_text" where
  "nfs_text t =
     (if wants_nfs t then t\<lparr>ct_sku := (if ct_sku t = [] then ''Premium_LRS'' else ct_sku t), ct_protocol := nfs\<rparr> else t)"

definition nfs_flags :: "class_text \<Rightarrow> class_flags \<Rightarrow> class_flags" where
  "nfs_flags t f =
     f\<lparr>cf_storeAccountKey := cf_storeAccountKey f \<and> \<not> identity_mount f \<and> \<not> wants_nfs t\<rparr>"

definition httpsOnly :: "class_text \<Rightarrow> class_flags \<Rightarrow> bool" where
  "httpsOnly t f \<longleftrightarrow> (wants_nfs t \<longrightarrow> cf_encryptInTransit f)"

text \<open>The checks after the service endpoints are updated; \<open>t\<close> and \<open>f\<close> are the variables after the NFS branch.\<close>

definition late_checks :: "class_text \<Rightarrow> class_flags \<Rightarrow> (bool \<times> goerr) list" where
  "late_checks t f =
     [(cf_multichannel f = Some True \<and> ct_sku t \<noteq> [] \<and> \<not> HasPrefix (ToLower (ct_sku t)) ''premium'',
       invalid ''smb multichannel is only supported with premium account, current account type: %s'' [ct_sku t]),
      (cf_multichannel f = Some True \<and> (ct_fsType t = nfs \<or> ct_protocol t = nfs),
       invalid ''smb multichannel is only supported with smb protocol, current protocol: %s'' [ct_protocol t]),
      (cf_storeAccountKey f \<and> cf_allowSharedKey f = Some False,
       invalid ''storeAccountKey is not supported for account with shared access key disabled'' [])]"

end
