(* ===== verification/Provision.thy ===== *)
theory Provision
  imports StorageClass
begin

text \<open>
  \<open>CreateVolume\<close> (\<open>controllerserver.go\<close>), phase by phase in the order of the code: the request, the plan (parameters,
  network, size, names, account options), the account, the share, the copy of a source, the disk, the secret, the answer.
  A request that finds the account full tags the account and starts again; \<open>CreateVolume\<close> takes the number of starts it
  may make as fuel, and \<open>None\<close> means that they were used up.
\<close>

record create_request =
  cr_Name :: string
  cr_Capabilities :: "volume_capability list"
  cr_RequiredBytes :: int
  cr_Parameters :: "smap option"
  cr_MutableParameters :: smap
  cr_Secrets :: smap
  cr_Source :: "content_source option"

record create_response =
  crr_VolumeId :: string
  crr_CapacityBytes :: int
  crr_VolumeContext :: smap
  crr_ContentSource :: "content_source option"

section \<open>Size and account type\<close>

definition minimumPremiumShareSize :: int where "minimumPremiumShareSize = 100"
definition minimumV2ShareSize :: int where "minimumV2ShareSize = 32"
definition premium_prefix :: string where "premium_prefix = ''premium''"

definition requested_GiB :: "int \<Rightarrow> int" where
  "requested_GiB capacityBytes =
     (let requestGiB = RoundUpGiB capacityBytes in if requestGiB = 0 then defaultAzureFileQuota else requestGiB)"

text \<open>Without an account type, the type of the named account is looked up for a small share.\<close>

definition lookup_sku :: "env \<Rightarrow> config \<Rightarrow> class_text \<Rightarrow> int \<Rightarrow> (goerr + string) prog" where
  "lookup_sku E d t fileShareSize =
     (if ct_account t \<noteq> [] \<and> ct_resourceGroup t \<noteq> [] \<and> ct_sku t = [] \<and> fileShareSize < minimumV2ShareSize
      then (if \<not> hasClientFactory d then ret (Inl (Statusf Internal ''cloud provider is not initialized'' []))
            else do {
              err \<leftarrow> call (ans_err E) (Account (AccountClientForSub (ct_subsID t)));
              (case err of
                 Some e \<Rightarrow> ret (Inl (Statusf Internal ''failed to get account client for subscription %s: %v''
                                        [ct_subsID t, err_text e]))
               | None \<Rightarrow> do {
                   r \<leftarrow> call (ans_optstr E)
                          (Account (AccountProperties (ct_subsID t) (ct_resourceGroup t) (ct_account t)));
                   ret (Inr (case r of Inr (Some sku) \<Rightarrow> sku | _ \<Rightarrow> ct_sku t)) }) })
      else ret (Inr (ct_sku t)))"

definition is_v2 :: "string \<Rightarrow> bool" where
  "is_v2 sku \<longleftrightarrow> Contains (ToLower sku) ''v2''"

definition is_premium :: "string \<Rightarrow> bool" where
  "is_premium sku \<longleftrightarrow> HasPrefix (ToLower sku) premium_prefix"

definition account_kind :: "string \<Rightarrow> string" where
  "account_kind sku = (if is_premium sku \<or> is_v2 sku then ''FileStorage'' else ''StorageV2'')"

definition minimum_size :: "string \<Rightarrow> int \<Rightarrow> int" where
  "minimum_size sku n =
     (let n = (if is_premium sku \<and> \<not> is_v2 sku \<and> n < minimumPremiumShareSize then minimumPremiumShareSize else n)
      in if is_v2 sku \<and> n < minimumV2ShareSize then minimumV2ShareSize else n)"

definition provisioned_defaults :: "string \<Rightarrow> int \<Rightarrow> class_flags \<Rightarrow> class_flags" where
  "provisioned_defaults sku n f =
     (if is_v2 sku
      then f\<lparr>cf_iops := (if cf_iops f = None then getDefaultIOPS n sku else cf_iops f),
             cf_bandwidth := (if cf_bandwidth f = None then getDefaultBandwidth n sku else cf_bandwidth f)\<rparr>
      else f)"

section \<open>Names\<close>

text \<open>The share name a volume without \<open>shareName\<close> gets.\<close>

definition generated_name :: "class_text \<Rightarrow> string \<Rightarrow> string" where
  "generated_name t volName =
     (if ct_shareNamePrefix t \<noteq> [] then ct_shareNamePrefix t @ ''-'' @ volName
      else if ct_protocol t = nfs then ReplaceFirst volName ''pvc'' ''pvcn''
      else if isDiskFsType (ct_fsType t) then ReplaceFirst volName ''pvc'' ''pvcd''
      else volName)"

definition choose_share_name :: "env \<Rightarrow> class_text \<Rightarrow> string \<Rightarrow> (goerr + string) prog" where
  "choose_share_name E t volName =
     (let validFileShareName = replaceWithMap (ct_fileShareName t) (ord E (ct_replaceMap t)) in
      if validFileShareName \<noteq> [] then ret (Inr validFileShareName)
      else do {
        uuid \<leftarrow> get (\<lambda>s. new_uuid E (trace s));
        ret (case getValidFileShareName uuid (generated_name t volName) of
               None \<Rightarrow> Inl (panic ''share name'')
             | Some name \<Rightarrow> Inr name) })"

definition replace_folder :: "env \<Rightarrow> class_text \<Rightarrow> smap \<Rightarrow> smap" where
  "replace_folder E t parameters =
     (let folderName = getValueInMap parameters folderNameField in
      if folderName = [] then parameters
      else let validFolderName = replaceWithMap folderName (ord E (ct_replaceMap t)) in
           if validFolderName \<noteq> folderName then set_fold parameters folderNameField validFolderName else parameters)"

definition source_id :: "content_source option \<Rightarrow> string" where
  "source_id src = (case src of Some (SnapshotSource i) \<Rightarrow> i | Some (VolumeSource i) \<Rightarrow> i | _ \<Rightarrow> [])"

section \<open>The plan\<close>

record create_plan =
  pl_text :: class_text
  pl_flags :: class_flags
  pl_requestGiB :: int
  pl_fileShareSize :: int
  pl_validFileShareName :: string
  pl_parameters :: smap
  pl_namespace :: string
  pl_options :: account_options

definition account_options_of ::
    "class_text \<Rightarrow> class_flags \<Rightarrow> bool \<Rightarrow> smap \<Rightarrow> string list \<Rightarrow> string \<Rightarrow> string \<Rightarrow> account_options" where
  "account_options_of t f https tags vnetIDs endpointSuffix srcAccount =
     \<lparr>ao_Name = ct_account t, ao_Type = ct_sku t, ao_Kind = account_kind (ct_sku t), ao_SubscriptionID = ct_subsID t,
      ao_ResourceGroup = ct_resourceGroup t, ao_Location = ct_location t, ao_EnableHTTPSTrafficOnly = https,
      ao_MatchTags = cf_matchTags f, ao_Tags = tags, ao_VirtualNetworkResourceIDs = vnetIDs,
      ao_CreateAccount = cf_createAccount f,
      ao_CreatePrivateEndpoint = (if private_endpoint t then Some True else None),
      ao_PrivateDNSZoneResourceGroup = ct_privateDNSZoneResourceGroup t, ao_EnableLargeFileShare = cf_enableLFS f,
      ao_DisableFileServiceDeleteRetentionPolicy = cf_disableDeleteRetention f,
      ao_AllowBlobPublicAccess = cf_allowBlobPublic f, ao_AllowSharedKeyAccess = cf_allowSharedKey f,
      ao_AllowCrossTenantReplication = cf_allowCrossTenant f, ao_PublicNetworkAccess = ct_publicNetworkAccess t,
      ao_VNetResourceGroup = ct_vnetResourceGroup t, ao_VNetName = ct_vnetName t, ao_VNetLinkName = ct_vnetLinkName t,
      ao_SubnetName = ct_subnetName t, ao_RequireInfrastructureEncryption = cf_requireInfraEncryption f,
      ao_AccessTier = ct_accountAccessTier t, ao_StorageEndpointSuffix = endpointSuffix,
      ao_IsMultichannelEnabled = cf_multichannel f,
      ao_IsSmbOAuthEnabled = (if identity_mount f then Some True else None),
      ao_IsNFSEncryptionInTransitEnabled = (if ct_protocol t = nfs then Some (cf_encryptInTransit f) else None),
      ao_SkipHTTPSTrafficOnlyMatch = (ct_protocol t = nfs \<and> cf_encryptInTransit f),
      ao_PickRandomMatchingAccount = cf_selectRandom f, ao_GetLatestAccountKey = cf_getLatestAccountKey f,
      ao_SourceAccountName = srcAccount\<rparr>"

text \<open>From the parameters to the plan; the two calls outside are the update of the subnets and the look-up of the account type.\<close>

definition finish_plan ::
    "env \<Rightarrow> config \<Rightarrow> create_request \<Rightarrow> class_text \<Rightarrow> class_flags \<Rightarrow> bool \<Rightarrow> string list \<Rightarrow> smap \<Rightarrow> string
      \<Rightarrow> (goerr + create_plan) prog" where
  "finish_plan E d req t f https vnetIDs parameters secretNamespace = do {
     let requestGiB = requested_GiB (cr_RequiredBytes req);
     r \<leftarrow> lookup_sku E d t requestGiB;
     (case r of
        Inl err \<Rightarrow> ret (Inl err)
      | Inr sku \<Rightarrow> do {
          let t = t\<lparr>ct_sku := sku\<rparr>;
          let fileShareSize = minimum_size sku requestGiB;
          let f = provisioned_defaults sku fileShareSize f;
          let parameters = replace_folder E t parameters;
          name \<leftarrow> choose_share_name E t (cr_Name req);
          (case name of
             Inl err \<Rightarrow> ret (Inl err)
           | Inr validFileShareName \<Rightarrow>
               (case ConvertTagsToMap (ct_customTags t) (ct_tagValueDelimiter t) of
                  Inl err \<Rightarrow> ret (Inl (Statusf InvalidArgument ''%v'' [err_text err]))
                | Inr tags \<Rightarrow>
                    (let endpointSuffix = (if TrimSpace (ct_storageEndpointSuffix t) = [] then getStorageEndPointSuffix d
                                           else ct_storageEndpointSuffix t);
                         srcAccount = (if source_id (cr_Source req) \<noteq> []
                                       then si_account (share_info_or_empty (GetFileShareInfo (source_id (cr_Source req))))
                                       else [])
                     in ret (Inr \<lparr>pl_text = t, pl_flags = f, pl_requestGiB = requestGiB,
                                  pl_fileShareSize = fileShareSize, pl_validFileShareName = validFileShareName,
                                  pl_parameters = parameters, pl_namespace = secretNamespace,
                                  pl_options = account_options_of t f https tags vnetIDs endpointSuffix srcAccount\<rparr>)))) }) }"

definition plan_volume ::
    "env \<Rightarrow> config \<Rightarrow> create_request \<Rightarrow> smap \<Rightarrow> (goerr + create_plan) prog" where
  "plan_volume E d req parameters =
     (case class_params (initial_text, initial_flags) (ord E parameters) of
        Inl err \<Rightarrow> ret (Inl err)
      | Inr (t, f) \<Rightarrow>
          (case first_error (identity_checks d t f @ value_checks d t) of
             Some err \<Rightarrow> ret (Inl err)
           | None \<Rightarrow> do {
               let parameters = (if wants_nfs t then set_fold parameters protocolField nfs else parameters);
               (vnetIDs, err) \<leftarrow>
                 (if createServiceEndpoint t
                  then updateSubnetServiceEndpoints E d (ct_vnetResourceGroup t) (ct_vnetName t) (ct_subnetName t)
                  else ret ([], None));
               (case err of
                  Some e \<Rightarrow> ret (Inl (wrapped e (Statusf Internal ''update service endpoints failed with error: %v'' [err_text e])))
                | None \<Rightarrow>
                    (case first_error (late_checks (nfs_text t) (nfs_flags t f)) of
                       Some err \<Rightarrow> ret (Inl err)
                     | None \<Rightarrow>
                         (let t' = nfs_text t;
                              t' = (if ct_resourceGroup t' = [] then t'\<lparr>ct_resourceGroup := cloud_ResourceGroup d\<rparr> else t')
                          in finish_plan E d req t' (nfs_flags t f) (httpsOnly t f) vnetIDs parameters
                               (class_namespace t)))) }))"

section \<open>The account\<close>

text \<open>The key under which concurrent and later requests of the same kind share one account search.\<close>

definition account_lock_key :: "create_plan \<Rightarrow> string" where
  "account_lock_key p =
     (let t = pl_text p; f = pl_flags p; a = pl_options p;
          b = (\<lambda>x dflt. show_bool (case x of None \<Rightarrow> dflt | Some v \<Rightarrow> v))
      in Join
        [ct_sku t, ao_Kind a, ct_resourceGroup t, ct_location t, ct_protocol t, ct_subsID t, ct_accountAccessTier t,
         ct_privateDNSZoneResourceGroup t,
         b (ao_CreatePrivateEndpoint a) False, show_bool (createServiceEndpoint t),
         b (cf_allowBlobPublic f) False, b (cf_requireInfraEncryption f) False, b (cf_enableLFS f) False,
         b (cf_disableDeleteRetention f) False, b (cf_allowCrossTenant f) True, b (cf_allowSharedKey f) True,
         b (ao_IsSmbOAuthEnabled a) False, b (cf_multichannel f) False, show_bool (ao_EnableHTTPSTrafficOnly a),
         ct_publicNetworkAccess t, ct_vnetResourceGroup t, ct_vnetName t, ct_vnetLinkName t, ct_subnetName t,
         show_bool (cf_matchTags f), serializeTags (ao_Tags a), ao_StorageEndpointSuffix a,
         b (ao_IsNFSEncryptionInTransitEnabled a) False] ''|'')"

datatype account_choice =
    AccountError goerr
  | AccountFull
  | AccountChosen string string string

definition defaultAccountNamePrefix :: string where "defaultAccountNamePrefix = ''f''"

text \<open>The account is over its quota: it is tagged so that the next search passes it by, and the volume lock is released.\<close>

definition skip_account :: "env \<Rightarrow> class_text \<Rightarrow> string \<Rightarrow> goerr option prog" where
  "skip_account E t accountName =
     call (ans_err E) (Account (AddStorageAccountTags (ct_subsID t) (ct_resourceGroup t) accountName))"

definition quota_allows ::
    "env \<Rightarrow> config \<Rightarrow> create_plan \<Rightarrow> string \<Rightarrow> (goerr + bool) prog" where
  "quota_allows E d p accountName =
     (if cf_accountQuota (pl_flags p) > minimumAccountQuota
      then do {
        r \<leftarrow> GetTotalAccountQuota E d (ct_subsID (pl_text p)) (ct_resourceGroup (pl_text p)) accountName;
        ret (case r of
               Inl err \<Rightarrow> Inl (Statusf Internal ''failed to get total quota on account(%s), error: %v''
                                  [accountName, err_text err])
             | Inr (totalQuotaGB, n) \<Rightarrow> Inr (totalQuotaGB \<le> cf_accountQuota (pl_flags p))) }
      else ret (Inr True))"

definition search_account ::
    "env \<Rightarrow> config \<Rightarrow> create_request \<Rightarrow> create_plan \<Rightarrow> string \<Rightarrow> account_choice prog" where
  "search_account E d req p lockKey = do {
     note_event (Tool (LockWait lockKey));
     r \<leftarrow> call (ans_account E) (Account (EnsureStorageAccount (pl_options p) defaultAccountNamePrefix));
     (case r of Inl e \<Rightarrow> if isRetriableError (Some e) then sleep_if_throttled (Some e) accountOpThrottlingSleepSec else ret ()
              | Inr _ \<Rightarrow> ret ());
     note_event (Tool (LockFree lockKey));
     (case r of
        Inl e \<Rightarrow> ret (AccountError (Statusf Internal ''failed to ensure storage account: %v'' [err_text e]))
      | Inr (accountName, accountKey) \<Rightarrow> do {
          ok \<leftarrow> quota_allows E d p accountName;
          (case ok of
             Inl err \<Rightarrow> ret (AccountError err)
           | Inr False \<Rightarrow> do {
               _ \<leftarrow> skip_account E (pl_text p) accountName;
               release (cr_Name req);
               ret AccountFull }
           | Inr True \<Rightarrow> do {
               cache_set accountSearchCache lockKey accountName;
               modify (\<lambda>s. s\<lparr>volMap := (volMap s)(cr_Name req \<mapsto> accountName)\<rparr>);
               (if accountKey \<noteq> [] then cache_set accountCache accountName accountKey else ret ());
               ret (AccountChosen accountName accountKey lockKey) }) }) }"

definition choose_account ::
    "env \<Rightarrow> config \<Rightarrow> create_request \<Rightarrow> create_plan \<Rightarrow> account_choice prog" where
  "choose_account E d req p =
     (if cr_Secrets req \<noteq> [] \<or> ct_account (pl_text p) \<noteq> []
      then ret (AccountChosen (ct_account (pl_text p)) [] [])
      else do {
        known \<leftarrow> get (\<lambda>s. volMap s (cr_Name req));
        (case known of
           Some accountName \<Rightarrow> ret (AccountChosen accountName [] [])
         | None \<Rightarrow> do {
             let lockKey = account_lock_key p;
             cached \<leftarrow> cache_get E accountSearchCache lockKey;
             (case cached of
                Some accountName \<Rightarrow> ret (AccountChosen accountName [] lockKey)
              | None \<Rightarrow> search_account E d req p lockKey) }) })"

section \<open>The share\<close>

text \<open>
  A volume of a private endpoint gets the server to mount from; a mount with an identity needs the canonical host
  name, because Kerberos tickets are issued for it.
\<close>

definition server_of :: "create_plan \<Rightarrow> string \<Rightarrow> string" where
  "server_of p accountName =
     (if identity_mount (pl_flags p)
      then sprintf ''%s.file.%s'' [accountName, ao_StorageEndpointSuffix (pl_options p)]
      else sprintf ''%s.privatelink.file.%s'' [accountName, ao_StorageEndpointSuffix (pl_options p)])"

definition with_server :: "create_plan \<Rightarrow> string \<Rightarrow> create_plan" where
  "with_server p accountName =
     p\<lparr>pl_parameters := (if private_endpoint (pl_text p)
                         then set_fold (pl_parameters p) serverNameField (server_of p accountName)
                         else pl_parameters p),
       pl_options := (pl_options p)\<lparr>ao_Name := accountName\<rparr>\<rparr>"

text \<open>
  The credentials of the share requests.  With the data-plane API they are the account name and key, and an existing
  share is not looked at; otherwise a share that exists must be large enough.  The result is the secret and the key.
\<close>

definition share_credentials ::
    "env \<Rightarrow> config \<Rightarrow> create_request \<Rightarrow> create_plan \<Rightarrow> string \<Rightarrow> string \<Rightarrow> (goerr + smap \<times> string) prog" where
  "share_credentials E d req p accountName accountKey =
     (let o' = pl_options p; t = pl_text p; dataPlane = cf_dataPlane (pl_flags p) in
      if cr_Secrets req = [] \<and> EqualFold dataPlane trueValue
      then do {
        key \<leftarrow> (if accountKey = []
               then GetStorageAccesskey E d o' (cr_Secrets req) (ct_secretName t) (pl_namespace p)
               else ret (Inr accountKey));
        ret (case key of
               Inl err \<Rightarrow> Inl (Statusf Internal ''failed to GetStorageAccesskey on account(%s) rg(%s), error: %v''
                                 [ao_Name o', ao_ResourceGroup o', err_text err])
             | Inr key \<Rightarrow> Inr (createStorageAccountSecret accountName key, key)) }
      else do {
        quota \<leftarrow> getFileShareQuota E d o' (pl_validFileShareName p) (cr_Secrets req) dataPlane;
        ret (case quota of
               Inl err \<Rightarrow> Inl (Statusf Internal ''%v'' [err_text err])
             | Inr q \<Rightarrow>
                 if q \<noteq> - 1 \<and> q < pl_fileShareSize p
                 then Inl (Statusf AlreadyExists ''request file share(%s) already exists, but its capacity %d is smaller than %d''
                             [pl_validFileShareName p, show_int q, show_int (pl_fileShareSize p)])
                 else Inr (cr_Secrets req, accountKey)) })"

definition share_options_of :: "config \<Rightarrow> create_plan \<Rightarrow> share_options" where
  "share_options_of d p =
     \<lparr>so_Name = pl_validFileShareName p,
      so_Protocol = (if ct_protocol (pl_text p) = nfs then NFS else SMB),
      so_RequestGiB = pl_fileShareSize p, so_AccessTier = ct_shareAccessTier (pl_text p),
      so_RootSquash = ct_rootSquashType (pl_text p), so_Metadata = map_put [] ''createdBy'' (cfg_Name d),
      so_Bandwidth = cf_bandwidth (pl_flags p), so_Iops = cf_iops (pl_flags p)\<rparr>"

datatype share_outcome = ShareReady | ShareRetry | ShareFailed goerr

definition create_share_error :: "create_plan \<Rightarrow> goerr \<Rightarrow> goerr" where
  "create_share_error p e =
     (let t = pl_text p in
      Statusf Internal ''failed to create file share(%s) on account(%s) type(%s) subsID(%s) rg(%s) location(%s) size(%d), error: %v''
        [pl_validFileShareName p, ct_account t, ct_sku t, ct_subsID t, ct_resourceGroup t, ct_location t,
         show_int (pl_fileShareSize p), err_text e])"

text \<open>
  An account at its limit is an error when the request names the account; otherwise the account is tagged and
  forgotten and the request starts again.  A source's share may exist already.
\<close>

definition create_share_step ::
    "env \<Rightarrow> config \<Rightarrow> create_request \<Rightarrow> create_plan \<Rightarrow> string \<Rightarrow> string \<Rightarrow> smap \<Rightarrow> share_outcome prog" where
  "create_share_step E d req p accountName lockKey secret = do {
     err \<leftarrow> CreateFileShare E d (pl_options p) (share_options_of d p) secret (cf_dataPlane (pl_flags p));
     (case err of
        None \<Rightarrow> ret ShareReady
      | Some e \<Rightarrow>
          if limit_error e
          then (if ct_account (pl_text p) \<noteq> []
                then ret (ShareFailed (Statusf Internal ''account(%s) is in %s, wait for a few minutes to retry''
                            [accountName, accountLimitExceedManagementAPI]))
                else do {
                  _ \<leftarrow> skip_account E (pl_text p) accountName;
                  cache_set skipMatchingTagCache accountName [];
                  release (cr_Name req);
                  cache_delete accountSearchCache lockKey;
                  modify (\<lambda>s. s\<lparr>volMap := (volMap s)(cr_Name req := None)\<rparr>);
                  ret ShareRetry })
          else if cr_Source req \<noteq> None \<and> Contains (err_text e) ShareAlreadyExists then ret ShareReady
          else ret (ShareFailed (create_share_error p e))) }"

section \<open>The copy of a source\<close>

text \<open>
  A share the driver named itself is deleted when the copy into it fails, unless azcopy still runs or has finished.
\<close>

definition cleanupShareOnFailure ::
    "env \<Rightarrow> config \<Rightarrow> bool \<Rightarrow> string \<Rightarrow> string \<Rightarrow> string \<Rightarrow> string \<Rightarrow> smap \<Rightarrow> string \<Rightarrow> unit prog" where
  "cleanupShareOnFailure E d shouldCleanupShare accountName shareName subsID resourceGroup secret dataPlane =
     (if shouldCleanupShare
      then do {
        (jobState, _, err) \<leftarrow> GetAzcopyJob E shareName [];
        (if err = None \<and> (jobState = AzcopyJobRunning \<or> jobState = AzcopyJobCompleted) then ret ()
         else do {
           _ \<leftarrow> DeleteFileShare E d subsID resourceGroup accountName shareName secret dataPlane;
           ret () }) }
      else ret ())"

definition authorizationPermissionMismatch :: string where
  "authorizationPermissionMismatch = ''AuthorizationPermissionMismatch''"

definition copy_with_auth ::
    "env \<Rightarrow> config \<Rightarrow> content_source \<Rightarrow> create_plan \<Rightarrow> string \<Rightarrow> string \<times> string list \<Rightarrow> goerr option prog" where
  "copy_with_auth E d src p accountName auth =
     copyVolume E d src accountName (fst auth) (snd auth) (pl_namespace p) (share_options_of d p) (pl_options p)
       (ao_StorageEndpointSuffix (pl_options p))"

text \<open>
  When the copy with the identity is refused, it is tried once more with a SAS token.  \<open>Inl\<close> is a failure to
  authorize, \<open>Inr\<close> the error of the copy.
\<close>

definition authorized_copy ::
    "env \<Rightarrow> config \<Rightarrow> create_request \<Rightarrow> content_source \<Rightarrow> create_plan \<Rightarrow> string \<Rightarrow> string \<Rightarrow> smap \<Rightarrow> (goerr + goerr option) prog" where
  "authorized_copy E d req src p accountName accountKey secret =
     (let authorize = (\<lambda>useSasToken. getAzcopyAuth E d accountName accountKey (ao_StorageEndpointSuffix (pl_options p))
                          (pl_options p) secret (ct_secretName (pl_text p)) (pl_namespace p) useSasToken)
      in do {
        auth \<leftarrow> authorize False;
        (case auth of
           Inl err \<Rightarrow> ret (Inl err)
         | Inr auth \<Rightarrow> do {
             copyErr \<leftarrow> copy_with_auth E d src p accountName auth;
             (if fst auth = [] \<and> (case copyErr of None \<Rightarrow> False
                                  | Some e \<Rightarrow> Contains (err_text e) authorizationPermissionMismatch)
              then do {
                auth \<leftarrow> authorize True;
                (case auth of
                   Inl err \<Rightarrow> ret (Inl err)
                 | Inr auth \<Rightarrow> do { copyErr \<leftarrow> copy_with_auth E d src p accountName auth; ret (Inr copyErr) }) }
              else ret (Inr copyErr)) }) })"

definition copy_source ::
    "env \<Rightarrow> config \<Rightarrow> create_request \<Rightarrow> create_plan \<Rightarrow> string \<Rightarrow> string \<Rightarrow> smap \<Rightarrow> goerr option prog" where
  "copy_source E d req p accountName accountKey secret =
     (case cr_Source req of
        None \<Rightarrow> ret None
      | Some src \<Rightarrow> do {
          r \<leftarrow> authorized_copy E d req src p accountName accountKey secret;
          let failure =
            (case r of
               Inl err \<Rightarrow> Some (Statusf Internal ''failed to getAzcopyAuth on account(%s) rg(%s), error: %v''
                             [ao_Name (pl_options p), ao_ResourceGroup (pl_options p), err_text err])
             | Inr copyErr \<Rightarrow> copyErr);
          (if failure \<noteq> None
           then do {
             cleanupShareOnFailure E d (ct_fileShareName (pl_text p) = []) accountName (pl_validFileShareName p)
               (ct_subsID (pl_text p)) (ct_resourceGroup (pl_text p)) secret (cf_dataPlane (pl_flags p));
             ret failure }
           else ret None) })"

section \<open>The disk and the secret\<close>

definition key_for ::
    "env \<Rightarrow> config \<Rightarrow> create_request \<Rightarrow> create_plan \<Rightarrow> string \<Rightarrow> (goerr + string) prog" where
  "key_for E d req p accountKey =
     (if accountKey \<noteq> [] then ret (Inr accountKey)
      else do {
        key \<leftarrow> GetStorageAccesskey E d (pl_options p) (cr_Secrets req) (ct_secretName (pl_text p)) (pl_namespace p);
        ret (map_sum (\<lambda>err. Statusf Internal ''failed to GetStorageAccesskey on account(%s) rg(%s), error: %v''
               [ao_Name (pl_options p), ao_ResourceGroup (pl_options p), err_text err]) id key) })"

text \<open>The result: the disk name, the account key and the parameters.\<close>

definition create_vhd ::
    "env \<Rightarrow> config \<Rightarrow> create_request \<Rightarrow> create_plan \<Rightarrow> string \<Rightarrow> string \<Rightarrow> (goerr + string \<times> string \<times> smap) prog" where
  "create_vhd E d req p accountName accountKey =
     (let t = pl_text p in
      if isDiskFsType (ct_fsType t) \<and> \<not> HasSuffix (ct_diskName t) vhdSuffix \<and> cr_Source req = None
      then do {
        key \<leftarrow> key_for E d req p accountKey;
        (case key of
           Inl err \<Rightarrow> ret (Inl err)
         | Inr key \<Rightarrow> do {
             uuid \<leftarrow> get (\<lambda>s. new_uuid E (trace s));
             let diskName = (if ct_fileShareName t = [] then pl_validFileShareName p else uuid) @ vhdSuffix;
             err \<leftarrow> createDisk E accountName key (getStorageEndPointSuffix d) (pl_validFileShareName p) diskName
                      (GiBToBytes (pl_requestGiB p));
             ret (case err of
                    Some e \<Rightarrow> Inl (Statusf Internal ''failed to create VHD disk: %v'' [err_text e])
                  | None \<Rightarrow> Inr (diskName, key, set_fold (pl_parameters p) diskNameField diskName)) }) }
      else ret (Inr (ct_diskName t, accountKey, pl_parameters p)))"

definition secret_cache_key :: "create_plan \<Rightarrow> string \<Rightarrow> string" where
  "secret_cache_key p accountName = accountName @ ct_secretName (pl_text p) @ pl_namespace p"

definition store_secret ::
    "env \<Rightarrow> config \<Rightarrow> create_request \<Rightarrow> create_plan \<Rightarrow> string \<Rightarrow> string \<Rightarrow> goerr option prog" where
  "store_secret E d req p accountName accountKey =
     (if cf_storeAccountKey (pl_flags p) \<and> cr_Source req = None \<and> cr_Secrets req = []
      then do {
        let secretCacheKey = secret_cache_key p accountName;
        cached \<leftarrow> (if cf_useSecretCache (pl_flags p) then cache_get E secretCache secretCacheKey else ret None);
        (if cached \<noteq> None then ret None
         else do {
           key \<leftarrow> key_for E d req p accountKey;
           (case key of
              Inl err \<Rightarrow> ret (Some err)
            | Inr key \<Rightarrow> do {
                r \<leftarrow> SetAzureCredentials E d accountName key (ct_secretName (pl_text p)) (pl_namespace p);
                (case r of
                   Inl err \<Rightarrow> ret (Some (Statusf Internal ''failed to store storage account key: %v'' [err_text err]))
                 | Inr _ \<Rightarrow> do { cache_set secretCache secretCacheKey []; ret None }) }) }) }
      else ret None)"

section \<open>The answer\<close>

definition volume_id_of :: "config \<Rightarrow> create_request \<Rightarrow> create_plan \<Rightarrow> string \<Rightarrow> string \<Rightarrow> string" where
  "volume_id_of d req p accountName diskName =
     create_volume_id (ct_resourceGroup (pl_text p)) accountName (pl_validFileShareName p) diskName
       (if ct_fileShareName (pl_text p) \<noteq> [] then cr_Name req else []) (pl_namespace p) (ct_subsID (pl_text p))
       (cloud_SubscriptionID d)"

definition finish_volume ::
    "env \<Rightarrow> config \<Rightarrow> create_request \<Rightarrow> create_plan \<Rightarrow> string \<Rightarrow> string \<Rightarrow> (goerr + create_response) prog" where
  "finish_volume E d req p accountName accountKey = do {
     r \<leftarrow> create_vhd E d req p accountName accountKey;
     (case r of
        Inl err \<Rightarrow> ret (Inl err)
      | Inr (diskName, accountKey, parameters) \<Rightarrow> do {
          err \<leftarrow> store_secret E d req p accountName accountKey;
          (case err of
             Some e \<Rightarrow> ret (Inl e)
           | None \<Rightarrow> do {
               let volumeID = volume_id_of d req p accountName diskName;
               let dataPlane = cf_dataPlane (pl_flags p);
               (if EqualFold dataPlane trueValue \<or> EqualFold dataPlane oauth
                then modify (\<lambda>s. s\<lparr>dataPlaneAPIVolMap := (dataPlaneAPIVolMap s)(volumeID \<mapsto> dataPlane)\<rparr>)
                else ret ());
               ret (Inr \<lparr>crr_VolumeId = volumeID, crr_CapacityBytes = GiBToBytes (pl_fileShareSize p),
                         crr_VolumeContext = set_fold parameters secretNamespaceField (pl_namespace p),
                         crr_ContentSource = cr_Source req\<rparr>) }) }) }"

text \<open>\<open>Again m\<close>: the request starts again, with the parameter map as this start has left it.\<close>

datatype create_outcome = Finished "goerr + create_response" | Again smap

definition provision ::
    "env \<Rightarrow> config \<Rightarrow> create_request \<Rightarrow> create_plan \<Rightarrow> string \<Rightarrow> string \<Rightarrow> string \<Rightarrow> create_outcome prog" where
  "provision E d req p accountName accountKey lockKey = do {
     cred \<leftarrow> share_credentials E d req p accountName accountKey;
     (case cred of
        Inl err \<Rightarrow> ret (Finished (Inl err))
      | Inr (secret, accountKey) \<Rightarrow> do {
          o' \<leftarrow> create_share_step E d req p accountName lockKey secret;
          (case o' of
             ShareFailed err \<Rightarrow> ret (Finished (Inl err))
           | ShareRetry \<Rightarrow> ret (Again (pl_parameters p))
           | ShareReady \<Rightarrow> do {
               err \<leftarrow> copy_source E d req p accountName accountKey secret;
               (case err of
                  Some e \<Rightarrow> ret (Finished (Inl e))
                | None \<Rightarrow> do {
                    r \<leftarrow> finish_volume E d req p accountName accountKey;
                    ret (Finished r) }) }) }) }"

definition create_locked ::
    "env \<Rightarrow> config \<Rightarrow> create_request \<Rightarrow> create_outcome prog" where
  "create_locked E d req = do {
     let parameters = map_merge (case cr_Parameters req of None \<Rightarrow> [] | Some m \<Rightarrow> m) (cr_MutableParameters req);
     plan \<leftarrow> plan_volume E d req parameters;
     (case plan of
        Inl err \<Rightarrow> ret (Finished (Inl err))
      | Inr p \<Rightarrow> do {
          choice \<leftarrow> choose_account E d req p;
          (case choice of
             AccountError err \<Rightarrow> ret (Finished (Inl err))
           | AccountFull \<Rightarrow> ret (Again (pl_parameters p))
           | AccountChosen accountName accountKey lockKey \<Rightarrow>
               provision E d req (with_server p accountName) accountName accountKey lockKey) }) }"

section \<open>CreateVolume\<close>

definition create_aborted :: "env \<Rightarrow> create_request \<Rightarrow> goerr prog" where
  "create_aborted E req =
     (if cr_Source req \<noteq> None
      then do {
        (jobState, percent, err) \<leftarrow> GetAzcopyJob E (cr_Name req) [];
        ret (Statusf Aborted ''An operation using azcopy with the given Volume ID %s already exists. Azcopy job status: %s, copy percent: %s%%, error: %v''
               [cr_Name req, state_text jobState, percent, show_err err]) }
      else ret (Statusf Aborted volumeOperationAlreadyExistsFmt [cr_Name req]))"

definition create_request_error :: "rpc_type list \<Rightarrow> create_request \<Rightarrow> goerr option" where
  "create_request_error Cap req =
     (case ValidateControllerServiceRequest Cap CREATE_DELETE_VOLUME of
        Some err \<Rightarrow> Some err
      | None \<Rightarrow>
          if cr_Name req = [] then Some (status_error InvalidArgument ''CreateVolume Name must be provided'')
          else map_option (\<lambda>err. Statusf InvalidArgument ''CreateVolume Volume capabilities not valid: %v'' [err_text err])
                 (isValidVolumeCapabilities (cr_Capabilities req)))"

text \<open>
  The inner start of a request that starts again runs inside the outer one: the outer start's deferred \<open>Release\<close>
  follows it.  A nil parameter map is not the map the starts share.
\<close>

fun CreateVolume ::
    "nat \<Rightarrow> env \<Rightarrow> config \<Rightarrow> rpc_type list \<Rightarrow> create_request \<Rightarrow> (goerr + create_response) option prog" where
  "CreateVolume 0 E d Cap req = ret None"
| "CreateVolume (Suc fuel) E d Cap req =
     (case create_request_error Cap req of
        Some err \<Rightarrow> ret (Some (Inl err))
      | None \<Rightarrow>
          with_volume_lock (cr_Name req)
            (do { err \<leftarrow> create_aborted E req; ret (Some (Inl err)) })
            (do {
               outcome \<leftarrow> create_locked E d req;
               (case outcome of
                  Finished r \<Rightarrow> ret (Some r)
                | Again parameters \<Rightarrow>
                    CreateVolume fuel E d Cap
                      (req\<lparr>cr_Parameters := map_option (\<lambda>_. parameters) (cr_Parameters req)\<rparr>)) }))"

end
