(* ===== verification/Mount.thy ===== *)
theory Mount
  imports Provision
begin

text \<open>
  The parts of the node service (\<open>nodeserver.go\<close>, \<open>utils.go\<close>, \<open>azure_common_linux.go\<close>): mount points,
  permissions, credential caches of the kernel, and the authorization of an inline volume's secret.
\<close>

section \<open>Sequencing fallible steps\<close>

definition and_then :: "(goerr + 'a) prog \<Rightarrow> ('a \<Rightarrow> (goerr + 'b) prog) \<Rightarrow> (goerr + 'b) prog" where
  "and_then m f = do { r \<leftarrow> m; (case r of Inl err \<Rightarrow> ret (Inl err) | Inr a \<Rightarrow> f a) }"

text \<open>\<open>if err := m; err != nil { return wrap(err) }\<close>.\<close>

definition check :: "goerr option prog \<Rightarrow> (goerr \<Rightarrow> goerr) \<Rightarrow> (goerr + unit) prog" where
  "check m wrap_err = do { err \<leftarrow> m; ret (case err of None \<Rightarrow> Inr () | Some e \<Rightarrow> Inl (wrap_err e)) }"

lemma run_and_then [run_simps]:
  "run_state (and_then m f) s =
     (case run_state m s of (Inl err, t) \<Rightarrow> (Inl err, t) | (Inr a, t) \<Rightarrow> run_state (f a) t)"
  by (simp add: and_then_def run_simps split: prod.split sum.split)

lemma run_check [run_simps]:
  "run_state (check m w) s = (case run_state m s of (err, t) \<Rightarrow> (case err of None \<Rightarrow> Inr () | Some e \<Rightarrow> Inl (w e), t))"
  by (simp add: check_def run_simps split: prod.split)

section \<open>Paths\<close>

text \<open>\<open>filepath.Dir\<close> and \<open>filepath.Abs\<close> on Linux.\<close>

definition path_dir :: "string \<Rightarrow> string" where
  "path_dir path = Clean (rev (dropWhile (\<lambda>c. c \<noteq> CHR ''/'') (rev path)))"

definition path_abs :: "env \<Rightarrow> string \<Rightarrow> string" where
  "path_abs E path = (if HasPrefix path ''/'' then Clean path else path_join [cwd E, path])"

section \<open>Mount points\<close>

definition IsCorruptedDir :: "env \<Rightarrow> string \<Rightarrow> bool prog" where
  "IsCorruptedDir E dir = do {
     pathErr \<leftarrow> call (ans_err E) (Node (PathExists dir));
     ret (case pathErr of None \<Rightarrow> False | Some e \<Rightarrow> err_kind e = CorruptedMnt) }"

definition makeDir :: "env \<Rightarrow> string \<Rightarrow> int \<Rightarrow> goerr option prog" where
  "makeDir E pathname perm = do {
     err \<leftarrow> call (ans_err E) (Node (MkdirAll pathname perm));
     ret (case err of None \<Rightarrow> None | Some e \<Rightarrow> if err_kind e = OsExist then None else Some e) }"

text \<open>
  A mounted target is probed by reading one entry; a broken mount is taken down only when the caller allows it.  The
  error of the probe is returned even when the unmount succeeds: the request fails and its retry mounts afresh.
\<close>

definition probe_mount :: "env \<Rightarrow> string \<Rightarrow> bool \<Rightarrow> (bool \<times> goerr option) prog" where
  "probe_mount E target shouldUnmount = do {
     err \<leftarrow> call (ans_err E) (Node (ReadDir target));
     (case err of
        None \<Rightarrow> ret (True, None)
      | Some e \<Rightarrow>
          if shouldUnmount
          then do {
            err \<leftarrow> call (ans_err E) (Node (Unmount target));
            (case err of Some u \<Rightarrow> ret (True, Some u) | None \<Rightarrow> ret (False, Some e)) }
          else ret (True, Some e)) }"

text \<open>
  \<open>(mounted, error)\<close>.  \<open>IsLikelyNotMountPoint\<close> cannot see bind mounts, so the mount table is read as well.  The
  error of \<open>IsLikelyNotMountPoint\<close> for a missing path leaves its first result to decide.
\<close>

definition ensureMountPoint :: "env \<Rightarrow> string \<Rightarrow> int \<Rightarrow> bool \<Rightarrow> (bool \<times> goerr option) prog" where
  "ensureMountPoint E target perm shouldUnmount = do {
     (notMnt, err) \<leftarrow> call (ans_mnt E) (Node (IsLikelyNotMountPoint target));
     let failed = (case err of None \<Rightarrow> False | Some e \<Rightarrow> err_kind e \<noteq> OsNotExist);
     corrupted \<leftarrow> (if failed then IsCorruptedDir E target else ret False);
     (if failed \<and> \<not> corrupted then ret (\<not> notMnt, err)
      else do {
        let notMnt = (if failed then False else notMnt);
        mountList \<leftarrow> call (ans_strs E) (Node ListMounts);
        (case mountList of
           Inl err \<Rightarrow> ret (\<not> notMnt, Some err)
         | Inr paths \<Rightarrow>
             if \<not> notMnt \<or> path_abs E target \<in> set paths then probe_mount E target shouldUnmount
             else do {
               err \<leftarrow> makeDir E target perm;
               ret (False, err) }) }) }"

section \<open>Permissions\<close>

text \<open>The nine permission bits of a file mode, and the mode with them replaced.\<close>

definition ModePerm :: "int \<Rightarrow> int" where
  "ModePerm m = m mod 512"

definition chmodIfPermissionMismatch :: "env \<Rightarrow> string \<Rightarrow> int \<Rightarrow> goerr option prog" where
  "chmodIfPermissionMismatch E targetPath mode = do {
     info \<leftarrow> call (ans_file E) (Node (Lstat targetPath));
     (case info of
        Inl err \<Rightarrow> ret (Some err)
      | Inr i \<Rightarrow>
          if ModePerm (fi_mode i) \<noteq> ModePerm mode
          then call (ans_err E) (Node (Chmod targetPath (fi_mode i - ModePerm (fi_mode i) + ModePerm mode)))
          else ret None) }"

definition SetVolumeOwnership :: "env \<Rightarrow> string \<Rightarrow> string \<Rightarrow> string \<Rightarrow> goerr option prog" where
  "SetVolumeOwnership E path gid policy =
     (case Atoi gid of
        None \<Rightarrow> ret (Some (Fmterr ''convert %s to int failed with invalid syntax'' [gid]))
      | Some n \<Rightarrow>
          call (ans_err E) (Node (SetOwnership path n (if policy \<noteq> [] then policy else ''OnRootMismatch''))))"

text \<open>A link or a directory in place of the disk is refused; a missing disk is left to the mount.\<close>

definition validateDiskIsRegularFile :: "env \<Rightarrow> string \<Rightarrow> goerr option prog" where
  "validateDiskIsRegularFile E diskPath = do {
     fi \<leftarrow> call (ans_file E) (Node (Lstat diskPath));
     ret (case fi of
            Inl _ \<Rightarrow> None
          | Inr i \<Rightarrow>
              if fi_regular i then None
              else Some (Fmterr ''disk path %q is not a regular file (mode %s)'' [diskPath, show_int (fi_mode i)])) }"

section \<open>Mounting\<close>

definition SMBMount ::
    "env \<Rightarrow> string \<Rightarrow> string \<Rightarrow> string \<Rightarrow> string list \<Rightarrow> string list \<Rightarrow> goerr option prog" where
  "SMBMount E source target fsType options sensitiveMountOptions =
     call (ans_err E) (Node (Mount source target fsType options sensitiveMountOptions))"

definition CleanupMountPoint :: "env \<Rightarrow> string \<Rightarrow> bool \<Rightarrow> goerr option prog" where
  "CleanupMountPoint E target extensiveMountCheck =
     call (ans_err E) (Node (node_ext.CleanupMountPoint target extensiveMountCheck))"

definition mountWithProxy ::
    "env \<Rightarrow> string \<Rightarrow> string \<Rightarrow> string \<Rightarrow> string list \<Rightarrow> string list \<Rightarrow> goerr option prog" where
  "mountWithProxy E source target fsType options sensitiveMountOptions = do {
     err \<leftarrow> call (ans_err E) (Node ProxyConnect);
     (if err \<noteq> None then ret err
      else WaitUntilTimeout E ''proxy mount''
             (call (ans_err E) (Node (ProxyMount source target fsType options sensitiveMountOptions)))
             (ret (Some (Fmterr ''mount with azurefile proxy timed out after %d seconds: source=%s, target=%s''
                           [''90'', source, target])))) }"

section \<open>Credential caches of the kernel\<close>

definition setCredentialCache ::
    "env \<Rightarrow> string \<Rightarrow> string \<Rightarrow> string \<Rightarrow> string \<Rightarrow> string \<Rightarrow> string \<Rightarrow> string \<Rightarrow> (string \<times> goerr option) prog" where
  "setCredentialCache E server clientID tenantID tokenFile token authorityHost resource =
     (if server = [] then ret ([], Some (Errorf ''server must be provided''))
      else if token \<noteq> [] \<and> tokenFile \<noteq> []
      then ret ([], Some (Errorf ''token and tokenFile are mutually exclusive, only one can be provided''))
      else
        let serverURL = ''https://'' @ server in
        if token \<noteq> [] then call (ans_out E) (Node (AuthManager [''set'', serverURL, token]))
        else if tokenFile \<noteq> []
        then (if clientID = [] then ret ([], Some (Errorf ''clientID must be provided when tokenFile is set''))
              else if tenantID = [] then ret ([], Some (Errorf ''tenantID must be provided when tokenFile is provided''))
              else call (ans_out E) (Node (AuthManager
                     ([''set'', serverURL, ''--workload-identity'', ''--tenant-id'', tenantID, ''--client-id'', clientID,
                       ''--token-file'', tokenFile]
                      @ (if authorityHost \<noteq> [] then [''--authority-host'', authorityHost] else [])
                      @ (if resource \<noteq> [] then [''--resource'', resource] else [])))))
        else if clientID = [] then ret ([], Some (Errorf ''clientID must be provided''))
        else call (ans_out E) (Node (AuthManager [''set'', serverURL, ''--imds-client-id'', clientID])))"

definition mountOptionsField :: string where "mountOptionsField = ''mountoptions''"
definition podNameField :: string where "podNameField = ''csi.storage.k8s.io/pod.name''"
definition podNamespaceField :: string where "podNamespaceField = ''csi.storage.k8s.io/pod.namespace''"
definition proxyMount :: string where "proxyMount = ''proxy-mount''"

definition defaultRuntimeClassHandler :: string where "defaultRuntimeClassHandler = ''kata-cc''"

definition validateMountWithOAuthToken :: "string \<Rightarrow> string \<Rightarrow> smap \<Rightarrow> goerr option" where
  "validateMountWithOAuthToken protocol fsType volumeContext =
     (if protocol = nfs \<or> fsType = nfs
      then Some (status_error InvalidArgument ''mountWithOAuthToken is not supported with NFS protocol'')
      else if TrimSpace (getValueInMap volumeContext secretNameField) = []
      then Some (status_error InvalidArgument ''secretName is required when mountWithOAuthToken is true'')
      else if EqualFold (getValueInMap volumeContext createFolderIfNotExistField) trueValue
      then Some (status_error InvalidArgument ''createFolderIfNotExist is not supported with mountWithOAuthToken'')
      else None)"

text \<open>The server whose credentials are refreshed: named, or made from the first account name found.\<close>

definition oauth_server :: "config \<Rightarrow> string \<Rightarrow> smap \<Rightarrow> string \<Rightarrow> string" where
  "oauth_server d volumeID volumeContext secretAccountName =
     (let server = getValueInMap volumeContext serverNameField in
      if server \<noteq> [] then server
      else
        let accountName = getValueInMap volumeContext storageAccountField;
            accountName = (if accountName = [] then si_account (share_info_or_empty (GetFileShareInfo volumeID))
                           else accountName);
            accountName = (if accountName = [] then secretAccountName else accountName);
            endpointSuffix = getValueInMap volumeContext storageEndpointSuffixField;
            endpointSuffix = (if endpointSuffix = [] then getStorageEndPointSuffix d else endpointSuffix)
        in if accountName \<noteq> [] then sprintf ''%s.file.%s'' [accountName, endpointSuffix] else [])"

definition refresh_token ::
    "env \<Rightarrow> string \<Rightarrow> string \<Rightarrow> (goerr + string) prog" where
  "refresh_token E server oauthToken = do {
     cachedSHA \<leftarrow> get (\<lambda>s. oauthTokenSHAMap s server);
     (if cachedSHA = Some (sha256_hex E oauthToken) then ret (Inr server)
      else do {
        let krbHost = getKerberosHost server;
        (out, err) \<leftarrow> setCredentialCache E krbHost [] [] [] oauthToken [] [];
        (case err of
           Some e \<Rightarrow> ret (Inl (Statusf Internal ''setCredentialCache failed for %s: %v'' [krbHost, err_text e]))
         | None \<Rightarrow> do {
             modify (\<lambda>s. s\<lparr>oauthTokenSHAMap := (oauthTokenSHAMap s)(server \<mapsto> sha256_hex E oauthToken)\<rparr>);
             ret (Inr server) }) }) }"

definition setCredentialCacheWithOAuthToken ::
    "env \<Rightarrow> config \<Rightarrow> string \<Rightarrow> smap \<Rightarrow> (goerr + string) prog" where
  "setCredentialCacheWithOAuthToken E d volumeID volumeContext =
     (let secretName = getValueInMap volumeContext secretNameField;
          secretNamespace = getSecretNamespace volumeContext
      in if secretName = []
         then ret (Inl (invalid ''secretName is required when %s is true'' [mountWithOAuthTokenField]))
         else do {
           (sa, err) \<leftarrow> GetStorageAccountFromSecret E d secretName secretNamespace;
           (case err of
              Some e \<Rightarrow> ret (Inl (Statusf Internal ''failed to get secret %s/%s: %v''
                                     [secretNamespace, secretName, err_text e]))
            | None \<Rightarrow>
                (let server = oauth_server d volumeID volumeContext (sa_name sa) in
                 if server = []
                 then ret (Inl (invalid ''server is empty for volume(%s) with %s: set %q or %q in volume context, or provide account name in secret %q''
                        [volumeID, mountWithOAuthTokenField, serverNameField, storageAccountField, secretNameField]))
                 else if sa_token sa = []
                 then ret (Inl (invalid ''%s not found in secret %s/%s''
                        [defaultSecretOAuthToken, secretNamespace, secretName]))
                 else refresh_token E server (sa_token sa))) })"

section \<open>Service account tokens and inline secrets\<close>

definition shouldUseServiceAccountToken :: "smap \<Rightarrow> bool" where
  "shouldUseServiceAccountToken attrib \<longleftrightarrow>
     getValueInMap attrib mountWithWITokenField = trueValue
     \<or> getValueInMap attrib clientIDField \<noteq> []
       \<and> \<not> EqualFold (getValueInMap attrib mountWithManagedIdentityField) trueValue"

definition canSkipRepublishNodeStage :: "env \<Rightarrow> smap \<Rightarrow> string \<Rightarrow> bool prog" where
  "canSkipRepublishNodeStage E volumeContext target =
     (if EqualFold (getValueInMap volumeContext mountWithWITokenField) trueValue then ret False
      else do {
        (notMnt, err) \<leftarrow> call (ans_mnt E) (Node (IsLikelyNotMountPoint target));
        ret (err = None \<and> \<not> notMnt) })"

text \<open>\<open>off\<close>: no check; \<open>Some False\<close>: a refusal is only logged; \<open>Some True\<close>: it is an error.\<close>

definition authz_mode :: "config \<Rightarrow> goerr + bool option" where
  "authz_mode d =
     (let m = ToLower (inlineVolumeSecretAuthz d) in
      if m = [] \<or> m = ''off'' then Inr None
      else if m = ''warn'' then Inr (Some False)
      else if m = ''enforce'' then Inr (Some True)
      else Inl (invalid ''invalid inline-volume-secret-authz mode %q'' [inlineVolumeSecretAuthz d]))"

definition deny :: "bool \<Rightarrow> string \<Rightarrow> string \<Rightarrow> string \<Rightarrow> goerr option" where
  "deny enforce secretNamespace secretName reason =
     (if enforce
      then Some (Statusf PermissionDenied ''inline volume Secret %s/%s: %s'' [secretNamespace, secretName, reason])
      else None)"

text \<open>The review asks with the names a service account's token has: its user name and its implicit groups.\<close>

definition review_access ::
    "env \<Rightarrow> config \<Rightarrow> bool \<Rightarrow> smap \<Rightarrow> string \<Rightarrow> string \<Rightarrow> goerr option prog" where
  "review_access E d enforce volumeContext secretNamespace secretName =
     (let no = deny enforce secretNamespace secretName;
          podName = map_get volumeContext podNameField;
          podNamespace = map_get volumeContext podNamespaceField
      in if \<not> hasKubeClient d \<or> podName = [] \<or> podNamespace = []
         then ret (no ''kube client or pod identity (podInfoOnMount) unavailable'')
         else do {
           pod \<leftarrow> call (ans_pod E) (Kube (PodGet podNamespace podName));
           (case pod of
              Inl err \<Rightarrow> ret (no (sprintf ''failed to get pod %s/%s: %v'' [podNamespace, podName, err_text err]))
            | Inr p \<Rightarrow> do {
                let sa = (if pod_serviceAccount p = [] then ''default'' else pod_serviceAccount p);
                let saUser = ''system:serviceaccount:'' @ podNamespace @ '':'' @ sa;
                allowed \<leftarrow> call (ans_bool E) (Kube (SubjectAccessReview saUser
                  [''system:serviceaccounts'', ''system:serviceaccounts:'' @ podNamespace, ''system:authenticated'']
                  secretNamespace secretName));
                ret (case allowed of
                       Inl err \<Rightarrow> no (sprintf ''SubjectAccessReview for %s failed: %v'' [saUser, err_text err])
                     | Inr ok \<Rightarrow>
                         if ok then None
                         else no (sprintf ''service account %s is not authorized to get it'' [saUser])) }) })"

definition inline_secret_name :: "smap \<Rightarrow> string" where
  "inline_secret_name volumeContext =
     (let secretName = getValueInMap volumeContext secretNameField;
          accountName = getValueInMap volumeContext storageAccountField
      in if secretName = [] \<and> accountName \<noteq> [] then secret_name accountName else secretName)"

definition authorizeInlineVolumeSecret :: "env \<Rightarrow> config \<Rightarrow> smap \<Rightarrow> goerr option prog" where
  "authorizeInlineVolumeSecret E d volumeContext =
     (case authz_mode d of
        Inl err \<Rightarrow> ret (Some err)
      | Inr None \<Rightarrow> ret None
      | Inr (Some enforce) \<Rightarrow>
          (let secretNamespace = getSecretNamespace volumeContext;
               secretName = inline_secret_name volumeContext
           in if secretName = [] \<or> secretNamespace = [] then ret None
              else review_access E d enforce volumeContext secretNamespace secretName))"

end
