(* ===== verification/Node.thy ===== *)
theory Node
  imports Mount
begin

text \<open>
  The node service (\<open>nodeserver.go\<close>): staging a volume phase by phase (its context, its checks, names and server,
  credentials and options, the mount, the disk on it), unstaging, publishing, unpublishing, and statistics.  The model is
  of the Linux node: the branches for Windows are those of theory \<open>WinNode\<close>.
\<close>

record stage_request =
  nr_VolumeId :: string
  nr_Target :: string
  nr_Capability :: "volume_capability option"
  nr_Context :: smap
  nr_Secrets :: smap

section \<open>The volume context of a stage\<close>

record stage_vars =
  sv_fsType :: string
  sv_protocol :: string
  sv_disk :: string
  sv_folder :: string
  sv_server :: string
  sv_volMountOptions :: string
  sv_suffix :: string
  sv_policy :: string
  sv_clientID :: string
  sv_replaceMap :: smap
  sv_permissions :: int
  sv_chmod :: bool
  sv_createFolder :: bool
  sv_ephemeral :: bool
  sv_encrypt :: bool
  sv_managed :: bool
  sv_oauth :: bool
  sv_wi :: bool

definition initial_stage_vars :: "config \<Rightarrow> string \<Rightarrow> stage_vars" where
  "initial_stage_vars d diskName =
     \<lparr>sv_fsType = [], sv_protocol = [], sv_disk = diskName, sv_folder = [], sv_server = [], sv_volMountOptions = [],
      sv_suffix = [], sv_policy = cfg_fsGroupChangePolicy d, sv_clientID = [], sv_replaceMap = [],
      sv_permissions = cfg_mountPermissions d, sv_chmod = (cfg_mountPermissions d > 0), sv_createFolder = False,
      sv_ephemeral = False, sv_encrypt = False, sv_managed = False, sv_oauth = False, sv_wi = False\<rparr>"

definition stage_bool :: "string \<Rightarrow> string \<Rightarrow> (bool \<Rightarrow> stage_vars) \<Rightarrow> goerr + stage_vars" where
  "stage_bool key v upd =
     (case ParseBool v of
        None \<Rightarrow> Inl (invalid ''Volume context property %q must be a boolean value: %v''
                     [key, ''strconv.ParseBool: parsing '' @ Quote v @ '': invalid syntax''])
      | Some b \<Rightarrow> Inr (upd b))"

definition stage_folder :: "stage_vars \<Rightarrow> string \<Rightarrow> goerr + stage_vars" where
  "stage_folder sv v =
     (let folderName = Trim v ''/'' in
      case (if folderName \<noteq> [] then isValidFolderName folderName else None) of
        Some err \<Rightarrow> Inl (invalid ''invalid folderName: %v'' [err_text err])
      | None \<Rightarrow> Inr (sv\<lparr>sv_folder := folderName\<rparr>))"

definition stage_permissions :: "stage_vars \<Rightarrow> string \<Rightarrow> goerr + stage_vars" where
  "stage_permissions sv v =
     (if v = [] then Inr sv
      else case ParseUint v 8 32 of
             None \<Rightarrow> Inl (invalid ''invalid mountPermissions %s'' [v])
           | Some perm \<Rightarrow>
               if perm = 0 then Inr (sv\<lparr>sv_chmod := False\<rparr>) else Inr (sv\<lparr>sv_permissions := perm\<rparr>))"

definition stage_param :: "stage_vars \<Rightarrow> string \<Rightarrow> string \<Rightarrow> goerr + stage_vars" where
  "stage_param sv key v =
     (let k = ToLower key in
      if k = fsTypeField then Inr (sv\<lparr>sv_fsType := v\<rparr>)
      else if k = protocolField then Inr (sv\<lparr>sv_protocol := v\<rparr>)
      else if k = diskNameField then Inr (sv\<lparr>sv_disk := v\<rparr>)
      else if k = folderNameField then stage_folder sv v
      else if k = createFolderIfNotExistField then Inr (sv\<lparr>sv_createFolder := EqualFold v trueValue\<rparr>)
      else if k = serverNameField then Inr (sv\<lparr>sv_server := v\<rparr>)
      else if k = ephemeralField then Inr (sv\<lparr>sv_ephemeral := EqualFold v trueValue\<rparr>)
      else if k = mountOptionsField then Inr (sv\<lparr>sv_volMountOptions := v\<rparr>)
      else if k = storageEndpointSuffixField then Inr (sv\<lparr>sv_suffix := v\<rparr>)
      else if k = fsGroupChangePolicyField then Inr (sv\<lparr>sv_policy := v\<rparr>)
      else if k = pvcNamespaceKey then Inr (sv\<lparr>sv_replaceMap := map_put (sv_replaceMap sv) pvcNamespaceMetadata v\<rparr>)
      else if k = pvcNameKey then Inr (sv\<lparr>sv_replaceMap := map_put (sv_replaceMap sv) pvcNameMetadata v\<rparr>)
      else if k = pvNameKey then Inr (sv\<lparr>sv_replaceMap := map_put (sv_replaceMap sv) pvNameMetadata v\<rparr>)
      else if k = mountPermissionsField then stage_permissions sv v
      else if k = encryptInTransitField then stage_bool key v (\<lambda>b. sv\<lparr>sv_encrypt := b\<rparr>)
      else if k = mountWithManagedIdentityField then stage_bool key v (\<lambda>b. sv\<lparr>sv_managed := b\<rparr>)
      else if k = mountWithOAuthTokenField then stage_bool key v (\<lambda>b. sv\<lparr>sv_oauth := b\<rparr>)
      else if k = mountWithWITokenField then stage_bool key v (\<lambda>b. sv\<lparr>sv_wi := b\<rparr>)
      else if k = clientIDField then Inr (sv\<lparr>sv_clientID := v\<rparr>)
      else Inr sv)"

fun stage_params :: "stage_vars \<Rightarrow> smap \<Rightarrow> goerr + stage_vars" where
  "stage_params sv [] = Inr sv"
| "stage_params sv ((k, v) # m) = (case stage_param sv k v of Inl err \<Rightarrow> Inl err | Inr sv \<Rightarrow> stage_params sv m)"

definition stage_checks :: "string \<Rightarrow> account_info \<Rightarrow> stage_vars \<Rightarrow> (bool \<times> goerr) list" where
  "stage_checks volumeID i sv =
     [(sv_server sv = [] \<and> ai_account i = [], invalid ''failed to get account name from %s'' [volumeID]),
      (\<not> isSupportedFsType (sv_fsType sv),
       invalid ''fsType(%s) is not supported, supported fsType list: %v'' [sv_fsType sv, show_list supportedFsTypeList]),
      (\<not> isSupportedProtocol (sv_protocol sv),
       invalid ''protocol(%s) is not supported, supported protocol list: %v''
         [sv_protocol sv, show_list supportedProtocolList]),
      (\<not> isSupportedFSGroupChangePolicy (sv_policy sv),
       invalid ''fsGroupChangePolicy(%s) is not supported, supported fsGroupChangePolicy list: %v''
         [sv_policy sv, show_list supportedFSGroupChangePolicyList]),
      (sv_managed sv \<and> sv_wi sv \<or> sv_managed sv \<and> sv_oauth sv \<or> sv_wi sv \<and> sv_oauth sv,
       invalid ''only one of %q, %q, and %q can be true''
         [mountWithManagedIdentityField, mountWithOAuthTokenField, mountWithWITokenField])]"

definition stage_error :: "string \<Rightarrow> account_info \<Rightarrow> stage_vars \<Rightarrow> smap \<Rightarrow> goerr option" where
  "stage_error volumeID i sv volumeContext =
     (case first_error (stage_checks volumeID i sv) of
        Some err \<Rightarrow> Some err
      | None \<Rightarrow>
          if sv_oauth sv then validateMountWithOAuthToken (sv_protocol sv) (sv_fsType sv) volumeContext else None)"

section \<open>Names, server and source\<close>

record stage_place =
  st_share :: string
  st_folder :: string
  st_server :: string
  st_suffix :: string

text \<open>An inline volume is held to the suffix of the configured cloud.\<close>

definition stage_suffix :: "config \<Rightarrow> stage_vars \<Rightarrow> goerr + string" where
  "stage_suffix d sv =
     (let trueStorageEndPointSuffix = getStorageEndPointSuffix d in
      if sv_ephemeral sv
      then (let requestedSuffix = Trim (TrimSpace (sv_suffix sv)) ''.'';
                trustedSuffix = Trim (TrimSpace trueStorageEndPointSuffix) ''.''
            in if requestedSuffix \<noteq> [] \<and> \<not> EqualFold requestedSuffix trustedSuffix
               then Inl (invalid ''storageEndpointSuffix %q does not match configured cloud suffix %q''
                           [sv_suffix sv, trueStorageEndPointSuffix])
               else Inr trueStorageEndPointSuffix)
      else Inr (if TrimSpace (sv_suffix sv) = [] then trueStorageEndPointSuffix else sv_suffix sv))"

text \<open>The messages of \<open>validateInlineVolumeServer\<close>; the text \<open>url.Parse\<close> gives is left out.\<close>

fun server_error_text :: "server_error \<Rightarrow> string \<Rightarrow> string \<Rightarrow> string" where
  "server_error_text ServerEmpty server account = ''server must not be empty''"
| "server_error_text ServerWhitespace server account =
     sprintf ''server %q must not contain leading or trailing whitespace'' [server]"
| "server_error_text ServerNotURL server account = sprintf ''invalid server %q: '' [server]"
| "server_error_text ServerNotHTTPS server account =
     sprintf ''invalid server %q: only HTTPS endpoints are allowed'' [server]"
| "server_error_text ServerUserInfo server account =
     sprintf ''invalid server %q: user information is not allowed'' [server]"
| "server_error_text ServerPort server account = sprintf ''invalid server %q: explicit ports are not allowed'' [server]"
| "server_error_text ServerPath server account = sprintf ''invalid server %q: paths are not allowed'' [server]"
| "server_error_text ServerQuery server account =
     sprintf ''invalid server %q: query strings and fragments are not allowed'' [server]"
| "server_error_text ServerNoHost server account = sprintf ''invalid server %q: hostname is required'' [server]"
| "server_error_text ServerIP server account = sprintf ''invalid server %q: IP addresses are not allowed'' [server]"
| "server_error_text ServerConfiguration server account =
     ''invalid server configuration: account name or storage endpoint suffix is empty''"
| "server_error_text ServerMismatch server account =
     sprintf ''invalid server %q: hostname must match storage account %q in the configured Azure cloud'' [server, account]"

definition stage_place_of :: "env \<Rightarrow> config \<Rightarrow> account_info \<Rightarrow> stage_vars \<Rightarrow> goerr + stage_place" where
  "stage_place_of E d i sv =
     (case stage_suffix d sv of
        Inl err \<Rightarrow> Inl err
      | Inr storageEndpointSuffix \<Rightarrow>
          (let fileShareName = replaceWithMap (ai_share i) (ord E (sv_replaceMap sv));
               folderName = Trim (replaceWithMap (sv_folder sv) (ord E (sv_replaceMap sv))) ''/'';
               server = (if TrimSpace (sv_server sv) = []
                         then sprintf ''%s.file.%s'' [ai_account i, storageEndpointSuffix] else sv_server sv);
               place = \<lparr>st_share = fileShareName, st_folder = folderName, st_server = server,
                        st_suffix = storageEndpointSuffix\<rparr>
           in if sv_ephemeral sv
              then (case validateInlineVolumeServer (url_parse E) (parse_ip E) server (ai_account i)
                           (getStorageEndPointSuffix d) of
                      Some err \<Rightarrow> Inl (invalid ''invalid server error: %s'' [server_error_text err server (ai_account i)])
                    | None \<Rightarrow> Inr place)
              else Inr place))"

definition stage_source :: "account_info \<Rightarrow> stage_vars \<Rightarrow> stage_place \<Rightarrow> string" where
  "stage_source i sv p =
     (let source = (if sv_protocol sv = nfs then sprintf ''%s:/%s/%s'' [st_server p, ai_account i, st_share p]
                    else ''//'' @ st_server p @ ''/'' @ st_share p)
      in if st_folder p \<noteq> [] then source @ ''/'' @ st_folder p else source)"

text \<open>A failure to create the folder is only logged.\<close>

definition stage_create_folder :: "env \<Rightarrow> account_info \<Rightarrow> stage_vars \<Rightarrow> stage_place \<Rightarrow> (goerr + unit) prog" where
  "stage_create_folder E i sv p =
     (if st_folder p \<noteq> [] \<and> sv_createFolder sv
      then do {
        createFolderIfNotExists E (ai_account i) (ai_key i) (st_share p) (st_folder p) (st_suffix p);
        ret (Inr ()) }
      else ret (Inr ()))"

section \<open>The mount path, the options and the credentials\<close>

text \<open>\<open>(cifsMountPath, cifsMountFlags)\<close>: a disk's share is mounted beside the target, with flags of its own.\<close>

definition stage_mount_path ::
    "stage_vars \<Rightarrow> string \<Rightarrow> string list \<Rightarrow> bool \<Rightarrow> string \<Rightarrow> goerr + string \<times> string list" where
  "stage_mount_path sv targetPath mountFlags gidPresent volumeMountGroup =
     (if isDiskFsType (sv_fsType sv)
      then (case validateVolumeIDSegment ''diskName'' (sv_disk sv) of
              Some err \<Rightarrow> Inl (status_error InvalidArgument (err_text err))
            | None \<Rightarrow>
                if \<not> HasSuffix (sv_disk sv) vhdSuffix
                then Inl (Statusf Internal ''diskname could not be empty, targetPath: %s'' [targetPath])
                else Inr (path_join [path_dir targetPath, proxyMount],
                          [''dir_mode=0777,file_mode=0777,cache=strict,actimeo=30'', ''nostrictsync'']))
      else Inr (targetPath,
                mountFlags @ (if \<not> gidPresent \<and> volumeMountGroup \<noteq> []
                              then [sprintf ''gid=%s'' [volumeMountGroup]] else [])))"

definition stage_credentials :: "account_info \<Rightarrow> (goerr + unit) prog" where
  "stage_credentials i =
     ret (case validateSMBCredentialValues (ai_account i) (ai_key i) of
            Some err \<Rightarrow> Inl (status_error InvalidArgument (err_text err))
          | None \<Rightarrow> Inr ())"

definition krb5_options :: "string list" where
  "krb5_options = [''sec=krb5,cruid=0,upcall_target=mount'']"

definition stage_credential_cache ::
    "env \<Rightarrow> config \<Rightarrow> account_info \<Rightarrow> string \<Rightarrow> string \<Rightarrow> (string \<times> goerr option) prog" where
  "stage_credential_cache E d i server clientID =
     setCredentialCache E (getKerberosHost server) clientID (ai_tenantID i) (ai_tokenFile i) []
       (getActiveDirectoryEndpoint d) (getStorageResource d)"

text \<open>The client id and the sensitive options of an SMB mount.\<close>

definition stage_identity ::
    "env \<Rightarrow> config \<Rightarrow> string \<Rightarrow> smap \<Rightarrow> string \<Rightarrow> account_info \<Rightarrow> stage_vars \<Rightarrow> string
      \<Rightarrow> (goerr + string \<times> string list) prog" where
  "stage_identity E d volumeID volumeContext targetPath i sv server =
     (let clientID = (if (sv_managed sv \<or> sv_wi sv) \<and> sv_clientID sv = [] then cloud_UserAssignedIdentityID d
                      else sv_clientID sv)
      in if sv_managed sv then ret (Inr (clientID, krb5_options @ [sprintf ''username=%s'' [clientID]]))
         else if sv_wi sv
         then (if ai_tokenFile i = [] then ret (Inr (clientID, krb5_options))
               else do {
                 (out, err) \<leftarrow> stage_credential_cache E d i server clientID;
                 ret (case err of
                        Some e \<Rightarrow> Inl (Statusf Internal ''setCredentialCache failed for %s with error: %v, output: %s''
                                         [getKerberosHost server, err_text e, out])
                      | None \<Rightarrow> Inr (clientID, krb5_options)) })
         else if sv_oauth sv
         then and_then (setCredentialCacheWithOAuthToken E d volumeID volumeContext)
                (\<lambda>_. ret (Inr (clientID, krb5_options)))
         else if ai_account i = [] \<or> ai_key i = []
         then ret (Inl (Statusf Internal ''accountName(%s) or accountKey is empty'' [ai_account i]))
         else and_then
                (check (call (ans_err E) (Node (MkdirAll targetPath (sv_permissions sv))))
                   (\<lambda>e. Statusf Internal ''MkdirAll %s failed with error: %v'' [targetPath, err_text e]))
                (\<lambda>_. ret (Inr (clientID, [sprintf ''username=%s,password=%s'' [ai_account i, ai_key i]]))))"

definition smb_options :: "env \<Rightarrow> config \<Rightarrow> stage_vars \<Rightarrow> string list \<Rightarrow> string list" where
  "smb_options E d sv cifsMountFlags =
     (let flags = (if sv_ephemeral sv then JoinMountOptions cifsMountFlags (Split (sv_volMountOptions sv) '','')
                   else cifsMountFlags);
          options = appendDefaultCifsMountOptions (ord E) flags (appendNoShareSockOption d) (appendClosetimeoOption d)
      in if isDiskFsType (sv_fsType sv) then fst (removeOptionIfExists options mfsymlinks) else options)"

text \<open>\<open>(clientID, mountOptions, sensitiveMountOptions)\<close>.\<close>

definition stage_options ::
    "env \<Rightarrow> config \<Rightarrow> string \<Rightarrow> smap \<Rightarrow> string \<Rightarrow> account_info \<Rightarrow> stage_vars \<Rightarrow> string \<Rightarrow> string list \<Rightarrow> string list
      \<Rightarrow> (goerr + string \<times> string list \<times> string list) prog" where
  "stage_options E d volumeID volumeContext targetPath i sv server mountFlags cifsMountFlags =
     (if sv_protocol sv = nfs
      then ret (Inr (sv_clientID sv,
                     appendDefaultNfsMountOptions (ord E) (JoinMountOptions mountFlags [''vers=4,minorversion=1,sec=sys''])
                       (appendNoResvPortOption d) (appendActimeoOption d), []))
      else and_then (stage_identity E d volumeID volumeContext targetPath i sv server)
             (\<lambda>(clientID, sensitive). ret (Inr (clientID, smb_options E d sv cifsMountFlags, sensitive))))"

section \<open>Mounting a staged volume\<close>

text \<open>\<open>(mountFsType, mountOptions)\<close> of an NFS mount: the pseudo option asks for encryption in transit and is removed.\<close>

definition nfs_mount_choice :: "config \<Rightarrow> bool \<Rightarrow> string list \<Rightarrow> string \<times> string list" where
  "nfs_mount_choice d encryptInTransit mountOptions =
     (let (newOptions, exists) = removeOptionIfExists mountOptions encryptInTransitField;
          encryptInTransit = (encryptInTransit \<or> exists);
          mountOptions = (if exists then newOptions else mountOptions)
      in (if encryptInTransit \<or> useAZNFSForNFSMounts d then aznfs else nfs,
          if useAZNFSForNFSMounts d \<and> \<not> encryptInTransit then mountOptions @ [''notls''] else mountOptions))"

definition stage_proxy_mount ::
    "env \<Rightarrow> string \<Rightarrow> string \<Rightarrow> string \<Rightarrow> string list \<Rightarrow> string list \<Rightarrow> (goerr + unit) prog" where
  "stage_proxy_mount E source path fsType mountOptions sensitive =
     check (mountWithProxy E source path fsType mountOptions sensitive)
       (\<lambda>e. if Contains (err_text e) ''no such file or directory''
            then Statusf Internal ''mount with proxy failed for %s with error: %v. Encryption in Transit (EiT) does not support Ubuntu 20.04, please upgrade your node OS version.''
                   [path, err_text e]
            else Statusf Internal ''mount with proxy failed for %s with error: %v'' [path, err_text e])"

text \<open>The function run under the mount timeout: a managed identity refreshes the credential cache first.\<close>

definition stage_exec ::
    "env \<Rightarrow> config \<Rightarrow> account_info \<Rightarrow> stage_vars \<Rightarrow> string \<Rightarrow> string \<Rightarrow> string \<Rightarrow> string \<Rightarrow> string \<Rightarrow> string list
      \<Rightarrow> string list \<Rightarrow> goerr option prog" where
  "stage_exec E d i sv server clientID source path fsType mountOptions sensitive =
     (let mnt = SMBMount E source path fsType mountOptions sensitive in
      if sv_managed sv \<and> sv_protocol sv \<noteq> nfs
      then do {
        (out, err) \<leftarrow> stage_credential_cache E d i server clientID;
        (case err of
           Some e \<Rightarrow> ret (Some (GoErr CredentialCacheSetup
             (sprintf ''%w for %s with error: %v, output: %s''
                [''setCredentialCache failed'', getKerberosHost server, err_text e, out])))
         | None \<Rightarrow> mnt) }
      else mnt)"

definition mount_help :: "config \<Rightarrow> string" where
  "mount_help d =
     (if appendMountErrorHelpLink d
      then CHR 0x0A # ''Please refer to http://aka.ms/filemounterror for possible causes and solutions for mount errors.''
      else [])"

definition stage_direct_mount ::
    "env \<Rightarrow> config \<Rightarrow> string \<Rightarrow> account_info \<Rightarrow> stage_vars \<Rightarrow> string \<Rightarrow> string \<Rightarrow> string \<Rightarrow> string \<Rightarrow> string
      \<Rightarrow> string list \<Rightarrow> string list \<Rightarrow> (goerr + unit) prog" where
  "stage_direct_mount E d volumeID i sv server clientID source path fsType mountOptions sensitive =
     check
       (WaitUntilTimeout E ''mount''
          (stage_exec E d i sv server clientID source path fsType mountOptions sensitive)
          (ret (Some (Fmterr ''mount operation timed out after %d seconds: source=%s, target=%s'' [''90'', source, path]))))
       (\<lambda>e. Statusf Internal ''volume(%s) mount %s on %s failed with %v%s''
              [volumeID, source, path, err_text e, mount_help d])"

definition stage_chmod :: "env \<Rightarrow> stage_vars \<Rightarrow> string \<Rightarrow> (goerr + unit) prog" where
  "stage_chmod E sv targetPath =
     (if sv_protocol sv = nfs \<and> sv_chmod sv
      then check (chmodIfPermissionMismatch E targetPath (sv_permissions sv)) (\<lambda>e. status_error Internal (err_text e))
      else ret (Inr ()))"

text \<open>Lines 622-698: the share is mounted on the mount path.\<close>

definition stage_mount_share ::
    "env \<Rightarrow> config \<Rightarrow> string \<Rightarrow> string \<Rightarrow> account_info \<Rightarrow> stage_vars \<Rightarrow> string \<Rightarrow> string \<Rightarrow> string \<Rightarrow> string
      \<Rightarrow> string list \<Rightarrow> string list \<Rightarrow> (goerr + unit) prog" where
  "stage_mount_share E d volumeID targetPath i sv server clientID source path mountOptions sensitive =
     (let (mountFsType, mountOptions) =
            (if sv_protocol sv = nfs then nfs_mount_choice d (sv_encrypt sv) mountOptions else (cifs, mountOptions))
      in if mountFsType = aznfs \<and> \<not> enableAzurefileProxy d
         then ret (Inl (status_error InvalidArgument
           ''aznfs mounts (encryptInTransit or use-aznfs-for-nfs-mounts) are only available when azurefile-proxy is enabled''))
         else and_then
           (if mountFsType = aznfs then stage_proxy_mount E source path mountFsType mountOptions sensitive
            else stage_direct_mount E d volumeID i sv server clientID source path mountFsType mountOptions sensitive)
           (\<lambda>_. stage_chmod E sv targetPath))"

definition stage_mount ::
    "env \<Rightarrow> config \<Rightarrow> string \<Rightarrow> string \<Rightarrow> account_info \<Rightarrow> stage_vars \<Rightarrow> string \<Rightarrow> string \<Rightarrow> string \<Rightarrow> string
      \<Rightarrow> string list \<Rightarrow> string list \<Rightarrow> (goerr + unit) prog" where
  "stage_mount E d volumeID targetPath i sv server clientID source path mountOptions sensitive = do {
     (isDirMounted, err) \<leftarrow> ensureMountPoint E path (sv_permissions sv) True;
     (case err of
        Some e \<Rightarrow> ret (Inl (Statusf Internal ''Could not mount target %s: %v'' [path, err_text e]))
      | None \<Rightarrow>
          if isDirMounted then ret (Inr ())
          else stage_mount_share E d volumeID targetPath i sv server clientID source path mountOptions sensitive) }"

section \<open>Mount information for confidential guests\<close>

definition stage_save_info ::
    "env \<Rightarrow> string \<Rightarrow> string \<Rightarrow> string \<Rightarrow> string list \<Rightarrow> string list \<Rightarrow> (goerr + unit) prog" where
  "stage_save_info E server source path mountOptions sensitive = do {
     ipAddr \<leftarrow> call (ans_str E) (Node (ResolveIPAddr server));
     (case ipAddr of
        Inl err \<Rightarrow> ret (Inl err)
      | Inr ip \<Rightarrow>
          check (call (ans_err E) (Node (DirectVolumeAdd path
                   \<lparr>mi_type = ''azurefile'', mi_device = source, mi_fsType = cifs, mi_sensitive = Join sensitive '','',
                    mi_options = mountOptions @ [''addr='' @ ip]\<rparr>)))
            (\<lambda>e. Statusf Internal ''Could not save direct volume mount info %s: %v'' [path, err_text e])) }"

definition stage_kata ::
    "env \<Rightarrow> config \<Rightarrow> stage_vars \<Rightarrow> string \<Rightarrow> string \<Rightarrow> string \<Rightarrow> string list \<Rightarrow> string list \<Rightarrow> (goerr + unit) prog" where
  "stage_kata E d sv server source path mountOptions sensitive = do {
     kata \<leftarrow> get isKataNode;
     (if enableKataCCMount d \<and> kata \<and> sv_protocol sv \<noteq> nfs
      then do {
        isMountInfoPresent \<leftarrow> call (ans_info E) (Node (DirectVolumeInfo path));
        (case isMountInfoPresent of
           Inl e \<Rightarrow>
             if err_kind e \<noteq> OsNotExist
             then ret (Inl (Statusf Internal ''Could not save direct volume mount info %s: %v'' [path, err_text e]))
             else stage_save_info E server source path mountOptions sensitive
         | Inr (Some _) \<Rightarrow> ret (Inr ())
         | Inr None \<Rightarrow> stage_save_info E server source path mountOptions sensitive) }
      else ret (Inr ())) }"

section \<open>The disk in the share\<close>

definition disk_options :: "stage_vars \<Rightarrow> string list \<Rightarrow> string list" where
  "disk_options sv mountFlags =
     (let options = JoinMountOptions mountFlags [''loop''] in
      if HasPrefix (sv_fsType sv) ''ext''
      then JoinMountOptions options [''noatime'', ''barrier=1'', ''errors=remount-ro''] else options)"

text \<open>The answer tells whether the request goes on: a disk already mounted on the target ends it.\<close>

definition stage_disk ::
    "env \<Rightarrow> string \<Rightarrow> string \<Rightarrow> stage_vars \<Rightarrow> string \<Rightarrow> string list \<Rightarrow> (goerr + bool) prog" where
  "stage_disk E volumeID targetPath sv path mountFlags =
     (if \<not> isDiskFsType (sv_fsType sv) then ret (Inr True)
      else do {
        (mnt, err) \<leftarrow> ensureMountPoint E targetPath (sv_permissions sv) True;
        (case err of
           Some e \<Rightarrow> ret (Inl (Statusf Internal ''mount %s on target %s failed with %v'' [volumeID, targetPath, err_text e]))
         | None \<Rightarrow>
             if mnt then ret (Inr False)
             else
               let diskPath = path_join [path, sv_disk sv] in
               and_then
                 (check (validateDiskIsRegularFile E diskPath)
                    (\<lambda>e. invalid ''invalid disk source: %v'' [err_text e]))
                 (\<lambda>_. and_then
                    (check (call (ans_err E) (Node (FormatAndMount diskPath targetPath (sv_fsType sv) (disk_options sv mountFlags))))
                       (\<lambda>_. Statusf Internal ''could not format %s and mount it at %s'' [targetPath, diskPath]))
                    (\<lambda>_. ret (Inr True)))) })"

definition stage_ownership ::
    "env \<Rightarrow> string \<Rightarrow> stage_vars \<Rightarrow> string \<Rightarrow> string \<Rightarrow> (goerr + unit) prog" where
  "stage_ownership E volumeID sv path volumeMountGroup =
     (if (sv_protocol sv = nfs \<or> isDiskFsType (sv_fsType sv)) \<and> volumeMountGroup \<noteq> []
         \<and> sv_policy sv \<noteq> FSGroupChangeNone
      then check (SetVolumeOwnership E path volumeMountGroup (sv_policy sv))
             (\<lambda>e. Statusf Internal ''SetVolumeOwnership with volume(%s) on %s failed with %v'' [volumeID, path, err_text e])
      else ret (Inr ()))"

section \<open>Staging\<close>

definition lift_err :: "goerr + 'a \<Rightarrow> (goerr + 'a) prog" where
  "lift_err r = ret r"

definition stage_locked ::
    "env \<Rightarrow> config \<Rightarrow> stage_request \<Rightarrow> string list \<Rightarrow> string \<Rightarrow> bool \<Rightarrow> account_info \<Rightarrow> stage_vars \<Rightarrow> (goerr + unit) prog" where
  "stage_locked E d req mountFlags volumeMountGroup gidPresent i sv =
     (let volumeID = nr_VolumeId req; targetPath = nr_Target req in
      and_then (lift_err (stage_place_of E d i sv)) (\<lambda>place.
      and_then (stage_create_folder E i sv place) (\<lambda>_.
      and_then (lift_err (stage_mount_path sv targetPath mountFlags gidPresent volumeMountGroup)) (\<lambda>(path, cifsMountFlags).
      and_then (stage_credentials i) (\<lambda>_.
      and_then (stage_options E d volumeID (nr_Context req) targetPath i sv (st_server place) mountFlags cifsMountFlags)
        (\<lambda>(clientID, mountOptions, sensitive).
      and_then (stage_mount E d volumeID targetPath i sv (st_server place) clientID (stage_source i sv place) path
                  mountOptions sensitive) (\<lambda>_.
      and_then (stage_kata E d sv (st_server place) (stage_source i sv place) path mountOptions sensitive) (\<lambda>_.
      and_then (stage_disk E volumeID targetPath sv path mountFlags) (\<lambda>more.
      if more then stage_ownership E volumeID sv path volumeMountGroup else ret (Inr ()))))))))))"

definition stage_lock_key :: "string \<Rightarrow> string \<Rightarrow> string" where
  "stage_lock_key volumeID targetPath = sprintf ''%s-%s'' [volumeID, targetPath]"

definition stage_flags :: "volume_capability \<Rightarrow> string list" where
  "stage_flags volumeCapability =
     (let mountFlags = vc_mountFlags volumeCapability in
      if isReadOnlyFromCapability volumeCapability then JoinMountOptions mountFlags [''ro''] else mountFlags)"

text \<open>What is decided before the lock is taken: the account of the volume and its context.\<close>

definition stage_decide ::
    "env \<Rightarrow> config \<Rightarrow> stage_request \<Rightarrow> (goerr + account_info \<times> stage_vars) prog" where
  "stage_decide E d req = do {
     (i, err) \<leftarrow> GetAccountInfo E d (nr_VolumeId req) (nr_Secrets req) (nr_Context req);
     (case err of
        Some e \<Rightarrow> ret (Inl (invalid ''GetAccountInfo(%s) failed with error: %v'' [nr_VolumeId req, err_text e]))
      | None \<Rightarrow>
          if ai_share i = [] then ret (Inl (invalid ''failed to get file share name from %s'' [nr_VolumeId req]))
          else case stage_params (initial_stage_vars d (ai_disk i)) (nr_Context req) of
                 Inl err \<Rightarrow> ret (Inl err)
               | Inr sv \<Rightarrow>
                   (case stage_error (nr_VolumeId req) i sv (nr_Context req) of
                      Some err \<Rightarrow> ret (Inl err)
                    | None \<Rightarrow> ret (Inr (i, sv)))) }"

definition NodeStageVolume :: "env \<Rightarrow> config \<Rightarrow> stage_request \<Rightarrow> (goerr + unit) prog" where
  "NodeStageVolume E d req =
     (if nr_VolumeId req = [] then ret (Inl (status_error InvalidArgument ''Volume ID missing in request''))
      else if nr_Target req = [] then ret (Inl (status_error InvalidArgument ''Staging target not provided''))
      else case nr_Capability req of
        None \<Rightarrow> ret (Inl (status_error InvalidArgument ''Volume capability not provided''))
      | Some volumeCapability \<Rightarrow>
          if getServiceAccountTokens (nr_Secrets req) (nr_Context req) = []
             \<and> shouldUseServiceAccountToken (nr_Context req)
          then ret (Inr ())
          else and_then (stage_decide E d req) (\<lambda>(i, sv).
            with_volume_lock (stage_lock_key (nr_VolumeId req) (nr_Target req))
              (ret (Inl (Statusf Aborted volumeOperationAlreadyExistsFmt [nr_VolumeId req])))
              (stage_locked E d req (stage_flags volumeCapability) (vc_mountGroup volumeCapability)
                 (checkGidPresentInMountFlags (vc_mountFlags volumeCapability)) i sv)))"

section \<open>Unstaging\<close>

fun remove_files :: "env \<Rightarrow> string list \<Rightarrow> unit prog" where
  "remove_files E [] = ret ()"
| "remove_files E (f # fs) = do { call (ans_err E) (Node (RemoveFile f)); remove_files E fs }"

text \<open>Best effort: errors are only logged.\<close>

definition remove_token_files :: "env \<Rightarrow> string \<Rightarrow> unit prog" where
  "remove_token_files E volumeID = do {
     matches \<leftarrow> call (ans_strs E)
       (Node (Glob (path_join [defaultAzureOAuthTokenDir, ''*-'' @ hashVolumeIDForTokenFile E volumeID])));
     (case matches of Inl _ \<Rightarrow> ret () | Inr files \<Rightarrow> remove_files E files) }"

definition remove_mount_info :: "env \<Rightarrow> config \<Rightarrow> string \<Rightarrow> goerr option prog" where
  "remove_mount_info E d path = do {
     kata \<leftarrow> get isKataNode;
     (if enableKataCCMount d \<and> kata then call (ans_err E) (Node (DirectVolumeRemove path)) else ret None) }"

definition unstage_locked :: "env \<Rightarrow> config \<Rightarrow> string \<Rightarrow> string \<Rightarrow> (goerr + unit) prog" where
  "unstage_locked E d volumeID stagingTargetPath =
     and_then (check (CleanupMountPoint E stagingTargetPath True)
                 (\<lambda>e. Statusf Internal ''failed to unmount staging target %s: %v'' [stagingTargetPath, err_text e])) (\<lambda>_.
     let targetPath = path_join [path_dir stagingTargetPath, proxyMount] in
     and_then (check (CleanupMountPoint E targetPath False)
                 (\<lambda>e. Statusf Internal ''failed to unmount staging target %s: %v'' [targetPath, err_text e])) (\<lambda>_.
     and_then (check (remove_mount_info E d stagingTargetPath)
                 (\<lambda>e. Statusf Internal ''failed to remove mount info %s: %v'' [stagingTargetPath, err_text e])) (\<lambda>_.
     do { remove_token_files E volumeID; ret (Inr ()) })))"

definition NodeUnstageVolume :: "env \<Rightarrow> config \<Rightarrow> string \<Rightarrow> string \<Rightarrow> (goerr + unit) prog" where
  "NodeUnstageVolume E d volumeID stagingTargetPath =
     (if volumeID = [] then ret (Inl (status_error InvalidArgument ''Volume ID missing in request''))
      else if stagingTargetPath = [] then ret (Inl (status_error InvalidArgument ''Staging target not provided''))
      else with_volume_lock (stage_lock_key volumeID stagingTargetPath)
             (ret (Inl (Statusf Aborted volumeOperationAlreadyExistsFmt [volumeID])))
             (unstage_locked E d volumeID stagingTargetPath))"

section \<open>Publishing\<close>

record publish_request =
  np_VolumeId :: string
  np_Staging :: string
  np_Target :: string
  np_Capability :: "volume_capability option"
  np_Context :: smap
  np_Secrets :: smap
  np_Readonly :: bool

definition stage_of :: "publish_request \<Rightarrow> smap \<Rightarrow> stage_request" where
  "stage_of req volumeContext =
     \<lparr>nr_VolumeId = np_VolumeId req, nr_Target = np_Target req, nr_Capability = np_Capability req,
      nr_Context = volumeContext, nr_Secrets = np_Secrets req\<rparr>"

text \<open>The checks of an inline volume's context, in the order of the code.\<close>

definition inline_checks :: "smap \<Rightarrow> string list \<Rightarrow> (bool \<times> goerr) list" where
  "inline_checks volumeContext mountFlags =
     (let options = mountFlags @ [TrimSpace (getValueInMap volumeContext mountOptionsField)] in
      [(getValueInMap volumeContext diskNameField \<noteq> [] \<or> isDiskFsType (getValueInMap volumeContext fsTypeField),
        status_error InvalidArgument ''VHD disk feature (diskName or disk fsType) is not supported for ephemeral volumes''),
       (validateInlineSMBMountOptions options \<noteq> None,
        status_error InvalidArgument (show_err (validateInlineSMBMountOptions options))),
       (EqualFold (getValueInMap volumeContext mountWithManagedIdentityField) trueValue,
        invalid ''mountWithManagedIdentity cannot be used for ephemeral volumes, please use either %s or secret based authentication''
          [mountWithWITokenField]),
       (EqualFold (getValueInMap volumeContext mountWithOAuthTokenField) trueValue,
        status_error InvalidArgument ''mountWithOAuthToken cannot be used for ephemeral volumes, please use secret based authentication'')])"

definition isWorkloadIdentity :: "smap \<Rightarrow> bool" where
  "isWorkloadIdentity volumeContext \<longleftrightarrow>
     EqualFold (getValueInMap volumeContext mountWithWITokenField) trueValue \<or> shouldUseServiceAccountToken volumeContext"

text \<open>The context an inline volume is staged with: its secret is in the pod's namespace, and it is where the key comes from.\<close>

definition inline_context :: "config \<Rightarrow> smap \<Rightarrow> smap" where
  "inline_context d volumeContext =
     (if \<not> allowInlineVolumeKeyAccessWithIdentity d \<and> \<not> isWorkloadIdentity volumeContext
      then set_fold (set_fold volumeContext getAccountKeyFromSecretField trueValue) storageAccountField []
      else volumeContext)"

definition publish_ephemeral ::
    "env \<Rightarrow> config \<Rightarrow> publish_request \<Rightarrow> volume_capability \<Rightarrow> (goerr + unit) prog" where
  "publish_ephemeral E d req volCap =
     (case caseCollidingKey (np_Context req) of
        (key, True) \<Rightarrow> ret (Inl (invalid ''ephemeral volume request contains case-colliding volume attribute keys that normalize to %q'' [key]))
      | (_, False) \<Rightarrow>
          (let volumeContext = set_fold (np_Context req) secretNamespaceField (map_get (np_Context req) podNamespaceField) in
           case first_error (inline_checks volumeContext (vc_mountFlags volCap)) of
             Some err \<Rightarrow> ret (Inl err)
           | None \<Rightarrow> do {
               skip \<leftarrow> canSkipRepublishNodeStage E volumeContext (np_Target req);
               (if skip then ret (Inr ())
                else
                  let staged = inline_context d volumeContext in
                  and_then
                    (if isWorkloadIdentity volumeContext then ret (Inr ())
                     else check (authorizeInlineVolumeSecret E d staged) (\<lambda>e. e))
                    (\<lambda>_. NodeStageVolume E d (stage_of req staged))) }))"

definition publish_with_token :: "env \<Rightarrow> config \<Rightarrow> publish_request \<Rightarrow> (goerr + unit) prog" where
  "publish_with_token E d req = do {
     skip \<leftarrow> canSkipRepublishNodeStage E (np_Context req) (np_Target req);
     (if skip then ret (Inr ()) else NodeStageVolume E d (stage_of req (np_Context req))) }"

text \<open>A direct volume of a confidential guest: the mount information saved at staging is copied to the target.\<close>

definition publish_direct :: "env \<Rightarrow> publish_request \<Rightarrow> (goerr + unit) prog" where
  "publish_direct E req =
     (let source = np_Staging req; target = np_Target req in
      if source = [] then ret (Inl (status_error InvalidArgument ''Staging target not provided''))
      else do {
        mountInfo \<leftarrow> call (ans_info E) (Node (DirectVolumeInfo source));
        (case mountInfo of
           Inl err \<Rightarrow> ret (Inl (Statusf Internal ''failed to load mount info from %s: %v'' [source, err_text err]))
         | Inr None \<Rightarrow> ret (Inl (Statusf Internal ''mount info is nil for volume %s'' [np_VolumeId req]))
         | Inr (Some info) \<Rightarrow>
             check (call (ans_err E) (Node (DirectVolumeAdd target info)))
               (\<lambda>e. Statusf Internal ''failed to save mount info %s: %v'' [target, err_text e])) })"

definition detect_kata_node :: "env \<Rightarrow> config \<Rightarrow> smap \<Rightarrow> bool prog" where
  "detect_kata_node E d volumeContext = do {
     kata \<leftarrow> get isKataNode;
     let label = getValueInMap volumeContext confidentialContainerLabelField;
     (if \<not> kata \<and> label \<noteq> []
      then do {
        found \<leftarrow> isKataNode_check E d (cfg_NodeID d) label;
        modify (\<lambda>s. s\<lparr>isKataNode := found\<rparr>);
        ret found }
      else ret kata) }"

text \<open>Whether the pod runs in a confidential runtime class of this node.\<close>

definition publish_confidential :: "env \<Rightarrow> config \<Rightarrow> smap \<Rightarrow> (goerr + bool) prog" where
  "publish_confidential E d volumeContext =
     (let podName = map_get volumeContext podNameField; podNamespace = map_get volumeContext podNamespaceField in
      if \<not> enableKataCCMount d \<or> podName = [] \<or> podNamespace = [] then ret (Inr False)
      else do {
        kata \<leftarrow> detect_kata_node E d volumeContext;
        (if \<not> kata then ret (Inr False)
         else do {
           r \<leftarrow> getRuntimeClassForPod E d podName podNamespace;
           (case r of
              Inl err \<Rightarrow> ret (Inl (Statusf Internal ''failed to get runtime class for pod %s/%s: %v''
                                 [podNamespace, podName, err_text err]))
            | Inr runtimeClass \<Rightarrow> do {
                let handler = getValueInMap volumeContext runtimeClassHandlerField;
                c \<leftarrow> isConfidentialRuntimeClass E d runtimeClass (if handler = [] then defaultRuntimeClassHandler else handler);
                (case c of
                   Inl err \<Rightarrow> ret (Inl (Statusf Internal ''failed to check if runtime class %s is confidential: %v''
                                      [runtimeClass, err_text err]))
                 | Inr b \<Rightarrow> ret (Inr b)) }) }) })"

text \<open>The bind mount of the staged volume on the target.\<close>

definition bind_mount :: "env \<Rightarrow> publish_request \<Rightarrow> (goerr + unit) prog" where
  "bind_mount E req =
     (let source = np_Staging req; target = np_Target req in do {
        err \<leftarrow> call (ans_err E) (Node (Mount source target [] (''bind'' # (if np_Readonly req then [''ro''] else [])) []));
        (case err of
           None \<Rightarrow> ret (Inr ())
         | Some e \<Rightarrow> do {
             removeErr \<leftarrow> call (ans_err E) (Node (RemoveFile target));
             ret (Inl (case removeErr of
                         Some r \<Rightarrow> Statusf Internal ''Could not remove mount target %s: %v'' [target, err_text r]
                       | None \<Rightarrow> Statusf Internal ''Could not mount %s at %s: %v'' [source, target, err_text e])) }) })"

text \<open>The credential cache of an OAuth volume is refreshed before the target is probed.\<close>

definition publish_refresh :: "env \<Rightarrow> config \<Rightarrow> publish_request \<Rightarrow> (goerr + unit) prog" where
  "publish_refresh E d req =
     (if EqualFold (getValueInMap (np_Context req) mountWithOAuthTokenField) trueValue
      then do {
        r \<leftarrow> setCredentialCacheWithOAuthToken E d (np_VolumeId req) (np_Context req);
        ret (case r of
               Inl err \<Rightarrow> Inl (Statusf (status_code err) ''NodePublishVolume: %s'' [status_message err])
             | Inr _ \<Rightarrow> Inr ()) }
      else ret (Inr ()))"

definition publish_bind :: "env \<Rightarrow> config \<Rightarrow> publish_request \<Rightarrow> int \<Rightarrow> (goerr + unit) prog" where
  "publish_bind E d req mountPermissions =
     (if np_Staging req = [] then ret (Inl (status_error InvalidArgument ''Staging target not provided''))
      else and_then (publish_refresh E d req) (\<lambda>_. do {
        (mnt, err) \<leftarrow> ensureMountPoint E (np_Target req) mountPermissions False;
        (case err of
           Some e \<Rightarrow> ret (Inl (Statusf Internal ''Could not mount target %s: %v'' [np_Target req, err_text e]))
         | None \<Rightarrow> if mnt then ret (Inr ()) else bind_mount E req) }))"

definition publish_permissions :: "config \<Rightarrow> smap \<Rightarrow> goerr + int" where
  "publish_permissions d volumeContext =
     (let perm = getValueInMap volumeContext mountPermissionsField in
      if perm = [] then Inr (cfg_mountPermissions d)
      else case ParseUint perm 8 32 of
             None \<Rightarrow> Inl (invalid ''invalid mountPermissions %s'' [perm])
           | Some n \<Rightarrow> Inr n)"

definition publish_persistent :: "env \<Rightarrow> config \<Rightarrow> publish_request \<Rightarrow> (goerr + unit) prog" where
  "publish_persistent E d req =
     (if getServiceAccountTokens (np_Secrets req) (np_Context req) \<noteq> [] \<and> shouldUseServiceAccountToken (np_Context req)
      then publish_with_token E d req
      else case publish_permissions d (np_Context req) of
             Inl err \<Rightarrow> ret (Inl err)
           | Inr mountPermissions \<Rightarrow>
               and_then (publish_confidential E d (np_Context req)) (\<lambda>confidential.
                 if confidential then publish_direct E req else publish_bind E d req mountPermissions))"

definition NodePublishVolume :: "env \<Rightarrow> config \<Rightarrow> publish_request \<Rightarrow> (goerr + unit) prog" where
  "NodePublishVolume E d req =
     (case np_Capability req of
        None \<Rightarrow> ret (Inl (status_error InvalidArgument ''Volume capability missing in request''))
      | Some volCap \<Rightarrow>
          if np_VolumeId req = [] then ret (Inl (status_error InvalidArgument ''Volume ID missing in request''))
          else if np_Target req = [] then ret (Inl (status_error InvalidArgument ''Target path not provided''))
          else if EqualFold (map_get (np_Context req) ephemeralField) trueValue then publish_ephemeral E d req volCap
          else publish_persistent E d req)"

text \<open>A name too long for the direct volume's file system means that there is nothing to remove.\<close>

definition NodeUnpublishVolume :: "env \<Rightarrow> config \<Rightarrow> string \<Rightarrow> string \<Rightarrow> (goerr + unit) prog" where
  "NodeUnpublishVolume E d volumeID targetPath =
     (if volumeID = [] then ret (Inl (status_error InvalidArgument ''Volume ID missing in request''))
      else if targetPath = [] then ret (Inl (status_error InvalidArgument ''Target path missing in request''))
      else and_then
        (check (CleanupMountPoint E targetPath True)
           (\<lambda>e. Statusf Internal ''failed to unmount target %s: %v'' [targetPath, err_text e]))
        (\<lambda>_. do {
          err \<leftarrow> remove_mount_info E d targetPath;
          ret (case err of
                 None \<Rightarrow> Inr ()
               | Some e \<Rightarrow>
                   if Contains (err_text e) ''file name too long'' then Inr ()
                   else Inl (Statusf Internal ''failed to direct volume remove mount info %s: %v'' [targetPath, err_text e])) }))"

section \<open>Statistics\<close>

text \<open>The file system's counters fit 64 bits (the library builds them from such), so no conversion of them fails.\<close>

definition GetVolumeStats :: "env \<Rightarrow> string \<Rightarrow> (goerr + volume_stats) prog" where
  "GetVolumeStats E path = do {
     metrics \<leftarrow> call (ans_stats E) (Node (StatFS path));
     ret (case metrics of
            Inl err \<Rightarrow> Inl (Statusf Internal ''failed to get metrics: %v'' [err_text err])
          | Inr m \<Rightarrow> Inr m) }"

definition stats_volume_id :: "string \<Rightarrow> string" where
  "stats_volume_id volumeID =
     (case GetFileShareInfo volumeID of
        Inl _ \<Rightarrow> []
      | Inr i \<Rightarrow>
          (let fileShareName = hd (Split (si_share i) ''/'') in
           if si_account i \<noteq> [] \<and> fileShareName \<noteq> []
           then sprintf ''%s#%s#%s#%s#%s#%s'' [[], si_account i, fileShareName, [], [], si_namespace i] else []))"

definition stats_get :: "env \<Rightarrow> string \<Rightarrow> volume_stats option prog" where
  "stats_get E k = get (\<lambda>s. if fresh E (trace s) volStatsCache k then statsCache s k else None)"

definition stats_set :: "string \<Rightarrow> volume_stats \<Rightarrow> unit prog" where
  "stats_set k v = modify (\<lambda>s. s\<lparr>statsCache := (statsCache s)(k \<mapsto> v)\<rparr>)"

definition stats_fresh :: "env \<Rightarrow> string \<Rightarrow> string \<Rightarrow> (goerr + volume_stats) prog" where
  "stats_fresh E volumeID volumePath = do {
     info \<leftarrow> call (ans_file E) (Node (Lstat volumePath));
     (case info of
        Inl err \<Rightarrow>
          ret (Inl (if err_kind err = OsNotExist then Statusf NotFound ''path %s does not exist'' [volumePath]
                    else Statusf Internal ''failed to stat file %s: %v'' [volumePath, err_text err]))
      | Inr _ \<Rightarrow> do {
          r \<leftarrow> GetVolumeStats E volumePath;
          (case r of
             Inl err \<Rightarrow> ret r
           | Inr stats \<Rightarrow> do {
               stats_set volumeID stats;
               (if stats_volume_id volumeID \<noteq> [] then stats_set (stats_volume_id volumeID) stats else ret ());
               ret r }) }) }"

definition NodeGetVolumeStats :: "env \<Rightarrow> string \<Rightarrow> string \<Rightarrow> (goerr + volume_stats) prog" where
  "NodeGetVolumeStats E volumeID volumePath =
     (if volumeID = [] then ret (Inl (status_error InvalidArgument ''NodeGetVolumeStats volume ID was empty''))
      else if volumePath = [] then ret (Inl (status_error InvalidArgument ''NodeGetVolumeStats volume path was empty''))
      else do {
        c \<leftarrow> stats_get E volumeID;
        (case c of
           Some stats \<Rightarrow> ret (Inr stats)
         | None \<Rightarrow> do {
             c \<leftarrow> stats_get E (stats_volume_id volumeID);
             (case c of
                Some stats \<Rightarrow> ret (Inr stats)
              | None \<Rightarrow> stats_fresh E volumeID volumePath) }) })"

definition NodeExpandVolume :: "goerr + unit" where
  "NodeExpandVolume = Inl (status_error Unimplemented [])"

end
