(* ===== verification/Effects.thy ===== *)
theory Effects
  imports Node
begin

text \<open>
  What the methods leave alone, method by method.  The locale \<open>effects\<close> states what a frame must allow: every call that
  does not create, delete or change a share and is not a call of a Windows node, and every change of the state that spares the trace and the volume locks.
  Its lemmas follow the definitions; interpreting it on a frame gives the frame for every method of the driver at once.
  Its extensions allow more calls and have more methods.
\<close>

named_theorems eff \<open>methods that keep the frame\<close>

text \<open>The calls only a Windows node makes; the methods below make none.\<close>

definition on_windows :: "ext \<Rightarrow> bool" where
  "on_windows c = (case c of Win _ \<Rightarrow> True | _ \<Rightarrow> False)"

lemma on_windows_simps [simp]:
  "\<not> on_windows (Node n)" "\<not> on_windows (Kube k)" "\<not> on_windows (Tool tool)" "\<not> on_windows (Share x)"
  "\<not> on_windows (Rm r)" "\<not> on_windows (Account a)" "on_windows (Win w)"
  by (simp_all add: on_windows_def)

locale effects = frame R for R :: "drv \<Rightarrow> drv \<Rightarrow> bool" +
  fixes P :: "ext \<Rightarrow> bool"
  assumes calls: "P c \<Longrightarrow> R s (s\<lparr>trace := trace s @ [c]\<rparr>)"
    and changes: "trace t = trace s \<Longrightarrow> volumeLocks t = volumeLocks s \<Longrightarrow> R s t"
    and allows: "\<not> writes_share c \<Longrightarrow> \<not> on_windows c \<Longrightarrow> P c"
    and locked: "k \<notin> volumeLocks s \<Longrightarrow> R (s\<lparr>volumeLocks := insert k (volumeLocks s)\<rparr>) t
      \<Longrightarrow> R s (t\<lparr>volumeLocks := volumeLocks t - {k}\<rparr>)"
begin

lemma allowed_call: "P c \<Longrightarrow> keeps R (call ans c)"
  unfolding keeps_def by (simp add: final_def run_simps calls)

lemma eff_modify [eff]: "(\<And>s. trace (f s) = trace s \<and> volumeLocks (f s) = volumeLocks s) \<Longrightarrow> keeps R (modify f)"
  unfolding keeps_def by (simp add: final_def run_simps changes)

lemma eff_call [eff]: "\<not> writes_share c \<Longrightarrow> \<not> on_windows c \<Longrightarrow> keeps R (call ans c)"
  by (rule allowed_call) (rule allows)

lemma eff_note [eff]: "\<not> writes_share c \<Longrightarrow> \<not> on_windows c \<Longrightarrow> keeps R (note_event c)"
  unfolding note_event_def by (rule eff_call)

lemma eff_caches [eff]: "keeps R (cache_set c k v)" "keeps R (cache_delete c k)"
  unfolding cache_set_def cache_delete_def by (rule eff_modify; simp)+

declare keeps_control [eff] keeps_cases [eff]

lemma eff_locked [eff]:
  assumes "keeps R aborted" "keeps R body"
  shows "keeps R (with_volume_lock k aborted body)"
  unfolding keeps_def
proof
  fix s
  show "R s (final (with_volume_lock k aborted body) s)"
  proof (cases "k \<in> volumeLocks s")
    case True
    then show ?thesis using assms(1) by (simp add: keeps_def final_def with_volume_lock_held)
  next
    case False
    obtain r t where rt: "run_state body (s\<lparr>volumeLocks := insert k (volumeLocks s)\<rparr>) = (r, t)"
      by (cases "run_state body (s\<lparr>volumeLocks := insert k (volumeLocks s)\<rparr>)") blast
    have "R u (final body u)" for u using assms(2) by (simp add: keeps_def)
    from this [of "s\<lparr>volumeLocks := insert k (volumeLocks s)\<rparr>"] rt
    have "R (s\<lparr>volumeLocks := insert k (volumeLocks s)\<rparr>) t" by (simp add: final_def)
    from locked [OF False this] False rt show ?thesis by (simp add: final_def with_volume_lock_free)
  qed
qed

lemma eff_sleep [eff]: "keeps R (sleep_if_throttled err n)"
  unfolding sleep_if_throttled_def by (intro eff; simp)+

lemma eff_and_then [eff]: "keeps R m \<Longrightarrow> (\<And>a. keeps R (f a)) \<Longrightarrow> keeps R (and_then m f)"
  unfolding and_then_def by (intro eff; simp)+

lemma eff_check [eff]: "keeps R m \<Longrightarrow> keeps R (check m w)"
  unfolding check_def by (intro eff; simp)+

section \<open>Shares\<close>

lemma eff_clients [eff]:
  "keeps R (newAzureFileClient E a k sfx)" "keeps R (newAzureFileClientWithOAuth E a sfx)"
  "keeps R (newAzureFileMgmtClient E d subs rg n)" "keeps R (getFileShareClientForSub E d subs)"
  unfolding newAzureFileClient_def newAzureFileClientWithOAuth_def newAzureFileMgmtClient_def
    getFileShareClientForSub_def Let_def
  by (intro eff; simp)+

lemma eff_select [eff]: "keeps R (select_client E d ao secrets u)"
  unfolding select_client_def Let_def by (intro eff; simp)+

lemma eff_quota [eff]: "keeps R (client_GetFileShareQuota E fc n)" "keeps R (getFileShareQuota E d ao n secrets u)"
proof -
  show q: "keeps R (client_GetFileShareQuota E fc n)" for fc
    by (cases fc; simp add: dp_GetFileShareQuota_def mgmt_GetFileShareQuota_def; intro eff; simp)
  show "keeps R (getFileShareQuota E d ao n secrets u)"
    unfolding getFileShareQuota_def by (intro eff q; simp)+
qed

lemma eff_total_quota [eff]: "keeps R (GetTotalAccountQuota E d subs rg a)"
  unfolding GetTotalAccountQuota_def Let_def by (intro eff; simp)+

lemma eff_use_data_plane [eff]: "keeps R (useDataPlaneAPI E v a)"
  unfolding useDataPlaneAPI_def by (intro eff; simp)+

section \<open>Accounts\<close>

lemma eff_secrets [eff]:
  "keeps R (GetStorageAccountFromSecret E d n ns)" "keeps R (GetStorageAccesskeyWithSubsID E d subs a rg l)"
  "keeps R (SetAzureCredentials E d a k n ns)" "keeps R (RemoveStorageAccountTag E subs rg a k)"
  "keeps R (remember_key a r)"
  unfolding GetStorageAccountFromSecret_def GetStorageAccesskeyWithSubsID_def SetAzureCredentials_def
    RemoveStorageAccountTag_def remember_key_def Let_def
  by (intro eff; simp)+

lemma eff_access_key [eff]: "keeps R (GetStorageAccesskey E d ao secrets n ns)"
  unfolding GetStorageAccesskey_def Let_def by (intro eff; simp)+

lemma eff_identities [eff]:
  "keeps R (oauth_account E d a)" "keeps R (write_token_file E a ctx f t)"
  unfolding oauth_account_def write_token_file_def by (intro eff; simp)+

lemma eff_account_key [eff]: "keeps R (account_key E d secrets a)"
  unfolding account_key_def key_from_secret_or_identity_def Let_def by (intro eff; simp)+

lemma eff_account_info [eff]: "keeps R (GetAccountInfo E d v secrets ctx)"
  unfolding GetAccountInfo_def workload_identity_account_def Let_def by (intro eff; simp)+

lemma eff_folder_levels [eff]: "keeps R (create_folder_levels E f share cur cs)"
proof (induction cs arbitrary: cur)
  case (Cons c cs)
  then show ?case unfolding create_folder_levels.simps create_folder_level_def by (intro eff Cons.IH; simp)
qed (simp add: eff)

lemma eff_folder [eff]: "keeps R (createFolderIfNotExists E a k share folder sfx)"
  unfolding createFolderIfNotExists_def by (intro eff; simp)+

lemma eff_disk [eff]: "keeps R (createDisk E a k sfx share disk n)"
  unfolding createDisk_def getDirectoryClient_def Let_def by (intro eff; simp)+

lemma eff_get_subnets [eff]: "keeps R (get_subnets E rg vnet n ns)"
proof (induction ns)
  case (Cons m ns)
  then show ?case unfolding get_subnets.simps by (intro eff Cons.IH; simp)
qed (simp add: eff)

lemma eff_update_subnets [eff]: "keeps R (update_subnets E d rg vnet ids ns)"
proof (induction ns arbitrary: ids)
  case (Cons m ns)
  then show ?case unfolding update_subnets.simps by (intro eff Cons.IH; simp)
qed (simp add: eff)

lemma eff_subnets [eff]: "keeps R (updateSubnetServiceEndpoints E d rg vnet n)"
  unfolding updateSubnetServiceEndpoints_def list_and_update_subnets_def Let_def
  by (intro eff; simp)+

lemma eff_pods [eff]:
  "keeps R (getRuntimeClassForPod E d n ns)" "keeps R (isConfidentialRuntimeClass E d c h)"
  "keeps R (isKataNode_check E d n l)"
  unfolding getRuntimeClassForPod_def isConfidentialRuntimeClass_def isKataNode_check_def
  by (intro eff; simp)+

section \<open>Copies\<close>

lemma eff_job [eff]: "keeps R (show_job E j env)"
  unfolding show_job_def
  by (intro eff; simp)+

lemma eff_get_job [eff]: 
  "keeps R (GetAzcopyJob E sh env)"
  "keeps R (CleanJobs E)"
  unfolding GetAzcopyJob_def job_of_list_def CleanJobs_def
  by (intro eff; simp)+

lemma eff_wait [eff]: "keeps R m \<Longrightarrow> keeps R m' \<Longrightarrow> keeps R (WaitUntilTimeout E t m m')"
  unfolding WaitUntilTimeout_def by (intro eff; simp)+

lemma eff_poll [eff]: "keeps R m \<Longrightarrow> keeps R (PollUntilContextTimeout E n i m)"
proof (induction n)
  case 0
  then show ?case by (subst PollUntilContextTimeout.simps) (simp only: nat.case, intro eff; simp)
next
  case (Suc n)
  then show ?case by (subst PollUntilContextTimeout.simps) (simp only: nat.case, intro eff Suc.IH; simp)
qed

lemma eff_sas [eff]: "keeps R (generateSASToken E a k sfx n)"
  unfolding generateSASToken_def
  by (intro eff; simp)+

lemma eff_auth [eff]: "keeps R (getAzcopyAuth E d a k sfx ao secrets n ns b)"
  unfolding getAzcopyAuth_def sas_auth_def
  by (intro eff; simp)+

lemma eff_copy_job [eff]: "keeps R (copyFileShareByAzcopy E d src dst sp dp snap sa da tok env so)"
  unfolding copyFileShareByAzcopy_def poll_job_def finish_copy_def execAzcopyCopy_def
  by (intro eff; simp)+

lemma eff_copy_between [eff]: "keeps R (copy_between E d rg a sh snap su da tok env ns so ao sfx)"
  unfolding copy_between_def
  by (intro eff; simp)+

lemma eff_copy [eff]: "keeps R (copyVolume E d src da tok env ns so ao sfx)"
  by (cases src; simp add: restoreSnapshot_def copyFileShare_def; intro eff; simp)

section \<open>Snapshots\<close>

lemma eff_share_client [eff]: 
  "keeps R (getServiceClient E d v secrets u)"
  "keeps R (getShareClient E d v secrets u)"
  unfolding getServiceClient_def getShareClient_def
  by (intro eff; simp)+

lemma eff_search_management [eff]: "keeps R (search_management E su rg a v n sh l)"
proof (induction l)
  case (Cons x l)
  then show ?case unfolding search_management.simps by (intro eff Cons.IH; simp)
qed (simp add: eff)

lemma eff_snapshot_exists [eff]: "keeps R (snapshotExists E d v n secrets u)"
  unfolding snapshotExists_def
  by (intro eff; simp)+

lemma eff_take_snapshot [eff]: "keeps R (take_snapshot E d v su rg a sh secrets u md)"
  unfolding take_snapshot_def snapshot_by_data_plane_def snapshot_by_management_def share_size_def
  by (intro eff; simp)+

lemma eff_create_snapshot [eff]: "keeps R (CreateSnapshot E d v n ps secrets)"
  unfolding CreateSnapshot_def
  by (intro eff; simp)+

section \<open>Requests on a volume\<close>

lemma eff_data_plane_secrets [eff]: "keeps R (data_plane_secrets E d v a ns secrets u)"
  unfolding data_plane_secrets_def
  by (intro eff; simp)+

lemma eff_validate [eff]: "keeps R (ValidateVolumeCapabilities E d v caps secrets ctx)"
  unfolding ValidateVolumeCapabilities_def
  by (intro eff; simp)+

section \<open>Provisioning\<close>

lemma eff_plan_parts [eff]: 
  "keeps R (lookup_sku E d t n)"
  "keeps R (choose_share_name E t nm)"
  unfolding lookup_sku_def choose_share_name_def
  by (intro eff; simp)+

lemma eff_plan [eff]: "keeps R (plan_volume E d req ps)"
  unfolding plan_volume_def finish_plan_def
  by (intro eff; simp)+

lemma eff_skip_account [eff]: 
  "keeps R (skip_account E t a)"
  "keeps R (quota_allows E d p a)"
  unfolding skip_account_def quota_allows_def
  by (intro eff; simp)+

lemma eff_share_credentials [eff]: "keeps R (share_credentials E d req p a k)"
  unfolding share_credentials_def
  by (intro eff; simp)+

lemma eff_authorized_copy [eff]: "keeps R (authorized_copy E d req src p a k secret)"
  unfolding authorized_copy_def copy_with_auth_def Let_def
  by (intro eff; simp)+

lemma eff_key_for [eff]: "keeps R (key_for E d req p k)"
  unfolding key_for_def
  by (intro eff; simp)+

lemma eff_vhd [eff]: "keeps R (create_vhd E d req p a k)"
  unfolding create_vhd_def
  by (intro eff; simp)+

lemma eff_store_secret [eff]: "keeps R (store_secret E d req p a k)"
  unfolding store_secret_def
  by (intro eff; simp)+

lemma eff_finish [eff]: "keeps R (finish_volume E d req p a k)"
  unfolding finish_volume_def
  by (intro eff; simp)+

lemma eff_create_aborted [eff]: "keeps R (create_aborted E req)"
  unfolding create_aborted_def
  by (intro eff; simp)+

section \<open>Node\<close>

lemma eff_mount_point [eff]: 
  "keeps R (ensureMountPoint E t perm u)"
  "keeps R (IsCorruptedDir E t)"
  "keeps R (makeDir E t perm)"
  unfolding ensureMountPoint_def probe_mount_def IsCorruptedDir_def makeDir_def
  by (intro eff; simp)+

lemma eff_mount_calls [eff]: 
  "keeps R (chmodIfPermissionMismatch E t m)"
  "keeps R (SetVolumeOwnership E t g pol)"
  "keeps R (validateDiskIsRegularFile E t)"
  "keeps R (SMBMount E a t fs os so)"
  "keeps R (CleanupMountPoint E t b)"
  "keeps R (mountWithProxy E a t fs os so)"
  unfolding chmodIfPermissionMismatch_def SetVolumeOwnership_def validateDiskIsRegularFile_def SMBMount_def CleanupMountPoint_def mountWithProxy_def
  by (intro eff; simp)+

lemma eff_credential_cache [eff]: "keeps R (setCredentialCache E srv c tn tf tok au rs)"
  unfolding setCredentialCache_def
  by (intro eff; simp)+

lemma eff_oauth_cache [eff]: "keeps R (setCredentialCacheWithOAuthToken E d v ctx)"
  unfolding setCredentialCacheWithOAuthToken_def refresh_token_def
  by (intro eff; simp)+

lemma eff_inline [eff]: 
  "keeps R (canSkipRepublishNodeStage E ctx t)"
  "keeps R (authorizeInlineVolumeSecret E d ctx)"
  unfolding canSkipRepublishNodeStage_def authorizeInlineVolumeSecret_def review_access_def
  by (intro eff; simp)+

lemma eff_stage_parts [eff]: 
  "keeps R (stage_create_folder E i sv pl)"
  "keeps R (stage_credentials i)"
  "keeps R (stage_chmod E sv t)"
  "keeps R (lift_err r)"
  "keeps R (stage_ownership E v sv t g)"
  "keeps R (stage_disk E v t sv path fl)"
  "keeps R (stage_kata E d sv srv src path os so)"
  unfolding stage_create_folder_def stage_credentials_def stage_chmod_def lift_err_def stage_ownership_def stage_disk_def stage_kata_def stage_save_info_def
  by (intro eff; simp)+

lemma eff_stage_options [eff]: "keeps R (stage_options E d v ctx t i sv srv fl cfl)"
  unfolding stage_options_def stage_identity_def stage_credential_cache_def
  by (intro eff; simp)+

lemma eff_stage_mount [eff]: "keeps R (stage_mount E d v t i sv srv c src path os so)"
  unfolding stage_mount_def stage_mount_share_def stage_proxy_mount_def stage_direct_mount_def stage_exec_def
    stage_credential_cache_def Let_def
  by (intro eff; simp)+

lemma eff_stage_locked [eff]: "keeps R (stage_locked E d req fl g b i sv)"
  unfolding stage_locked_def
  by (intro eff; simp)+

lemma eff_stage [eff]: "keeps R (NodeStageVolume E d req)"
  unfolding NodeStageVolume_def stage_decide_def
  by (intro eff; simp)+

lemma eff_remove_files [eff]: "keeps R (remove_files E fs)"
proof (induction fs)
  case (Cons f fs)
  then show ?case unfolding remove_files.simps by (intro eff Cons.IH; simp)
qed (simp add: eff)

lemma eff_unstage [eff]: "keeps R (NodeUnstageVolume E d v t)"
  unfolding NodeUnstageVolume_def unstage_locked_def remove_token_files_def remove_mount_info_def
  by (intro eff; simp)+

lemma eff_confidential [eff]: "keeps R (publish_confidential E d ctx)"
  unfolding publish_confidential_def detect_kata_node_def
  by (intro eff; simp)+

lemma eff_publish_bind [eff]: "keeps R (publish_bind E d req perm)"
  unfolding publish_bind_def bind_mount_def publish_refresh_def
  by (intro eff; simp)+

lemma eff_publish [eff]: "keeps R (NodePublishVolume E d req)"
  unfolding NodePublishVolume_def publish_ephemeral_def publish_persistent_def publish_with_token_def publish_direct_def
  by (intro eff; simp)+

lemma eff_unpublish [eff]: "keeps R (NodeUnpublishVolume E d v t)"
  unfolding NodeUnpublishVolume_def remove_mount_info_def
  by (intro eff; simp)+

lemma eff_stats [eff]: "keeps R (NodeGetVolumeStats E v t)"
  unfolding NodeGetVolumeStats_def stats_fresh_def stats_get_def stats_set_def GetVolumeStats_def
  by (intro eff; simp)+

end

text \<open>A frame that allows the creation and the change of a share as well.\<close>

locale changing_effects = effects +
  assumes changing: "\<not> deletes_share c \<Longrightarrow> P c"
begin

lemma eff_change: "\<not> deletes_share c \<Longrightarrow> keeps R (call ans c)"
  by (rule allowed_call) (rule changing)

lemma eff_create_share [eff]: "keeps R (CreateFileShare E d ao so secrets u)"
proof -
  have c: "keeps R (client_CreateFileShare E fc so)" for fc
    by (cases fc; simp add: dp_CreateFileShare_def mgmt_CreateFileShare_def; intro keeps_control keeps_cases eff_change; simp)
  show ?thesis unfolding CreateFileShare_def create_share_once_def
    by (intro eff c; simp)+
qed

lemma eff_retry [eff]: "keeps R (retry_result r)"
  unfolding retry_result_def by (intro eff; simp)+

lemma eff_resize [eff]: "keeps R (ResizeFileShare E d subs rg a n q secrets u)"
  unfolding ResizeFileShare_def resize_call_def dp_ResizeFileShare_def Let_def
  by (intro keeps_control keeps_cases eff_clients eff_change eff_retry eff_caches eff_sleep; simp)+

lemma eff_modify_share [eff]: "keeps R (ModifyFileShare E d subs rg a n iops bw secrets u)"
  unfolding ModifyFileShare_def modify_call_def dp_ModifyFileShare_def mgmt_ModifyFileShare_def Let_def
  by (intro keeps_control keeps_cases eff_clients eff_change eff_retry eff_caches eff_sleep; simp)+

lemma eff_expand [eff]: "keeps R (ControllerExpandVolume E d Cap v n secrets)"
  unfolding ControllerExpandVolume_def expand_share_def
  by (intro eff; simp)+

lemma eff_modify_volume [eff]: "keeps R (ControllerModifyVolume E d Cap v ps secrets)"
  unfolding ControllerModifyVolume_def modify_share_def
  by (intro eff; simp)+

end

text \<open>A frame that allows the deletion of a share as well.\<close>

locale all_effects = changing_effects +
  assumes anything: "P c"
begin

lemma eff_delete_share [eff]: "keeps R (DeleteFileShare E d su rg a n secrets u)"
  unfolding DeleteFileShare_def delete_share_once_def delete_call_def dp_DeleteFileShare_def
  by (intro eff allowed_call anything; simp)+

lemma eff_delete_volume [eff]: "keeps R (DeleteVolume E d Cap v secrets)"
  unfolding DeleteVolume_def delete_volume_locked_def
  by (intro eff; simp)+

lemma eff_delete_snapshot [eff]: "keeps R (DeleteSnapshot E d v secrets)"
  unfolding DeleteSnapshot_def delete_snapshot_call_def
  by (intro eff allowed_call anything; simp)+

lemma eff_copy_source [eff]: "keeps R (copy_source E d req p a k secret)"
  unfolding copy_source_def cleanupShareOnFailure_def
  by (intro eff; simp)+

end

text \<open>
  A frame that sees the trace only, as the lock is released and taken back during a creation.  The creation of the share
  and the copy of a source, which may delete the share it made, are premises.
\<close>

locale trace_effects = effects +
  assumes traced: "trace t = trace s \<Longrightarrow> R s t"
begin

lemma eff_outcomes [eff]:
  "(\<And>x. keeps R (f x)) \<Longrightarrow> (\<And>x. keeps R (g x)) \<Longrightarrow> keeps R (case v of Finished x \<Rightarrow> f x | Again x \<Rightarrow> g x)"
  "(\<And>x. keeps R (h x)) \<Longrightarrow> keeps R m \<Longrightarrow> (\<And>x y z. keeps R (j x y z))
     \<Longrightarrow> keeps R (case w of AccountError x \<Rightarrow> h x | AccountFull \<Rightarrow> m | AccountChosen x y z \<Rightarrow> j x y z)"
  "keeps R m \<Longrightarrow> keeps R m' \<Longrightarrow> (\<And>x. keeps R (h x))
     \<Longrightarrow> keeps R (case u of ShareReady \<Rightarrow> m | ShareRetry \<Rightarrow> m' | ShareFailed x \<Rightarrow> h x)"
  by (simp_all split: create_outcome.split account_choice.split share_outcome.split)

lemma eff_lock_ops [eff]: "keeps R (release k)" "keeps R (try_acquire k)"
  unfolding keeps_def by (simp_all add: traced trace_lock_ops)

lemma eff_search [eff]: "keeps R (search_account E d req p k)"
  unfolding search_account_def by (intro eff; simp)

lemma eff_choose [eff]: "keeps R (choose_account E d req p)"
  unfolding choose_account_def by (intro eff; simp)

lemma eff_share_step:
  "(\<And>ao so secrets u. keeps R (CreateFileShare E d ao so secrets u)) \<Longrightarrow> keeps R (create_share_step E d req p a k secret)"
  unfolding create_share_step_def by (intro eff; simp)

lemma eff_provision:
  "(\<And>ao so secrets u. keeps R (CreateFileShare E d ao so secrets u)) \<Longrightarrow> (\<And>a k secret. keeps R (copy_source E d req p a k secret)) \<Longrightarrow> keeps R (provision E d req p a k l)"
  unfolding provision_def by (intro eff eff_share_step; simp)

lemma eff_create_locked:
  "(\<And>ao so secrets u. keeps R (CreateFileShare E d ao so secrets u)) \<Longrightarrow> (\<And>p a k secret. keeps R (copy_source E d req p a k secret)) \<Longrightarrow> keeps R (create_locked E d req)"
  unfolding create_locked_def by (intro eff eff_provision; simp)

lemma eff_create:
  assumes c: "\<And>ao so secrets u. keeps R (CreateFileShare E d ao so secrets u)"
    and "\<And>ps p a k secret. keeps R (copy_source E d (req\<lparr>cr_Parameters := ps\<rparr>) p a k secret)"
  shows "keeps R (CreateVolume n E d Cap req)"
  using assms(2)
proof (induction n arbitrary: req)
  case 0
  show ?case by (simp add: eff)
next
  case (Suc n)
  have one: "keeps R (copy_source E d req p a k secret)" for p a k secret
    using Suc.prems [of "cr_Parameters req"] by simp
  have rest: "keeps R (CreateVolume n E d Cap (req\<lparr>cr_Parameters := ps\<rparr>))" for ps
    by (rule Suc.IH) (simp add: Suc.prems)
  show ?case unfolding CreateVolume.simps by (intro eff one rest eff_create_locked c; simp)
qed

end

section \<open>The frames\<close>

text \<open>The events, with what is said of deletions left open.\<close>

interpretation del: trace_effects "emits (\<lambda>c. deletes_share c \<longrightarrow> Q c)" "\<lambda>c. deletes_share c \<longrightarrow> Q c" for Q
proof
  fix c :: ext and s t :: drv and k :: string
  show "deletes_share c \<longrightarrow> Q c \<Longrightarrow> emits (\<lambda>c. deletes_share c \<longrightarrow> Q c) s (s\<lparr>trace := trace s @ [c]\<rparr>)"
    by (simp add: emits_def)
  show "trace t = trace s \<Longrightarrow> volumeLocks t = volumeLocks s \<Longrightarrow> emits (\<lambda>c. deletes_share c \<longrightarrow> Q c) s t"
    by (rule emits_same_trace)
  show "trace t = trace s \<Longrightarrow> emits (\<lambda>c. deletes_share c \<longrightarrow> Q c) s t" by (rule emits_same_trace)
  show "\<not> writes_share c \<Longrightarrow> deletes_share c \<longrightarrow> Q c" by (simp add: writes_share_def)
  show "emits (\<lambda>c. deletes_share c \<longrightarrow> Q c) (s\<lparr>volumeLocks := insert k (volumeLocks s)\<rparr>) t
    \<Longrightarrow> emits (\<lambda>c. deletes_share c \<longrightarrow> Q c) s (t\<lparr>volumeLocks := volumeLocks t - {k}\<rparr>)"
    by (simp add: emits_def)
qed

interpretation del: changing_effects "emits (\<lambda>c. deletes_share c \<longrightarrow> Q c)" "\<lambda>c. deletes_share c \<longrightarrow> Q c" for Q
  by unfold_locales simp

text \<open>The events that write no share.\<close>

interpretation still: trace_effects "emits (\<lambda>c. \<not> writes_share c)" "\<lambda>c. \<not> writes_share c"
  by unfold_locales (auto simp: emits_def)

text \<open>The volume locks.\<close>

interpretation locks: all_effects same_locks "\<lambda>_. True"
  by unfold_locales (auto simp: same_locks_def)

text \<open>The trace only grows.\<close>

interpretation grow: all_effects "emits (\<lambda>_. True)" "\<lambda>_. True"
  by unfold_locales (auto simp: emits_def)

interpretation grow: trace_effects "emits (\<lambda>_. True)" "\<lambda>_. True"
  by unfold_locales (rule emits_same_trace)

end
