(* ===== verification/Results.thy ===== *)
theory Results
  imports Effects
begin

text \<open>
  What the answers of the methods are, whatever the environment answers: \<open>yields Q m\<close> says that every run of \<open>m\<close> ends
  with a result in \<open>Q\<close>.  The rules follow the control structure, as those of the frames do.  The main instance is
  \<open>status_result\<close>: an error of a remote procedure call carries a gRPC status code, and is not the \<open>Unknown\<close> a plain
  Go error becomes.
\<close>

definition yields :: "('a \<Rightarrow> bool) \<Rightarrow> 'a prog \<Rightarrow> bool" where
  "yields Q m \<longleftrightarrow> (\<forall>s. Q (result m s))"

named_theorems res \<open>results of methods\<close>

lemma yields_return [res]: "Q x \<Longrightarrow> yields Q (ret x)"
  by (simp add: yields_def result_def run_simps)

lemma yields_return_iff [simp]: "yields Q (ret x) \<longleftrightarrow> Q x"
  by (simp add: yields_def result_def run_simps)

lemma yields_strong: "yields Q' m \<Longrightarrow> (\<And>a. Q' a \<Longrightarrow> yields Q (f a)) \<Longrightarrow> yields Q (State_Monad.bind m f)"
  unfolding yields_def result_def by (auto simp: run_simps split: prod.split) (metis fst_conv)

lemma yields_bind: "(\<And>a. yields Q (f a)) \<Longrightarrow> yields Q (State_Monad.bind m f)"
  by (rule yields_strong [of "\<lambda>_. True"]) (simp_all add: yields_def)

lemma yields_cases [res]:
  "yields Q m \<Longrightarrow> yields Q n \<Longrightarrow> yields Q (if b then m else n)"
  "(\<And>x. yields Q (f x)) \<Longrightarrow> yields Q (Let v f)"
  "yields Q m \<Longrightarrow> (\<And>x. yields Q (f x)) \<Longrightarrow> yields Q (case c of None \<Rightarrow> m | Some x \<Rightarrow> f x)"
  "(\<And>x. yields Q (g x)) \<Longrightarrow> (\<And>x. yields Q (h x)) \<Longrightarrow> yields Q (case u of Inl x \<Rightarrow> g x | Inr x \<Rightarrow> h x)"
  "(\<And>x y. yields Q (k x y)) \<Longrightarrow> yields Q (case p of (x, y) \<Rightarrow> k x y)"
  "yields Q m \<Longrightarrow> yields Q n \<Longrightarrow> yields Q (case b of True \<Rightarrow> m | False \<Rightarrow> n)"
  by (simp_all split: option.split sum.split prod.split bool.split)

lemma yields_locked [res]: "yields Q aborted \<Longrightarrow> yields Q body \<Longrightarrow> yields Q (with_volume_lock k aborted body)"
  unfolding with_volume_lock_def
  by (rule yields_bind, rule yields_cases, assumption, rule yields_strong [of Q], assumption, rule yields_bind,
      rule yields_return)

lemma run_yields: "yields Q m \<Longrightarrow> run_state m s = (r, t) \<Longrightarrow> Q r"
  unfolding yields_def result_def by (metis fst_conv)

text \<open>A program whose continuation is kept for the results it has.\<close>

lemma keeps_emits_after:
  assumes "keeps (emits P) m" "yields Q m" "\<And>a. Q a \<Longrightarrow> keeps (emits P) (f a)"
  shows "keeps (emits P) (State_Monad.bind m f)"
  unfolding keeps_def
proof
  fix s
  obtain a t where m: "run_state m s = (a, t)" by (cases "run_state m s") blast
  from assms(1) m have "emits P s t" by (simp add: keeps_def final_def) (metis snd_conv)
  moreover from assms(3) [of a] run_yields [OF assms(2) m] have "emits P t (final (f a) t)" by (simp add: keeps_def)
  ultimately show "emits P s (final (State_Monad.bind m f) s)"
    using m by (simp add: final_def run_simps) (rule emits_trans)
qed

section \<open>Status errors\<close>

definition is_status :: "goerr \<Rightarrow> bool" where
  "is_status e \<longleftrightarrow> (\<exists>c. err_kind e = StatusError c)"

text \<open>A panic (a nil field of an answer the code dereferences) is no answer at all: it ends the process.\<close>

definition status_or_panic :: "goerr + 'a \<Rightarrow> bool" where
  "status_or_panic r \<longleftrightarrow> (\<forall>e. r = Inl e \<longrightarrow> err_kind e = Panic \<or> is_status e)"

definition status_result :: "goerr + 'a \<Rightarrow> bool" where
  "status_result r \<longleftrightarrow> (\<forall>e. r = Inl e \<longrightarrow> is_status e)"

lemma status_result_simps [simp]:
  "status_result (Inr x)" "status_result (Inl e) \<longleftrightarrow> is_status e"
  "is_status (Statusf c f a)" "is_status (status_error c f)" "is_status (invalid f a)"
  by (simp_all add: status_result_def is_status_def status_error_def invalid_def)

lemma status_result_cases:
  "status_result x \<Longrightarrow> status_result y \<Longrightarrow> status_result (if b then x else y)"
  "(\<And>v. status_result (f v)) \<Longrightarrow> status_result (Let w f)"
  "status_result x \<Longrightarrow> (\<And>v. status_result (f v)) \<Longrightarrow> status_result (case c of None \<Rightarrow> x | Some v \<Rightarrow> f v)"
  by (simp_all split: option.split)

lemma status_result_map [simp]: "status_result (map_sum id g r) \<longleftrightarrow> status_result r"
  by (cases r) simp_all

text \<open>A step whose error is passed on.\<close>

lemma status_then:
  "yields status_result m \<Longrightarrow> (\<And>a. yields status_result (f a))
     \<Longrightarrow> yields status_result (State_Monad.bind m (case_sum (\<lambda>e. ret (Inl e)) f))"
  by (erule yields_strong) (auto split: sum.split intro: yields_return)

lemma status_and_then [res]:
  "yields status_result m \<Longrightarrow> (\<And>a. yields status_result (f a)) \<Longrightarrow> yields status_result (and_then m f)"
  unfolding and_then_def by (rule status_then)

lemma status_check [res]: "(\<And>e. is_status (w e)) \<Longrightarrow> yields status_result (check m w)"
  unfolding check_def by (rule yields_bind, rule yields_return) (simp split: option.split)



section \<open>Requests on a volume\<close>

lemma status_data_plane [res]: "yields status_result (data_plane_secrets E d v a ns secrets u)"
  unfolding data_plane_secrets_def by ((rule status_then yields_bind res | simp)+)

lemma status_delete_volume: "yields status_result (DeleteVolume E d Cap v secrets)"
  unfolding DeleteVolume_def delete_volume_locked_def by ((rule status_then yields_bind res | simp)+)

lemma status_or_panic_simps [simp]:
  "status_or_panic (Inr x)" "status_or_panic (Inl e) \<longleftrightarrow> err_kind e = Panic \<or> is_status e"
  by (simp_all add: status_or_panic_def)

lemma panic_then:
  "yields status_result m \<Longrightarrow> (\<And>a. yields status_or_panic (f a))
     \<Longrightarrow> yields status_or_panic (State_Monad.bind m (case_sum (\<lambda>e. ret (Inl e)) f))"
  by (erule yields_strong) (auto split: sum.split intro: yields_return)

lemma expand_share_errors: "yields status_or_panic (expand_share E d v i n c secrets)"
  unfolding expand_share_def Let_def
  by ((rule panic_then status_data_plane yields_bind allI impI | simp split: option.split)+)

lemma expand_errors: "yields status_or_panic (ControllerExpandVolume E d Cap v n secrets)"
  unfolding ControllerExpandVolume_def
  by (auto split: sum.split intro!: yields_bind expand_share_errors)

lemma modify_params_status: "status_result (modify_params acc ps)"
  by (induction acc ps rule: modify_params.induct) (auto simp: Let_def split: option.split)

lemma status_modify: "yields status_result (ControllerModifyVolume E d Cap v ps secrets)"
proof -
  have p: "modify_params acc ps = Inl err \<Longrightarrow> is_status err" for acc err
    using modify_params_status [of acc ps] by simp
  have v: "ValidateControllerServiceRequest Cap c = Some err \<Longrightarrow> is_status err" for c err
    by (auto simp: ValidateControllerServiceRequest_def split: if_splits)
  have m: "yields status_result (modify_share E d v i iops bw secrets)" for i iops bw
    unfolding modify_share_def
    by ((rule status_then yields_bind res | simp split: option.split)+)
  have m: "status_result (fst (run_state (modify_share E d v i iops bw secrets) s))" for i iops bw s
    using m unfolding yields_def result_def by blast
  show ?thesis unfolding ControllerModifyVolume_def
    by (auto simp: yields_def result_def run_simps v p m split: option.split sum.split)
qed

section \<open>The node service\<close>

lemma status_permissions: "publish_permissions d ctx = Inl e \<Longrightarrow> is_status e"
  by (auto simp: publish_permissions_def Let_def split: if_splits option.splits)

lemma status_authorize [res]: "yields status_result (check (authorizeInlineVolumeSecret E d ctx) (\<lambda>e. e))"
proof -
  have a: "authz_mode d = Inl e \<Longrightarrow> is_status e" for e
    by (auto simp: authz_mode_def Let_def split: if_splits)
  have n: "\<not> (deny b ns n r = Some e \<and> \<not> is_status e)" for b ns n r e
    by (auto simp: deny_def)
  have "yields (\<lambda>r. \<forall>e. r = Some e \<longrightarrow> is_status e) (review_access E d b ctx ns n)" for b ns n
    unfolding review_access_def Let_def
    by ((rule yields_bind res | simp add: deny_def split: sum.split)+)
  then have "yields (\<lambda>r. \<forall>e. r = Some e \<longrightarrow> is_status e) (authorizeInlineVolumeSecret E d ctx)"
    unfolding authorizeInlineVolumeSecret_def Let_def
    by (auto simp: a split: sum.split option.split intro!: yields_return)
  then show ?thesis unfolding check_def
    by (rule yields_strong) (auto intro!: yields_return split: option.split)
qed

lemma status_oauth_cache [res]: "yields status_result (setCredentialCacheWithOAuthToken E d v ctx)"
  unfolding setCredentialCacheWithOAuthToken_def refresh_token_def
  by ((rule status_then yields_bind res | simp)+)

lemma status_stage_parts [res]:
  "yields status_result (stage_create_folder E i sv pl)" "yields status_result (stage_chmod E sv t)"
  "yields status_result (stage_ownership E v sv t g)" "yields status_result (stage_disk E v t sv path fl)"
  "yields status_result (stage_mount E d v t i sv srv c src path os so)"
  unfolding stage_create_folder_def stage_chmod_def stage_ownership_def stage_disk_def stage_mount_def
    stage_mount_share_def stage_proxy_mount_def stage_direct_mount_def
  by ((rule status_then yields_bind res | simp)+)

lemma status_stage_options [res]: "yields status_result (stage_options E d v ctx t i sv srv fl cfl)"
  unfolding stage_options_def stage_identity_def
  by ((rule status_then yields_bind res | simp split: option.split)+)

lemma status_credentials [res]: "yields status_result (stage_credentials i)"
  unfolding stage_credentials_def by (rule yields_return) (simp split: option.split)

lemma status_place [res]: "yields status_result (lift_err (stage_place_of E d i sv))"
  unfolding lift_err_def stage_place_of_def stage_suffix_def Let_def
  by (rule yields_return) (simp split: option.split sum.split)

lemma status_mount_path [res]: "yields status_result (lift_err (stage_mount_path sv t fl b g))"
  unfolding lift_err_def stage_mount_path_def by (rule yields_return) (simp split: option.split)

lemma status_stage_locked:
  assumes "\<not> enableKataCCMount d"
  shows "yields status_result (stage_locked E d req fl g b i sv)"
proof -
  have "yields status_result (stage_kata E d sv' srv src path os so)" for sv' srv src path os so
    unfolding stage_kata_def using assms by (auto intro!: yields_bind yields_return)
  note kata = this
  show ?thesis unfolding stage_locked_def by ((rule status_then yields_bind res kata | simp)+)
qed

lemma stage_params_status: "status_result (stage_params sv ctx)"
proof (induction sv ctx rule: stage_params.induct)
  case (2 sv k v m)
  have "status_result (stage_param sv k v)"
    unfolding stage_param_def stage_folder_def stage_permissions_def stage_bool_def
    by ((rule status_result_cases | simp only: status_result_simps)+)
  then show ?case using 2 by (auto split: sum.split)
qed simp

lemma stage_error_status: "stage_error v i sv ctx = Some e \<Longrightarrow> is_status e"
proof -
  assume "stage_error v i sv ctx = Some e"
  then consider "first_error (stage_checks v i sv) = Some e"
    | "validateMountWithOAuthToken (sv_protocol sv) (sv_fsType sv) ctx = Some e"
    by (auto simp: stage_error_def split: option.splits if_splits)
  then show ?thesis
  proof cases
    case 1
    then have "e \<in> snd ` set (stage_checks v i sv)" by (rule first_error_Some)
    then show ?thesis by (auto simp: stage_checks_def)
  next
    case 2
    then show ?thesis by (auto simp: validateMountWithOAuthToken_def split: if_splits)
  qed
qed

lemma status_decide [res]: "yields status_result (stage_decide E d req)"
proof -
  have p: "is_status e" if "stage_params sv ctx = Inl e" for sv ctx e
    using that stage_params_status [of sv ctx] by simp
  show ?thesis unfolding stage_decide_def
    by ((rule yields_bind yields_return yields_cases(3-5) | simp split: sum.split option.split
          add: p stage_error_status)+)
qed

lemma status_stage:
  assumes "\<not> enableKataCCMount d"
  shows "yields status_result (NodeStageVolume E d req)"
  unfolding NodeStageVolume_def
  by ((rule status_then yields_bind res status_stage_locked assms | simp)+)

lemma status_unstage: "yields status_result (NodeUnstageVolume E d v t)"
  unfolding NodeUnstageVolume_def unstage_locked_def by ((rule status_then yields_bind res | simp)+)

lemma status_unpublish: "yields status_result (NodeUnpublishVolume E d v t)"
  unfolding NodeUnpublishVolume_def by ((rule status_then yields_bind res | simp split: option.split)+)

lemma status_publish:
  assumes "\<not> enableKataCCMount d"
  shows "yields status_result (NodePublishVolume E d req)"
proof -
  note stage = status_stage [OF assms]
  have token: "yields status_result (publish_with_token E d req)"
    unfolding publish_with_token_def by ((rule yields_bind res stage | simp)+)
  have inline: "yields status_result (publish_ephemeral E d req c)" for c
  proof -
    have "is_status e" if "first_error (inline_checks ctx fl) = Some e" for ctx fl e
      using first_error_Some [OF that] by (auto simp: inline_checks_def Let_def)
    then show ?thesis unfolding publish_ephemeral_def Let_def
      by (auto split: prod.split bool.split option.split intro!: yields_bind res stage)
  qed
  have bind: "yields status_result (publish_bind E d req perm)" for perm
    unfolding publish_bind_def bind_mount_def publish_refresh_def
    by ((rule yields_bind res | simp split: option.split sum.split)+)
  have confidential: "yields status_result (publish_confidential E d ctx)" for ctx
    using assms by (simp add: publish_confidential_def Let_def)
  have direct: "yields status_result (publish_direct E req)"
    unfolding publish_direct_def by ((rule yields_bind res | simp)+)
  have persistent: "yields status_result (publish_persistent E d req)"
    unfolding publish_persistent_def
    by (auto split: sum.split simp: status_permissions intro!: token bind direct confidential res)
  show ?thesis unfolding NodePublishVolume_def
    by (auto split: option.split intro!: inline persistent yields_return)
qed

section \<open>Properties\<close>

text \<open>C35: the errors of the controller's requests on a volume, and of unstaging and unpublishing, carry a gRPC status
  code, whatever Azure, Kubernetes and the node answer; only an expansion can end in a panic instead, when Azure answers
  with a share that has no properties.\<close>

theorem request_errors_are_status:
  "status_result (result (DeleteVolume E d Cap v secrets) s)
   \<and> status_or_panic (result (ControllerExpandVolume E d Cap v n secrets) s)
   \<and> status_result (result (ControllerModifyVolume E d Cap v ps secrets) s)
   \<and> status_result (result (NodeUnstageVolume E d v t) s)
   \<and> status_result (result (NodeUnpublishVolume E d v t) s)"
  using status_delete_volume expand_errors status_modify status_unstage status_unpublish
  unfolding yields_def by (intro conjI) simp_all

text \<open>C36: on a node without mounts for confidential guests the errors of staging and publishing carry a gRPC status
  code.  (With them an error of the address look-up is passed on bare.)\<close>

theorem node_errors_are_status:
  assumes "\<not> enableKataCCMount d"
  shows "status_result (result (NodeStageVolume E d req) s) \<and> status_result (result (NodePublishVolume E d preq) s)"
  using status_stage [OF assms] status_publish [OF assms] unfolding yields_def by blast

theorem node_errors_are_status_witness:
  "\<forall>req preq. status_result (result (NodeStageVolume (sample_env no_error) sample_config req) initial_state)
     \<and> status_result (result (NodePublishVolume (sample_env no_error) sample_config preq) initial_state)"
  by (intro allI node_errors_are_status) (simp add: sample_config_def)

end
