(* ===== verification/Requests.thy ===== *)
theory Requests
  imports Results
begin

text \<open>
  Requests and what they share: the volume locks they take and give back, and the shares they delete.
\<close>

section \<open>Locks\<close>

text \<open>C14: deletion, expansion, modification, staging, unstaging and publishing leave the volume locks as they found
  them, on every path and whatever is answered.\<close>

theorem requests_restore_locks:
  "volumeLocks (final (DeleteVolume E d Cap v secrets) s) = volumeLocks s
   \<and> volumeLocks (final (ControllerExpandVolume E d Cap v n secrets) s) = volumeLocks s
   \<and> volumeLocks (final (ControllerModifyVolume E d Cap v ps secrets) s) = volumeLocks s
   \<and> volumeLocks (final (NodeStageVolume E d sreq) s) = volumeLocks s
   \<and> volumeLocks (final (NodeUnstageVolume E d v t) s) = volumeLocks s
   \<and> volumeLocks (final (NodePublishVolume E d preq) s) = volumeLocks s"
proof -
  have "volumeLocks (final m s) = volumeLocks s" if "keeps same_locks m" for m :: "'a prog"
    using that by (simp add: keeps_def same_locks_def)
  note l = this
  show ?thesis
    by (intro conjI l locks.eff_delete_volume locks.eff_expand locks.eff_modify_volume locks.eff_stage locks.eff_unstage
        locks.eff_publish)
qed

text \<open>While the lock of a volume is held, \<open>DeleteVolume\<close> and \<open>NodeUnstageVolume\<close> answer \<open>Aborted\<close>, call nothing
  and leave the whole state as it is.\<close>

theorem held_lock_aborts:
  assumes "v \<noteq> []" "v \<in> volumeLocks s" "t \<noteq> []" "stage_lock_key v t \<in> volumeLocks s"
  shows "run_state (DeleteVolume E d controller_Cap v secrets) s
      = (Inl (Statusf Aborted volumeOperationAlreadyExistsFmt [v]), s)
    \<and> run_state (NodeUnstageVolume E d v t) s = (Inl (Statusf Aborted volumeOperationAlreadyExistsFmt [v]), s)"
  using assms
  by (simp add: DeleteVolume_def NodeUnstageVolume_def with_volume_lock_held run_simps
      ValidateControllerServiceRequest_def controller_Cap_def)

theorem held_lock_aborts_witness:
  "run_state (DeleteVolume (sample_env no_error) sample_config controller_Cap ''v'' [])
      (initial_state\<lparr>volumeLocks := {''v'', stage_lock_key ''v'' ''/t''}\<rparr>)
    = (Inl (Statusf Aborted volumeOperationAlreadyExistsFmt [''v'']),
       initial_state\<lparr>volumeLocks := {''v'', stage_lock_key ''v'' ''/t''}\<rparr>)"
  using held_lock_aborts [of "''v''" "initial_state\<lparr>volumeLocks := {''v'', stage_lock_key ''v'' ''/t''}\<rparr>" "''/t''"]
  by simp

section \<open>Deletions\<close>

definition names_share :: "string \<Rightarrow> string \<Rightarrow> ext \<Rightarrow> bool" where
  "names_share account share c =
     (case c of
        Share (DpShareDelete f m) \<Rightarrow> m = share
      | Rm (RmShareDelete subs rg a m snapshot) \<Rightarrow> a = account \<and> m = share \<and> snapshot = None
      | _ \<Rightarrow> True)"

lemma names_share_simps [simp]:
  "names_share a n (Share (DpShareDelete f n))" "names_share a n (Rm (RmShareDelete su rg a n None))"
  by (simp_all add: names_share_def)

abbreviation "deletes_only a n \<equiv> \<lambda>c. deletes_share c \<longrightarrow> names_share a n c"

definition deletes_nothing_but :: "string \<Rightarrow> string \<Rightarrow> ext \<Rightarrow> bool" where
  "deletes_nothing_but a n c \<longleftrightarrow> (deletes_share c \<longrightarrow> names_share a n c)"

lemma deletes_nothing_but_eq: "deletes_nothing_but a n = deletes_only a n"
  by (simp add: fun_eq_iff deletes_nothing_but_def)

lemma delete_named: "keeps (emits (deletes_only a n)) (DeleteFileShare E d su rg a n secrets u)"
  unfolding DeleteFileShare_def delete_share_once_def delete_call_def dp_DeleteFileShare_def
  by (intro eff del.allowed_call; simp)

lemma delete_volume_locked_named:
  assumes "GetFileShareInfo v = Inr i"
  shows "keeps (emits (deletes_only (si_account i) (si_share i))) (delete_volume_locked E d v secrets)"
  unfolding delete_volume_locked_def assms sum.case by (intro eff delete_named; simp)


text \<open>A creation that copies no source never asks to delete a share, however often it starts again.\<close>

theorem create_never_deletes:
  assumes "cr_Source req = None"
  shows "emits (\<lambda>c. \<not> deletes_share c) s (final (CreateVolume fuel E d Cap req) s)"
proof -
  have "keeps (emits (\<lambda>c. deletes_share c \<longrightarrow> False)) (CreateVolume fuel E d Cap req)"
    by (rule del.eff_create [OF del.eff_create_share]) (simp add: copy_source_def assms keeps_emits)
  then show ?thesis by (simp add: keeps_def)
qed

theorem create_never_deletes_witness:
  "emits (\<lambda>c. \<not> deletes_share c) initial_state
     (final (CreateVolume 2 (sample_env no_error) sample_config controller_Cap
        \<lparr>cr_Name = ''pvc-1'', cr_Capabilities = [], cr_RequiredBytes = 0, cr_Parameters = None, cr_MutableParameters = [],
         cr_Secrets = [], cr_Source = None\<rparr>) initial_state)"
  by (rule create_never_deletes) simp

end
