(* ===== verification/Creation.thy ===== *)
theory Creation
  imports Requests
begin

text \<open>
  The runs of \<open>CreateVolume\<close>: what a new start costs, that the fuel only bounds the starts, when one start is enough, and
  what the answer says of the request.
\<close>

section \<open>Starting again\<close>

text \<open>
  \<open>counts w m\<close>: a run of \<open>m\<close> that ends with the result \<open>r\<close> has tagged at least \<open>w r\<close> accounts.  A new start of
  \<open>CreateVolume\<close> costs a tag, so the starts are bounded by the accounts Azure lets the driver tag.
\<close>

definition tags_account :: "ext \<Rightarrow> bool" where
  "tags_account c = (case c of Account (AddStorageAccountTags _ _ _) \<Rightarrow> True | _ \<Rightarrow> False)"

definition tagged :: "drv \<Rightarrow> nat" where
  "tagged s = length (filter tags_account (trace s))"

definition counts :: "('a \<Rightarrow> nat) \<Rightarrow> 'a prog \<Rightarrow> bool" where
  "counts w m \<longleftrightarrow> (\<forall>s. tagged s + w (result m s) \<le> tagged (final m s))"

lemma counts_none: "keeps (emits (\<lambda>_. True)) m \<Longrightarrow> counts (\<lambda>_. 0) m"
  unfolding counts_def keeps_def emits_def tagged_def by (metis add_0_right filter_append le_add1 length_append)

lemma counts_return: "w x = 0 \<Longrightarrow> counts w (ret x)"
  by (simp add: counts_def result_def final_def run_simps)

lemma counts_tag: "counts (\<lambda>_. 1) (skip_account E t a)"
  by (simp add: counts_def skip_account_def final_def run_simps tagged_def tags_account_def)

lemma counts_strong:
  assumes "counts w' m" "\<And>a. counts (\<lambda>b. w b - w' a) (f a)"
  shows "counts w (State_Monad.bind m f)"
  unfolding counts_def
proof
  fix s
  obtain a t where m: "run_state m s = (a, t)" by (cases "run_state m s") blast
  obtain b u where f: "run_state (f a) t = (b, u)" by (cases "run_state (f a) t") blast
  have "tagged s + w' a \<le> tagged t" using assms(1) m by (auto simp: counts_def result_def final_def dest: spec [of _ s])
  moreover have "tagged t + (w b - w' a) \<le> tagged u"
    using assms(2) [of a] f by (auto simp: counts_def result_def final_def dest: spec [of _ t])
  ultimately show "tagged s + w (result (State_Monad.bind m f) s) \<le> tagged (final (State_Monad.bind m f) s)"
    using m f by (simp add: result_def final_def run_simps)
qed

lemma counts_bind: "keeps (emits (\<lambda>_. True)) m \<Longrightarrow> (\<And>a. counts w (f a)) \<Longrightarrow> counts w (State_Monad.bind m f)"
  by (rule counts_strong [OF counts_none]) simp_all

lemma counts_locked:
  assumes "counts w aborted" "counts w body"
  shows "counts w (with_volume_lock k aborted body)"
  unfolding with_volume_lock_def
  by (rule counts_bind, rule grow.eff_lock_ops, simp, intro conjI impI, rule assms,
      rule counts_strong [OF assms(2)], rule counts_bind, rule grow.eff_lock_ops, rule counts_return, simp)

lemma counts_search: "counts (\<lambda>c. if c = AccountFull then 1 else 0) (search_account E d req p k)"
proof -
  have full: "counts (\<lambda>c. if c = AccountFull then 1 else 0)
      (skip_account E t a \<bind> (\<lambda>_. release n \<bind> (\<lambda>_. ret AccountFull)))" for t a n
    by (rule counts_strong [OF counts_tag], rule counts_bind, rule grow.eff_lock_ops, rule counts_return) simp
  show ?thesis unfolding search_account_def
    by (intro counts_bind grow.eff_note grow.eff_call allI)
      (auto split: sum.split prod.split bool.split
        intro!: counts_bind counts_return full grow.eff_skip_account grow.eff_sleep em.keeps_control grow.eff_note
          grow.eff_caches grow.eff_modify)
qed

lemma counts_choose: "counts (\<lambda>c. if c = AccountFull then 1 else 0) (choose_account E d req p)"
  unfolding choose_account_def
  by (auto split: option.split simp: Let_def
      intro!: counts_bind counts_return counts_search em.keeps_control)

lemma counts_share_step: "counts (\<lambda>c. if c = ShareRetry then 1 else 0) (create_share_step E d req p a k secret)"
proof -
  have retry: "counts (\<lambda>c. if c = ShareRetry then 1 else 0)
      (skip_account E t a \<bind> (\<lambda>_. cache_set c v w \<bind> (\<lambda>_. release n \<bind> (\<lambda>_. cache_delete c' v' \<bind> (\<lambda>_.
         modify f \<bind> (\<lambda>_. ret ShareRetry))))))" if "\<And>s. trace (f s) = trace s" for t a c v w n c' v' f
    by (rule counts_strong [OF counts_tag], (rule counts_bind, rule grow.eff_lock_ops grow.eff_caches keeps_emits_modify,
          (rule that)?)+, rule counts_return) simp
  show ?thesis unfolding create_share_step_def
    by (auto split: option.split intro!: counts_bind counts_return retry grow.eff_create_share)
qed

definition again_weight :: "create_outcome \<Rightarrow> nat" where
  "again_weight c = (case c of Again _ \<Rightarrow> 1 | Finished _ \<Rightarrow> 0)"

lemma counts_provision: "counts again_weight (provision E d req p a k l)"
proof -
  have after: "counts (\<lambda>b. again_weight b - (if c = ShareRetry then 1 else 0))
      (case c of ShareFailed err \<Rightarrow> ret (Finished (Inl err)) | ShareRetry \<Rightarrow> ret (Again (pl_parameters p))
       | ShareReady \<Rightarrow> do {
           err \<leftarrow> copy_source E d req p a k secret;
           (case err of Some e \<Rightarrow> ret (Finished (Inl e))
            | None \<Rightarrow> do { r \<leftarrow> finish_volume E d req p a k; ret (Finished r) }) })" for c a k secret
    by (cases c) (auto simp: again_weight_def split: option.split
        intro!: counts_bind counts_return grow.eff_copy_source grow.eff_finish)
  show ?thesis unfolding provision_def
    by (rule counts_bind [OF grow.eff_share_credentials])
      (auto split: sum.split prod.split simp: again_weight_def [of "Finished _"]
        intro!: counts_return counts_strong [OF counts_share_step] after)
qed

lemma counts_create_locked: "counts again_weight (create_locked E d req)"
proof -
  have after: "counts (\<lambda>b. again_weight b - (if c = AccountFull then 1 else 0))
      (case c of AccountError err \<Rightarrow> ret (Finished (Inl err)) | AccountFull \<Rightarrow> ret (Again (pl_parameters p))
       | AccountChosen a k l \<Rightarrow> provision E d req (with_server p a) a k l)" for c p
    by (cases c) (auto simp: again_weight_def [of "Finished _"] again_weight_def [of "Again _"]
        intro!: counts_return counts_provision)
  show ?thesis unfolding create_locked_def Let_def
    by (rule counts_bind [OF grow.eff_plan])
      (auto split: sum.split simp: again_weight_def [of "Finished _"]
        intro!: counts_return counts_strong [OF counts_choose] after)
qed

lemma counts_create: "counts (\<lambda>r. if r = None then fuel else 0) (CreateVolume fuel E d Cap req)"
proof (induction fuel arbitrary: req)
  case (Suc n)
  have after: "counts (\<lambda>b. (if b = None then Suc n else 0) - again_weight c)
      (case c of Finished r \<Rightarrow> ret (Some r) | Again ps \<Rightarrow> CreateVolume n E d Cap (g ps))" for c and g :: "smap \<Rightarrow> create_request"
  proof (cases c)
    case (Again ps)
    have "(\<lambda>b. (if b = None then Suc n else 0) - 1) = (\<lambda>b :: (goerr + create_response) option. if b = None then n else 0)"
      by auto
    with Again Suc.IH [of "g ps"] show ?thesis by (simp add: again_weight_def)
  qed (simp add: counts_return)
  show ?case unfolding CreateVolume.simps
    by (auto split: option.split intro!: counts_return counts_locked counts_bind grow.eff_create_aborted
        counts_strong [OF counts_create_locked] after)
qed (simp add: counts_return)


section \<open>Fuel\<close>

definition extends :: "'a option prog \<Rightarrow> 'a option prog \<Rightarrow> bool" where
  "extends m m' \<longleftrightarrow> (\<forall>s r t. run_state m s = (Some r, t) \<longrightarrow> run_state m' s = (Some r, t))"

lemma extends_bind: "(\<And>a. extends (f a) (g a)) \<Longrightarrow> extends (State_Monad.bind m f) (State_Monad.bind m g)"
  unfolding extends_def by (auto simp: run_simps split: prod.splits)

lemma extends_locked: "extends m m' \<Longrightarrow> extends (with_volume_lock k a m) (with_volume_lock k a m')"
  unfolding extends_def
proof (intro allI impI)
  fix s r t
  assume e: "\<forall>s r t. run_state m s = (Some r, t) \<longrightarrow> run_state m' s = (Some r, t)"
    and run: "run_state (with_volume_lock k a m) s = (Some r, t)"
  show "run_state (with_volume_lock k a m') s = (Some r, t)"
    using e run by (cases "k \<in> volumeLocks s")
      (auto simp: with_volume_lock_held with_volume_lock_free split: prod.splits)
qed

lemma extends_create: "extends (CreateVolume n E d Cap req) (CreateVolume (n + m) E d Cap req)"
proof (induction n arbitrary: req)
  case 0
  show ?case by (simp add: extends_def run_simps)
next
  case (Suc n)
  have refl: "extends x x" for x :: "(goerr + create_response) option prog" by (simp add: extends_def)
  show ?case unfolding add_Suc CreateVolume.simps
    by (auto split: option.split create_outcome.split intro!: refl extends_locked extends_bind Suc.IH)
qed

text \<open>The fuel only bounds the starts: once \<open>CreateVolume\<close> has answered, more fuel changes neither its answer nor
  the final state.\<close>

theorem create_fuel_irrelevant:
  assumes "run_state (CreateVolume fuel E d Cap req) s = (Some r, t)" "fuel \<le> fuel'"
  shows "run_state (CreateVolume fuel' E d Cap req) s = (Some r, t)"
  using extends_create [of fuel E d Cap req "fuel' - fuel"] assms by (simp add: extends_def)

section \<open>The answer\<close>

definition answers :: "('a \<Rightarrow> bool) \<Rightarrow> goerr + 'a \<Rightarrow> bool" where
  "answers Q r \<longleftrightarrow> (\<forall>x. r = Inr x \<longrightarrow> Q x)"

lemma answers_simps [simp]: "answers Q (Inl e)" "answers Q (Inr x) \<longleftrightarrow> Q x"
  by (simp_all add: answers_def)

lemma answers_then:
  "yields (answers Q') m \<Longrightarrow> (\<And>e. yields Q (g e)) \<Longrightarrow> (\<And>x. Q' x \<Longrightarrow> yields Q (f x))
     \<Longrightarrow> yields Q (State_Monad.bind m (case_sum g f))"
  by (erule yields_strong) (simp add: answers_def split: sum.split)

text \<open>What the plan keeps of the parameters and of the requested size.\<close>

definition plan_fits :: "env \<Rightarrow> create_request \<Rightarrow> smap \<Rightarrow> create_plan \<Rightarrow> bool" where
  "plan_fits E req parameters p \<longleftrightarrow>
     (\<exists>sku. pl_fileShareSize p = minimum_size sku (requested_GiB (cr_RequiredBytes req)))
     \<and> (\<exists>t f. class_params (initial_text, initial_flags) (ord E parameters) = Inr (t, f)
          \<and> ct_account (pl_text p) = ct_account t)"

lemma finish_plan_fits:
  "yields (answers (\<lambda>p. (\<exists>sku. pl_fileShareSize p = minimum_size sku (requested_GiB (cr_RequiredBytes req)))
      \<and> ct_account (pl_text p) = ct_account t)) (finish_plan E d req t f https vnetIDs ps ns)"
  unfolding finish_plan_def Let_def
  by (rule yields_bind, rule yields_cases, simp, rule yields_bind, rule yields_cases, simp)
    (auto split: sum.split)

lemma plan_volume_fits: "yields (answers (plan_fits E req ps)) (plan_volume E d req ps)"
proof -
  have fits: "yields (answers (plan_fits E req ps)) (finish_plan E d req t' f' h ids ps' ns)"
    if "class_params (initial_text, initial_flags) (ord E ps) = Inr (t, f)" "ct_account t' = ct_account t" for t f t' f' h ids ps' ns
    using finish_plan_fits [of req t' E d f' h ids ps' ns] that by (auto simp: yields_def answers_def plan_fits_def)
  have n: "ct_account (nfs_text t) = ct_account t" for t by (simp add: nfs_text_def Let_def)
  show ?thesis unfolding plan_volume_def Let_def
    by (auto split: sum.split option.split simp: n intro!: yields_bind fits)
qed

definition answered :: "create_outcome \<Rightarrow> bool" where
  "answered c \<longleftrightarrow> (case c of Finished _ \<Rightarrow> True | Again _ \<Rightarrow> False)"

lemma provision_named:
  assumes "ct_account (pl_text p) \<noteq> []"
  shows "yields answered (provision E d req p a k l)"
proof -
  have "yields (\<lambda>c. c \<noteq> ShareRetry) (create_share_step E d req p a l secret)" for secret
    unfolding create_share_step_def using assms by (auto intro!: yields_bind split: option.split)
  note step = this
  have after: "yields answered (do {
      err \<leftarrow> copy_source E d req p a k' secret;
      (case err of Some e \<Rightarrow> ret (Finished (Inl e))
       | None \<Rightarrow> do { r \<leftarrow> finish_volume E d req p a k'; ret (Finished r) }) })" for secret k'
    by (auto simp: answered_def intro!: yields_bind split: option.split)
  show ?thesis unfolding provision_def
  proof (rule yields_bind, rule yields_cases, simp add: answered_def, rule yields_cases, rule yields_strong [OF step])
    fix secret k' c
    assume "c \<noteq> ShareRetry"
    with after [of k' secret] show "yields answered (case c of
        ShareReady \<Rightarrow> do {
          err \<leftarrow> copy_source E d req p a k' secret;
          (case err of Some e \<Rightarrow> ret (Finished (Inl e))
           | None \<Rightarrow> do { r \<leftarrow> finish_volume E d req p a k'; ret (Finished r) }) }
      | ShareRetry \<Rightarrow> ret (Again (pl_parameters p)) | ShareFailed err \<Rightarrow> ret (Finished (Inl err)))"
      by (cases c) (simp_all add: answered_def)
  qed
qed

lemma create_locked_named:
  assumes "class_params (initial_text, initial_flags)
      (ord E (map_merge (case cr_Parameters req of None \<Rightarrow> [] | Some m \<Rightarrow> m) (cr_MutableParameters req))) = Inr (t, f)"
    and "ct_account t \<noteq> []"
  shows "yields answered (create_locked E d req)"
  unfolding create_locked_def Let_def
proof (rule answers_then [OF plan_volume_fits])
  fix p
  assume "plan_fits E req (map_merge (case cr_Parameters req of None \<Rightarrow> [] | Some m \<Rightarrow> m) (cr_MutableParameters req)) p"
  with assms have a: "ct_account (pl_text p) \<noteq> []" by (auto simp: plan_fits_def)
  then have "ct_account (pl_text (with_server p n)) \<noteq> []" for n by (simp add: with_server_def)
  with a show "yields answered (do {
      choice \<leftarrow> choose_account E d req p;
      (case choice of AccountError err \<Rightarrow> ret (Finished (Inl err)) | AccountFull \<Rightarrow> ret (Again (pl_parameters p))
       | AccountChosen n k l \<Rightarrow> provision E d req (with_server p n) n k l) })"
    unfolding choose_account_def
    by (auto simp: run_simps answered_def intro!: yields_strong [of "\<lambda>c. c \<noteq> AccountFull"] provision_named
        split: account_choice.split)
qed (simp add: answered_def)

text \<open>C7: a request that names its storage account is answered by the first start, whatever Azure answers.\<close>

theorem create_named_account_returns:
  assumes "class_params (initial_text, initial_flags)
      (ord E (map_merge (case cr_Parameters req of None \<Rightarrow> [] | Some m \<Rightarrow> m) (cr_MutableParameters req))) = Inr (t, f)"
    and "ct_account t \<noteq> []"
  shows "\<exists>r. result (CreateVolume (Suc fuel) E d Cap req) s = Some r"
proof -
  have "yields (\<lambda>r. r \<noteq> None) (CreateVolume (Suc fuel) E d Cap req)"
    unfolding CreateVolume.simps
    by (auto split: option.split create_outcome.split simp: answered_def
        intro!: yields_locked yields_bind yields_strong [OF create_locked_named [OF assms]])
  then show ?thesis by (simp add: yields_def)
qed

section \<open>The capacity\<close>

definition answer_fits :: "create_request \<Rightarrow> create_response \<Rightarrow> bool" where
  "answer_fits req resp \<longleftrightarrow>
     (\<exists>sku. crr_CapacityBytes resp = GiBToBytes (minimum_size sku (requested_GiB (cr_RequiredBytes req))))
     \<and> crr_ContentSource resp = cr_Source req"

definition outcome_fits :: "create_request \<Rightarrow> create_outcome \<Rightarrow> bool" where
  "outcome_fits req c \<longleftrightarrow> (case c of Finished r \<Rightarrow> answers (answer_fits req) r | Again _ \<Rightarrow> True)"

lemma outcome_fits_simps [simp]:
  "outcome_fits req (Finished r) = answers (answer_fits req) r" "outcome_fits req (Again ps)"
  by (simp_all add: outcome_fits_def)

lemma finish_volume_fits:
  assumes "\<exists>sku. pl_fileShareSize p = minimum_size sku (requested_GiB (cr_RequiredBytes req))"
  shows "yields (answers (answer_fits req)) (finish_volume E d req p a k)"
proof -
  have "answer_fits req \<lparr>crr_VolumeId = v, crr_CapacityBytes = GiBToBytes (pl_fileShareSize p),
      crr_VolumeContext = m, crr_ContentSource = cr_Source req\<rparr>" for v m
    using assms by (auto simp: answer_fits_def)
  then show ?thesis unfolding finish_volume_def Let_def
    by (auto split: sum.split prod.split option.split intro!: yields_bind)
qed

lemma provision_fits:
  assumes "\<exists>sku. pl_fileShareSize p = minimum_size sku (requested_GiB (cr_RequiredBytes req))"
  shows "yields (outcome_fits req) (provision E d req p a k l)"
  unfolding provision_def
  by (auto split: sum.split prod.split share_outcome.split option.split
      intro!: yields_bind yields_strong [OF finish_volume_fits [OF assms]])

lemma create_locked_fits: "yields (outcome_fits req) (create_locked E d req)"
  unfolding create_locked_def Let_def
proof (rule answers_then [OF plan_volume_fits])
  fix p
  assume "plan_fits E req (map_merge (case cr_Parameters req of None \<Rightarrow> [] | Some m \<Rightarrow> m) (cr_MutableParameters req)) p"
  then have "\<exists>sku. pl_fileShareSize (with_server p n) = minimum_size sku (requested_GiB (cr_RequiredBytes req))" for n
    by (auto simp: plan_fits_def with_server_def)
  from provision_fits [OF this] show "yields (outcome_fits req) (do {
      choice \<leftarrow> choose_account E d req p;
      (case choice of AccountError err \<Rightarrow> ret (Finished (Inl err)) | AccountFull \<Rightarrow> ret (Again (pl_parameters p))
       | AccountChosen n k l \<Rightarrow> provision E d req (with_server p n) n k l) })"
    by (auto intro!: yields_bind split: account_choice.split)
qed simp

lemma create_fits:
  "yields (\<lambda>r. \<forall>x. r = Some x \<longrightarrow> answers (answer_fits req) x) (CreateVolume fuel E d Cap req)"
proof (induction fuel arbitrary: req)
  case (Suc n)
  have f: "answer_fits (req\<lparr>cr_Parameters := ps\<rparr>) = answer_fits req" for ps by (simp add: answer_fits_def fun_eq_iff)
  have "yields (\<lambda>r. \<forall>x. r = Some x \<longrightarrow> answers (answer_fits req) x) (CreateVolume n E d Cap (req\<lparr>cr_Parameters := ps\<rparr>))" for ps
    using Suc.IH [of "req\<lparr>cr_Parameters := ps\<rparr>"] unfolding f .
  then show ?case unfolding CreateVolume.simps
    by (auto split: option.split create_outcome.split
        intro!: yields_locked yields_bind [of _ _ "create_aborted E req"] yields_strong [OF create_locked_fits])
qed simp

lemma requested_size:
  assumes "0 \<le> b" "b \<le> 4611686018427387904"
  shows "b \<le> GiBToBytes (minimum_size sku (requested_GiB b))"
    and "GiBToBytes (minimum_size sku (requested_GiB b)) = minimum_size sku (requested_GiB b) * GiB"
proof -
  let ?n = "requested_GiB b" and ?m = "minimum_size sku (requested_GiB b)"
  have i: "in_int64 b" using assms by simp
  have up: "b \<le> RoundUpGiB b * GiB" "RoundUpGiB b * GiB < b + GiB" "0 \<le> RoundUpGiB b"
    using RoundUpGiB_ge [OF assms(1) i] RoundUpGiB_lt [OF assms(1) i] RoundUpGiB_range [OF assms(1) i] by simp_all
  have n: "b \<le> ?n * GiB" "0 \<le> ?n" "?n \<le> 4294967396"
    using up assms by (auto simp: requested_GiB_def Let_def defaultAzureFileQuota_def GiB_def)
  have m: "?n \<le> ?m" "?m \<le> 4294967396"
    using n by (auto simp: minimum_size_def Let_def minimumPremiumShareSize_def minimumV2ShareSize_def)
  then show w: "GiBToBytes ?m = ?m * GiB"
    using n unfolding GiBToBytes_def by (intro wrap64_id) (simp add: GiB_def)
  show "b \<le> GiBToBytes ?m" unfolding w using n m by (simp add: GiB_def)
qed


section \<open>A concrete run\<close>

definition sample_capability :: volume_capability where
  "sample_capability = \<lparr>vc_block = False, vc_mount = True, vc_mountFlags = [], vc_mountGroup = [],
     vc_mode = Some MULTI_NODE_MULTI_WRITER\<rparr>"

definition sample_request :: create_request where
  "sample_request = \<lparr>cr_Name = ''pvc-1'', cr_Capabilities = [sample_capability], cr_RequiredBytes = 1073741825,
     cr_Parameters = Some [(''skuName'', ''Premium_LRS'')], cr_MutableParameters = [], cr_Secrets = [], cr_Source = None\<rparr>"

definition sample_response :: create_response where
  "sample_response = \<lparr>crr_VolumeId = ''rg#acc#pvc-1###default'', crr_CapacityBytes = 107374182400,
     crr_VolumeContext = [(''skuName'', ''Premium_LRS''), (''secretnamespace'', ''default'')], crr_ContentSource = None\<rparr>"

lemma sample_run:
  "result (CreateVolume 1 (sample_env no_error) sample_config controller_Cap sample_request) initial_state
     = Some (Inr sample_response)"
  by code_simp


theorem create_fuel_irrelevant_witness:
  "result (CreateVolume 7 (sample_env no_error) sample_config controller_Cap sample_request) initial_state
     = Some (Inr sample_response)"
proof -
  obtain t where "run_state (CreateVolume 1 (sample_env no_error) sample_config controller_Cap sample_request)
      initial_state = (Some (Inr sample_response), t)"
    using sample_run unfolding result_def by (metis prod.collapse)
  from create_fuel_irrelevant [OF this, of 7] show ?thesis by (simp add: result_def)
qed

theorem create_named_account_returns_witness:
  "\<exists>r. result (CreateVolume (Suc 0) (sample_env no_error) sample_config controller_Cap
     (sample_request\<lparr>cr_Parameters := Some [(''storageAccount'', ''acc'')]\<rparr>)) initial_state = Some r"
proof -
  have "\<exists>t f. class_params (initial_text, initial_flags)
      (ord (sample_env no_error) (map_merge (case cr_Parameters (sample_request\<lparr>cr_Parameters := Some [(''storageAccount'', ''acc'')]\<rparr>)
         of None \<Rightarrow> [] | Some m \<Rightarrow> m)
         (cr_MutableParameters (sample_request\<lparr>cr_Parameters := Some [(''storageAccount'', ''acc'')]\<rparr>)))) = Inr (t, f)
      \<and> ct_account t \<noteq> []"
    by (rule exI [of _ "initial_text\<lparr>ct_account := ''acc''\<rparr>"], rule exI [of _ initial_flags]) code_simp
  then show ?thesis using create_named_account_returns by blast
qed

end
