(* ===== verification/Plans.thy ===== *)
theory Plans
  imports Creation
begin

text \<open>
  The plans of \<open>CreateVolume\<close>: what every plan that passes the checks satisfies, and that a request which fails them
  changes nothing outside.
\<close>

section \<open>Well-formed plans\<close>

definition one_identity :: "class_flags \<Rightarrow> bool" where
  "one_identity f \<longleftrightarrow>
     \<not> (cf_managedIdentity f \<and> cf_WIToken f) \<and> \<not> (cf_managedIdentity f \<and> cf_OAuthToken f)
     \<and> \<not> (cf_WIToken f \<and> cf_OAuthToken f)"

definition nfs_plan_ok :: "create_plan \<Rightarrow> bool" where
  "nfs_plan_ok p \<longleftrightarrow>
     \<not> cf_storeAccountKey (pl_flags p) \<and> \<not> cf_OAuthToken (pl_flags p) \<and> cf_multichannel (pl_flags p) \<noteq> Some True
     \<and> ao_EnableHTTPSTrafficOnly (pl_options p) = cf_encryptInTransit (pl_flags p)
     \<and> ao_IsNFSEncryptionInTransitEnabled (pl_options p) = Some (cf_encryptInTransit (pl_flags p))"

definition smb_plan_ok :: "create_plan \<Rightarrow> bool" where
  "smb_plan_ok p \<longleftrightarrow>
     ao_EnableHTTPSTrafficOnly (pl_options p) \<and> ao_IsNFSEncryptionInTransitEnabled (pl_options p) = None"

definition key_plan_ok :: "create_plan \<Rightarrow> bool" where
  "key_plan_ok p \<longleftrightarrow>
     cf_allowSharedKey (pl_flags p) \<noteq> Some False \<and> \<not> identity_mount (pl_flags p)"

definition plan_ok :: "create_plan \<Rightarrow> bool" where
  "plan_ok p \<longleftrightarrow>
     one_identity (pl_flags p)
     \<and> (cf_OAuthToken (pl_flags p) \<longrightarrow> ct_secretName (pl_text p) \<noteq> [])
     \<and> (if ct_protocol (pl_text p) = nfs then nfs_plan_ok p else smb_plan_ok p)
     \<and> (cf_storeAccountKey (pl_flags p) \<longrightarrow> key_plan_ok p)
     \<and> isSupportedProtocol (ct_protocol (pl_text p)) \<and> isSupportedFsType (ct_fsType (pl_text p))
     \<and> (cf_matchTags (pl_flags p) \<longrightarrow> ct_account (pl_text p) = [])"

lemma first_error_passed: "first_error checks = None \<Longrightarrow> (b, e) \<in> set checks \<Longrightarrow> \<not> b"
  by (auto simp: first_error_None list_all_iff)

lemma checks_passed:
  assumes "first_error (identity_checks d t f @ value_checks d t) = None"
  shows "one_identity f" "cf_OAuthToken f \<longrightarrow> ct_secretName t \<noteq> [] \<and> \<not> wants_nfs t"
    and "cf_matchTags f \<longrightarrow> ct_account t = []"
    and "isSupportedProtocol (ct_protocol t)" "isSupportedFsType (ct_fsType t)"
proof -
  have p: "list_all (\<lambda>check. \<not> fst check) (identity_checks d t f)" "list_all (\<lambda>check. \<not> fst check) (value_checks d t)"
    using assms unfolding first_error_None by simp_all
  show "one_identity f" "cf_OAuthToken f \<longrightarrow> ct_secretName t \<noteq> [] \<and> \<not> wants_nfs t" "cf_matchTags f \<longrightarrow> ct_account t = []"
    using p(1) unfolding identity_checks_def one_identity_def wants_nfs_def by auto
  show "isSupportedProtocol (ct_protocol t)" "isSupportedFsType (ct_fsType t)"
    using p(2) unfolding value_checks_def by simp_all
qed

lemma late_checks_passed:
  assumes "first_error (late_checks t f) = None"
  shows "cf_multichannel f = Some True \<longrightarrow> ct_protocol t \<noteq> nfs" "cf_storeAccountKey f \<longrightarrow> cf_allowSharedKey f \<noteq> Some False"
  using assms unfolding first_error_None late_checks_def by auto

lemma nfs_protocol: "ct_protocol (nfs_text t) = nfs \<longleftrightarrow> wants_nfs t"
  by (simp add: nfs_text_def wants_nfs_def)

text \<open>The end of the plan keeps the variables the checks are about.\<close>

lemma provisioned_keeps:
  "cf_managedIdentity (provisioned_defaults s n f) = cf_managedIdentity f"
  "cf_WIToken (provisioned_defaults s n f) = cf_WIToken f" "cf_OAuthToken (provisioned_defaults s n f) = cf_OAuthToken f"
  "cf_storeAccountKey (provisioned_defaults s n f) = cf_storeAccountKey f"
  "cf_multichannel (provisioned_defaults s n f) = cf_multichannel f"
  "cf_encryptInTransit (provisioned_defaults s n f) = cf_encryptInTransit f"
  "cf_allowSharedKey (provisioned_defaults s n f) = cf_allowSharedKey f"
  "cf_matchTags (provisioned_defaults s n f) = cf_matchTags f"
  by (simp_all add: provisioned_defaults_def)

definition plan_from :: "class_text \<Rightarrow> class_flags \<Rightarrow> bool \<Rightarrow> create_plan \<Rightarrow> bool" where
  "plan_from t f https p \<longleftrightarrow>
     (\<exists>sku n tags vnetIDs sfx src. pl_text p = t\<lparr>ct_sku := sku\<rparr> \<and> pl_flags p = provisioned_defaults sku n f
      \<and> pl_options p = account_options_of (t\<lparr>ct_sku := sku\<rparr>) (provisioned_defaults sku n f) https tags vnetIDs sfx src)"

lemma plan_fromI:
  "plan_from t f https \<lparr>pl_text = t\<lparr>ct_sku := sku\<rparr>, pl_flags = provisioned_defaults sku n f, pl_requestGiB = g,
     pl_fileShareSize = z, pl_validFileShareName = v, pl_parameters = ps, pl_namespace = ns,
     pl_options = account_options_of (t\<lparr>ct_sku := sku\<rparr>) (provisioned_defaults sku n f) https tags vnetIDs sfx src\<rparr>"
  unfolding plan_from_def by (intro exI conjI) simp_all

lemma finish_plan_keeps: "yields (answers (plan_from t f https)) (finish_plan E d req t f https ids ps ns)"
  unfolding finish_plan_def Let_def
  by (rule yields_bind, rule yields_cases, simp, rule yields_bind, rule yields_cases, simp)
    (auto split: sum.split intro: plan_fromI)

lemma finish_plan_ok:
  assumes "one_identity f" "cf_OAuthToken f \<longrightarrow> ct_secretName t \<noteq> [] \<and> \<not> wants_nfs t"
    and "cf_matchTags f \<longrightarrow> ct_account t = []" "isSupportedProtocol (ct_protocol t)" "isSupportedFsType (ct_fsType t)"
    and "first_error (late_checks (nfs_text t) (nfs_flags t f)) = None"
    and "t' = nfs_text t \<or> t' = (nfs_text t)\<lparr>ct_resourceGroup := rg\<rparr>"
  shows "yields (answers plan_ok) (finish_plan E d req t' (nfs_flags t f) (httpsOnly t f) ids ps ns)"
proof -
  have same: "ct_protocol t' = ct_protocol (nfs_text t)" "ct_fsType t' = ct_fsType t" "ct_secretName t' = ct_secretName t"
    "ct_account t' = ct_account t"
    using assms(7) by (auto simp: nfs_text_def)
  have n: "isSupportedProtocol nfs" by code_simp
  have proto: "isSupportedProtocol (ct_protocol (nfs_text t))" using assms(4) n by (simp add: nfs_text_def)
  have ok: "plan_ok p" if "pl_text p = t'\<lparr>ct_sku := sku\<rparr>" "pl_flags p = provisioned_defaults sku k (nfs_flags t f)"
    "pl_options p = account_options_of (t'\<lparr>ct_sku := sku\<rparr>) (provisioned_defaults sku k (nfs_flags t f)) (httpsOnly t f) tags vn sfx src"
    for p sku k tags vn sfx src
    using assms(1-3,5) late_checks_passed [OF assms(6)] proto
    by (auto simp: plan_ok_def one_identity_def nfs_plan_ok_def smb_plan_ok_def key_plan_ok_def that same provisioned_keeps
        account_options_of_def nfs_protocol httpsOnly_def nfs_flags_def identity_mount_def)
  have "plan_from t' (nfs_flags t f) (httpsOnly t f) p \<Longrightarrow> plan_ok p" for p
    unfolding plan_from_def using ok by blast
  with finish_plan_keeps [of t' "nfs_flags t f" "httpsOnly t f" E d req ids ps ns] show ?thesis
    by (simp add: yields_def answers_def)
qed

text \<open>C21: every plan \<open>CreateVolume\<close> goes on with is well formed, whatever the order of the parameters and the answers: at
  most one identity, an OAuth mount names its secret and is no NFS mount; an NFS share stores no account key, has no
  multichannel and takes plain HTTP exactly when it is not encrypted in transit; a key is stored only for an account
  that allows shared keys; tags are matched only when no account is named.\<close>

theorem plans_well_formed:
  "answers plan_ok (result (plan_volume E d req ps) s)"
proof -
  have "yields (answers plan_ok) (plan_volume E d req ps)"
  proof (cases "class_params (initial_text, initial_flags) (ord E ps)")
    case (Inl e)
    then show ?thesis by (simp add: plan_volume_def)
  next
    case (Inr tf)
    obtain t f where tf: "tf = (t, f)" by (cases tf) blast
    show ?thesis
    proof (cases "first_error (identity_checks d t f @ value_checks d t)")
      case (Some e)
      then show ?thesis using Inr tf by (simp add: plan_volume_def)
    next
      case None
      note passed = checks_passed [OF None]
      note ok = finish_plan_ok [OF passed]
      show ?thesis
      proof (cases "first_error (late_checks (nfs_text t) (nfs_flags t f))")
        case (Some e)
        then show ?thesis using Inr tf None by (auto simp: plan_volume_def Let_def split: option.split intro!: yields_bind)
      next
        case late: None
        then show ?thesis using Inr tf None
          by (auto simp: plan_volume_def Let_def split: option.split intro!: yields_bind ok)
      qed
    qed
  qed
  then show ?thesis by (simp add: yields_def)
qed

section \<open>Refused requests\<close>



end
