(* ===== verification/Copies.thy ===== *)
theory Copies
  imports Creation
begin

text \<open>
  Copies and snapshots: when \<open>azcopy\<close> is started and how long it is waited for, what counts as a finished copy, where the
  footer of a disk is written, and when a snapshot is found instead of taken.
\<close>

section \<open>Starting a copy\<close>

definition starts_copy :: "ext \<Rightarrow> bool" where
  "starts_copy c = (case c of Tool (AzcopyCopy _ _ _ _) \<Rightarrow> True | _ \<Rightarrow> False)"

definition sleeps :: "ext \<Rightarrow> bool" where
  "sleeps c = (case c of Tool (Sleep _) \<Rightarrow> True | _ \<Rightarrow> False)"

declare PollUntilContextTimeout.simps [simp del]

abbreviation "runs_only \<equiv> emits (\<lambda>c. \<not> starts_copy c \<and> \<not> sleeps c)"

lemma job_runs_only: "keeps runs_only (GetAzcopyJob E dst env)" "keeps runs_only (CleanJobs E)"
  unfolding GetAzcopyJob_def job_of_list_def show_job_def CleanJobs_def
  by (intro keeps_emits em.keeps_cases; simp add: starts_copy_def sleeps_def)+

lemma runs_only_none: "keeps runs_only m \<Longrightarrow> at_most 0 starts_copy m" "keeps runs_only m \<Longrightarrow> at_most 0 sleeps m"
  by (rule at_most_zero, erule keeps_emits_mono, simp)+

lemma timeout_none: "at_most 0 starts_copy (call ans (Tool (Timeout t)))" "at_most 0 sleeps (call ans (Tool (Timeout t)))"
  by (rule at_most_zero, rule keeps_emits_call, simp add: starts_copy_def sleeps_def)+

lemma finish_runs_only: "keeps runs_only (finish_copy E err)"
  unfolding finish_copy_def by (intro keeps_emits em.keeps_cases job_runs_only)

lemma poll_starts_none:
  assumes "keeps (emits (\<lambda>c. \<not> starts_copy c)) m"
  shows "keeps (emits (\<lambda>c. \<not> starts_copy c)) (PollUntilContextTimeout E n i m)"
proof (induction n)
  case 0
  show ?case by (subst PollUntilContextTimeout.simps) (simp only: nat.case, intro keeps_emits em.keeps_cases assms)
next
  case (Suc n)
  then show ?case
    by (subst PollUntilContextTimeout.simps)
      (simp only: nat.case, intro keeps_emits em.keeps_cases assms; simp add: starts_copy_def)
qed

lemma poll_sleeps:
  assumes "at_most 0 sleeps m"
  shows "at_most n sleeps (PollUntilContextTimeout E n i m)"
proof (induction n)
  case 0
  show ?case
    by (subst PollUntilContextTimeout.simps, rule at_most_bind [OF assms, where j = 0])
      (auto intro!: at_most_return split: prod.split)
next
  case (Suc n)
  have again: "at_most (Suc n) sleeps (do {
      note_event (Tool (Sleep i));
      late \<leftarrow> call (ans_flag E) (Tool (Timeout t));
      (if late then ret (Some deadline_exceeded) else PollUntilContextTimeout E n i m) })" for t
    unfolding note_event_def
    by (rule at_most_bind [OF at_most_call, where j = n], rule at_most_bind [OF timeout_none(2), where j = n])
      (auto intro!: at_most_return Suc.IH)
  show ?case
    by (subst PollUntilContextTimeout.simps, rule at_most_bind [OF assms, where j = "Suc n"])
      (auto intro!: at_most_return again split: prod.split)
qed

lemma wait_bound:
  "at_most n P m \<Longrightarrow> at_most 0 P m' \<Longrightarrow> at_most 0 P (call (ans_flag E) (Tool (Timeout t)))
     \<Longrightarrow> at_most n P (WaitUntilTimeout E t m m')"
  unfolding WaitUntilTimeout_def
  by (erule at_most_bind [where i = n and j = 0], rule at_most_bind [where i = 0 and j = 0]) (auto intro: at_most_return)

lemma finish_none: "at_most 0 starts_copy (finish_copy E err)" "at_most 0 sleeps (finish_copy E err)"
  by (rule runs_only_none, rule finish_runs_only)+

text \<open>The body after the state of the job is known.\<close>

definition copy_after :: "env \<Rightarrow> config \<Rightarrow> string \<Rightarrow> string list \<Rightarrow> job_info \<Rightarrow> goerr option prog \<Rightarrow> goerr option prog
      \<Rightarrow> goerr option prog" where
  "copy_after E d dst env job copy late =
     (case job of (jobState, percent, err) \<Rightarrow>
        if jobState = AzcopyJobError \<or> completed_state jobState then ret err
        else if jobState = AzcopyJobRunning
        then do { err \<leftarrow> PollUntilContextTimeout E (poll_ticks d) 20 (poll_job E dst env); finish_copy E err }
        else do { err \<leftarrow> WaitUntilTimeout E ''azcopy copy'' copy late; finish_copy E err })"

lemma poll_job_runs_only: "keeps runs_only (poll_job E dst env)"
  unfolding poll_job_def by (intro keeps_emits em.keeps_cases job_runs_only)

lemma copy_after_starts:
  assumes "at_most (Suc 0) starts_copy copy" "at_most 0 starts_copy late"
  shows "at_most (if fst job = AzcopyJobNotFound then 1 else 0) starts_copy (copy_after E d dst env job copy late)"
proof -
  have poll: "at_most 0 starts_copy (PollUntilContextTimeout E n i (poll_job E dst env))" for n i
    by (rule at_most_zero, rule poll_starts_none, rule keeps_emits_mono [OF poll_job_runs_only], simp)
  have states: "fst job = AzcopyJobNotFound"
    if "fst job \<noteq> AzcopyJobError" "\<not> completed_state (fst job)" "fst job \<noteq> AzcopyJobRunning"
    using that by (cases "fst job") (simp_all add: completed_state_def)
  obtain st percent err where job: "job = (st, percent, err)" by (cases job) blast
  show ?thesis unfolding copy_after_def job prod.case
    using states
    by (auto simp: job intro!: at_most_return at_most_bind [OF poll, where j = 0] finish_none
        at_most_bind [OF wait_bound [OF assms timeout_none(1)], where j = 0])
qed

lemma copy_after_sleeps:
  assumes "at_most 0 sleeps copy" "at_most 0 sleeps late"
  shows "at_most (poll_ticks d) sleeps (copy_after E d dst env job copy late)"
proof -
  have poll: "at_most n sleeps (PollUntilContextTimeout E n i (poll_job E dst env))" for n i
    by (rule poll_sleeps, rule runs_only_none, rule poll_job_runs_only)
  obtain st percent err where job: "job = (st, percent, err)" by (cases job) blast
  show ?thesis unfolding copy_after_def job prod.case
    by (auto intro!: at_most_return at_most_bind [OF poll, where j = 0] finish_none
        at_most_bind [OF wait_bound [OF assms timeout_none(2)], where j = 0])
qed

lemma copy_as_after:
  "\<exists>copy late. copyFileShareByAzcopy E d src dst sp dp snap sa da tok env so
       = GetAzcopyJob E dst env \<bind> (\<lambda>job. copy_after E d dst env job copy late)
     \<and> at_most (Suc 0) starts_copy copy \<and> at_most 0 starts_copy late \<and> at_most 0 sleeps copy \<and> at_most 0 sleeps late"
proof (intro exI conjI)
  let ?copy = "do { (out, err) \<leftarrow> execAzcopyCopy E d (source_path sp snap tok) dp (copy_options snap (so_Protocol so)) env;
                    ret (map_option (\<lambda>e. Fmterr ''exec error: %v, output: %v'' [err_text e, out]) err) }"
  let ?late = "do { (jobState, percent, _) \<leftarrow> GetAzcopyJob E dst env;
       ret (Some (Fmterr ''azcopy job status: %s, timeout waiting for copy fileshare %s:%s to %s:%s complete, current copy percent: %s%%''
              [state_text jobState, sa, src, da, dst, percent])) }"
  show "copyFileShareByAzcopy E d src dst sp dp snap sa da tok env so
      = GetAzcopyJob E dst env \<bind> (\<lambda>job. copy_after E d dst env job ?copy ?late)"
    unfolding copyFileShareByAzcopy_def copy_after_def by (rule arg_cong [of _ _ "State_Monad.bind _"]) auto
  show "at_most (Suc 0) starts_copy ?copy"
    unfolding execAzcopyCopy_def Let_def
    by (rule at_most_bind [OF at_most_call, where j = 0]) (auto intro: at_most_return)
  show "at_most 0 sleeps ?copy"
    unfolding execAzcopyCopy_def Let_def
    by (rule at_most_zero, intro keeps_emits em.keeps_cases; simp add: sleeps_def)
  have "keeps runs_only ?late" by (intro keeps_emits em.keeps_cases job_runs_only)
  then show "at_most 0 starts_copy ?late" "at_most 0 sleeps ?late" by (rule runs_only_none)+
qed


text \<open>A running copy is waited for at most the configured number of minutes, in steps of twenty seconds, and then the
  request returns.\<close>

theorem copy_wait_bounded:
  "\<exists>evs. trace (final (copyFileShareByAzcopy E d src dst sp dp snap sa da tok env so) s) = trace s @ evs
    \<and> length (filter sleeps evs) \<le> nat (3 * waitForAzCopyTimeoutMinutes d)"
proof -
  obtain copy late where c: "copyFileShareByAzcopy E d src dst sp dp snap sa da tok env so
        = GetAzcopyJob E dst env \<bind> (\<lambda>job. copy_after E d dst env job copy late)"
    "at_most 0 sleeps copy" "at_most 0 sleeps late"
    using copy_as_after [of E d src dst sp dp snap sa da tok env so] by blast
  have "at_most (poll_ticks d) sleeps (copyFileShareByAzcopy E d src dst sp dp snap sa da tok env so)"
    unfolding c(1)
    by (rule at_most_bind [OF runs_only_none(2) [OF job_runs_only(1)] copy_after_sleeps [OF c(2,3)]]) simp
  then show ?thesis unfolding at_most_def poll_ticks_def by blast
qed

section \<open>A failed job\<close>

text \<open>The first listing shows the copy at work, the next one that it has failed.\<close>

definition job_listing :: "string \<Rightarrow> string" where
  "job_listing status = ''JobId: j'' @ newline @ ''Start Time: t'' @ newline @ ''Status: '' @ status @ newline
     @ ''Command: copy'' @ newline"

definition failing_copy :: env where
  "failing_copy = (sample_env no_error)\<lparr>ans_out := \<lambda>tr c.
     (case c of
        Tool (RunCommand cmd _) \<Rightarrow>
          if HasPrefix cmd ''azcopy jobs show'' then (''Percent Complete: 10'' @ newline, None)
          else (job_listing (if length tr < 2 then ''InProgress'' else ''Failed''), None)
      | _ \<Rightarrow> ([], None))\<rparr>"

definition sample_share_options :: share_options where
  "sample_share_options = \<lparr>so_Name = ''dst'', so_Protocol = SMB, so_RequestGiB = 1, so_AccessTier = [], so_RootSquash = [],
     so_Metadata = [], so_Bandwidth = None, so_Iops = None\<rparr>"

text \<open>A copy that fails while it is waited for is reported as done: the job is no longer running, so the poll ends
  without an error, nothing is started again and the finished jobs are cleaned.\<close>

theorem failed_copy_reported_done:
  "(case run_state (copyFileShareByAzcopy failing_copy sample_config ''src'' ''dst'' ''s'' ''d'' [] ''a'' ''b'' [] []
        sample_share_options) initial_state of
     (err, t) \<Rightarrow> err = None \<and> \<not> list_ex starts_copy (trace t)
       \<and> last (trace t) = Tool (RunCommand ''azcopy jobs clean'' []))
   \<and> fst (result (GetAzcopyJob failing_copy ''dst'' []) (initial_state\<lparr>trace := [Tool (Sleep 0), Tool (Sleep 0)]\<rparr>))
     = AzcopyJobNotFound"
  by (intro conjI; code_simp)

section \<open>Disks\<close>

definition writes_range_at :: "int \<Rightarrow> ext \<Rightarrow> bool" where
  "writes_range_at position c = (case c of Share (DpUploadRange _ _ _ at _) \<Rightarrow> at = position | _ \<Rightarrow> True)"

text \<open>The footer of a new disk is written at byte 511 whatever the size of the disk, so only in a disk of 1023 bytes
  is it at the end, where a fixed VHD has it.\<close>

theorem disk_footer_position:
  "emits (writes_range_at 511) s (final (createDisk E a k sfx share disk n) s)
   \<and> (n - VHD_HEADER_SIZE = 511 \<longleftrightarrow> n = 1023)"
proof
  have "keeps (emits (writes_range_at 511)) (createDisk E a k sfx share disk n)"
    unfolding createDisk_def getDirectoryClient_def Let_def VHD_HEADER_SIZE_def
    by (intro keeps_emits em.keeps_cases; simp add: writes_range_at_def)
  then show "emits (writes_range_at 511) s (final (createDisk E a k sfx share disk n) s)" by (simp add: keeps_def)
  show "n - VHD_HEADER_SIZE = 511 \<longleftrightarrow> n = 1023" by (auto simp: VHD_HEADER_SIZE_def)
qed

section \<open>Snapshots\<close>

definition takes_snapshot :: "ext \<Rightarrow> bool" where
  "takes_snapshot c =
     (case c of Share (DpCreateSnapshot _ _ _) \<Rightarrow> True | Rm (RmSnapshotCreate _ _ _ _ _) \<Rightarrow> True | _ \<Rightarrow> False)"

abbreviation "takes_none \<equiv> emits (\<lambda>c. \<not> takes_snapshot c)"

lemma clients_take_none:
  "keeps takes_none (newAzureFileClient E a k sfx)" "keeps takes_none (newAzureFileClientWithOAuth E a sfx)"
  "keeps takes_none (getFileShareClientForSub E d su)" "keeps takes_none (useDataPlaneAPI E v a)"
  "keeps takes_none (GetStorageAccountFromSecret E d n ns)"
  unfolding newAzureFileClient_def newAzureFileClientWithOAuth_def getFileShareClientForSub_def useDataPlaneAPI_def
    GetStorageAccountFromSecret_def
  by (intro keeps_emits em.keeps_cases; simp add: takes_snapshot_def)+

lemma account_takes_none: "keeps takes_none (GetAccountInfo E d v secrets ctx)"
  unfolding GetAccountInfo_def oauth_account_def workload_identity_account_def write_token_file_def account_key_def
    key_from_secret_or_identity_def GetStorageAccesskeyWithSubsID_def
  by (intro keeps_emits em.keeps_cases clients_take_none; simp add: takes_snapshot_def)

lemma share_client_takes_none:
  "keeps takes_none (getServiceClient E d v secrets u)" "keeps takes_none (getShareClient E d v secrets u)"
  unfolding getShareClient_def getServiceClient_def
  by (intro keeps_emits em.keeps_cases clients_take_none account_takes_none)+

lemma search_takes_none: "keeps takes_none (search_management E su rg a v n sh l)"
proof (induction l)
  case (Cons x l)
  then show ?case unfolding search_management.simps
    by (intro keeps_emits em.keeps_cases Cons.IH; simp add: takes_snapshot_def)
qed (simp add: keeps_emits)

lemma exists_takes_none: "keeps takes_none (snapshotExists E d v n secrets u)"
  unfolding snapshotExists_def
  by (intro keeps_emits em.keeps_cases share_client_takes_none clients_take_none search_takes_none;
      simp add: takes_snapshot_def)

lemma share_size_takes_none: "keeps takes_none (share_size E d su rg a sh)"
  unfolding share_size_def
  by (intro keeps_emits em.keeps_cases clients_take_none keeps_emits_modify; simp add: takes_snapshot_def)

lemma at_most_cases:
  "at_most n P m \<Longrightarrow> at_most n P m' \<Longrightarrow> at_most n P (if b then m else m')"
  "(\<And>x. at_most n P (f x)) \<Longrightarrow> at_most n P (Let v f)"
  "at_most n P m \<Longrightarrow> (\<And>x. at_most n P (f x)) \<Longrightarrow> at_most n P (case c of None \<Rightarrow> m | Some x \<Rightarrow> f x)"
  "(\<And>x. at_most n P (g x)) \<Longrightarrow> (\<And>x. at_most n P (h x)) \<Longrightarrow> at_most n P (case u of Inl x \<Rightarrow> g x | Inr x \<Rightarrow> h x)"
  "(\<And>x y. at_most n P (k x y)) \<Longrightarrow> at_most n P (case p of (x, y) \<Rightarrow> k x y)"
  by (simp_all split: option.split sum.split prod.split)

lemma take_snapshot_one: "at_most 1 takes_snapshot (take_snapshot E d v su rg a sh secrets u md)"
proof -
  have props: "at_most 0 takes_snapshot (call ans (Share (DpShareGetProperties f n)))" for ans :: "ext list \<Rightarrow> ext \<Rightarrow> 'r" and f n
    by (rule at_most_zero, rule keeps_emits_call) (simp add: takes_snapshot_def)
  have dp: "at_most 1 takes_snapshot (snapshot_by_data_plane E d v secrets u md)"
    unfolding snapshot_by_data_plane_def
    by (rule at_most_bind [OF at_most_zero [OF share_client_takes_none(2)], where j = 1])
      (auto split: sum.split prod.split option.split intro!: at_most_return at_most_bind [OF at_most_call, where j = 0]
        at_most_bind [OF props, where j = 0])
  have mgmt: "at_most 1 takes_snapshot (snapshot_by_management E d v su rg a sh md)"
    unfolding snapshot_by_management_def
    by (rule at_most_bind [OF at_most_zero [OF clients_take_none(3)], where j = 1])
      (auto split: sum.split option.split intro!: at_most_return at_most_bind [OF at_most_call, where j = 0]
        at_most_bind [OF at_most_zero, where j = 0] keeps_emits)
  have rest: "at_most 0 takes_snapshot (case r of Inl err \<Rightarrow> ret (Inl err) | Inr (snap, time, quota) \<Rightarrow> do {
      q \<leftarrow> (if quota = 0 then share_size E d su rg a sh else ret (Inr quota));
      ret (map_sum id (snapshot_answer v snap su time) q) })" for r
    by (rule at_most_zero) (intro keeps_emits em.keeps_cases share_size_takes_none)
  show ?thesis unfolding take_snapshot_def
    by (rule at_most_bind [OF _ rest, where i = 1]) (simp_all add: dp mgmt del: One_nat_def)
qed

lemma create_snapshot_one: "at_most 1 takes_snapshot (CreateSnapshot E d v n ps secrets)"
proof -
  have choice: "at_most 0 takes_snapshot (if dp = [] then useDataPlaneAPI E v a else ret dp)" for dp a
    by (rule at_most_zero) (simp add: clients_take_none keeps_emits)
  show ?thesis unfolding CreateSnapshot_def
    by (intro at_most_cases at_most_return at_most_bind [OF choice, where j = 1] take_snapshot_one
        at_most_bind [OF at_most_zero [OF exists_takes_none], where j = 1]) simp_all
qed

text \<open>The search of a request: which API it uses, and what it finds.\<close>

definition search_for ::
    "env \<Rightarrow> config \<Rightarrow> string \<Rightarrow> string \<Rightarrow> smap \<Rightarrow> string \<Rightarrow> string \<Rightarrow> found_snapshot prog" where
  "search_for E d v n secrets account dp = do {
     dataPlane \<leftarrow> (if dp = [] then useDataPlaneAPI E v account else ret dp);
     snapshotExists E d v n secrets dataPlane }"

lemma create_snapshot_none:
  assumes "GetFileShareInfo v = Inr i" "snapshot_params ([], []) ps = Inr (dp, md)"
    and "fst (result (search_for E d v n secrets (si_account i) dp) s)"
  shows "takes_none s (final (CreateSnapshot E d v n ps secrets) s)"
proof -
  obtain u t where u: "run_state (if dp = [] then useDataPlaneAPI E v (si_account i) else ret dp) s = (u, t)"
    by (cases "run_state (if dp = [] then useDataPlaneAPI E v (si_account i) else ret dp) s") blast
  obtain r w where r: "run_state (snapshotExists E d v n secrets u) t = (r, w)"
    by (cases "run_state (snapshotExists E d v n secrets u) t") blast
  obtain snap time quota err where found: "r = (True, snap, time, quota, err)"
    using assms(3) u r by (cases r) (simp add: search_for_def result_def run_simps)
  have "keeps takes_none (if dp = [] then useDataPlaneAPI E v (si_account i) else ret dp)"
    by (simp add: clients_take_none keeps_emits)
  with u have "takes_none s t" unfolding keeps_def final_def by (metis snd_conv)
  moreover have "takes_none t w"
    using exists_takes_none [of E d v n secrets u] r unfolding keeps_def final_def by (metis snd_conv)
  ultimately have search: "takes_none s w" by (rule emits_trans)
  show ?thesis
  proof (cases "n = [] \<or> v = []")
    case True
    then show ?thesis by (auto simp: CreateSnapshot_def final_def run_simps emits_refl)
  next
    case False
    then show ?thesis using search u r found assms(1,2)
      by (simp add: CreateSnapshot_def Let_def final_def run_simps split: option.split)
  qed
qed

text \<open>C18: a request takes at most one snapshot, and none when the search finds the snapshot's name at the source already:
  a repeated request is answered with the snapshot that is there.\<close>

theorem snapshot_taken_once:
  assumes "GetFileShareInfo v = Inr i" "snapshot_params ([], []) ps = Inr (dp, md)"
  shows "\<exists>evs. trace (final (CreateSnapshot E d v n ps secrets) s) = trace s @ evs
      \<and> length (filter takes_snapshot evs)
          \<le> (if fst (result (search_for E d v n secrets (si_account i) dp) s) then 0 else 1)"
proof (cases "fst (result (search_for E d v n secrets (si_account i) dp) s)")
  case True
  from create_snapshot_none [OF assms this] obtain evs where
    "trace (final (CreateSnapshot E d v n ps secrets) s) = trace s @ evs" "list_all (\<lambda>c. \<not> takes_snapshot c) evs"
    by (auto simp: emits_def)
  with True show ?thesis by (intro exI [of _ evs]) (simp add: filter_False list_all_iff)
next
  case False
  with create_snapshot_one [of E d v n ps secrets] show ?thesis by (simp add: at_most_def)
qed

definition sample_snapshot :: listed_share where
  "sample_snapshot = \<lparr>ls_name = Some ''share'', ls_snapshot = Some ''t1'', ls_time = ''t1'', ls_quota = Some 5,
     ls_initiator = Some ''snap''\<rparr>"

definition listing_env :: env where
  "listing_env = (sample_env no_error)
     \<lparr>ans_listed := \<lambda>_ _. Inr (Some [sample_snapshot]), ans_item := \<lambda>_ _. Inr sample_snapshot\<rparr>"

theorem snapshot_taken_once_witness:
  "\<exists>evs. trace (final (CreateSnapshot listing_env sample_config ''rg#acc#share##u#ns'' ''snap'' [] []) initial_state) = evs
     \<and> filter takes_snapshot evs = []"
proof -
  have "\<exists>i. GetFileShareInfo ''rg#acc#share##u#ns'' = Inr i \<and> si_account i = ''acc''"
    by (rule exI [of _ "\<lparr>si_rg = ''rg'', si_account = ''acc'', si_share = ''share'', si_disk = [], si_namespace = ''ns'',
      si_subs = []\<rparr>"]) code_simp
  then obtain i where i: "GetFileShareInfo ''rg#acc#share##u#ns'' = Inr i" "si_account i = ''acc''" by blast
  have f: "fst (result (search_for listing_env sample_config ''rg#acc#share##u#ns'' ''snap'' [] ''acc'' []) initial_state)"
    by code_simp
  have "trace initial_state = []" by (simp add: initial_state_def)
  with snapshot_taken_once [OF i(1), of "[]" "[]" "[]" listing_env sample_config "''snap''" "[]" initial_state] f i(2)
  show ?thesis by simp
qed

end
