(* ===== verification/Achieves.thy ===== *)
theory Achieves
  imports Results
begin

text \<open>
  What a success means: \<open>achieves A Q m\<close> says that a run of \<open>m\<close> whose result is in \<open>Q\<close> has made a call, with an answer,
  that \<open>A\<close> describes.  The rules follow the control structure; a step that has achieved it may be followed by others, as
  the trace only grows (the interpretation \<open>grow\<close> of the methods' frames).
\<close>

section \<open>Calls that succeeded\<close>

text \<open>\<open>A tr c\<close>: the call \<open>c\<close>, made after the calls \<open>tr\<close>, is of the kind, and its answer then.\<close>

definition went_well :: "(ext list \<Rightarrow> ext \<Rightarrow> bool) \<Rightarrow> drv \<Rightarrow> drv \<Rightarrow> bool" where
  "went_well A s t \<longleftrightarrow> (\<exists>before c after. trace t = trace s @ before @ c # after \<and> A (trace s @ before) c)"

text \<open>The calls of a kind that were answered without an error.\<close>

definition no_error_for :: "env \<Rightarrow> (ext \<Rightarrow> bool) \<Rightarrow> ext list \<Rightarrow> ext \<Rightarrow> bool" where
  "no_error_for E P tr c \<longleftrightarrow> P c \<and> ans_err E tr c = None"

abbreviation grows :: "'a prog \<Rightarrow> bool" where
  "grows m \<equiv> keeps (emits (\<lambda>_. True)) m"

definition achieves :: "(ext list \<Rightarrow> ext \<Rightarrow> bool) \<Rightarrow> ('a \<Rightarrow> bool) \<Rightarrow> 'a prog \<Rightarrow> bool" where
  "achieves A Q m \<longleftrightarrow> (\<forall>s. Q (result m s) \<longrightarrow> went_well A s (final m s))"

named_theorems ach \<open>what a success has achieved\<close>

lemma went_well_before: "went_well A s t \<Longrightarrow> emits (\<lambda>_. True) t u \<Longrightarrow> went_well A s u"
  unfolding went_well_def emits_def by (metis append.assoc append_Cons)

lemma went_well_after:
  assumes "emits (\<lambda>_. True) s t" "went_well A t u"
  shows "went_well A s u"
proof -
  obtain evs where t: "trace t = trace s @ evs" using assms(1) by (auto simp: emits_def)
  obtain b c a where u: "trace u = trace t @ b @ c # a" "A (trace t @ b) c"
    using assms(2) by (auto simp: went_well_def)
  have "trace u = trace s @ (evs @ b) @ c # a" "A (trace s @ (evs @ b)) c" using t u by simp_all
  then show ?thesis unfolding went_well_def by blast
qed

lemma achieves_return [ach]: "\<not> Q x \<Longrightarrow> achieves A Q (ret x)"
  by (simp add: achieves_def result_def run_simps)

lemma achieves_call: "(\<And>tr. Q (ans tr c) \<Longrightarrow> A tr c) \<Longrightarrow> achieves A Q (call ans c)"
  unfolding achieves_def result_def final_def went_well_def
  by (auto simp: run_simps) (metis append_Nil append_Nil2)

lemma achieves_call_ok: "P c \<Longrightarrow> achieves (no_error_for E P) (\<lambda>r. r = None) (call (ans_err E) c)"
  by (rule achieves_call) (simp add: no_error_for_def)

text \<open>Either the first program achieves it or, with its result, the rest does.\<close>

lemma achieves_strong:
  assumes "yields R m" "grows m" "achieves A P m" "\<And>a. P a \<Longrightarrow> grows (f a)"
    and "\<And>a. R a \<Longrightarrow> \<not> P a \<Longrightarrow> achieves A Q (f a)"
  shows "achieves A Q (State_Monad.bind m f)"
  unfolding achieves_def
proof (intro allI impI)
  fix s
  assume Q: "Q (result (State_Monad.bind m f) s)"
  obtain a t where m: "run_state m s = (a, t)" by (cases "run_state m s") blast
  have R: "R a" by (rule run_yields [OF assms(1) m])
  have g: "emits (\<lambda>_. True) s t" using assms(2) m by (simp add: keeps_def final_def) (metis snd_conv)
  have f: "final (State_Monad.bind m f) s = final (f a) t" "result (State_Monad.bind m f) s = result (f a) t"
    using m by (simp_all add: final_def result_def run_simps)
  show "went_well A s (final (State_Monad.bind m f) s)"
  proof (cases "P a")
    case True
    then have "went_well A s t" using assms(3) m by (auto simp: achieves_def result_def final_def dest: spec [of _ s])
    then show ?thesis using assms(4) [OF True] by (simp add: f keeps_def went_well_before)
  next
    case False
    then show ?thesis using assms(5) R Q by (auto simp: f achieves_def intro: went_well_after [OF g])
  qed
qed

lemma achieves_bind:
  "grows m \<Longrightarrow> achieves A P m \<Longrightarrow> (\<And>a. P a \<Longrightarrow> grows (f a)) \<Longrightarrow> (\<And>a. \<not> P a \<Longrightarrow> achieves A Q (f a))
     \<Longrightarrow> achieves A Q (State_Monad.bind m f)"
  by (rule achieves_strong [of "\<lambda>_. True" m A P]) (simp_all add: yields_def)

lemma achieves_never: "(\<And>a. \<not> Q a) \<Longrightarrow> achieves A Q m"
  by (simp add: achieves_def)

lemma achieves_later: "grows m \<Longrightarrow> (\<And>a. achieves A Q (f a)) \<Longrightarrow> achieves A Q (State_Monad.bind m f)"
  by (rule achieves_bind [OF _ achieves_never [of "\<lambda>_. False"]]) simp_all

lemma achieves_weaken: "achieves A Q m \<Longrightarrow> (\<And>r. Q' r \<Longrightarrow> Q r) \<Longrightarrow> (\<And>tr c. A tr c \<Longrightarrow> A' tr c) \<Longrightarrow> achieves A' Q' m"
  unfolding achieves_def went_well_def by blast

lemma achieves_cases [ach]:
  "achieves A Q m \<Longrightarrow> achieves A Q n \<Longrightarrow> achieves A Q (if b then m else n)"
  "(\<And>x. achieves A Q (f x)) \<Longrightarrow> achieves A Q (Let v f)"
  "achieves A Q m \<Longrightarrow> (\<And>x. achieves A Q (f x)) \<Longrightarrow> achieves A Q (case c of None \<Rightarrow> m | Some x \<Rightarrow> f x)"
  "(\<And>x. achieves A Q (g x)) \<Longrightarrow> (\<And>x. achieves A Q (h x)) \<Longrightarrow> achieves A Q (case u of Inl x \<Rightarrow> g x | Inr x \<Rightarrow> h x)"
  "(\<And>x y. achieves A Q (k x y)) \<Longrightarrow> achieves A Q (case p of (x, y) \<Rightarrow> k x y)"
  by (simp_all split: option.split sum.split prod.split)

abbreviation succeeded :: "goerr + 'a \<Rightarrow> bool" where
  "succeeded r \<equiv> \<not> isl r"

text \<open>The steps of a method: the first one that achieves it is followed by steps that only add to the trace.\<close>

lemma achieves_check [ach]: "grows m \<Longrightarrow> achieves A (\<lambda>r. r = None) m \<Longrightarrow> achieves A succeeded (check m w)"
  unfolding check_def
  by (rule achieves_bind [where P = "\<lambda>r. r = None"]) (auto intro: achieves_return keeps_emits split: option.split)

lemma achieves_this:
  "grows m \<Longrightarrow> achieves A succeeded m \<Longrightarrow> (\<And>a. grows (f a)) \<Longrightarrow> achieves A succeeded (and_then m f)"
  unfolding and_then_def
  by (rule achieves_bind [where P = succeeded]) (auto intro: keeps_emits achieves_return split: sum.split)

lemma achieves_next: "grows m \<Longrightarrow> (\<And>a. achieves A succeeded (f a)) \<Longrightarrow> achieves A succeeded (and_then m f)"
  unfolding and_then_def by (rule achieves_later) (auto intro: achieves_return split: sum.split)

lemma achieves_locked:
  assumes "grows body" "achieves A Q body" "achieves A Q aborted"
  shows "achieves A Q (with_volume_lock k aborted body)"
proof -
  have "achieves A Q (State_Monad.bind body (\<lambda>r. State_Monad.bind (release k) (\<lambda>_. ret r)))"
    by (rule achieves_bind [OF assms(1,2)])
      (auto intro!: keeps_emits grow.eff_lock_ops achieves_later [OF grow.eff_lock_ops(1)] achieves_return)
  then show ?thesis unfolding with_volume_lock_def
    by (intro achieves_later [OF grow.eff_lock_ops(2)]) (simp add: assms(3))
qed

lemma achieves_backoff:
  assumes "grows m" "achieves A (\<lambda>r. r = (True, None)) m"
  shows "achieves A (\<lambda>r. r = None) (ExponentialBackoff n m)"
proof (induction n)
  case 0
  show ?case by (simp add: achieves_return)
next
  case (Suc n)
  have "achieves A (\<lambda>r. r = None) (case r of (ok, err) \<Rightarrow> if err \<noteq> None \<or> ok then ret err else ExponentialBackoff n m)"
    if "r \<noteq> (True, None)" for r :: "bool \<times> goerr option"
    using that Suc.IH by (cases r) (auto intro: achieves_return)
  then show ?case unfolding ExponentialBackoff.simps
    by (intro achieves_bind [OF assms]) (auto intro: keeps_emits)
qed

lemma achieves_result: "achieves A Q m \<Longrightarrow> Q (result m s) \<Longrightarrow> went_well A s (final m s)"
  by (simp add: achieves_def)

end
