(* ===== verification/Idempotence.thy ===== *)
theory Idempotence
  imports Plans Requests
begin

text \<open>
  Requests that are made again, and requests that follow one another: the sidecar repeats \<open>CreateVolume\<close> until it is
  answered, and deletes a volume by the id it was answered.  The id of a volume in a named account is a function of the
  request, so every repetition is answered with the same id; a repetition that finds the share writes none; and the
  deletion of the id deletes the share that was created, and nothing else.
\<close>

section \<open>The names of a volume\<close>

abbreviation request_parameters :: "create_request \<Rightarrow> smap" where
  "request_parameters req \<equiv>
     map_merge (case cr_Parameters req of None \<Rightarrow> [] | Some m \<Rightarrow> m) (cr_MutableParameters req)"

text \<open>The parameters after the NFS branch and the default resource group.\<close>

definition plan_text :: "config \<Rightarrow> class_text \<Rightarrow> class_text" where
  "plan_text d t =
     (let t' = nfs_text t
      in if ct_resourceGroup t' = [] then t'\<lparr>ct_resourceGroup := cloud_ResourceGroup d\<rparr> else t')"

definition given_share_name :: "env \<Rightarrow> class_text \<Rightarrow> string" where
  "given_share_name E t = replaceWithMap (ct_fileShareName t) (ord E (ct_replaceMap t))"

text \<open>The name a volume without \<open>shareName\<close> gets when nothing of it has to be made up.\<close>

definition short_name :: "class_text \<Rightarrow> string \<Rightarrow> string" where
  "short_name t volName = take fileShareNameMaxLength (ToLower (generated_name t volName))"

definition usable_name :: "class_text \<Rightarrow> string \<Rightarrow> bool" where
  "usable_name t volName \<longleftrightarrow>
     checkShareNameBeginAndEnd (short_name t volName) = Some True \<and> fileShareNameMinLength \<le> length (short_name t volName)"

definition volume_share :: "env \<Rightarrow> class_text \<Rightarrow> string \<Rightarrow> string" where
  "volume_share E t volName =
     (if given_share_name E t \<noteq> [] then given_share_name E t
      else ToLower (ReplaceAll (short_name t volName) ''--'' ''-''))"

definition makes_disk :: "create_request \<Rightarrow> class_text \<Rightarrow> bool" where
  "makes_disk req t \<longleftrightarrow> isDiskFsType (ct_fsType t) \<and> \<not> HasSuffix (ct_diskName t) vhdSuffix \<and> cr_Source req = None"

definition volume_disk :: "env \<Rightarrow> create_request \<Rightarrow> class_text \<Rightarrow> string" where
  "volume_disk E req t =
     (if makes_disk req t then volume_share E t (cr_Name req) @ vhdSuffix else ct_diskName t)"

text \<open>
  No name of the volume is made up: the share has a name or gets a usable one, and a disk is not put on a share with a
  name of its own (the code gives such a disk a random name).
\<close>

definition steady_names :: "env \<Rightarrow> create_request \<Rightarrow> class_text \<Rightarrow> bool" where
  "steady_names E req t \<longleftrightarrow>
     (given_share_name E t \<noteq> [] \<or> usable_name t (cr_Name req)) \<and> (makes_disk req t \<longrightarrow> ct_fileShareName t = [])"

definition expected_volume_id :: "env \<Rightarrow> config \<Rightarrow> create_request \<Rightarrow> class_text \<Rightarrow> string" where
  "expected_volume_id E d req t =
     (let t' = plan_text d t
      in create_volume_id (ct_resourceGroup t') (ct_account t) (volume_share E t' (cr_Name req)) (volume_disk E req t')
           (if ct_fileShareName t \<noteq> [] then cr_Name req else []) (class_namespace t) (ct_subsID t)
           (cloud_SubscriptionID d))"

section \<open>The plan has these names\<close>

lemma plan_text_keeps [simp]:
  "ct_account (plan_text d t) = ct_account t" "ct_fileShareName (plan_text d t) = ct_fileShareName t"
  "ct_subsID (plan_text d t) = ct_subsID t"
  by (simp_all add: plan_text_def nfs_text_def Let_def)

lemma names_ignore_sku [simp]:
  "given_share_name E (t\<lparr>ct_sku := sku\<rparr>) = given_share_name E t"
  "generated_name (t\<lparr>ct_sku := sku\<rparr>) v = generated_name t v"
  "volume_share E (t\<lparr>ct_sku := sku\<rparr>) v = volume_share E t v"
  "volume_disk E req (t\<lparr>ct_sku := sku\<rparr>) = volume_disk E req t"
  "makes_disk req (t\<lparr>ct_sku := sku\<rparr>) \<longleftrightarrow> makes_disk req t"
  "steady_names E req (t\<lparr>ct_sku := sku\<rparr>) \<longleftrightarrow> steady_names E req t"
  by (simp_all add: given_share_name_def volume_share_def volume_disk_def makes_disk_def steady_names_def usable_name_def
      short_name_def Provision.generated_name_def)

lemma getValidFileShareName_usable:
  assumes "usable_name t v"
  shows "getValidFileShareName uuid (generated_name t v) = Some (ToLower (ReplaceAll (short_name t v) ''--'' ''-''))"
proof -
  have "(if length (ToLower (generated_name t v)) > fileShareNameMaxLength
      then take fileShareNameMaxLength (ToLower (generated_name t v)) else ToLower (generated_name t v)) = short_name t v"
    by (simp add: short_name_def)
  with assms show ?thesis by (simp add: getValidFileShareName_def usable_name_def Let_def)
qed

lemma choose_share_name_steady:
  assumes "steady_names E req t"
  shows "yields (answers (\<lambda>n. n = volume_share E t (cr_Name req))) (choose_share_name E t (cr_Name req))"
  using assms getValidFileShareName_usable [of t "cr_Name req"]
  by (auto simp: choose_share_name_def steady_names_def volume_share_def given_share_name_def Let_def intro!: yields_bind)

definition plan_names :: "env \<Rightarrow> config \<Rightarrow> create_request \<Rightarrow> class_text \<Rightarrow> create_plan \<Rightarrow> bool" where
  "plan_names E d req t p \<longleftrightarrow>
     (\<exists>sku. pl_text p = (plan_text d t)\<lparr>ct_sku := sku\<rparr>)
     \<and> pl_validFileShareName p = volume_share E (plan_text d t) (cr_Name req) \<and> pl_namespace p = class_namespace t"

lemma finish_plan_names:
  assumes "steady_names E req (plan_text d t)"
  shows "yields (answers (plan_names E d req t)) (finish_plan E d req (plan_text d t) f https ids ps (class_namespace t))"
proof -
  have n: "yields (answers (\<lambda>n. n = volume_share E (plan_text d t) (cr_Name req)))
      (choose_share_name E ((plan_text d t)\<lparr>ct_sku := sku\<rparr>) (cr_Name req))" for sku
    using choose_share_name_steady [of E req "(plan_text d t)\<lparr>ct_sku := sku\<rparr>"] assms by simp
  show ?thesis unfolding finish_plan_def Let_def
    by (rule yields_bind, rule yields_cases, simp, rule yields_strong [OF n])
      (auto simp: plan_names_def split: sum.split)
qed

lemma plan_volume_names:
  assumes "class_params (initial_text, initial_flags) (ord E ps) = Inr (t, f)" "steady_names E req (plan_text d t)"
  shows "yields (answers (plan_names E d req t)) (plan_volume E d req ps)"
  using finish_plan_names [OF assms(2)] assms(1)
  by (auto simp: plan_volume_def Let_def simp flip: plan_text_def [unfolded Let_def]
      split: option.split intro!: yields_bind)

section \<open>The answer has the expected id\<close>

definition answer_named :: "string \<Rightarrow> create_outcome \<Rightarrow> bool" where
  "answer_named v c \<longleftrightarrow> (case c of Finished r \<Rightarrow> answers (\<lambda>resp. crr_VolumeId resp = v) r | Again _ \<Rightarrow> False)"

lemma answer_named_simps [simp]:
  "answer_named v (Finished r) = answers (\<lambda>resp. crr_VolumeId resp = v) r" "\<not> answer_named v (Again ps)"
  by (simp_all add: answer_named_def)

lemma create_vhd_names:
  assumes "plan_names E d req t p" "steady_names E req (plan_text d t)"
  shows "yields (answers (\<lambda>(diskName, _, _). diskName = volume_disk E req (plan_text d t))) (create_vhd E d req p a k)"
  using assms
  by (auto simp: create_vhd_def Let_def plan_names_def volume_disk_def makes_disk_def steady_names_def
      split: sum.split option.split intro!: yields_bind)

lemma volume_id_of_plan:
  "plan_names E d req t p \<Longrightarrow>
   volume_id_of d req p (ct_account t) (volume_disk E req (plan_text d t)) = expected_volume_id E d req t"
  by (auto simp: volume_id_of_def plan_names_def expected_volume_id_def Let_def)

lemma finish_volume_named:
  assumes "plan_names E d req t p" "steady_names E req (plan_text d t)"
  shows "yields (answers (\<lambda>resp. crr_VolumeId resp = expected_volume_id E d req t))
    (finish_volume E d req p (ct_account t) k)"
  unfolding finish_volume_def using assms(1)
  by (intro answers_then [OF create_vhd_names [OF assms]])
    (auto simp: volume_id_of_plan Let_def split: option.split intro!: yields_bind)

lemma provision_id:
  assumes "plan_names E d req t p" "steady_names E req (plan_text d t)" "ct_account t \<noteq> []"
  shows "yields (answer_named (expected_volume_id E d req t)) (provision E d req p (ct_account t) k l)"
proof -
  have a: "ct_account (pl_text p) \<noteq> []" using assms(1,3) by (auto simp: plan_names_def)
  have step: "yields (\<lambda>c. c \<noteq> ShareRetry) (create_share_step E d req p (ct_account t) l secret)" for secret
    unfolding create_share_step_def using a by (auto intro!: yields_bind split: option.split)
  have after: "yields (answer_named (expected_volume_id E d req t)) (do {
      err \<leftarrow> copy_source E d req p (ct_account t) k' secret;
      (case err of Some e \<Rightarrow> ret (Finished (Inl e))
       | None \<Rightarrow> do { r \<leftarrow> finish_volume E d req p (ct_account t) k'; ret (Finished r) }) })" for secret k'
    by (auto intro!: yields_bind yields_strong [OF finish_volume_named [OF assms(1,2)]] split: option.split)
  show ?thesis unfolding provision_def
    by (rule yields_bind, rule yields_cases, simp, rule yields_cases, rule yields_strong [OF step])
      (auto split: share_outcome.split intro: after)
qed

lemma create_locked_id:
  assumes "class_params (initial_text, initial_flags) (ord E (request_parameters req)) = Inr (t, f)"
    and "ct_account t \<noteq> []" "steady_names E req (plan_text d t)"
  shows "yields (answer_named (expected_volume_id E d req t)) (create_locked E d req)"
  unfolding create_locked_def Let_def
proof (rule answers_then [OF plan_volume_names [OF assms(1,3)]])
  fix p
  assume p: "plan_names E d req t p"
  then have "plan_names E d req t (with_server p a)" for a by (simp add: plan_names_def with_server_def)
  moreover have "ct_account (pl_text p) = ct_account t" using p by (auto simp: plan_names_def)
  ultimately show "yields (answer_named (expected_volume_id E d req t)) (do {
      choice \<leftarrow> choose_account E d req p;
      (case choice of AccountError err \<Rightarrow> ret (Finished (Inl err)) | AccountFull \<Rightarrow> ret (Again (pl_parameters p))
       | AccountChosen n k l \<Rightarrow> provision E d req (with_server p n) n k l) })"
    using assms(2) provision_id [OF _ assms(3,2)] by (simp add: choose_account_def run_simps)
qed simp

lemma created_id:
  assumes "class_params (initial_text, initial_flags) (ord E (request_parameters req)) = Inr (t, f)"
    and "ct_account t \<noteq> []" "steady_names E req (plan_text d t)"
    and "result (CreateVolume fuel E d Cap req) s = Some (Inr resp)"
  shows "crr_VolumeId resp = expected_volume_id E d req t"
proof -
  obtain n where n: "fuel = Suc n" using assms(4) by (cases fuel) (simp_all add: result_def run_simps)
  have "yields (\<lambda>r. \<forall>x. r = Some x \<longrightarrow> answers (\<lambda>resp. crr_VolumeId resp = expected_volume_id E d req t) x)
      (CreateVolume (Suc n) E d Cap req)"
    unfolding CreateVolume.simps
    by (auto split: option.split create_outcome.split
        intro!: yields_locked yields_bind [of _ _ "create_aborted E req"] yields_strong [OF create_locked_id [OF assms(1-3)]])
  with assms(4) n have "answers (\<lambda>resp. crr_VolumeId resp = expected_volume_id E d req t) (Inr resp)"
    unfolding yields_def by blast
  then show ?thesis by simp
qed


text \<open>A request for a disk in the share of a named account.\<close>

definition disk_request :: "(string \<times> string) list \<Rightarrow> create_request" where
  "disk_request ps =
     sample_request\<lparr>cr_Parameters := Some ([(''storageAccount'', ''acc''), (''resourceGroup'', ''rg''), (''fsType'', ''ext4'')] @ ps)\<rparr>"

definition volume_id_answered :: "(goerr + create_response) option \<Rightarrow> string" where
  "volume_id_answered r = (case r of Some (Inr resp) \<Rightarrow> crr_VolumeId resp | _ \<Rightarrow> [])"

definition disk_text :: class_text where
  "disk_text = initial_text\<lparr>ct_account := ''acc'', ct_resourceGroup := ''rg'', ct_fsType := ''ext4''\<rparr>"

lemma disk_request_answered:
  "\<exists>resp. result (CreateVolume 1 (sample_env no_error) sample_config controller_Cap (disk_request [])) initial_state
     = Some (Inr resp)
   \<and> crr_VolumeId resp = ''rg#acc#pvcd-1#pvcd-1.vhd##default''"
proof -
  let ?r = "result (CreateVolume 1 (sample_env no_error) sample_config controller_Cap (disk_request [])) initial_state"
  have "volume_id_answered ?r = ''rg#acc#pvcd-1#pvcd-1.vhd##default''" by code_simp
  then show ?thesis by (cases ?r) (auto simp: volume_id_answered_def split: sum.splits)
qed


text \<open>
  In a share with a name of its own a disk gets a random name: a repetition of the request makes another disk and is
  answered with another volume.
\<close>

lemma named_share_disk_random:
  "let run = (\<lambda>u. volume_id_answered (result (CreateVolume 1 ((sample_env no_error)\<lparr>new_uuid := (\<lambda>_. u)\<rparr>) sample_config
       controller_Cap (disk_request [(''shareName'', ''s'')])) initial_state))
   in run ''u1'' = ''rg#acc#s#u1.vhd#pvc-1#default'' \<and> run ''u2'' = ''rg#acc#s#u2.vhd#pvc-1#default''"
  by code_simp

section \<open>Who writes shares\<close>

text \<open>No request of the node service, no snapshot and no validation of a volume ever asks to create, delete or change a
  share.\<close>

theorem node_requests_write_no_share:
  "emits (\<lambda>c. \<not> writes_share c) s (final (NodeStageVolume E d sreq) s)
   \<and> emits (\<lambda>c. \<not> writes_share c) s (final (NodeUnstageVolume E d v t) s)
   \<and> emits (\<lambda>c. \<not> writes_share c) s (final (NodePublishVolume E d preq) s)
   \<and> emits (\<lambda>c. \<not> writes_share c) s (final (NodeUnpublishVolume E d v t) s)
   \<and> emits (\<lambda>c. \<not> writes_share c) s (final (NodeGetVolumeStats E v t) s)
   \<and> emits (\<lambda>c. \<not> writes_share c) s (final (CreateSnapshot E d src n ps secrets) s)
   \<and> emits (\<lambda>c. \<not> writes_share c) s (final (ValidateVolumeCapabilities E d v caps secrets ctx) s)"
  using still.eff_stage still.eff_unstage still.eff_publish still.eff_unpublish still.eff_stats still.eff_create_snapshot
    still.eff_validate
  by (simp add: keeps_def)

text \<open>C13: a creation that is repeated when its share exists, and copies no source, asks to create, delete or change no share,
  however the account is found and however often it starts again.\<close>

theorem repeated_creation_writes_no_share:
  assumes "share_exists_answers E" "cr_Source req = None"
  shows "emits (\<lambda>c. \<not> writes_share c) s (final (CreateVolume fuel E d Cap req) s)"
proof -
  have "keeps (emits (\<lambda>c. \<not> writes_share c)) (CreateFileShare E d ao so secrets u)" for ao so secrets u
    by (rule keeps_only_emits [OF CreateFileShare_existing [OF assms(1)]])
  then have "keeps (emits (\<lambda>c. \<not> writes_share c)) (CreateVolume fuel E d Cap req)"
    by (rule still.eff_create) (simp add: copy_source_def assms(2) keeps_emits)
  then show ?thesis by (simp add: keeps_def)
qed

theorem repeated_creation_writes_no_share_witness:
  "\<forall>d Cap. emits (\<lambda>c. \<not> writes_share c) initial_state
     (final (CreateVolume 3 (sample_env no_error) d Cap sample_request) initial_state)"
  by (intro allI repeated_creation_writes_no_share sample_share_exists) (simp add: sample_request_def)

section \<open>Creation and deletion\<close>

text \<open>The parts of the id are what the id format needs: without separators, and a disk and a namespace that are file names.\<close>

definition separable :: "env \<Rightarrow> config \<Rightarrow> create_request \<Rightarrow> class_text \<Rightarrow> bool" where
  "separable E d req t \<longleftrightarrow>
     (let t' = plan_text d t in
      no_hash (ct_resourceGroup t') \<and> no_hash (ct_account t) \<and> no_hash (volume_share E t' (cr_Name req))
      \<and> no_hash (volume_disk E req t') \<and> no_hash (cr_Name req) \<and> no_hash (class_namespace t) \<and> no_hash (ct_subsID t)
      \<and> ct_resourceGroup t' \<noteq> [] \<and> validateVolumeIDSegment ''diskName'' (volume_disk E req t') = None
      \<and> validateVolumeIDSegment ''namespace'' (class_namespace t) = None)"

lemma created_id_read:
  assumes "separable E d req t"
  shows "\<exists>i. GetFileShareInfo (expected_volume_id E d req t) = Inr i
    \<and> si_account i = ct_account t \<and> si_share i = volume_share E (plan_text d t) (cr_Name req)"
  using assms unfolding separable_def expected_volume_id_def Let_def
  by (subst GetFileShareInfo_create_volume_id) auto

text \<open>The deletion of a volume by the id its creation was answered with asks to delete the share that was created, in the
  account the request named, and no other share and no snapshot.
\<close>

theorem delete_what_was_created:
  assumes "class_params (initial_text, initial_flags) (ord E (request_parameters req)) = Inr (t, f)"
    and "ct_account t \<noteq> []" "steady_names E req (plan_text d t)" "separable E d req t"
    and "result (CreateVolume fuel E d Cap req) s = Some (Inr resp)"
  shows "emits (deletes_nothing_but (ct_account t) (volume_share E (plan_text d t) (cr_Name req))) s'
    (final (DeleteVolume E' d' controller_Cap (crr_VolumeId resp) secrets) s')"
proof -
  obtain i where i: "GetFileShareInfo (expected_volume_id E d req t) = Inr i" "si_account i = ct_account t"
    "si_share i = volume_share E (plan_text d t) (cr_Name req)"
    using created_id_read [OF assms(4)] by blast
  have "keeps (emits (deletes_only (si_account i) (si_share i))) (DeleteVolume E' d' controller_Cap (expected_volume_id E d req t) secrets)"
    unfolding DeleteVolume_def by (intro eff delete_volume_locked_named [OF i(1)]; simp)
  with created_id [OF assms(1-3,5)] i show ?thesis by (simp add: keeps_def deletes_nothing_but_eq)
qed

theorem delete_what_was_created_witness:
  "\<exists>resp. result (CreateVolume 1 (sample_env no_error) sample_config controller_Cap (disk_request [])) initial_state
     = Some (Inr resp)
   \<and> (\<forall>E secrets s. emits (deletes_nothing_but ''acc'' ''pvcd-1'') s
        (final (DeleteVolume E sample_config controller_Cap (crr_VolumeId resp) secrets) s))"
proof -
  from disk_request_answered obtain resp where
    r: "result (CreateVolume 1 (sample_env no_error) sample_config controller_Cap (disk_request [])) initial_state
      = Some (Inr resp)" by blast
  have "class_params (initial_text, initial_flags) (ord (sample_env no_error) (request_parameters (disk_request [])))
      = Inr (disk_text, initial_flags)" by code_simp
  moreover have "ct_account disk_text \<noteq> []" by (simp add: disk_text_def)
  moreover have "steady_names (sample_env no_error) (disk_request []) (plan_text sample_config disk_text)" by code_simp
  moreover have "separable (sample_env no_error) sample_config (disk_request []) disk_text" by code_simp
  moreover have "ct_account disk_text = ''acc''
      \<and> volume_share (sample_env no_error) (plan_text sample_config disk_text) (cr_Name (disk_request [])) = ''pvcd-1''"
    by code_simp
  ultimately show ?thesis using r delete_what_was_created [of "sample_env no_error" "disk_request []" disk_text initial_flags
      sample_config 1 controller_Cap initial_state resp] by auto
qed

end
