(* ===== verification/ControllerSuccess.thy ===== *)
theory ControllerSuccess
  imports Achieves Idempotence
begin

text \<open>
  What a successful answer of the controller means (\<open>controllerserver.go\<close>): the share of a created volume was found or
  made, the share of a deleted volume was deleted or not there, whichever client was used and however often a call was
  repeated.
\<close>

section \<open>The account a client works on\<close>

fun client_account :: "azureFileClient \<Rightarrow> string" where
  "client_account (DpClient f) = dp_account f"
| "client_account (MgmtClient az) = mc_account az"

text \<open>Secrets, if there are any, with which only the account \<open>a\<close> is reached.\<close>

definition secrets_for :: "string \<Rightarrow> smap \<Rightarrow> bool" where
  "secrets_for a secrets \<longleftrightarrow>
     secrets = [] \<or> (case getStorageAccount (Some secrets) of Inl _ \<Rightarrow> True | Inr (name, _) \<Rightarrow> name = a)"

lemma secrets_for_simps [simp]: "secrets_for a []"
  by (simp add: secrets_for_def)

lemma secrets_for_account:
  "TrimSpace a = a \<Longrightarrow> secrets_for a (createStorageAccountSecret a k)"
  by (simp add: secrets_for_def getStorageAccount_def createStorageAccountSecret_def account_step_def secret_field_defs
      ToLower_def lower_char_def)

lemma new_client_account:
  "yields (answers (\<lambda>f. dp_account f = a)) (newAzureFileClient E a k sfx)"
  "yields (answers (\<lambda>f. dp_account f = a)) (newAzureFileClientWithOAuth E a sfx)"
  "yields (answers (\<lambda>az. mc_account az = a)) (newAzureFileMgmtClient E d su rg a)"
  unfolding newAzureFileClient_def newAzureFileClientWithOAuth_def newAzureFileMgmtClient_def Let_def
  by (auto intro!: yields_bind split: option.split)

lemma select_client_account:
  assumes "secrets_for (ao_Name ao) secrets"
  shows "yields (answers (\<lambda>fc. client_account fc = ao_Name ao)) (select_client E d ao secrets u)"
proof -
  have wrapped: "yields (answers (\<lambda>fc. client_account fc = a)) (do { c \<leftarrow> m; ret (map_sum id g c) })"
    if "yields (answers Q) m" "\<And>x. Q x \<Longrightarrow> client_account (g x) = a"
    for m :: "(goerr + 'x) prog" and g :: "'x \<Rightarrow> azureFileClient" and Q a
    by (rule yields_strong [OF that(1)], rule yields_return) (auto simp: answers_def map_sum_def that(2) split: sum.splits)
  show ?thesis using assms unfolding select_client_def Let_def
    by (auto simp: secrets_for_def intro!: wrapped [OF new_client_account(1)] wrapped [OF new_client_account(2)]
        wrapped [OF new_client_account(3)] split: sum.split)
qed

section \<open>Answers about a share\<close>

text \<open>A creation the code takes as done: no error, or one whose text, as the client wraps it, says that the share exists.\<close>

definition creation_accepted :: "(goerr \<Rightarrow> goerr) \<Rightarrow> goerr option \<Rightarrow> bool" where
  "creation_accepted wrap_err err \<longleftrightarrow> (case err of None \<Rightarrow> True | Some e \<Rightarrow> Contains (err_text (wrap_err e)) ShareAlreadyExists)"

definition share_known :: "env \<Rightarrow> string \<Rightarrow> string \<Rightarrow> ext list \<Rightarrow> ext \<Rightarrow> bool" where
  "share_known E account name tr c =
     (case c of
        Share x \<Rightarrow>
          (case x of
             DpShareGetProperties f n \<Rightarrow> dp_account f = account \<and> n = name \<and> \<not> isl (ans_share E tr c)
           | DpShareCreate f n gib \<Rightarrow> dp_account f = account \<and> n = name \<and> creation_accepted (\<lambda>e. e) (ans_err E tr c)
           | _ \<Rightarrow> False)
      | Rm x \<Rightarrow>
          (case x of
             RmShareGet su rg a n \<Rightarrow> a = account \<and> n = name \<and> \<not> isl (ans_share E tr c)
           | RmShareCreate su rg a n body \<Rightarrow>
               a = account \<and> n = name
               \<and> creation_accepted (Fmterr_wrap ''failed to create share %s in account %s: %w'' [n, a]) (ans_err E tr c)
           | _ \<Rightarrow> False)
      | _ \<Rightarrow> False)"

text \<open>A deletion that succeeded or found nothing to delete; the resource manager was asked at the place given.\<close>

definition share_gone :: "env \<Rightarrow> string \<times> string \<Rightarrow> string \<Rightarrow> string \<Rightarrow> ext list \<Rightarrow> ext \<Rightarrow> bool" where
  "share_gone E place account name tr c =
     ((case c of
         Share x \<Rightarrow> (case x of DpShareDelete f n \<Rightarrow> dp_account f = account \<and> n = name | _ \<Rightarrow> False)
       | Rm x \<Rightarrow> (case x of RmShareDelete su rg a n snapshot \<Rightarrow> (su, rg) = place \<and> a = account \<and> n = name \<and> snapshot = None | _ \<Rightarrow> False)
       | _ \<Rightarrow> False)
      \<and> (case ans_err E tr c of None \<Rightarrow> True | Some e \<Rightarrow> not_found_text e))"

section \<open>Deletion\<close>

text \<open>What a deletion answered, when it got as far as asking.\<close>

definition asked_and_gone :: "goerr + goerr option \<Rightarrow> bool" where
  "asked_and_gone r = (case r of Inl _ \<Rightarrow> False | Inr err \<Rightarrow> (case err of None \<Rightarrow> True | Some e \<Rightarrow> not_found_text e))"

lemma asked_and_gone_simps [simp]:
  "\<not> asked_and_gone (Inl e)" "asked_and_gone (Inr None)" "asked_and_gone (Inr (Some e)) \<longleftrightarrow> not_found_text e"
  by (simp_all add: asked_and_gone_def)

lemma answers_case:
  "answers Q r \<Longrightarrow> (\<And>x. Q x \<Longrightarrow> achieves A P (g x)) \<Longrightarrow> (\<And>e. achieves A P (h e))
     \<Longrightarrow> achieves A P (case r of Inl e \<Rightarrow> h e | Inr x \<Rightarrow> g x)"
  by (cases r) simp_all

lemma delete_request_achieves:
  assumes "\<And>tr. (case ans_err E tr c of None \<Rightarrow> True | Some e \<Rightarrow> not_found_text e) \<Longrightarrow> A tr c"
  shows "achieves A asked_and_gone (do { err \<leftarrow> call (ans_err E) c; ret (Inr err) })"
proof -
  have "achieves A (\<lambda>err. asked_and_gone (Inr err)) (call (ans_err E) c)"
    by (rule achieves_call) (use assms in \<open>auto simp: asked_and_gone_def\<close>)
  then show ?thesis by (rule achieves_bind [rotated]) (auto intro: keeps_emits achieves_return)
qed

lemma client_request_achieves:
  assumes "grows m" "yields (answers (\<lambda>f. dp_account f = a)) m"
  shows "achieves (share_gone E place a n) asked_and_gone (do {
    fileClient \<leftarrow> m;
    (case fileClient of
       Inl rerr \<Rightarrow> ret (Inl rerr)
     | Inr f \<Rightarrow> do { err \<leftarrow> dp_DeleteFileShare E f n; ret (Inr err) }) })"
  by (rule achieves_strong [OF assms(2,1) achieves_never [where Q = "\<lambda>_. False"]])
    (auto simp: dp_DeleteFileShare_def share_gone_def answers_def intro!: achieves_return delete_request_achieves split: sum.split)

lemma delete_call_achieves:
  assumes "secrets_for a secrets"
  shows "achieves (share_gone E (su, rg) a n) asked_and_gone (delete_call E d su rg a n secrets u)"
  unfolding delete_call_def using assms
  by (auto simp: share_gone_def secrets_for_def
      intro!: achieves_later delete_request_achieves client_request_achieves new_client_account achieves_return grow.eff_clients
      split: sum.split option.split prod.split)

lemma delete_achieves:
  assumes "secrets_for a secrets"
  shows "achieves (share_gone E (su, rg) a n) (\<lambda>r. r = None) (DeleteFileShare E d su rg a n secrets u)"
  unfolding DeleteFileShare_def
proof (rule achieves_backoff)
  show g: "grows (delete_share_once E d su rg a n secrets u)"
    unfolding delete_share_once_def delete_call_def dp_DeleteFileShare_def
    by (intro keeps_emits em.keeps_cases grow.eff_clients grow.eff_caches; simp)
  have c: "grows (delete_call E d su rg a n secrets u)"
    unfolding delete_call_def dp_DeleteFileShare_def by (intro keeps_emits em.keeps_cases grow.eff_clients; simp)
  show "achieves (share_gone E (su, rg) a n) (\<lambda>r. r = (True, None)) (delete_share_once E d su rg a n secrets u)"
    unfolding delete_share_once_def
  proof (rule achieves_bind [OF c delete_call_achieves [OF assms]])
    fix r :: "goerr + goerr option"
    let ?f = "case r of Inl rerr \<Rightarrow> ret (True, Some rerr)
      | Inr err \<Rightarrow>
          if (case err of None \<Rightarrow> False | Some e \<Rightarrow> not_found_text e) then ret (True, None)
          else if isRetriableError err
          then (if isThrottlingError err
                then do { cache_set dataPlaneAPIAccountCache a []; ret (True, err) }
                else ret (False, None))
          else ret (True, err)"
    show "grows ?f" by (intro keeps_emits em.keeps_cases)
    show "achieves (share_gone E (su, rg) a n) (\<lambda>r. r = (True, None)) ?f" if "\<not> asked_and_gone r"
      using that by (auto simp: asked_and_gone_def intro!: achieves_return achieves_later keeps_emits split: sum.split option.split)
  qed
qed

lemma data_plane_secrets_account:
  assumes "TrimSpace a = a" "secrets_for a secrets"
  shows "yields (answers (secrets_for a)) (data_plane_secrets E d v a ns secrets u)"
  using assms unfolding data_plane_secrets_def Let_def
  by (auto intro!: yields_bind secrets_for_account split: option.split)

text \<open>The subscription and the resource group a volume is looked for in.\<close>

definition volume_place :: "config \<Rightarrow> share_info \<Rightarrow> string \<times> string" where
  "volume_place d i =
     (if isValidSubscriptionID (si_subs i) then si_subs i else cloud_SubscriptionID d,
      if si_rg i = [] then cloud_ResourceGroup d else si_rg i)"

lemma deletion_asked:
  assumes "GetFileShareInfo v = Inr i" "TrimSpace (si_account i) = si_account i" "secrets_for (si_account i) secrets"
    and "result (DeleteVolume E d Cap v secrets) s = Inr ()"
  shows "went_well (share_gone E (volume_place d i) (si_account i) (si_share i)) s (final (DeleteVolume E d Cap v secrets) s)"
proof (rule achieves_result)
  let ?A = "share_gone E (volume_place d i) (si_account i) (si_share i)"
  have locked: "achieves ?A succeeded (delete_volume_locked E d v secrets)"
  proof -
    have rest: "achieves ?A succeeded (do {
        err \<leftarrow> DeleteFileShare E d su rg a (si_share i) secret u;
        (case err of Some e \<Rightarrow> ret (Inl (f e))
         | None \<Rightarrow> do { _ \<leftarrow> RemoveStorageAccountTag E su rg a t; ret (Inr ()) }) })"
      if "secrets_for a secret" "a = si_account i" "(su, rg) = volume_place d i" for su rg a secret u f t
      unfolding that(2) that(3) [symmetric]
    proof (rule achieves_bind [OF grow.eff_delete_share delete_achieves])
      fix r :: "goerr option"
      let ?g = "case r of Some e \<Rightarrow> ret (Inl (f e))
        | None \<Rightarrow> do { _ \<leftarrow> RemoveStorageAccountTag E su rg (si_account i) t; ret (Inr ()) }"
      show "secrets_for (si_account i) secret" using that by simp
      show "grows ?g" unfolding RemoveStorageAccountTag_def by (intro keeps_emits em.keeps_cases; simp)
      show "r \<noteq> None \<Longrightarrow> achieves (share_gone E (su, rg) (si_account i) (si_share i)) succeeded ?g" by (auto intro!: achieves_return)
    qed
    have place: "(if isValidSubscriptionID (si_subs i) then si_subs i else cloud_SubscriptionID d,
        if si_rg i = [] then cloud_ResourceGroup d else si_rg i) = volume_place d i"
      by (simp add: volume_place_def)
    show ?thesis unfolding delete_volume_locked_def assms(1) sum.case Let_def
      by (rule achieves_later [OF grow.eff_use_data_plane],
          rule achieves_strong [OF data_plane_secrets_account [OF assms(2,3)] grow.eff_data_plane_secrets
            achieves_never [where Q = "\<lambda>_. False"]])
        (simp, simp, erule answers_case, erule rest [OF _ refl place], simp add: achieves_return)
  qed
  have "grows (delete_volume_locked E d v secrets)"
    unfolding delete_volume_locked_def RemoveStorageAccountTag_def
    by (intro keeps_emits em.keeps_cases grow.eff_use_data_plane grow.eff_data_plane_secrets grow.eff_delete_share; simp)
  then show "achieves ?A succeeded (DeleteVolume E d Cap v secrets)"
    unfolding DeleteVolume_def by (auto intro!: achieves_return achieves_locked locked)
qed (simp add: assms(4))

text \<open>C10: when a volume is deleted successfully, with secrets that are the ones of its account if there are any, a request to
  delete the share its id names, in the account (and, on the management API, the resource group and subscription) its id
  names, was answered without an error or by the news that there is no such share.\<close>

theorem deleted_share_gone:
  assumes "GetFileShareInfo v = Inr i" "TrimSpace (si_account i) = si_account i" "secrets_for (si_account i) secrets"
    and "result (DeleteVolume E d Cap v secrets) s = Inr ()"
  shows "went_well (share_gone E (volume_place d i) (si_account i) (si_share i)) s (final (DeleteVolume E d Cap v secrets) s)"
  using assms by (rule deletion_asked)

theorem deleted_share_gone_witness:
  "went_well (share_gone (sample_env no_error) (cloud_SubscriptionID sample_config, ''rg'') ''acc'' ''pvcd-1'') initial_state
     (final (DeleteVolume (sample_env no_error) sample_config controller_Cap ''rg#acc#pvcd-1#pvcd-1.vhd##default'' []) initial_state)"
proof -
  let ?v = "''rg#acc#pvcd-1#pvcd-1.vhd##default''"
  have "(case GetFileShareInfo ?v of
      Inr i \<Rightarrow> si_share i = ''pvcd-1'' \<and> si_account i = ''acc'' \<and> volume_place sample_config i = (cloud_SubscriptionID sample_config, ''rg'')
    | Inl _ \<Rightarrow> False)" by code_simp
  then obtain i where "GetFileShareInfo ?v = Inr i" "si_share i = ''pvcd-1''" "si_account i = ''acc''"
      "volume_place sample_config i = (cloud_SubscriptionID sample_config, ''rg'')"
    by (auto split: sum.splits)
  moreover have "TrimSpace ''acc'' = ''acc''" by code_simp
  moreover have "result (DeleteVolume (sample_env no_error) sample_config controller_Cap ?v []) initial_state = Inr ()"
    by code_simp
  ultimately show ?thesis using deleted_share_gone secrets_for_simps by metis
qed

section \<open>Creation\<close>

lemma quota_achieves:
  "achieves (share_known E (client_account fc) n) succeeded (client_GetFileShareQuota E fc n)"
  "grows (client_GetFileShareQuota E fc n)"
proof -
  have g: "achieves (share_known E a n) succeeded (do {
      r \<leftarrow> call (ans_share E) c; (case r of Inl err \<Rightarrow> ret (Inl err) | Inr props \<Rightarrow> g props) })"
    if "\<And>tr. \<not> isl (ans_share E tr c) \<Longrightarrow> share_known E a n tr c" "\<And>props. grows (g props)"
    for a c and g :: "share_props option \<Rightarrow> (goerr + int) prog"
    by (rule achieves_bind [where P = succeeded])
      (auto intro!: achieves_call that keeps_emits achieves_return split: sum.split)
  show "achieves (share_known E (client_account fc) n) succeeded (client_GetFileShareQuota E fc n)"
    by (cases fc; simp add: dp_GetFileShareQuota_def mgmt_GetFileShareQuota_def; rule g;
        auto simp: share_known_def intro!: keeps_emits split: option.split)
  show "grows (client_GetFileShareQuota E fc n)" by (rule grow.eff_quota)
qed

lemma client_create_achieves:
  "achieves (share_known E (client_account fc) (so_Name so)) (creation_accepted (\<lambda>e. e)) (client_CreateFileShare E fc so)"
  "grows (client_CreateFileShare E fc so)"
proof -
  show "achieves (share_known E (client_account fc) (so_Name so)) (creation_accepted (\<lambda>e. e)) (client_CreateFileShare E fc so)"
  proof (cases fc)
    case (DpClient f)
    then show ?thesis by (auto simp: dp_CreateFileShare_def share_known_def intro!: achieves_call)
  next
    case (MgmtClient az)
    let ?w = "Fmterr_wrap ''failed to create share %s in account %s: %w'' [so_Name so, mc_account az]"
    have "achieves (share_known E (mc_account az) (so_Name so)) (creation_accepted ?w)
        (call (ans_err E) (Rm (RmShareCreate (mc_subs az) (mc_rg az) (mc_account az) (so_Name so) (share_ops so))))"
      by (rule achieves_call) (simp add: share_known_def)
    then show ?thesis unfolding MgmtClient client_CreateFileShare.simps client_account.simps mgmt_CreateFileShare_def
      by (rule achieves_bind [rotated])
        (auto simp: creation_accepted_def intro!: keeps_emits achieves_return split: option.splits)
  qed
  show "grows (client_CreateFileShare E fc so)"
    by (cases fc) (simp_all add: dp_CreateFileShare_def mgmt_CreateFileShare_def keeps_emits)
qed

lemma create_share_achieves:
  assumes "secrets_for (ao_Name ao) secrets"
  shows "achieves (share_known E (ao_Name ao) (so_Name so)) (\<lambda>r. r = None) (CreateFileShare E d ao so secrets u)"
proof -
  have once: "achieves (share_known E (client_account fc) (so_Name so)) (\<lambda>r. r = (True, None))
      (create_share_once E (client_GetFileShareQuota E fc) (client_CreateFileShare E fc) so)" for fc
  proof -
    have created: "achieves (share_known E (client_account fc) (so_Name so)) (\<lambda>r. r = (True, None)) (do {
        err \<leftarrow> client_CreateFileShare E fc so;
        (case err of
           None \<Rightarrow> ret (True, None)
         | Some e \<Rightarrow>
             if Contains (err_text e) ShareAlreadyExists then ret (True, None)
             else if isRetriableError err
             then do { sleep_if_throttled err fileOpThrottlingSleepSec; ret (False, None) }
             else ret (True, err)) })"
      by (rule achieves_bind [OF client_create_achieves(2,1)])
        (auto simp: creation_accepted_def intro!: keeps_emits achieves_return achieves_later grow.eff_sleep split: option.splits)
    show ?thesis unfolding create_share_once_def
      by (rule achieves_bind [OF quota_achieves(2,1)])
        (auto intro!: keeps_emits created split: sum.split)
  qed
  have g: "grows (create_share_once E (client_GetFileShareQuota E fc) (client_CreateFileShare E fc) so)" for fc
    unfolding create_share_once_def
    by (intro keeps_emits em.keeps_cases quota_achieves client_create_achieves grow.eff_sleep)
  have client: "achieves (share_known E (ao_Name ao) (so_Name so)) (\<lambda>r. r = (True, None)) (do {
      fileClient \<leftarrow> select_client E d ao secrets u;
      (case fileClient of
         Inl err \<Rightarrow> ret (True, Some err)
       | Inr fc \<Rightarrow> create_share_once E (client_GetFileShareQuota E fc) (client_CreateFileShare E fc) so) })"
  proof (rule achieves_strong [OF select_client_account [OF assms] grow.eff_select achieves_never [where Q = "\<lambda>_. False"]])
    fix r :: "goerr + azureFileClient"
    assume "answers (\<lambda>fc. client_account fc = ao_Name ao) r"
    moreover have "achieves (share_known E (ao_Name ao) (so_Name so)) (\<lambda>r. r = (True, None))
        (create_share_once E (client_GetFileShareQuota E fc) (client_CreateFileShare E fc) so)"
      if "client_account fc = ao_Name ao" for fc
      using once [of fc] that by simp
    ultimately show "achieves (share_known E (ao_Name ao) (so_Name so)) (\<lambda>r. r = (True, None)) (case r of
        Inl err \<Rightarrow> ret (True, Some err)
      | Inr fc \<Rightarrow> create_share_once E (client_GetFileShareQuota E fc) (client_CreateFileShare E fc) so)"
      by (cases r) (auto intro: achieves_return)
  qed simp_all
  show ?thesis unfolding CreateFileShare_def
    by (intro achieves_backoff client keeps_emits em.keeps_cases grow.eff_select g)
qed

text \<open>A share a source is copied into is left out: for it the code also takes other errors that name an existing share.\<close>

lemma share_step_achieves:
  assumes "cr_Source req = None" "pl_validFileShareName p = n" "ao_Name (pl_options p) = a" "secrets_for a secret"
  shows "achieves (share_known E a n) (\<lambda>r. r = ShareReady) (create_share_step E d req p a l secret)"
proof -
  have create: "achieves (share_known E a n) (\<lambda>r. r = None)
      (CreateFileShare E d (pl_options p) (share_options_of d p) secret (cf_dataPlane (pl_flags p)))"
    using create_share_achieves [of "pl_options p" secret E "share_options_of d p"] assms(2-4) by (simp add: share_options_of_def)
  show ?thesis unfolding create_share_step_def
    by (rule achieves_bind [OF grow.eff_create_share create])
      (auto simp: assms(1) intro!: achieves_return achieves_later keeps_emits grow.eff_skip_account grow.eff_lock_ops
        grow.eff_caches keeps_emits_modify)
qed

definition created :: "create_outcome \<Rightarrow> bool" where
  "created c \<longleftrightarrow> (case c of Finished r \<Rightarrow> \<not> isl r | Again _ \<Rightarrow> False)"

lemma share_credentials_account:
  assumes "TrimSpace a = a" "secrets_for a (cr_Secrets req)"
  shows "yields (answers (\<lambda>(secret, _). secrets_for a secret)) (share_credentials E d req p a k)"
  unfolding share_credentials_def Let_def using assms(2) secrets_for_account [OF assms(1)]
  by (auto intro!: yields_bind split: sum.split)

lemma provision_achieves:
  assumes "cr_Source req = None" "pl_validFileShareName p = n" "ao_Name (pl_options p) = a"
    and "TrimSpace a = a" "secrets_for a (cr_Secrets req)"
  shows "achieves (share_known E a n) created (provision E d req p a k l)"
proof -
  let ?rest = "\<lambda>secret k c. case c of
      ShareFailed err \<Rightarrow> ret (Finished (Inl err)) | ShareRetry \<Rightarrow> ret (Again (pl_parameters p))
    | ShareReady \<Rightarrow> do {
        err \<leftarrow> copy_source E d req p a k secret;
        (case err of Some e \<Rightarrow> ret (Finished (Inl e))
         | None \<Rightarrow> do { r \<leftarrow> finish_volume E d req p a k; ret (Finished r) }) }"
  have step: "achieves (share_known E a n) created (State_Monad.bind (create_share_step E d req p a l secret) (?rest secret k))"
    if "secrets_for a secret" for secret k
  proof (rule achieves_bind [OF _ share_step_achieves [OF assms(1-3) that]])
    show "grows (create_share_step E d req p a l secret)" by (rule grow.eff_share_step) (rule grow.eff_create_share)
    show "grows (?rest secret k c)" for c
      by (cases c) (auto intro!: keeps_emits grow.eff_copy_source grow.eff_finish split: option.split)
    show "c \<noteq> ShareReady \<Longrightarrow> achieves (share_known E a n) created (?rest secret k c)" for c
      by (cases c) (auto simp: created_def intro!: achieves_return)
  qed
  show ?thesis unfolding provision_def
    by (rule achieves_strong [OF share_credentials_account [OF assms(4,5)] grow.eff_share_credentials achieves_never [where Q = "\<lambda>_. False"]])
      (auto simp: created_def [of "Finished _"] intro!: achieves_return step split: sum.split)
qed

lemma planned_names:
  assumes "plan_names E d req t p"
  shows "ct_account (pl_text p) = ct_account t"
    "pl_validFileShareName (with_server p a) = volume_share E (plan_text d t) (cr_Name req)"
    "ao_Name (pl_options (with_server p a)) = a"
  using assms by (auto simp: plan_names_def with_server_def)

lemma create_locked_achieves:
  assumes "class_params (initial_text, initial_flags) (ord E (request_parameters req)) = Inr (t, f)"
    and "ct_account t \<noteq> []" "steady_names E req (plan_text d t)" "cr_Source req = None"
    and "TrimSpace (ct_account t) = ct_account t" "secrets_for (ct_account t) (cr_Secrets req)"
  shows "achieves (share_known E (ct_account t) (volume_share E (plan_text d t) (cr_Name req))) created (create_locked E d req)"
proof -
  let ?a = "ct_account t" and ?n = "volume_share E (plan_text d t) (cr_Name req)"
  have go: "achieves (share_known E ?a ?n) created (do {
      choice \<leftarrow> choose_account E d req p;
      (case choice of AccountError err \<Rightarrow> ret (Finished (Inl err)) | AccountFull \<Rightarrow> ret (Again (pl_parameters p))
       | AccountChosen a k l \<Rightarrow> provision E d req (with_server p a) a k l) })" if p: "plan_names E d req t p" for p
    using assms(2) planned_names [OF p] provision_achieves [OF assms(4) _ _ assms(5,6), where p = "with_server p ?a"]
    by (simp add: choose_account_def run_simps)
  show ?thesis unfolding create_locked_def Let_def
  proof (rule achieves_strong [OF plan_volume_names [OF assms(1,3)] grow.eff_plan achieves_never [where Q = "\<lambda>_. False"]])
    fix r
    assume r: "answers (plan_names E d req t) r"
    then show "achieves (share_known E ?a ?n) created (case r of
        Inl err \<Rightarrow> ret (Finished (Inl err))
      | Inr p \<Rightarrow> do {
          choice \<leftarrow> choose_account E d req p;
          (case choice of AccountError err \<Rightarrow> ret (Finished (Inl err)) | AccountFull \<Rightarrow> ret (Again (pl_parameters p))
           | AccountChosen a k l \<Rightarrow> provision E d req (with_server p a) a k l) })"
      by (cases r) (auto simp: created_def [of "Finished _"] intro: achieves_return go)
  qed simp_all
qed

lemma creation_shown:
  assumes "class_params (initial_text, initial_flags) (ord E (request_parameters req)) = Inr (t, f)"
    and "ct_account t \<noteq> []" "steady_names E req (plan_text d t)" "cr_Source req = None"
    and "TrimSpace (ct_account t) = ct_account t" "secrets_for (ct_account t) (cr_Secrets req)"
    and "result (CreateVolume fuel E d Cap req) s = Some (Inr resp)"
  shows "went_well (share_known E (ct_account t) (volume_share E (plan_text d t) (cr_Name req))) s (final (CreateVolume fuel E d Cap req) s)"
proof (rule achieves_result)
  let ?A = "share_known E (ct_account t) (volume_share E (plan_text d t) (cr_Name req))"
    and ?done = "\<lambda>r. \<exists>resp. r = Some (Inr resp)"
  obtain n where n: "fuel = Suc n" using assms(7) by (cases fuel) (simp_all add: result_def run_simps)
  have g: "grows (create_locked E d req)" by (intro grow.eff_create_locked grow.eff_create_share grow.eff_copy_source)
  have c: "grows (CreateVolume n E d Cap r)" for r by (intro grow.eff_create grow.eff_create_share grow.eff_copy_source)
  have body: "achieves ?A ?done (do {
      outcome \<leftarrow> create_locked E d req;
      (case outcome of Finished r \<Rightarrow> ret (Some r)
       | Again parameters \<Rightarrow> CreateVolume n E d Cap (req\<lparr>cr_Parameters := map_option (\<lambda>_. parameters) (cr_Parameters req)\<rparr>)) })"
    by (rule achieves_strong [OF create_locked_id [OF assms(1-3)] g create_locked_achieves [OF assms(1-6)]])
      (auto simp: created_def isl_def intro!: keeps_emits c achieves_return split: create_outcome.splits)
  show "achieves ?A ?done (CreateVolume fuel E d Cap req)"
    unfolding n CreateVolume.simps
    by (auto intro!: achieves_return achieves_locked body achieves_later grow.eff_create_aborted keeps_emits g c
        split: option.split create_outcome.split)
qed (simp add: assms(7))

text \<open>C9: when a volume without a source is created successfully in a named account, with secrets that are the account's if
  there are any, its share was found in the account by a lookup, or its creation there was asked for and answered as done: no
  volume is answered whose share was not seen.\<close>

theorem created_share_known:
  assumes "class_params (initial_text, initial_flags) (ord E (request_parameters req)) = Inr (t, f)"
    and "ct_account t \<noteq> []" "steady_names E req (plan_text d t)" "cr_Source req = None"
    and "TrimSpace (ct_account t) = ct_account t" "secrets_for (ct_account t) (cr_Secrets req)"
    and "result (CreateVolume fuel E d Cap req) s = Some (Inr resp)"
  shows "went_well (share_known E (ct_account t) (volume_share E (plan_text d t) (cr_Name req))) s (final (CreateVolume fuel E d Cap req) s)"
  using assms by (rule creation_shown)

theorem created_share_known_witness:
  "went_well (share_known (sample_env no_error) ''acc'' ''pvc-1'') initial_state
     (final (CreateVolume 1 (sample_env no_error) sample_config controller_Cap
        (sample_request\<lparr>cr_Parameters := Some [(''storageAccount'', ''acc'')]\<rparr>)) initial_state)"
proof -
  let ?E = "sample_env no_error" and ?req = "sample_request\<lparr>cr_Parameters := Some [(''storageAccount'', ''acc'')]\<rparr>"
  let ?r = "result (CreateVolume 1 ?E sample_config controller_Cap ?req) initial_state"
  let ?t = "initial_text\<lparr>ct_account := ''acc''\<rparr>"
  have "volume_id_answered ?r \<noteq> []" by code_simp
  then obtain resp where r: "?r = Some (Inr resp)" by (auto simp: volume_id_answered_def split: option.splits sum.splits)
  have "class_params (initial_text, initial_flags) (ord ?E (request_parameters ?req)) = Inr (?t, initial_flags)" by code_simp
  moreover have "steady_names ?E ?req (plan_text sample_config ?t)" by code_simp
  moreover have "volume_share ?E (plan_text sample_config ?t) (cr_Name ?req) = ''pvc-1''" by code_simp
  moreover have "ct_account ?t = ''acc''" "cr_Source ?req = None" "cr_Secrets ?req = []" by (simp_all add: sample_request_def)
  moreover have "TrimSpace ''acc'' = ''acc''" by code_simp
  ultimately show ?thesis using created_share_known [OF _ _ _ _ _ _ r] by (metis secrets_for_simps list.distinct(1))
qed

end
