(* ===== verification/Histories.thy ===== *)
theory Histories
  imports Achieves
begin

text \<open>
  Histories: requests served one after the other, an abstract state that is read off the trace, and what a refinement of
  an abstract specification is.  \<open>replay\<close> runs a step over the calls of a trace with the answers they had; the locale
  \<open>refinement\<close> carries what one request does to a history, and an invariant of the specification to the driver.
\<close>

section \<open>States read off the trace\<close>

fun replay :: "(ext list \<Rightarrow> ext \<Rightarrow> 'a \<Rightarrow> 'a) \<Rightarrow> 'a \<Rightarrow> ext list \<Rightarrow> ext list \<Rightarrow> 'a" where
  "replay step S tr [] = S"
| "replay step S tr (c # cs) = replay step (step tr c S) (tr @ [c]) cs"

definition seen :: "(ext list \<Rightarrow> ext \<Rightarrow> 'a \<Rightarrow> 'a) \<Rightarrow> 'a \<Rightarrow> drv \<Rightarrow> 'a" where
  "seen step S s = replay step S [] (trace s)"

lemma replay_append: "replay step S tr (xs @ ys) = replay step (replay step S tr xs) (tr @ xs) ys"
  by (induction xs arbitrary: S tr) simp_all

lemma seen_append: "trace t = trace s @ evs \<Longrightarrow> seen step S t = replay step (seen step S s) (trace s) evs"
  by (simp add: seen_def replay_append)

lemma replay_same: "(\<And>tr c S. step tr c S = step' tr c S) \<Longrightarrow> replay step S tr cs = replay step' S tr cs"
  by (induction cs arbitrary: S tr) simp_all

text \<open>What every step over the calls of a kind keeps, from the first state to the last.\<close>

lemma replay_keeps:
  assumes "list_all P cs" "\<And>tr c S. P c \<Longrightarrow> I S \<Longrightarrow> I (step tr c S)" "I S"
  shows "I (replay step S tr cs)"
  using assms(1,3) by (induction cs arbitrary: S tr) (simp_all add: assms(2))

lemma seen_keeps:
  assumes "emits P s t" "\<And>tr c S. P c \<Longrightarrow> I S \<Longrightarrow> I (step tr c S)" "I (seen step S s)"
  shows "I (seen step S t)"
  using assms(1) replay_keeps [of P _ I step, OF _ assms(2,3)] by (auto simp: emits_def seen_append)

text \<open>A call that went well is a step of the replay; what it brings about is kept by the calls after it.\<close>

lemma seen_went_well:
  assumes "went_well A s t" "emits P s t"
    and "\<And>tr c. A tr c \<Longrightarrow> I (step tr c (replay step S [] tr))" "\<And>tr c S. P c \<Longrightarrow> I S \<Longrightarrow> I (step tr c S)"
  shows "I (seen step S t)"
proof -
  obtain b c l where t: "trace t = trace s @ b @ c # l" and c: "A (trace s @ b) c" using assms(1) by (auto simp: went_well_def)
  then have "list_all P l" using assms(2) by (auto simp: emits_def)
  moreover have "seen step S t = replay step (step (trace s @ b) c (replay step S [] (trace s @ b))) (trace s @ b @ [c]) l"
    unfolding seen_def t by (simp add: replay_append)
  ultimately show ?thesis using replay_keeps [where P = P and I = I, OF _ assms(4) assms(3) [OF c]] by simp
qed

section \<open>Histories of requests\<close>

text \<open>The requests of a history, served one after the other; the number of a creation is its fuel.\<close>

datatype rpc =
    CreateRpc nat create_request
  | DeleteRpc string smap
  | ExpandRpc string int smap
  | ModifyRpc string smap smap
  | ValidateRpc string "volume_capability list" smap smap
  | CreateSnapshotRpc string string smap smap
  | DeleteSnapshotRpc string smap
  | StageRpc stage_request
  | UnstageRpc string string
  | PublishRpc publish_request
  | UnpublishRpc string string
  | StatsRpc string string

definition answered_well :: "(goerr + 'a) prog \<Rightarrow> bool prog" where
  "answered_well m = do { r \<leftarrow> m; ret (\<not> isl r) }"

fun serve :: "env \<Rightarrow> config \<Rightarrow> rpc_type list \<Rightarrow> rpc \<Rightarrow> bool prog" where
  "serve E d Cap (CreateRpc fuel req) =
     do { r \<leftarrow> CreateVolume fuel E d Cap req; ret (case r of None \<Rightarrow> False | Some r' \<Rightarrow> \<not> isl r') }"
| "serve E d Cap (DeleteRpc v secrets) = answered_well (DeleteVolume E d Cap v secrets)"
| "serve E d Cap (ExpandRpc v q secrets) = answered_well (ControllerExpandVolume E d Cap v q secrets)"
| "serve E d Cap (ModifyRpc v ps secrets) = answered_well (ControllerModifyVolume E d Cap v ps secrets)"
| "serve E d Cap (ValidateRpc v caps secrets ctx) = answered_well (ValidateVolumeCapabilities E d v caps secrets ctx)"
| "serve E d Cap (CreateSnapshotRpc v n ps secrets) = answered_well (CreateSnapshot E d v n ps secrets)"
| "serve E d Cap (DeleteSnapshotRpc v secrets) = answered_well (DeleteSnapshot E d v secrets)"
| "serve E d Cap (StageRpc req) = answered_well (NodeStageVolume E d req)"
| "serve E d Cap (UnstageRpc v t) = answered_well (NodeUnstageVolume E d v t)"
| "serve E d Cap (PublishRpc req) = answered_well (NodePublishVolume E d req)"
| "serve E d Cap (UnpublishRpc v t) = answered_well (NodeUnpublishVolume E d v t)"
| "serve E d Cap (StatsRpc v t) = answered_well (NodeGetVolumeStats E v t)"

fun serve_all :: "env \<Rightarrow> config \<Rightarrow> rpc_type list \<Rightarrow> rpc list \<Rightarrow> bool list prog" where
  "serve_all E d Cap [] = ret []"
| "serve_all E d Cap (r # rs) = do { ok \<leftarrow> serve E d Cap r; oks \<leftarrow> serve_all E d Cap rs; ret (ok # oks) }"

lemma answered_well_run: "result (answered_well m) s = (\<not> isl (result m s))" "final (answered_well m) s = final m s"
  by (simp_all add: answered_well_def result_def final_def run_simps split: prod.split)

section \<open>Refinement\<close>

text \<open>The runs of a specification, given as what a request may do, by whether it was answered with success.\<close>

inductive abstract_run :: "(rpc \<Rightarrow> bool \<Rightarrow> 'a \<Rightarrow> 'a \<Rightarrow> bool) \<Rightarrow> rpc list \<Rightarrow> bool list \<Rightarrow> 'a \<Rightarrow> 'a \<Rightarrow> bool" for event where
  Done: "abstract_run event [] [] S S"
| Next: "event r ok S S' \<Longrightarrow> abstract_run event rs oks S' S'' \<Longrightarrow> abstract_run event (r # rs) (ok # oks) S S''"

lemma abstract_run_keeps:
  assumes "abstract_run event rs oks S S'" "list_all P rs" "I S"
    and "\<And>r ok S S'. event r ok S S' \<Longrightarrow> P r \<Longrightarrow> I S \<Longrightarrow> I S'"
  shows "I S'"
  using assms(1-3) by (induction rule: abstract_run.induct) (auto intro: assms(4))

locale refinement =
  fixes E :: env and d :: config and Cap :: "rpc_type list"
    and view :: "drv \<Rightarrow> 'a" and scope :: "rpc \<Rightarrow> bool" and event :: "rpc \<Rightarrow> bool \<Rightarrow> 'a \<Rightarrow> 'a \<Rightarrow> bool"
  assumes served: "scope r \<Longrightarrow> event r (result (serve E d Cap r) s) (view s) (view (final (serve E d Cap r) s))"
begin

lemma refines:
  "list_all scope rs
     \<Longrightarrow> abstract_run event rs (result (serve_all E d Cap rs) s) (view s) (view (final (serve_all E d Cap rs) s))"
proof (induction rs arbitrary: s)
  case Nil
  show ?case by (simp add: result_def final_def run_simps Done)
next
  case (Cons r rs)
  obtain ok t where r: "run_state (serve E d Cap r) s = (ok, t)" by (cases "run_state (serve E d Cap r) s")
  have "event r ok (view s) (view t)" using served [of r s] Cons.prems r by (simp add: result_def final_def)
  moreover have "abstract_run event rs (result (serve_all E d Cap rs) t) (view t) (view (final (serve_all E d Cap rs) t))"
    using Cons by simp
  ultimately show ?case using r by (auto simp: result_def final_def run_simps intro!: Next split: prod.splits)
qed

lemma keeps_invariant:
  "list_all scope rs \<Longrightarrow> list_all P rs \<Longrightarrow> (\<And>r ok S S'. event r ok S S' \<Longrightarrow> P r \<Longrightarrow> I S \<Longrightarrow> I S') \<Longrightarrow> I (view s)
     \<Longrightarrow> I (view (final (serve_all E d Cap rs) s))"
  by (rule abstract_run_keeps [OF refines])

end

end
