(* ===== verification/Cloud.thy ===== *)
theory Cloud
  imports ControllerSuccess Histories
begin

text \<open>
  The abstract specification of the controller: the shares of the cloud are a set of pairs of an account and a name, a
  creation adds one pair, a deletion takes one away, and everything else leaves the set alone.  The set is read off the
  trace: the creations and deletions Azure answered without an error.  \<open>honest\<close> states what is documented of Azure's
  answers about shares, when nobody but the driver writes them.
\<close>

section \<open>The shares of the cloud\<close>

type_synonym cloud = "(string \<times> string) set"

definition cloud_step :: "env \<Rightarrow> ext list \<Rightarrow> ext \<Rightarrow> cloud \<Rightarrow> cloud" where
  "cloud_step E tr c S =
     (if ans_err E tr c \<noteq> None then S
      else case c of
        Share x \<Rightarrow>
          (case x of
             DpShareCreate f n gib \<Rightarrow> insert (dp_account f, n) S
           | DpShareDelete f n \<Rightarrow> S - {(dp_account f, n)}
           | _ \<Rightarrow> S)
      | Rm x \<Rightarrow>
          (case x of
             RmShareCreate su rg a n body \<Rightarrow> insert (a, n) S
           | RmShareDelete su rg a n snapshot \<Rightarrow> if snapshot = None then S - {(a, n)} else S
           | _ \<Rightarrow> S)
      | _ \<Rightarrow> S)"

abbreviation cloud_from :: "env \<Rightarrow> cloud \<Rightarrow> ext list \<Rightarrow> ext list \<Rightarrow> cloud" where
  "cloud_from E \<equiv> replay (cloud_step E)"

abbreviation shares_of :: "env \<Rightarrow> cloud \<Rightarrow> drv \<Rightarrow> cloud" where
  "shares_of E \<equiv> seen (cloud_step E)"

text \<open>A call that writes no share but the given one, and how.\<close>

definition creates_only :: "string \<Rightarrow> string \<Rightarrow> ext \<Rightarrow> bool" where
  "creates_only a n c =
     (case c of
        Share (DpShareCreate f m gib) \<Rightarrow> dp_account f = a \<and> m = n
      | Rm (RmShareCreate su rg a' m body) \<Rightarrow> a' = a \<and> m = n
      | _ \<Rightarrow> \<not> writes_share c)"

definition removes_only_share :: "string \<Rightarrow> string \<Rightarrow> ext \<Rightarrow> bool" where
  "removes_only_share a n c =
     (case c of
        Share (DpShareDelete f m) \<Rightarrow> dp_account f = a \<and> m = n
      | Rm (RmShareDelete su rg a' m snapshot) \<Rightarrow> a' = a \<and> m = n
      | _ \<Rightarrow> \<not> writes_share c)"

lemma cloud_step_still: "\<not> writes_share c \<Longrightarrow> cloud_step E tr c S = S"
  by (cases c) (auto simp: cloud_step_def writes_share_def creates_share_def deletes_share_def split: share_ext.splits rm_ext.splits)

lemma cloud_step_creates: "creates_only a n c \<Longrightarrow> cloud_step E tr c S = S \<or> cloud_step E tr c S = insert (a, n) S"
  by (cases c) (auto simp: cloud_step_def creates_only_def split: share_ext.splits rm_ext.splits)

lemma cloud_step_removes: "removes_only_share a n c \<Longrightarrow> cloud_step E tr c S = S \<or> cloud_step E tr c S = S - {(a, n)}"
  by (cases c) (auto simp: cloud_step_def removes_only_share_def split: share_ext.splits rm_ext.splits)

lemma creates_only_shares:
  assumes "emits (creates_only a n) s t"
  shows "shares_of E S t = shares_of E S s \<or> shares_of E S t = insert (a, n) (shares_of E S s)"
proof (rule seen_keeps [OF assms, where I = "\<lambda>T. T = shares_of E S s \<or> T = insert (a, n) (shares_of E S s)"])
  show "cloud_step E tr c T = shares_of E S s \<or> cloud_step E tr c T = insert (a, n) (shares_of E S s)"
    if "creates_only a n c" "T = shares_of E S s \<or> T = insert (a, n) (shares_of E S s)" for tr c T
    using cloud_step_creates [OF that(1), of E tr T] that(2) by (elim disjE) simp_all
qed simp

lemma removes_only_shares:
  assumes "emits (removes_only_share a n) s t"
  shows "shares_of E S t = shares_of E S s \<or> shares_of E S t = shares_of E S s - {(a, n)}"
proof (rule seen_keeps [OF assms, where I = "\<lambda>T. T = shares_of E S s \<or> T = shares_of E S s - {(a, n)}"])
  show "cloud_step E tr c T = shares_of E S s \<or> cloud_step E tr c T = shares_of E S s - {(a, n)}"
    if "removes_only_share a n c" "T = shares_of E S s \<or> T = shares_of E S s - {(a, n)}" for tr c T
    using cloud_step_removes [OF that(1), of E tr T] that(2) by (elim disjE) simp_all
qed simp

section \<open>What Azure answers\<close>

text \<open>
  A lookup that succeeds and a creation refused because the share exists show a share that is there; a deletion refused
  because there is no such share, where the account lives if the resource manager was asked, shows one that is not.
\<close>

definition honest :: "env \<Rightarrow> (string \<Rightarrow> string \<times> string) \<Rightarrow> cloud \<Rightarrow> bool" where
  "honest E home S \<longleftrightarrow>
     (\<forall>tr f n. \<not> isl (ans_share E tr (Share (DpShareGetProperties f n))) \<longrightarrow> (dp_account f, n) \<in> cloud_from E S [] tr)
   \<and> (\<forall>tr su rg a n. \<not> isl (ans_share E tr (Rm (RmShareGet su rg a n))) \<longrightarrow> (a, n) \<in> cloud_from E S [] tr)
   \<and> (\<forall>tr f n gib e. ans_err E tr (Share (DpShareCreate f n gib)) = Some e \<longrightarrow> Contains (err_text e) ShareAlreadyExists
        \<longrightarrow> (dp_account f, n) \<in> cloud_from E S [] tr)
   \<and> (\<forall>tr su rg a n body e. ans_err E tr (Rm (RmShareCreate su rg a n body)) = Some e
        \<longrightarrow> Contains (err_text (Fmterr_wrap ''failed to create share %s in account %s: %w'' [n, a] e)) ShareAlreadyExists
        \<longrightarrow> (a, n) \<in> cloud_from E S [] tr)
   \<and> (\<forall>tr f n e. ans_err E tr (Share (DpShareDelete f n)) = Some e \<longrightarrow> not_found_text e \<longrightarrow> (dp_account f, n) \<notin> cloud_from E S [] tr)
   \<and> (\<forall>tr su rg a n e. ans_err E tr (Rm (RmShareDelete su rg a n None)) = Some e \<longrightarrow> not_found_text e \<longrightarrow> (su, rg) = home a
        \<longrightarrow> (a, n) \<notin> cloud_from E S [] tr)"

lemma honest_known:
  assumes "honest E home S" "share_known E a n tr c"
  shows "(a, n) \<in> cloud_step E tr c (cloud_from E S [] tr)"
  using assms unfolding share_known_def
  by (cases c) (auto simp: honest_def cloud_step_def creation_accepted_def split: share_ext.splits rm_ext.splits option.splits)

lemma honest_gone:
  assumes "honest E home S" "share_gone E (home a) a n tr c"
  shows "(a, n) \<notin> cloud_step E tr c (cloud_from E S [] tr)"
  using assms unfolding share_gone_def
  by (cases c) (auto simp: honest_def cloud_step_def split: share_ext.splits rm_ext.splits option.splits)

lemma known_shares:
  assumes "honest E home S" "went_well (share_known E a n) s t" "emits (creates_only a n) s t"
  shows "shares_of E S t = insert (a, n) (shares_of E S s)"
proof -
  have "(a, n) \<in> shares_of E S t"
  proof (rule seen_went_well [OF assms(2,3)])
    show "(a, n) \<in> cloud_step E tr c T" if "creates_only a n c" "(a, n) \<in> T" for tr c T
      using cloud_step_creates [OF that(1), of E tr T] that(2) by auto
  qed (rule honest_known [OF assms(1)])
  then show ?thesis using creates_only_shares [OF assms(3), of E S] by auto
qed

lemma gone_shares:
  assumes "honest E home S" "went_well (share_gone E (home a) a n) s t" "emits (removes_only_share a n) s t"
  shows "shares_of E S t = shares_of E S s - {(a, n)}"
proof -
  have "(a, n) \<notin> shares_of E S t"
  proof (rule seen_went_well [OF assms(2,3)])
    show "(a, n) \<notin> cloud_step E tr c T" if "removes_only_share a n c" "(a, n) \<notin> T" for tr c T
      using cloud_step_removes [OF that(1), of E tr T] that(2) by auto
  qed (rule honest_gone [OF assms(1)])
  then show ?thesis using removes_only_shares [OF assms(3), of E S] by auto
qed

section \<open>The requests write no other share\<close>

lemma only_share_simps [simp]:
  "\<not> writes_share c \<Longrightarrow> creates_only a n c" "\<not> writes_share c \<Longrightarrow> removes_only_share a n c"
  "creates_only a n (Share (DpShareCreate f m gib)) \<longleftrightarrow> dp_account f = a \<and> m = n"
  "creates_only a n (Rm (RmShareCreate su rg a' m body)) \<longleftrightarrow> a' = a \<and> m = n"
  "removes_only_share a n (Share (DpShareDelete f m)) \<longleftrightarrow> dp_account f = a \<and> m = n"
  "removes_only_share a n (Rm (RmShareDelete su rg a' m None)) \<longleftrightarrow> a' = a \<and> m = n"
  by (simp_all add: creates_only_def removes_only_share_def writes_share_def creates_share_def deletes_share_def
      split: ext.splits share_ext.splits rm_ext.splits)

interpretation add: trace_effects "emits (creates_only a n)" "creates_only a n" for a n
  by unfold_locales (auto simp: emits_def)

interpretation take_away: trace_effects "emits (removes_only_share a n)" "removes_only_share a n" for a n
  by unfold_locales (auto simp: emits_def)

lemma create_share_adds:
  assumes "secrets_for (ao_Name ao) secrets"
  shows "keeps (emits (creates_only (ao_Name ao) (so_Name so))) (CreateFileShare E d ao so secrets u)"
proof -
  have create: "keeps (emits (creates_only (client_account fc) (so_Name so))) (client_CreateFileShare E fc so)" for fc
    by (cases fc) (auto simp: dp_CreateFileShare_def mgmt_CreateFileShare_def intro!: keeps_emits)
  have once: "keeps (emits (creates_only (client_account fc) (so_Name so)))
      (create_share_once E (client_GetFileShareQuota E fc) (client_CreateFileShare E fc) so)" for fc
    unfolding create_share_once_def by (intro add.eff_quota keeps_emits em.keeps_cases add.eff_sleep create)
  have "keeps (emits (creates_only (ao_Name ao) (so_Name so))) (do {
      fileClient \<leftarrow> select_client E d ao secrets u;
      (case fileClient of
         Inl err \<Rightarrow> ret (True, Some err)
       | Inr fc \<Rightarrow> create_share_once E (client_GetFileShareQuota E fc) (client_CreateFileShare E fc) so) })"
  proof (rule keeps_emits_after [OF add.eff_select select_client_account [OF assms]])
    fix r
    assume "answers (\<lambda>fc. client_account fc = ao_Name ao) r"
    then show "keeps (emits (creates_only (ao_Name ao) (so_Name so))) (case r of Inl err \<Rightarrow> ret (True, Some err)
       | Inr fc \<Rightarrow> create_share_once E (client_GetFileShareQuota E fc) (client_CreateFileShare E fc) so)"
      by (cases r) (use once in \<open>auto intro: keeps_emits\<close>, metis once)
  qed
  then show ?thesis unfolding CreateFileShare_def by (rule keeps_emits)
qed

lemma share_step_adds:
  assumes "pl_validFileShareName p = n" "ao_Name (pl_options p) = a" "secrets_for a secret"
  shows "keeps (emits (creates_only a n)) (create_share_step E d req p a l secret)"
proof -
  have "keeps (emits (creates_only a n)) (CreateFileShare E d (pl_options p) (share_options_of d p) secret u)" for u
    using create_share_adds [where ao = "pl_options p" and so = "share_options_of d p"] assms by (simp add: share_options_of_def)
  then show ?thesis unfolding create_share_step_def
    by (intro keeps_emits em.keeps_cases add.eff_skip_account add.eff_lock_ops add.eff_caches keeps_emits_modify; simp)
qed

lemma provision_adds:
  assumes "cr_Source req = None" "pl_validFileShareName p = n" "ao_Name (pl_options p) = a"
    and "TrimSpace a = a" "secrets_for a (cr_Secrets req)"
  shows "keeps (emits (creates_only a n)) (provision E d req p a k l)"
  unfolding provision_def copy_source_def assms(1) option.case
proof (rule keeps_emits_after [OF add.eff_share_credentials share_credentials_account [OF assms(4,5)]], goal_cases)
  case (1 r)
  show ?case
  proof (cases r)
    case (Inr secret)
    then show ?thesis using 1 by (cases secret)
      (auto intro!: keeps_emits em.keeps_cases add.eff_outcomes share_step_adds [OF assms(2,3)] add.eff_finish split: option.split)
  qed (simp add: keeps_emits)
qed

text \<open>A creation in scope: a named account, names that are not made up, no source, and the account's own secrets.\<close>

definition named_create :: "env \<Rightarrow> config \<Rightarrow> create_request \<Rightarrow> class_text \<Rightarrow> bool" where
  "named_create E d req t \<longleftrightarrow>
     (case class_params (initial_text, initial_flags) (ord E (request_parameters req)) of Inl _ \<Rightarrow> False | Inr (t', _) \<Rightarrow> t' = t)
     \<and> ct_account t \<noteq> [] \<and> steady_names E req (plan_text d t) \<and> cr_Source req = None
     \<and> TrimSpace (ct_account t) = ct_account t \<and> secrets_for (ct_account t) (cr_Secrets req)"

definition created_pair :: "env \<Rightarrow> config \<Rightarrow> create_request \<Rightarrow> class_text \<Rightarrow> string \<times> string" where
  "created_pair E d req t = (ct_account t, volume_share E (plan_text d t) (cr_Name req))"

lemma create_locked_adds:
  assumes "class_params (initial_text, initial_flags) (ord E (request_parameters req)) = Inr (t, f)"
    and "ct_account t \<noteq> []" "steady_names E req (plan_text d t)" "cr_Source req = None"
    and "TrimSpace (ct_account t) = ct_account t" "secrets_for (ct_account t) (cr_Secrets req)"
  shows "keeps (emits (creates_only (ct_account t) (volume_share E (plan_text d t) (cr_Name req)))) (create_locked E d req)"
  unfolding create_locked_def Let_def
proof (rule keeps_emits_after [OF add.eff_plan plan_volume_names [OF assms(1,3)]], goal_cases)
  case (1 r)
  show ?case
  proof (cases r)
    case (Inr p)
    then have p: "plan_names E d req t p" using 1 by simp
    show ?thesis
      using Inr assms(2) planned_names [OF p] provision_adds [OF assms(4) _ _ assms(5,6), where p = "with_server p (ct_account t)"]
      by (simp add: choose_account_def run_simps)
  qed (simp add: keeps_emits)
qed

lemma create_adds:
  assumes "named_create E d req t" "created_pair E d req t = (a, n)"
  shows "emits (creates_only a n) s (final (CreateVolume fuel E d Cap req) s)"
proof -
  obtain f where c: "class_params (initial_text, initial_flags) (ord E (request_parameters req)) = Inr (t, f)"
    using assms(1) by (auto simp: named_create_def split: sum.splits)
  have locked: "keeps (emits (creates_only a n)) (create_locked E d req)"
    using create_locked_adds [OF c, where d = d] assms by (simp add: named_create_def created_pair_def)
  have named: "yields (answer_named (expected_volume_id E d req t)) (create_locked E d req)"
    using create_locked_id [OF c, where d = d] assms(1) by (simp add: named_create_def)
  have body: "keeps (emits (creates_only a n)) (do {
      outcome \<leftarrow> create_locked E d req;
      (case outcome of Finished r \<Rightarrow> ret (Some r)
       | Again parameters \<Rightarrow> CreateVolume m E d Cap (req\<lparr>cr_Parameters := map_option (\<lambda>_. parameters) (cr_Parameters req)\<rparr>)) })" for m
    by (rule keeps_emits_after [OF locked named]) (auto intro!: keeps_emits split: create_outcome.splits)
  have "keeps (emits (creates_only a n)) (CreateVolume fuel E d Cap req)"
    by (cases fuel) (auto intro!: keeps_emits with_volume_lock_emits body add.eff_create_aborted split: option.split)
  then show ?thesis by (simp add: keeps_def)
qed

lemma delete_share_removes:
  assumes "secrets_for a secrets"
  shows "keeps (emits (removes_only_share a n)) (DeleteFileShare E d su rg a n secrets u)"
proof -
  have client: "keeps (emits (removes_only_share a n)) (do {
      fileClient \<leftarrow> m;
      (case fileClient of Inl rerr \<Rightarrow> ret (Inl rerr)
       | Inr f \<Rightarrow> do { err \<leftarrow> dp_DeleteFileShare E f n; ret (Inr err) }) })"
    if "keeps (emits (removes_only_share a n)) m" "yields (answers (\<lambda>f. dp_account f = a)) m" for m
    by (rule keeps_emits_after [OF that]) (auto simp: dp_DeleteFileShare_def answers_def intro!: keeps_emits split: sum.splits)
  have "keeps (emits (removes_only_share a n)) (delete_call E d su rg a n secrets u)"
  proof -
    have managed: "keeps (emits (removes_only_share a n)) (do {
        errGetClient \<leftarrow> getFileShareClientForSub E d su;
        (case errGetClient of
           Some e \<Rightarrow> ret (Inl e)
         | None \<Rightarrow> do { err \<leftarrow> call (ans_err E) (Rm (RmShareDelete su rg a n None)); ret (Inr err) }) })"
      by (intro keeps_emits em.keeps_cases take_away.eff_clients) simp
    show ?thesis unfolding delete_call_def using assms
      by (auto simp: secrets_for_def intro!: client managed new_client_account em.keeps_return take_away.eff_clients
          split: sum.split)
  qed
  then show ?thesis unfolding DeleteFileShare_def delete_share_once_def
    by (intro keeps_emits em.keeps_cases take_away.eff_caches)
qed

lemma delete_removes:
  assumes "GetFileShareInfo v = Inr i" "TrimSpace (si_account i) = si_account i" "secrets_for (si_account i) secrets"
  shows "emits (removes_only_share (si_account i) (si_share i)) s (final (DeleteVolume E d Cap v secrets) s)"
proof -
  have "keeps (emits (removes_only_share (si_account i) (si_share i))) (delete_volume_locked E d v secrets)"
    unfolding delete_volume_locked_def assms(1) sum.case Let_def
    by (rule keeps_emits, rule take_away.eff_use_data_plane,
        rule keeps_emits_after [OF take_away.eff_data_plane_secrets data_plane_secrets_account [OF assms(2,3)]])
      (auto intro!: keeps_emits em.keeps_cases delete_share_removes take_away.eff_secrets split: sum.split)
  then have "keeps (emits (removes_only_share (si_account i) (si_share i))) (DeleteVolume E d Cap v secrets)"
    unfolding DeleteVolume_def by (intro keeps_emits em.keeps_cases with_volume_lock_emits)
  then show ?thesis by (simp add: keeps_def)
qed

text \<open>The calls that leave the shares of the cloud alone; a deletion of a snapshot is one.\<close>

definition leaves_shares :: "ext \<Rightarrow> bool" where
  "leaves_shares c \<longleftrightarrow>
     \<not> creates_share c \<and> (deletes_share c \<longrightarrow> (case c of Rm (RmShareDelete su rg a n snapshot) \<Rightarrow> snapshot \<noteq> None | _ \<Rightarrow> False))"

lemma cloud_step_leaves: "leaves_shares c \<Longrightarrow> cloud_step E tr c S = S"
  by (cases c) (auto simp: cloud_step_def leaves_shares_def creates_share_def deletes_share_def
      split: share_ext.splits rm_ext.splits if_splits)

lemma leaves_shares_of: "emits leaves_shares s t \<Longrightarrow> shares_of E S t = shares_of E S s"
  by (rule seen_keeps [where P = leaves_shares]) (simp_all add: cloud_step_leaves)

interpretation leave: trace_effects "emits leaves_shares" leaves_shares
  by unfold_locales (auto simp: emits_def leaves_shares_def writes_share_def)

lemma leaves_simps [simp]: "leaves_shares (Rm (RmShareDelete su rg a n (Some x)))" "\<not> deletes_share c \<Longrightarrow> \<not> creates_share c \<Longrightarrow> leaves_shares c"
  by (simp_all add: leaves_shares_def creates_share_def)

lemma quiet_requests:
  "keeps (emits leaves_shares) (ControllerExpandVolume E d Cap v q secrets)"
  "keeps (emits leaves_shares) (ControllerModifyVolume E d Cap v ps secrets)"
  "keeps (emits leaves_shares) (DeleteSnapshot E d v secrets)"
proof -
  have resize: "keeps (emits leaves_shares) (ResizeFileShare E d subs rg a n q secrets u)" for subs rg a n q secrets u
    unfolding ResizeFileShare_def resize_call_def dp_ResizeFileShare_def retry_result_def Let_def
    by (intro keeps_emits em.keeps_cases leave.eff_clients leave.eff_caches leave.eff_sleep; simp)
  have alter: "keeps (emits leaves_shares) (ModifyFileShare E d subs rg a n iops bw secrets u)" for subs rg a n iops bw secrets u
    unfolding ModifyFileShare_def modify_call_def dp_ModifyFileShare_def mgmt_ModifyFileShare_def retry_result_def Let_def
    by (intro keeps_emits em.keeps_cases leave.eff_clients leave.eff_caches leave.eff_sleep; simp)
  show "keeps (emits leaves_shares) (ControllerExpandVolume E d Cap v q secrets)"
    unfolding ControllerExpandVolume_def expand_share_def by (intro eff resize; simp)
  show "keeps (emits leaves_shares) (ControllerModifyVolume E d Cap v ps secrets)"
    unfolding ControllerModifyVolume_def modify_share_def by (intro eff alter; simp)
  show "keeps (emits leaves_shares) (DeleteSnapshot E d v secrets)"
    unfolding DeleteSnapshot_def delete_snapshot_call_def by (intro eff leave.allowed_call; simp)
qed

text \<open>The pairs a request is about.\<close>

definition share_to_create :: "env \<Rightarrow> config \<Rightarrow> create_request \<Rightarrow> (string \<times> string) option" where
  "share_to_create E d req =
     (case class_params (initial_text, initial_flags) (ord E (request_parameters req)) of
        Inl _ \<Rightarrow> None | Inr (t, _) \<Rightarrow> Some (created_pair E d req t))"

definition share_to_delete :: "string \<Rightarrow> (string \<times> string) option" where
  "share_to_delete v = (case GetFileShareInfo v of Inl _ \<Rightarrow> None | Inr i \<Rightarrow> Some (si_account i, si_share i))"

text \<open>The requests the specification speaks of: creations in named accounts and deletions where the account lives.\<close>

definition in_scope :: "env \<Rightarrow> config \<Rightarrow> (string \<Rightarrow> string \<times> string) \<Rightarrow> rpc \<Rightarrow> bool" where
  "in_scope E d home r =
     (case r of
        CreateRpc fuel req \<Rightarrow>
          (case class_params (initial_text, initial_flags) (ord E (request_parameters req)) of
             Inl _ \<Rightarrow> False | Inr (t, _) \<Rightarrow> named_create E d req t)
      | DeleteRpc v secrets \<Rightarrow>
          (case GetFileShareInfo v of
             Inl _ \<Rightarrow> True
           | Inr i \<Rightarrow> TrimSpace (si_account i) = si_account i \<and> secrets_for (si_account i) secrets
               \<and> home (si_account i) = volume_place d i)
      | _ \<Rightarrow> True)"

text \<open>
  The specification: what a request may do to the shares, by whether it was answered with success.  A request that failed may
  have done its part before it did.
\<close>

inductive cloud_event :: "env \<Rightarrow> config \<Rightarrow> rpc \<Rightarrow> bool \<Rightarrow> cloud \<Rightarrow> cloud \<Rightarrow> bool" for E d where
  Added: "share_to_create E d req = Some p \<Longrightarrow> cloud_event E d (CreateRpc fuel req) ok S (insert p S)"
| Not_added: "cloud_event E d (CreateRpc fuel req) False S S"
| Removed: "share_to_delete v = Some p \<Longrightarrow> cloud_event E d (DeleteRpc v secrets) ok S (S - {p})"
| Not_removed: "cloud_event E d (DeleteRpc v secrets) False S S"
| Nothing_to_remove: "share_to_delete v = None \<Longrightarrow> cloud_event E d (DeleteRpc v secrets) ok S S"
| Quiet: "(case r of CreateRpc _ _ \<Rightarrow> False | DeleteRpc _ _ \<Rightarrow> False | _ \<Rightarrow> True) \<Longrightarrow> cloud_event E d r ok S S"

inductive_cases created_event: "cloud_event E d (CreateRpc fuel req) ok S S'"
inductive_cases deleted_event: "cloud_event E d (DeleteRpc v secrets) ok S S'"

section \<open>The driver refines the specification\<close>

lemma create_event:
  assumes "honest E home S0" "in_scope E d home (CreateRpc fuel req)"
  shows "cloud_event E d (CreateRpc fuel req) (result (serve E d Cap (CreateRpc fuel req)) s)
    (shares_of E S0 s) (shares_of E S0 (final (serve E d Cap (CreateRpc fuel req)) s))"
proof -
  obtain t f where c: "class_params (initial_text, initial_flags) (ord E (request_parameters req)) = Inr (t, f)"
    and n: "named_create E d req t" using assms(2) by (auto simp: in_scope_def split: sum.splits)
  obtain a m where p: "created_pair E d req t = (a, m)" by (cases "created_pair E d req t")
  let ?r = "result (CreateVolume fuel E d Cap req) s" and ?t = "final (CreateVolume fuel E d Cap req) s"
  have share: "share_to_create E d req = Some (a, m)" by (simp add: share_to_create_def c p)
  have run: "result (serve E d Cap (CreateRpc fuel req)) s = (case ?r of None \<Rightarrow> False | Some r' \<Rightarrow> \<not> isl r')"
    "final (serve E d Cap (CreateRpc fuel req)) s = ?t"
    by (simp_all add: result_def final_def run_simps split: prod.split)
  have frame: "emits (creates_only a m) s ?t" by (rule create_adds [OF n p])
  note either = creates_only_shares [OF frame, of E S0]
  have well: "shares_of E S0 ?t = insert (a, m) (shares_of E S0 s)" if "?r = Some (Inr resp)" for resp
  proof (rule known_shares [OF assms(1) _ frame])
    show "went_well (share_known E a m) s ?t"
      using creation_shown [OF c _ _ _ _ _ that] n p by (auto simp: named_create_def created_pair_def)
  qed
  show ?thesis unfolding run
  proof (cases "shares_of E S0 ?t = insert (a, m) (shares_of E S0 s)")
    case True
    then show "cloud_event E d (CreateRpc fuel req) (case ?r of None \<Rightarrow> False | Some r' \<Rightarrow> \<not> isl r') (shares_of E S0 s) (shares_of E S0 ?t)"
      using Added [OF share] by simp
  next
    case False
    then have "shares_of E S0 ?t = shares_of E S0 s" "\<not> (case ?r of None \<Rightarrow> False | Some r' \<Rightarrow> \<not> isl r')"
      using either well by (auto simp: isl_def split: option.splits sum.splits) (metis sum.exhaust)
    then show "cloud_event E d (CreateRpc fuel req) (case ?r of None \<Rightarrow> False | Some r' \<Rightarrow> \<not> isl r') (shares_of E S0 s) (shares_of E S0 ?t)"
      using Not_added by simp
  qed
qed

lemma delete_event:
  assumes "honest E home S0" "in_scope E d home (DeleteRpc v secrets)"
  shows "cloud_event E d (DeleteRpc v secrets) (result (serve E d Cap (DeleteRpc v secrets)) s)
    (shares_of E S0 s) (shares_of E S0 (final (serve E d Cap (DeleteRpc v secrets)) s))"
proof (cases "GetFileShareInfo v")
  case (Inl e)
  have "keeps (emits leaves_shares) (DeleteVolume E d Cap v secrets)"
    unfolding DeleteVolume_def delete_volume_locked_def Inl by (simp add: with_volume_lock_emits keeps_emits)
  then have "shares_of E S0 (final (DeleteVolume E d Cap v secrets) s) = shares_of E S0 s"
    by (simp add: keeps_def leaves_shares_of)
  then show ?thesis using Inl by (simp add: answered_well_run share_to_delete_def Nothing_to_remove)
next
  case (Inr i)
  let ?a = "si_account i" and ?n = "si_share i" and ?t = "final (DeleteVolume E d Cap v secrets) s"
  have scope: "TrimSpace ?a = ?a" "secrets_for ?a secrets" "home ?a = volume_place d i"
    using assms(2) Inr by (simp_all add: in_scope_def)
  have share: "share_to_delete v = Some (?a, ?n)" by (simp add: share_to_delete_def Inr)
  have frame: "emits (removes_only_share ?a ?n) s ?t" by (rule delete_removes [OF Inr scope(1,2)])
  note either = removes_only_shares [OF frame, of E S0]
  have well: "shares_of E S0 ?t = shares_of E S0 s - {(?a, ?n)}" if "result (DeleteVolume E d Cap v secrets) s = Inr ()"
    using gone_shares [OF assms(1) _ frame] deletion_asked [OF Inr scope(1,2) that] scope(3) by simp
  show ?thesis
  proof (cases "result (DeleteVolume E d Cap v secrets) s")
    case (Inl e)
    then show ?thesis using either Removed [OF share] Not_removed by (auto simp: answered_well_run)
  next
    case (Inr u)
    then show ?thesis using well Removed [OF share] by (simp add: answered_well_run)
  qed
qed

lemma quiet_event:
  assumes "case r of CreateRpc _ _ \<Rightarrow> False | DeleteRpc _ _ \<Rightarrow> False | _ \<Rightarrow> True"
  shows "cloud_event E d r (result (serve E d Cap r) s) (shares_of E S0 s) (shares_of E S0 (final (serve E d Cap r) s))"
proof -
  have "keeps (emits leaves_shares) (serve E d Cap r)"
    using assms by (cases r) (auto simp: answered_well_def intro!: keeps_emits quiet_requests leave.eff_validate
        leave.eff_create_snapshot leave.eff_stage leave.eff_unstage leave.eff_publish leave.eff_unpublish leave.eff_stats)
  then have "shares_of E S0 (final (serve E d Cap r) s) = shares_of E S0 s" by (simp add: keeps_def leaves_shares_of)
  then show ?thesis using Quiet [OF assms] by simp
qed

lemma served_event:
  assumes "honest E home S0" "in_scope E d home r"
  shows "cloud_event E d r (result (serve E d Cap r) s) (shares_of E S0 s) (shares_of E S0 (final (serve E d Cap r) s))"
proof (cases r)
  case (CreateRpc fuel req)
  then show ?thesis using create_event assms by metis
next
  case (DeleteRpc v secrets)
  then show ?thesis using delete_event assms by metis
qed (rule quiet_event; simp)+

interpretation cloud: refinement E d Cap "shares_of E S0" "\<lambda>r. honest E home S0 \<and> in_scope E d home r" "cloud_event E d"
  for E d Cap S0 home
  by unfold_locales (erule conjE, rule served_event)

lemma all_in_scope:
  "honest E home S0 \<Longrightarrow> list_all (in_scope E d home) rs \<Longrightarrow> list_all (\<lambda>r. honest E home S0 \<and> in_scope E d home r) rs"
  by (simp add: list_all_iff)

text \<open>C1: the driver refines the specification of a set of shares: in every history of requests on volumes of named accounts,
  however each is answered, the shares of the cloud change as the specification allows - a creation answered with success has
  added its share and nothing else, a deletion answered with success has taken its share away and nothing else, a failed one
  did that or nothing, and no other request (expansion, modification, snapshots, node requests) changes the set.\<close>

theorem driver_refines_cloud:
  assumes "honest E home S0" "list_all (in_scope E d home) rs"
  shows "abstract_run (cloud_event E d) rs (result (serve_all E d Cap rs) s) (shares_of E S0 s) (shares_of E S0 (final (serve_all E d Cap rs) s))"
  by (rule cloud.refines [OF all_in_scope [OF assms]])

section \<open>A cloud that answers honestly\<close>

text \<open>No request fails; a lookup finds the shares that were created and not deleted.\<close>

definition listed :: "ext list \<Rightarrow> ext \<Rightarrow> bool" where
  "listed tr c =
     (let S = cloud_from (sample_env no_error) {} [] tr in
      case c of
        Share x \<Rightarrow> (case x of DpShareGetProperties f n \<Rightarrow> (dp_account f, n) \<in> S | _ \<Rightarrow> False)
      | Rm x \<Rightarrow> (case x of RmShareGet su rg a n \<Rightarrow> (a, n) \<in> S | _ \<Rightarrow> False)
      | _ \<Rightarrow> False)"

definition cloud_env :: env where
  "cloud_env = (sample_env no_error)\<lparr>ans_share :=
     (\<lambda>tr c. if listed tr c then Inr (Some sample_props) else Inl (GoErr (ResponseError 404) ''ShareNotFound''))\<rparr>"

lemma cloud_from_answers: "ans_err E = ans_err E' \<Longrightarrow> cloud_from E S tr cs = cloud_from E' S tr cs"
  by (rule replay_same) (simp add: cloud_step_def)

lemma cloud_env_honest: "honest cloud_env home {}"
proof -
  have "cloud_from cloud_env {} [] tr = cloud_from (sample_env no_error) {} [] tr" for tr
    by (rule cloud_from_answers) (simp add: cloud_env_def)
  then show ?thesis
    by (simp add: honest_def listed_def cloud_env_def sample_env_def no_error_def Let_def)
qed

definition sample_home :: "string \<Rightarrow> string \<times> string" where
  "sample_home a = (cloud_SubscriptionID sample_config, ''rg'')"

definition disk_id :: string where
  "disk_id = ''rg#acc#pvcd-1#pvcd-1.vhd##default''"

text \<open>A disk is created, created again, not expanded (disks are not) and deleted.\<close>

definition sample_history :: "rpc list" where
  "sample_history =
     [CreateRpc 1 (disk_request []), CreateRpc 1 (disk_request []), ExpandRpc disk_id 2147483648 [], DeleteRpc disk_id []]"

lemma sample_history_in_scope: "list_all (in_scope cloud_env sample_config sample_home) sample_history"
  by code_simp

lemma sample_history_served:
  "result (serve_all cloud_env sample_config controller_Cap sample_history) initial_state = [True, True, False, True]"
  by code_simp

theorem driver_refines_cloud_witness:
  "abstract_run (cloud_event cloud_env sample_config) sample_history [True, True, False, True] {}
     (shares_of cloud_env {} (final (serve_all cloud_env sample_config controller_Cap sample_history) initial_state))"
proof -
  have "shares_of cloud_env {} initial_state = {}" by (simp add: seen_def initial_state_def)
  with driver_refines_cloud [OF cloud_env_honest sample_history_in_scope, of controller_Cap initial_state] sample_history_served
  show ?thesis by simp
qed

section \<open>The life of a share\<close>

definition deletes_pair :: "string \<times> string \<Rightarrow> rpc \<Rightarrow> bool" where
  "deletes_pair p r = (case r of DeleteRpc v secrets \<Rightarrow> share_to_delete v = Some p | _ \<Rightarrow> False)"

lemma event_keeps_share: "cloud_event E d r ok S S' \<Longrightarrow> \<not> deletes_pair p r \<Longrightarrow> p \<in> S \<Longrightarrow> p \<in> S'"
  by (cases rule: cloud_event.cases) (auto simp: deletes_pair_def)

text \<open>C2: a volume that was created stays until it is deleted: after a successful creation, and any further requests none of
  which deletes a volume of the same share, its share is in the cloud; a deletion by the id the creation was answered with, when
  it succeeds, takes this share away and no other.\<close>

theorem share_lives_until_deleted:
  assumes "honest E home S0" "named_create E d req t" "separable E d req t"
    and "result (CreateVolume fuel E d Cap req) s = Some (Inr resp)"
    and "list_all (in_scope E d home) rs" "list_all (\<lambda>r. \<not> deletes_pair (created_pair E d req t) r) rs"
    and "in_scope E d home (DeleteRpc (crr_VolumeId resp) secrets)"
    and "u = final (serve_all E d Cap rs) (final (CreateVolume fuel E d Cap req) s)"
  shows "created_pair E d req t \<in> shares_of E S0 u
    \<and> (result (DeleteVolume E d Cap (crr_VolumeId resp) secrets) u = Inr ()
       \<longrightarrow> shares_of E S0 (final (DeleteVolume E d Cap (crr_VolumeId resp) secrets) u)
           = shares_of E S0 u - {created_pair E d req t})"
proof -
  obtain f where c: "class_params (initial_text, initial_flags) (ord E (request_parameters req)) = Inr (t, f)"
    using assms(2) by (auto simp: named_create_def split: sum.splits)
  let ?p = "created_pair E d req t" and ?t = "final (CreateVolume fuel E d Cap req) s"
  have share: "share_to_create E d req = Some ?p" by (simp add: share_to_create_def c)
  have "in_scope E d home (CreateRpc fuel req)" using assms(2) by (simp add: in_scope_def c)
  from create_event [OF assms(1) this, of Cap s] have "cloud_event E d (CreateRpc fuel req) True (shares_of E S0 s) (shares_of E S0 ?t)"
    using assms(4) by (simp add: result_def final_def run_simps split: prod.splits)
  then have "?p \<in> shares_of E S0 ?t" using share by (auto elim: created_event)
  then have here: "?p \<in> shares_of E S0 u"
    unfolding assms(8)
    using cloud.keeps_invariant [OF all_in_scope [OF assms(1,5)] assms(6), where I = "\<lambda>S. ?p \<in> S"] event_keeps_share by blast
  have id: "crr_VolumeId resp = expected_volume_id E d req t"
    using created_id [OF c _ _ assms(4)] assms(2) by (simp add: named_create_def)
  have "share_to_delete (crr_VolumeId resp) = Some ?p"
    unfolding id using created_id_read [OF assms(3)] by (auto simp: share_to_delete_def created_pair_def)
  then have "shares_of E S0 (final (DeleteVolume E d Cap (crr_VolumeId resp) secrets) u) = shares_of E S0 u - {?p}"
    if "result (DeleteVolume E d Cap (crr_VolumeId resp) secrets) u = Inr ()"
    using delete_event [OF assms(1,7), of Cap u] that by (auto simp: answered_well_run elim: deleted_event)
  with here show ?thesis by blast
qed

text \<open>The volume above: created, used and deleted.\<close>

definition disk_made :: drv where
  "disk_made = final (CreateVolume 1 cloud_env sample_config controller_Cap (disk_request [])) initial_state"

definition disk_used :: drv where
  "disk_used = final (serve_all cloud_env sample_config controller_Cap [UnstageRpc disk_id ''/stage'', ExpandRpc disk_id 5 []]) disk_made"

lemma disk_request_named: "named_create cloud_env sample_config (disk_request []) disk_text"
  "separable cloud_env sample_config (disk_request []) disk_text"
  "created_pair cloud_env sample_config (disk_request []) disk_text = (''acc'', ''pvcd-1'')"
  by code_simp+

theorem share_lives_until_deleted_witness:
  "(''acc'', ''pvcd-1'') \<in> shares_of cloud_env {} disk_used
   \<and> shares_of cloud_env {} (final (DeleteVolume cloud_env sample_config controller_Cap disk_id []) disk_used)
     = shares_of cloud_env {} disk_used - {(''acc'', ''pvcd-1'')}"
proof -
  let ?r = "result (CreateVolume 1 cloud_env sample_config controller_Cap (disk_request [])) initial_state"
  have "volume_id_answered ?r = disk_id" by code_simp
  moreover have "disk_id \<noteq> []" by code_simp
  ultimately obtain resp where r: "?r = Some (Inr resp)" "crr_VolumeId resp = disk_id"
    by (auto simp: volume_id_answered_def split: option.splits sum.splits)
  have "list_all (in_scope cloud_env sample_config sample_home) [UnstageRpc disk_id ''/stage'', ExpandRpc disk_id 5 []]"
    "list_all (\<lambda>r. \<not> deletes_pair (''acc'', ''pvcd-1'') r) [UnstageRpc disk_id ''/stage'', ExpandRpc disk_id 5 []]"
    by (simp_all add: in_scope_def deletes_pair_def)
  moreover have "in_scope cloud_env sample_config sample_home (DeleteRpc (crr_VolumeId resp) [])" unfolding r(2) by code_simp
  moreover have "result (DeleteVolume cloud_env sample_config controller_Cap disk_id []) disk_used = Inr ()" by code_simp
  ultimately show ?thesis
    using share_lives_until_deleted [OF cloud_env_honest disk_request_named(1,2) r(1),
        where home = sample_home and secrets = "[]" and u = disk_used
        and rs = "[UnstageRpc disk_id ''/stage'', ExpandRpc disk_id 5 []]"]
    unfolding disk_request_named(3) r(2) by (simp add: disk_used_def disk_made_def)
qed

end
