(* ===== verification/Credentials.thy ===== *)
theory Credentials
  imports Results
begin

text \<open>
  Credentials (\<open>GetAccountInfo\<close> of \<open>azurefile.go\<close>, the token files of the node): a mount with an identity does not touch
  the account key, and the token files written are the ones unstaging looks for.
\<close>

section \<open>Identities and the account key\<close>

definition reads_account_key :: "ext \<Rightarrow> bool" where
  "reads_account_key c =
     (case c of
        Account (ListAccountKey _ _ _ _) \<Rightarrow> True
      | Account (AccountKeyFromToken _ _ _ _ _ _) \<Rightarrow> True
      | _ \<Rightarrow> False)"

definition no_key :: "account_info \<times> goerr option \<Rightarrow> bool" where
  "no_key r \<longleftrightarrow> ai_key (fst r) = []"

lemma no_key_result [simp]: "no_key (account_result a [] f, e)"
  by (simp add: no_key_def account_result_def)

lemma secret_no_key: "keeps (only_calls (\<lambda>c. \<not> reads_account_key c)) (GetStorageAccountFromSecret E d n ns)"
  unfolding GetStorageAccountFromSecret_def by (intro keeps_only oc.keeps_cases) (simp add: reads_account_key_def)

lemma oauth_no_key:
  "keeps (only_calls (\<lambda>c. \<not> reads_account_key c)) (oauth_account E d a)" "yields no_key (oauth_account E d a)"
  unfolding oauth_account_def
  by (intro keeps_only oc.keeps_cases secret_no_key) ((rule yields_bind res | simp)+)

lemma workload_no_key:
  "keeps (only_calls (\<lambda>c. \<not> reads_account_key c)) (workload_identity_account E d v a ctx tok)"
  "yields no_key (workload_identity_account E d v a ctx tok)"
  unfolding workload_identity_account_def write_token_file_def
  by (intro keeps_only oc.keeps_cases; simp add: reads_account_key_def) ((rule yields_bind res | simp)+)

lemma account_info_identity:
  assumes "context_params (initial_account_vars v) ctx = (a, None)" "av_managed a \<or> av_oauth a \<or> av_wi a"
  shows "keeps (only_calls (\<lambda>c. \<not> reads_account_key c)) (GetAccountInfo E d v secrets ctx)"
    and "yields no_key (GetAccountInfo E d v secrets ctx)"
proof -
  have f: "av_managed (default_namespace (account_defaults d a)) = av_managed a"
    "av_oauth (default_namespace (account_defaults d a)) = av_oauth a"
    "av_wi (default_namespace (account_defaults d a)) = av_wi a"
    by (simp_all add: default_namespace_def account_defaults_def)
  show "keeps (only_calls (\<lambda>c. \<not> reads_account_key c)) (GetAccountInfo E d v secrets ctx)"
    unfolding GetAccountInfo_def Let_def using assms
    by (auto simp: f intro!: keeps_only oauth_no_key workload_no_key)
  show "yields no_key (GetAccountInfo E d v secrets ctx)"
    unfolding GetAccountInfo_def Let_def using assms
    by (auto simp: f intro!: oauth_no_key workload_no_key)
qed

text \<open>C23: a volume that is mounted with a managed identity, an OAuth token or a workload identity token gets no account
  key: \<open>GetAccountInfo\<close> returns none, asks Azure for none, and caches none (no part of the driver's state changes).\<close>

theorem identity_never_reads_key:
  assumes "context_params (initial_account_vars v) ctx = (a, None)" "av_managed a \<or> av_oauth a \<or> av_wi a"
  shows "ai_key (fst (result (GetAccountInfo E d v secrets ctx) s)) = []
    \<and> only_calls (\<lambda>c. \<not> reads_account_key c) s (final (GetAccountInfo E d v secrets ctx) s)"
  using account_info_identity [OF assms] by (simp add: keeps_def yields_def no_key_def)

theorem identity_never_reads_key_witness:
  "ai_key (fst (result (GetAccountInfo (sample_env no_error) sample_config ''rg#acc#share#'' []
     [(''mountWithManagedIdentity'', ''true'')]) initial_state)) = []"
proof -
  have "\<exists>a. context_params (initial_account_vars ''rg#acc#share#'') [(''mountWithManagedIdentity'', ''true'')] = (a, None)
      \<and> av_managed a"
    by (rule exI [of _ "(initial_account_vars ''rg#acc#share#'')\<lparr>av_managed := True\<rparr>"]) code_simp
  then show ?thesis using identity_never_reads_key by blast
qed

section \<open>Token files\<close>

text \<open>\<open>filepath.Match\<close> for a pattern with one star and no other special character.\<close>

definition plain_pattern :: "string \<Rightarrow> bool" where
  "plain_pattern p \<longleftrightarrow> list_all (\<lambda>c. c \<notin> set ''*?['' \<and> c \<noteq> CHR 0x5C) p"

definition star_matches :: "string \<Rightarrow> string \<Rightarrow> bool" where
  "star_matches pattern f \<longleftrightarrow>
     (\<exists>before after w. pattern = before @ ''*'' @ after \<and> plain_pattern before \<and> plain_pattern after
        \<and> CHR ''/'' \<notin> set w \<and> f = before @ w @ after)"

definition token_pattern :: "env \<Rightarrow> string \<Rightarrow> string" where
  "token_pattern E volumeID = path_join [defaultAzureOAuthTokenDir, ''*-'' @ hashVolumeIDForTokenFile E volumeID]"

definition writes_matching :: "string \<Rightarrow> ext \<Rightarrow> bool" where
  "writes_matching pattern c = (case c of Node (WriteFile f t) \<Rightarrow> star_matches pattern f | _ \<Rightarrow> True)"

lemma token_dir_join:
  assumes "CHR ''/'' \<notin> set n" "n \<noteq> []" "n \<noteq> ''.''" "n \<noteq> ''..''"
  shows "path_join [defaultAzureOAuthTokenDir, n] = defaultAzureOAuthTokenDir @ ''/'' @ n"
proof -
  have s: "Split n ''/'' = [n]" by (rule Split_single_id) (rule assms)
  have d: "path_comps defaultAzureOAuthTokenDir = [''var'', ''lib'', ''kubelet'', ''plugins'', ''file.csi.azure.com'']"
    "HasPrefix defaultAzureOAuthTokenDir ''/''" by code_simp+
  have "path_comps (defaultAzureOAuthTokenDir @ ''/'' @ n) = path_comps defaultAzureOAuthTokenDir @ [n]"
    by (subst path_comps_append) (use d s assms in simp_all)
  then show ?thesis using d
    by (simp add: path_join_def Clean_def defaultAzureOAuthTokenDir_def HasPrefix_iff)
qed

lemma token_file_matches:
  assumes "isValidTokenFileName (c @ ''-'' @ a @ ''-'' @ hashVolumeIDForTokenFile E v)"
  shows "star_matches (token_pattern E v)
    (path_join [defaultAzureOAuthTokenDir, c @ ''-'' @ a @ ''-'' @ hashVolumeIDForTokenFile E v])"
proof -
  let ?h = "hashVolumeIDForTokenFile E v"
  have chars: "is_token_file_char x" if "x \<in> set (c @ ''-'' @ a @ ''-'' @ ?h)" for x
    using assms that unfolding isValidTokenFileName_def list_all_iff by blast
  have slash: "x \<noteq> CHR ''/''" "x \<noteq> CHR ''*''" "x \<noteq> CHR ''?''" "x \<noteq> CHR ''[''" "x \<noteq> CHR 0x5C"
    if "is_token_file_char x" for x using that by (auto simp: is_token_file_char_def)
  have "x \<noteq> CHR ''/'' \<and> x \<noteq> CHR ''*'' \<and> x \<noteq> CHR ''?'' \<and> x \<noteq> CHR ''['' \<and> x \<noteq> CHR 0x5C" if "x \<in> set (''-'' @ ?h)" for x
    using slash [OF chars [of x]] that by auto
  note hx = this
  have star: "x \<notin> set ''*?['' \<longleftrightarrow> x \<noteq> CHR ''*'' \<and> x \<noteq> CHR ''?'' \<and> x \<noteq> CHR ''[''" for x by auto
  have h: "CHR ''/'' \<notin> set ?h" using hx [of "CHR ''/''"] by auto
  have p: "plain_pattern (''-'' @ ?h)" unfolding plain_pattern_def list_all_iff star using hx by blast
  have pattern: "token_pattern E v = (defaultAzureOAuthTokenDir @ ''/'') @ ''*'' @ (''-'' @ ?h)"
    unfolding token_pattern_def using h by (subst token_dir_join) simp_all
  have file_name: "path_join [defaultAzureOAuthTokenDir, c @ ''-'' @ a @ ''-'' @ ?h]
      = (defaultAzureOAuthTokenDir @ ''/'') @ (c @ ''-'' @ a) @ (''-'' @ ?h)"
    using token_dir_join [of "c @ ''-'' @ a @ ''-'' @ ?h"] token_file_one_segment [OF assms] chars slash(1) by force
  have "plain_pattern (defaultAzureOAuthTokenDir @ ''/'')" by code_simp
  moreover have "CHR ''/'' \<notin> set (c @ ''-'' @ a)" using chars slash(1) by auto
  ultimately show ?thesis unfolding star_matches_def pattern file_name using p by blast
qed

lemma token_file_written:
  "keeps (emits (writes_matching (token_pattern E v))) (workload_identity_account E d v a ctx tok)"
proof -
  have w: "keeps (emits (writes_matching (token_pattern E v)))
      (write_token_file E a ctx (path_join [defaultAzureOAuthTokenDir, c @ ''-'' @ n @ ''-'' @ hashVolumeIDForTokenFile E v]) t)"
    if "isValidTokenFileName (c @ ''-'' @ n @ ''-'' @ hashVolumeIDForTokenFile E v)" for c n t
    unfolding write_token_file_def
    using token_file_matches [OF that] by (intro keeps_emits em.keeps_cases) (simp_all add: writes_matching_def)
  show ?thesis unfolding workload_identity_account_def Let_def
    by (auto intro!: keeps_emits w split: sum.split simp del: append_Cons append.simps(2))
qed

lemma other_writes:
  "keeps (emits (writes_matching p)) (oauth_account E d a)" "keeps (emits (writes_matching p)) (account_key E d secrets a)"
  unfolding oauth_account_def account_key_def key_from_secret_or_identity_def GetStorageAccountFromSecret_def
    GetStorageAccesskeyWithSubsID_def Let_def
  by (intro keeps_emits em.keeps_cases; simp add: writes_matching_def)+

text \<open>C24: every file \<open>GetAccountInfo\<close> writes for a volume lies directly in the token directory and is matched by the
  pattern unstaging the same volume globs first.\<close>

theorem token_files_found:
  "emits (writes_matching (token_pattern E v)) s (final (GetAccountInfo E d v secrets ctx) s)
   \<and> (\<exists>evs. trace (final (remove_token_files E v) t) = trace t @ Node (Glob (token_pattern E v)) # evs)"
proof
  have "keeps (emits (writes_matching (token_pattern E v))) (GetAccountInfo E d v secrets ctx)"
    unfolding GetAccountInfo_def Let_def
    by (intro keeps_emits em.keeps_cases token_file_written other_writes) (simp_all add: writes_matching_def)
  then show "emits (writes_matching (token_pattern E v)) s (final (GetAccountInfo E d v secrets ctx) s)"
    by (simp add: keeps_def)
  have "keeps (emits (\<lambda>_. True)) (case m of Inl _ \<Rightarrow> ret () | Inr files \<Rightarrow> remove_files E files)" for m :: "goerr + string list"
    by (auto intro!: keeps_emits grow.eff_remove_files split: sum.split)
  then have "\<exists>evs. trace (snd (run_state (case m of Inl _ \<Rightarrow> ret () | Inr files \<Rightarrow> remove_files E files) u)) = trace u @ evs"
    for m :: "goerr + string list" and u unfolding keeps_def emits_def final_def by metis
  note rest = this
  let ?c = "Node (Glob (token_pattern E v))"
  from rest [of "ans_strs E (trace t) ?c" "t\<lparr>trace := trace t @ [?c]\<rparr>"]
  show "\<exists>evs. trace (final (remove_token_files E v) t) = trace t @ Node (Glob (token_pattern E v)) # evs"
    unfolding remove_token_files_def token_pattern_def [symmetric] final_def by (simp add: run_simps)
qed

end
