(* ===== verification/NodeFrames.thy ===== *)
theory NodeFrames
  imports Credentials
begin

text \<open>
  Which paths the node service (\<open>nodeserver.go\<close>) mounts and takes down, handler by handler.  The locale \<open>mount_frame\<close> asks
  of a kind of calls only that it has all that touch no mount; its lemmas say which mounts and cleanups each part of the
  service needs beside them.
\<close>

section \<open>Mounts and cleanups\<close>

definition takes_down :: "ext \<Rightarrow> bool" where
  "takes_down c = (case c of Node (Unmount _) \<Rightarrow> True | Node (node_ext.CleanupMountPoint _ _) \<Rightarrow> True | _ \<Rightarrow> False)"

definition mounts :: "ext \<Rightarrow> bool" where
  "mounts c =
     (case c of
        Node (Mount _ _ _ _ _) \<Rightarrow> True
      | Node (ProxyMount _ _ _ _ _) \<Rightarrow> True
      | Node (FormatAndMount _ _ _ _) \<Rightarrow> True
      | _ \<Rightarrow> False)"

text \<open>The path a call mounts on or takes down.\<close>

definition mount_path :: "ext \<Rightarrow> string option" where
  "mount_path c =
     (case c of
        Node n \<Rightarrow>
          (case n of
             Unmount p \<Rightarrow> Some p
           | node_ext.CleanupMountPoint p extensive \<Rightarrow> Some p
           | Mount source p fs options sensitive \<Rightarrow> Some p
           | ProxyMount source p fs options sensitive \<Rightarrow> Some p
           | FormatAndMount source p fs options \<Rightarrow> Some p
           | _ \<Rightarrow> None)
      | _ \<Rightarrow> None)"

lemma mount_path_simps [simp]:
  "mount_path (Kube k) = None" "mount_path (Tool tool) = None" "mount_path (Account ac) = None"
  "mount_path (Share x) = None" "mount_path (Rm r) = None" "mount_path (Win w) = None"
  "mount_path (Node (ReadFile p)) = None" "mount_path (Node (WriteFile p s)) = None" "mount_path (Node (RemoveFile p)) = None"
  "mount_path (Node (Glob p)) = None" "mount_path (Node (Lstat p)) = None" "mount_path (Node (Chmod p m)) = None"
  "mount_path (Node (MkdirAll p m)) = None" "mount_path (Node (IsLikelyNotMountPoint p)) = None"
  "mount_path (Node (PathExists p)) = None" "mount_path (Node ListMounts) = None" "mount_path (Node (ReadDir p)) = None"
  "mount_path (Node ProxyConnect) = None" "mount_path (Node (AuthManager as)) = None"
  "mount_path (Node (DirectVolumeInfo p)) = None" "mount_path (Node (DirectVolumeAdd p i)) = None"
  "mount_path (Node (DirectVolumeRemove p)) = None" "mount_path (Node (ResolveIPAddr h)) = None"
  "mount_path (Node (StatFS p)) = None" "mount_path (Node (SetOwnership p g pol)) = None"
  "mount_path (Node (Unmount p)) = Some p" "mount_path (Node (node_ext.CleanupMountPoint p b)) = Some p"
  "mount_path (Node (Mount a p f os so)) = Some p" "mount_path (Node (ProxyMount a p f os so)) = Some p"
  "mount_path (Node (FormatAndMount a p f os)) = Some p"
  by (simp_all add: mount_path_def)

lemma mounts_simps [simp]:
  "mounts (Node (Mount a p f os so))" "mounts (Node (ProxyMount a p f os so))" "mounts (Node (FormatAndMount a p f os))"
  "\<not> mounts (Node (Unmount p))"
  by (simp_all add: mounts_def)

lemma no_mount_path: "mount_path c = None \<longleftrightarrow> \<not> mounts c \<and> \<not> takes_down c"
  by (auto simp: mount_path_def mounts_def takes_down_def split: ext.split node_ext.split)

lemma and_then_emits:
  "keeps (emits P) m \<Longrightarrow> (\<And>a. keeps (emits P) (f a)) \<Longrightarrow> keeps (emits P) (and_then m f)"
  "keeps (emits P) m' \<Longrightarrow> keeps (emits P) (check m' w)"
  unfolding and_then_def check_def by (intro keeps_emits em.keeps_cases; assumption?)+

text \<open>The paths a volume staged at \<open>t\<close> is mounted on: the target and, for a disk, the mount of its share beside it.\<close>

definition stage_paths :: "string \<Rightarrow> string set" where
  "stage_paths t = {t, path_join [path_dir t, proxyMount]}"

section \<open>The handlers\<close>

locale mount_frame =
  fixes P :: "ext \<Rightarrow> bool"
  assumes other [simp]: "mount_path c = None \<Longrightarrow> P c"
begin

lemma ensure_kept: "(u \<Longrightarrow> P (Node (Unmount t))) \<Longrightarrow> keeps (emits P) (ensureMountPoint E t perm u)"
  unfolding ensureMountPoint_def probe_mount_def IsCorruptedDir_def makeDir_def
  by (cases u; simp only: if_True if_False; intro keeps_emits em.keeps_cases; simp)

lemma account_kept:
  "keeps (emits P) (GetStorageAccountFromSecret E d n ns)" "keeps (emits P) (setCredentialCache E srv c tn tf tok au rs)"
  "keeps (emits P) (newAzureFileClient E a k sfx)"
  unfolding GetStorageAccountFromSecret_def setCredentialCache_def newAzureFileClient_def Let_def
  by (intro keeps_emits em.keeps_cases; simp)+

lemma account_info_kept: "keeps (emits P) (GetAccountInfo E d v secrets ctx)"
  unfolding GetAccountInfo_def oauth_account_def workload_identity_account_def write_token_file_def account_key_def
    key_from_secret_or_identity_def GetStorageAccesskeyWithSubsID_def
  by (intro keeps_emits em.keeps_cases account_kept; simp)

lemma folder_levels_kept: "keeps (emits P) (create_folder_levels E f share cur cs)"
proof (induction cs arbitrary: cur)
  case (Cons c cs)
  then show ?case unfolding create_folder_levels.simps create_folder_level_def
    by (intro keeps_emits em.keeps_cases Cons.IH; simp)
qed (simp add: keeps_emits)

lemma refresh_kept: "keeps (emits P) (setCredentialCacheWithOAuthToken E d v ctx)" "keeps (emits P) (publish_refresh E d req)"
  unfolding publish_refresh_def setCredentialCacheWithOAuthToken_def refresh_token_def
  by (intro keeps_emits em.keeps_cases keeps_emits_modify account_kept; simp)+

lemma stage_parts_kept:
  "keeps (emits P) (stage_create_folder E i sv pl)" "keeps (emits P) (stage_credentials i)"
  "keeps (emits P) (lift_err r)" "keeps (emits P) (stage_kata E d sv srv src path os so)"
  "keeps (emits P) (stage_ownership E v sv t g)" "keeps (emits P) (stage_options E d v ctx t i sv srv fl cfl)"
  "keeps (emits P) (stage_credential_cache E d i srv c)" "keeps (emits P) (stage_chmod E sv t)"
  "keeps (emits P) (stage_decide E d sreq)"
  unfolding stage_create_folder_def createFolderIfNotExists_def stage_credentials_def lift_err_def stage_kata_def
    stage_save_info_def stage_ownership_def SetVolumeOwnership_def stage_options_def stage_identity_def
    stage_credential_cache_def stage_chmod_def chmodIfPermissionMismatch_def stage_decide_def
  by (intro keeps_emits em.keeps_cases and_then_emits account_kept account_info_kept folder_levels_kept refresh_kept; simp)+

lemma stage_mount_share_kept:
  assumes "\<And>fs os so. P (Node (Mount src path fs os so))" "\<And>fs os so. P (Node (ProxyMount src path fs os so))"
  shows "keeps (emits P) (stage_mount_share E d v t i sv srv c src path os so)"
  unfolding stage_mount_share_def stage_proxy_mount_def mountWithProxy_def WaitUntilTimeout_def stage_direct_mount_def
    stage_exec_def SMBMount_def Let_def
  by (intro keeps_emits em.keeps_cases and_then_emits stage_parts_kept; simp add: assms)

lemma stage_mount_kept:
  assumes "\<And>fs os so. P (Node (Mount src path fs os so))" "\<And>fs os so. P (Node (ProxyMount src path fs os so))"
    and "P (Node (Unmount path))"
  shows "keeps (emits P) (stage_mount E d v t i sv srv c src path os so)"
  unfolding stage_mount_def
  by (intro keeps_emits em.keeps_cases ensure_kept stage_mount_share_kept assms)

lemma stage_disk_kept:
  assumes "P (Node (Unmount t))" "\<And>src fs os. P (Node (FormatAndMount src t fs os))"
  shows "keeps (emits P) (stage_disk E v t sv path fl)"
  unfolding stage_disk_def validateDiskIsRegularFile_def Let_def
  by (intro keeps_emits em.keeps_cases and_then_emits ensure_kept; simp add: assms)

lemma lift_kept: "(\<And>a. r = Inr a \<Longrightarrow> keeps (emits P) (f a)) \<Longrightarrow> keeps (emits P) (and_then (lift_err r) f)"
  unfolding and_then_def lift_err_def by (cases r) (simp_all add: keeps_emits)

lemma stage_locked_kept:
  assumes "\<And>c p. mount_path c = Some p \<Longrightarrow> p \<in> stage_paths (nr_Target req) \<Longrightarrow> P c"
  shows "keeps (emits P) (stage_locked E d req fl g b i sv)"
proof -
  have path: "P c" if "stage_mount_path sv (nr_Target req) fl b g = Inr (path, cfl)" "mount_path c = Some path" for path cfl c
  proof (rule assms [OF that(2)])
    show "path \<in> stage_paths (nr_Target req)"
      using that(1) by (auto simp: stage_mount_path_def stage_paths_def split: if_splits option.splits)
  qed
  have t: "nr_Target req \<in> stage_paths (nr_Target req)" by (simp add: stage_paths_def)
  show ?thesis unfolding stage_locked_def Let_def
    by (intro lift_kept and_then_emits stage_parts_kept)
      (auto intro!: and_then_emits stage_parts_kept stage_mount_kept stage_disk_kept keeps_emits
        intro: path assms [OF _ t] split: prod.split)
qed

lemma stage_kept:
  assumes "\<And>c p. mount_path c = Some p \<Longrightarrow> p \<in> stage_paths (nr_Target req) \<Longrightarrow> P c"
  shows "keeps (emits P) (NodeStageVolume E d req)"
  unfolding NodeStageVolume_def
  by (intro keeps_emits em.keeps_cases and_then_emits with_volume_lock_emits stage_parts_kept stage_locked_kept assms)

lemma inline_kept:
  "keeps (emits P) (check (authorizeInlineVolumeSecret E d ctx) w)" "keeps (emits P) (canSkipRepublishNodeStage E ctx t)"
  unfolding authorizeInlineVolumeSecret_def review_access_def canSkipRepublishNodeStage_def Let_def
  by (intro keeps_emits em.keeps_cases and_then_emits; simp)+

lemma publish_ephemeral_kept:
  assumes "\<And>c p. mount_path c = Some p \<Longrightarrow> p \<in> stage_paths (np_Target req) \<Longrightarrow> P c"
  shows "keeps (emits P) (publish_ephemeral E d req vc)"
  unfolding publish_ephemeral_def Let_def
  by (intro keeps_emits em.keeps_cases and_then_emits inline_kept stage_kept assms) (simp_all add: stage_of_def)

lemma publish_bind_kept:
  assumes "P (Node (Mount (np_Staging req) (np_Target req) [] (''bind'' # (if np_Readonly req then [''ro''] else [])) []))"
  shows "keeps (emits P) (publish_bind E d req perm)"
  unfolding publish_bind_def bind_mount_def Let_def
  by (intro keeps_emits em.keeps_cases and_then_emits refresh_kept ensure_kept; simp add: assms)

lemma publish_parts_kept: "keeps (emits P) (publish_direct E req)" "keeps (emits P) (publish_confidential E d ctx)"
  unfolding publish_direct_def publish_confidential_def detect_kata_node_def getRuntimeClassForPod_def
    isConfidentialRuntimeClass_def isKataNode_check_def Let_def
  by (intro keeps_emits em.keeps_cases and_then_emits keeps_emits_modify; simp)+

lemma publish_persistent_kept:
  assumes "P (Node (Mount (np_Staging req) (np_Target req) [] (''bind'' # (if np_Readonly req then [''ro''] else [])) []))"
    and "getServiceAccountTokens (np_Secrets req) (np_Context req) = []"
  shows "keeps (emits P) (publish_persistent E d req)"
  unfolding publish_persistent_def using assms(2)
  by (auto intro!: keeps_emits em.keeps_cases and_then_emits publish_bind_kept assms(1) publish_parts_kept)

lemma publish_kept:
  assumes "\<And>c p. mount_path c = Some p \<Longrightarrow> p \<in> stage_paths (np_Target req) \<Longrightarrow> P c"
  shows "keeps (emits P) (NodePublishVolume E d req)"
proof -
  have t: "np_Target req \<in> stage_paths (np_Target req)" by (simp add: stage_paths_def)
  have token: "keeps (emits P) (publish_with_token E d req)"
    unfolding publish_with_token_def
    by (intro keeps_emits em.keeps_cases inline_kept stage_kept assms) (simp_all add: stage_of_def)
  have bind: "keeps (emits P) (publish_bind E d req perm)" for perm
    by (rule publish_bind_kept) (rule assms [OF _ t], simp)
  show ?thesis unfolding NodePublishVolume_def publish_persistent_def
    by (intro keeps_emits em.keeps_cases and_then_emits publish_ephemeral_kept token bind publish_parts_kept assms)
qed

lemma remove_files_kept: "keeps (emits P) (remove_files E fs)"
  by (induction fs) (auto intro!: keeps_emits)

lemma removal_kept: "keeps (emits P) (remove_mount_info E d p)" "keeps (emits P) (remove_token_files E v)"
  unfolding remove_mount_info_def remove_token_files_def by (intro keeps_emits em.keeps_cases remove_files_kept; simp)+

lemma unstage_kept:
  assumes "P (Node (node_ext.CleanupMountPoint t True))"
    and "P (Node (node_ext.CleanupMountPoint (path_join [path_dir t, proxyMount]) False))"
  shows "keeps (emits P) (NodeUnstageVolume E d v t)"
  unfolding NodeUnstageVolume_def unstage_locked_def CleanupMountPoint_def Let_def
  by (intro keeps_emits em.keeps_cases and_then_emits with_volume_lock_emits removal_kept assms)

lemma unpublish_kept:
  assumes "P (Node (node_ext.CleanupMountPoint t True))"
  shows "keeps (emits P) (NodeUnpublishVolume E d v t)"
  unfolding NodeUnpublishVolume_def CleanupMountPoint_def
  by (intro keeps_emits em.keeps_cases and_then_emits removal_kept assms)

lemma stats_kept: "keeps (emits P) (NodeGetVolumeStats E v t)"
  unfolding NodeGetVolumeStats_def stats_fresh_def stats_get_def stats_set_def GetVolumeStats_def
  by (intro keeps_emits em.keeps_cases keeps_emits_modify; simp)

end

section \<open>Frames of the node service\<close>

interpretation no_mount: mount_frame "\<lambda>c. \<not> mounts c"
  by unfold_locales (simp add: no_mount_path)

interpretation no_unmount: mount_frame "\<lambda>c. \<not> takes_down c"
  by unfold_locales (simp add: no_mount_path)

text \<open>The calls that mount and take down only on the given paths.\<close>

definition mounts_within :: "string set \<Rightarrow> ext \<Rightarrow> bool" where
  "mounts_within T c \<longleftrightarrow> (case mount_path c of None \<Rightarrow> True | Some p \<Rightarrow> p \<in> T)"

interpretation within: mount_frame "mounts_within T" for T
  by unfold_locales (simp add: mounts_within_def)

end
