(* ===== verification/NodeSafety.thy ===== *)
theory NodeSafety
  imports NodeFrames
begin

text \<open>
  Safety of the node service (\<open>nodeserver.go\<close>): publishing takes no mount down, an inline volume's secret is read only
  after the review, a staged volume is mounted once, and where the checks of an inline volume can be passed by.
\<close>

section \<open>Events\<close>

definition reads_secret :: "ext \<Rightarrow> bool" where
  "reads_secret c = (case c of Kube (SecretGet _ _) \<Rightarrow> True | _ \<Rightarrow> reads_account_key c)"

lemma event_simps [simp]:
  "\<not> takes_down (Kube k)" "\<not> takes_down (Tool tool)" "\<not> takes_down (Account ac)"
  "\<not> mounts (Kube k)" "\<not> mounts (Tool tool)" "\<not> mounts (Account ac)"
  "\<not> takes_down (Node (IsLikelyNotMountPoint p))" "\<not> takes_down (Node (PathExists p))" "\<not> takes_down (Node ListMounts)"
  "\<not> takes_down (Node (ReadDir p))" "\<not> takes_down (Node (MkdirAll p m))" "\<not> takes_down (Node (Mount a b f os so))"
  "\<not> takes_down (Node (RemoveFile p))" "\<not> takes_down (Node (AuthManager as))"
  "\<not> takes_down (Node (DirectVolumeInfo p))" "\<not> takes_down (Node (DirectVolumeAdd p i))"
  "\<not> mounts (Node (IsLikelyNotMountPoint p))" "\<not> reads_secret (Node n)"
  "\<not> reads_secret (Kube (PodGet ns p))" "\<not> reads_secret (Kube (SubjectAccessReview u g ns sn))"
  by (simp_all add: takes_down_def mounts_def reads_secret_def reads_account_key_def)

section \<open>Publishing\<close>

text \<open>Publishing a staged volume never unmounts anything, neither the target nor the staged share, so other pods keep
  their mounts whatever the node answers.\<close>

theorem publish_never_unmounts:
  assumes "getServiceAccountTokens (np_Secrets req) (np_Context req) = []"
    and "\<not> EqualFold (map_get (np_Context req) ephemeralField) trueValue"
  shows "emits (\<lambda>c. \<not> takes_down c) s (final (NodePublishVolume E d req) s)"
proof -
  have "keeps (emits (\<lambda>c. \<not> takes_down c)) (NodePublishVolume E d req)"
    unfolding NodePublishVolume_def using assms
    by (auto intro!: keeps_emits no_unmount.publish_persistent_kept split: option.split)
  then show ?thesis by (simp add: keeps_def)
qed

definition sample_publish :: "smap \<Rightarrow> publish_request" where
  "sample_publish ctx =
     \<lparr>np_VolumeId = ''vol'', np_Staging = ''/stage'', np_Target = ''/target'',
      np_Capability = Some \<lparr>vc_block = False, vc_mount = True, vc_mountFlags = [], vc_mountGroup = [], vc_mode = None\<rparr>,
      np_Context = ctx, np_Secrets = [], np_Readonly = False\<rparr>"

theorem publish_never_unmounts_witness:
  "emits (\<lambda>c. \<not> takes_down c) initial_state
     (final (NodePublishVolume (sample_env no_error) sample_config (sample_publish [])) initial_state)"
proof (rule publish_never_unmounts)
  show "getServiceAccountTokens (np_Secrets (sample_publish [])) (np_Context (sample_publish [])) = []" by code_simp
  show "\<not> EqualFold (map_get (np_Context (sample_publish [])) ephemeralField) trueValue" by code_simp
qed

section \<open>Inline volumes\<close>

text \<open>The context an inline volume's checks see.\<close>

definition inline_request_context :: "publish_request \<Rightarrow> smap" where
  "inline_request_context req =
     set_fold (np_Context req) secretNamespaceField (map_get (np_Context req) podNamespaceField)"

lemma and_then_fails:
  assumes "keeps (emits P) m" "yields isl m"
  shows "keeps (emits P) (and_then m f)"
  unfolding keeps_def
proof
  fix s
  obtain r t where m: "run_state m s = (r, t)" by (cases "run_state m s") blast
  with assms(2) obtain e where "r = Inl e" by (cases r) (auto dest: run_yields)
  with m assms(1) show "emits P s (final (and_then m f) s)" by (simp add: keeps_def final_def run_simps) (metis snd_conv)
qed

lemma denied_authorization:
  assumes "authz_mode d = Inr (Some True)"
    and "\<And>tr u g ns n. ans_bool E tr (Kube (SubjectAccessReview u g ns n)) \<noteq> Inr True"
    and "inline_secret_name ctx \<noteq> []" "getSecretNamespace ctx \<noteq> []"
  shows "yields isl (check (authorizeInlineVolumeSecret E d ctx) w)"
proof -
  have no: "(case r of Inl err \<Rightarrow> deny True ns n (f err) | Inr ok \<Rightarrow> if ok then None else deny True ns n g) \<noteq> None"
    if "r \<noteq> Inr True" for r ns n f g using that by (cases r) (auto simp: deny_def)
  have review: "yields (\<lambda>r. r \<noteq> None) (review_access E d True ctx ns n)" for ns n
    unfolding yields_def result_def review_access_def Let_def
    by (auto simp: run_simps deny_def split: sum.split bool.split dest!: assms(2) [THEN notE])
  show ?thesis unfolding check_def authorizeInlineVolumeSecret_def using assms(1,3,4)
    by (auto simp: Let_def intro!: yields_strong [OF review] split: option.split)
qed

lemma review_emits:
  "keeps (emits (\<lambda>c. \<not> reads_secret c \<and> \<not> mounts c)) (check (authorizeInlineVolumeSecret E d ctx) w)"
  "keeps (emits (\<lambda>c. \<not> reads_secret c \<and> \<not> mounts c)) (canSkipRepublishNodeStage E ctx t)"
  unfolding authorizeInlineVolumeSecret_def review_access_def canSkipRepublishNodeStage_def Let_def
  by (intro keeps_emits em.keeps_cases and_then_emits; simp)+

text \<open>C19: with the review of inline secrets enforced, an inline volume without workload identity whose pod is refused the
  secret (or cannot be reviewed) is not mounted and no secret and no account key is read for it.\<close>

theorem inline_secret_reviewed:
  assumes "authz_mode d = Inr (Some True)" "EqualFold (map_get (np_Context req) ephemeralField) trueValue"
    and "\<not> isWorkloadIdentity (inline_request_context req)"
    and "\<And>tr u g ns n. ans_bool E tr (Kube (SubjectAccessReview u g ns n)) \<noteq> Inr True"
    and "inline_secret_name (inline_context d (inline_request_context req)) \<noteq> []"
    and "getSecretNamespace (inline_context d (inline_request_context req)) \<noteq> []"
  shows "emits (\<lambda>c. \<not> reads_secret c \<and> \<not> mounts c) s (final (NodePublishVolume E d req) s)"
proof -
  note denied = denied_authorization [OF assms(1,4,5,6)]
  have "keeps (emits (\<lambda>c. \<not> reads_secret c \<and> \<not> mounts c)) (publish_ephemeral E d req c)" for c
    unfolding publish_ephemeral_def Let_def inline_request_context_def [symmetric]
    using assms(3)
    by (auto intro!: keeps_emits review_emits and_then_fails denied split: prod.split bool.split option.split)
  then have "keeps (emits (\<lambda>c. \<not> reads_secret c \<and> \<not> mounts c)) (NodePublishVolume E d req)"
    unfolding NodePublishVolume_def using assms(2) by (auto intro!: keeps_emits split: option.split)
  then show ?thesis by (simp add: keeps_def)
qed

definition inline_attributes :: smap where
  "inline_attributes = [(''csi.storage.k8s.io/ephemeral'', ''true''), (''csi.storage.k8s.io/pod.name'', ''p''),
     (''csi.storage.k8s.io/pod.namespace'', ''ns''), (''shareName'', ''share'')]"

definition enforcing :: config where
  "enforcing = sample_config\<lparr>inlineVolumeSecretAuthz := ''enforce''\<rparr>"

definition refusing :: env where
  "refusing = (sample_env no_error)\<lparr>ans_bool := \<lambda>_ _. Inr False\<rparr>"

theorem inline_secret_reviewed_witness:
  "emits (\<lambda>c. \<not> reads_secret c \<and> \<not> mounts c) initial_state
     (final (NodePublishVolume refusing enforcing (sample_publish ((''secretName'', ''s'') # inline_attributes))) initial_state)"
proof (rule inline_secret_reviewed)
  show "authz_mode enforcing = Inr (Some True)" by code_simp
  show "EqualFold (map_get (np_Context (sample_publish ((''secretName'', ''s'') # inline_attributes))) ephemeralField) trueValue"
    by code_simp
  show "\<not> isWorkloadIdentity (inline_request_context (sample_publish ((''secretName'', ''s'') # inline_attributes)))"
    by code_simp
  show "ans_bool refusing tr (Kube (SubjectAccessReview u g ns n)) \<noteq> Inr True" for tr u g ns n
    by (simp add: refusing_def)
  show "inline_secret_name (inline_context enforcing
      (inline_request_context (sample_publish ((''secretName'', ''s'') # inline_attributes)))) \<noteq> []" by code_simp
  show "getSecretNamespace (inline_context enforcing
      (inline_request_context (sample_publish ((''secretName'', ''s'') # inline_attributes)))) \<noteq> []" by code_simp
qed

text \<open>
  The check against a managed identity compares with \<open>true\<close>, while the mount reads the attribute with
  \<open>strconv.ParseBool\<close>.
\<close>

definition bypass_attributes :: smap where
  "bypass_attributes = inline_attributes
     @ [(''mountWithManagedIdentity'', ''1''), (''clientID'', ''c''), (''storageAccount'', ''acc''),
        (''csi.storage.k8s.io/serviceAccount.tokens'', ''t'')]"

definition mount_with_identity :: "string \<Rightarrow> ext \<Rightarrow> bool" where
  "mount_with_identity identity c =
     (case c of
        Node (Mount source target fs options sensitive) \<Rightarrow>
          sensitive = [''sec=krb5,cruid=0,upcall_target=mount'', ''username='' @ identity]
      | _ \<Rightarrow> False)"

text \<open>Written as \<open>1\<close>, \<open>mountWithManagedIdentity\<close> passes the check that forbids it for inline volumes: with a client id
  and service account tokens the volume is mounted with that identity of the node, although every review is refused and
  none is asked for; written as \<open>true\<close> it is refused.\<close>

theorem inline_managed_identity_bypass:
  "result (NodePublishVolume refusing enforcing (sample_publish bypass_attributes)) initial_state = Inr ()
   \<and> list_ex (mount_with_identity ''c'')
       (trace (final (NodePublishVolume refusing enforcing (sample_publish bypass_attributes)) initial_state))
   \<and> isl (result (NodePublishVolume refusing enforcing
       (sample_publish ((''mountWithManagedIdentity'', ''true'') # inline_attributes))) initial_state)"
  by (intro conjI; code_simp)

section \<open>Staging twice\<close>

text \<open>Every path is a working mount point.\<close>

definition mounted_answers :: "env \<Rightarrow> bool" where
  "mounted_answers E \<longleftrightarrow>
     (\<forall>tr p. ans_mnt E tr (Node (IsLikelyNotMountPoint p)) = (False, None)
        \<and> isl (ans_strs E tr (Node ListMounts)) = False \<and> ans_err E tr (Node (ReadDir p)) = None)"

lemma ensure_mounted:
  assumes "mounted_answers E"
  shows "yields (\<lambda>r. r = (True, None)) (ensureMountPoint E t perm u)"
proof -
  have "\<exists>paths. ans_strs E tr (Node ListMounts) = Inr paths" for tr
    using assms unfolding mounted_answers_def isl_def by (metis sum.exhaust)
  then show ?thesis unfolding yields_def result_def ensureMountPoint_def probe_mount_def
    using assms by (auto simp: mounted_answers_def run_simps split: sum.split) (metis sum.simps(4))
qed

abbreviation "unmounting \<equiv> emits (\<lambda>c. \<not> mounts c)"

lemma mounted_no_mount:
  assumes "mounted_answers E"
  shows "keeps unmounting (stage_mount E d v t i sv srv c src path os so)" "keeps unmounting (stage_disk E v t sv path fl)"
  unfolding stage_mount_def stage_disk_def
  by (auto intro!: keeps_emits keeps_emits_after [OF no_mount.ensure_kept ensure_mounted [OF assms]])

text \<open>C20: staging a volume whose paths are mounted already mounts nothing, whatever its context asks for: a repeated
  request is answered by the mount that is there.\<close>

theorem staging_twice_mounts_once:
  assumes "mounted_answers E"
  shows "emits (\<lambda>c. \<not> mounts c) s (final (NodeStageVolume E d req) s)"
proof -
  have "keeps unmounting (NodeStageVolume E d req)"
    unfolding NodeStageVolume_def stage_decide_def stage_locked_def Let_def
    by (intro keeps_emits em.keeps_cases and_then_emits with_volume_lock_emits no_mount.account_info_kept
        no_mount.stage_parts_kept mounted_no_mount [OF assms])
  then show ?thesis by (simp add: keeps_def)
qed

theorem staging_twice_mounts_once_witness:
  "\<forall>req. emits (\<lambda>c. \<not> mounts c) initial_state
     (final (NodeStageVolume ((sample_env no_error)\<lparr>ans_mnt := \<lambda>_ _. (False, None)\<rparr>) sample_config req) initial_state)"
  by (intro allI staging_twice_mounts_once) (simp add: mounted_answers_def sample_env_def no_error_def)

end
