(* ===== verification/NodeSuccess.thy ===== *)
theory NodeSuccess
  imports Achieves NodeSafety
begin

text \<open>
  What a successful answer of the node service (\<open>nodeserver.go\<close>) means: a staged or published target was found readable or
  a mount of it was asked for and succeeded; a target that is given back was cleaned up.
\<close>

interpretation grow_mounts: mount_frame "\<lambda>_. True"
  by unfold_locales simp

section \<open>Mounts of a path\<close>

text \<open>The calls after which a path is mounted: a look into the mount that is there, or a mount on the path.\<close>

definition provides :: "string \<Rightarrow> ext \<Rightarrow> bool" where
  "provides p c =
     (case c of
        Node n \<Rightarrow>
          (case n of
             ReadDir target \<Rightarrow> target = p
           | Mount source target fs options sensitive \<Rightarrow> target = p
           | ProxyMount source target fs options sensitive \<Rightarrow> target = p
           | FormatAndMount source target fs options \<Rightarrow> target = p
           | _ \<Rightarrow> False)
      | _ \<Rightarrow> False)"

lemma provides_simps [simp]:
  "provides p (Node (ReadDir q)) \<longleftrightarrow> q = p" "provides p (Node (Mount a q f os so)) \<longleftrightarrow> q = p"
  "provides p (Node (ProxyMount a q f os so)) \<longleftrightarrow> q = p" "provides p (Node (FormatAndMount a q f os)) \<longleftrightarrow> q = p"
  by (simp_all add: provides_def)

definition found_mounted :: "bool \<times> goerr option \<Rightarrow> bool" where
  "found_mounted r \<longleftrightarrow> r = (True, None)"

lemma ensure_achieves:
  assumes "A (Node (ReadDir p))"
  shows "achieves (no_error_for E A) found_mounted (ensureMountPoint E p perm u)"
proof -
  have probe: "achieves (no_error_for E A) found_mounted (probe_mount E p u)"
    unfolding probe_mount_def
    by (rule achieves_bind [where P = "\<lambda>r. r = None"])
      (auto simp: found_mounted_def assms intro!: achieves_call_ok keeps_emits achieves_later achieves_return split: option.split)
  have failed: "(case err of None \<Rightarrow> False | Some e \<Rightarrow> err_kind e \<noteq> OsNotExist) \<Longrightarrow> \<not> found_mounted (b, err)" for err b
    by (cases err) (auto simp: found_mounted_def)
  have "achieves (no_error_for E A) found_mounted (if failed \<and> \<not> corrupted then ret (\<not> notMnt, err) else do {
      let notMnt = (if failed then False else notMnt);
      mountList \<leftarrow> call (ans_strs E) (Node ListMounts);
      (case mountList of
         Inl err \<Rightarrow> ret (\<not> notMnt, Some err)
       | Inr paths \<Rightarrow>
           if \<not> notMnt \<or> path_abs E p \<in> set paths then probe_mount E p u
           else do {
             err \<leftarrow> makeDir E p perm;
             ret (False, err) }) })"
    if "failed = (case err of None \<Rightarrow> False | Some e \<Rightarrow> err_kind e \<noteq> OsNotExist)" for failed corrupted notMnt err
    using that failed [of err "\<not> notMnt"]
    by (auto simp: found_mounted_def Let_def intro!: achieves_return achieves_later keeps_emits grow.eff_mount_point probe
        split: sum.split)
  then show ?thesis unfolding ensureMountPoint_def Let_def
    by (auto intro!: achieves_later keeps_emits grow.eff_mount_point)
qed

section \<open>Publishing\<close>

definition bind_options :: "publish_request \<Rightarrow> string list" where
  "bind_options req = ''bind'' # (if np_Readonly req then [''ro''] else [])"

text \<open>A look into the target, or the bind mount of the staged volume on it.\<close>

definition publishes :: "publish_request \<Rightarrow> ext \<Rightarrow> bool" where
  "publishes req c \<longleftrightarrow>
     c = Node (ReadDir (np_Target req)) \<or> c = Node (Mount (np_Staging req) (np_Target req) [] (bind_options req) [])"

text \<open>For any evidence that a look into the target and the bind mount on it give.\<close>

definition bind_event :: "publish_request \<Rightarrow> ext" where
  "bind_event req = Node (Mount (np_Staging req) (np_Target req) [] (bind_options req) [])"

lemma bind_mount_achieves:
  assumes "\<And>tr. ans_err E tr (bind_event req) = None \<Longrightarrow> A tr (bind_event req)"
  shows "achieves A succeeded (bind_mount E req)"
proof -
  have "achieves A (\<lambda>r. r = None) (call (ans_err E) (bind_event req))" by (rule achieves_call) (rule assms)
  then show ?thesis unfolding bind_mount_def Let_def bind_options_def [symmetric] bind_event_def [symmetric]
    by (rule achieves_bind [rotated]) (auto intro!: keeps_emits achieves_later achieves_return split: option.split)
qed

lemma publish_bind_achieves:
  assumes "achieves A found_mounted (ensureMountPoint E (np_Target req) perm False)"
    and "\<And>tr. ans_err E tr (bind_event req) = None \<Longrightarrow> A tr (bind_event req)"
  shows "achieves A succeeded (publish_bind E d req perm)"
proof -
  let ?f = "\<lambda>(mnt, err). (case err of
         Some e \<Rightarrow> ret (Inl (Statusf Internal ''Could not mount target %s: %v'' [np_Target req, err_text e]))
       | None \<Rightarrow> if mnt then ret (Inr ()) else bind_mount E req)"
  have "achieves A succeeded (State_Monad.bind (ensureMountPoint E (np_Target req) perm False) ?f)"
  proof (rule achieves_bind [OF grow.eff_mount_point(1) assms(1)])
    show "found_mounted r \<Longrightarrow> grows (?f r)" for r by (auto simp: found_mounted_def keeps_emits)
    show "\<not> found_mounted r \<Longrightarrow> achieves A succeeded (?f r)" for r
      using bind_mount_achieves [of E req A] assms(2)
      by (cases r) (auto simp: found_mounted_def intro: achieves_return split: option.split)
  qed
  then show ?thesis unfolding publish_bind_def
    by (auto intro!: achieves_return achieves_next grow_mounts.refresh_kept)
qed

text \<open>Publishing that neither stages for an inline volume or a token nor hands the volume to a confidential guest.\<close>

definition binds :: "config \<Rightarrow> publish_request \<Rightarrow> bool" where
  "binds d req \<longleftrightarrow>
     \<not> EqualFold (map_get (np_Context req) ephemeralField) trueValue
     \<and> getServiceAccountTokens (np_Secrets req) (np_Context req) = [] \<and> \<not> enableKataCCMount d"

lemma publish_achieves:
  assumes "binds d req" "\<And>perm. achieves A found_mounted (ensureMountPoint E (np_Target req) perm False)"
    and "\<And>tr. ans_err E tr (bind_event req) = None \<Longrightarrow> A tr (bind_event req)"
  shows "achieves A succeeded (NodePublishVolume E d req)"
  unfolding NodePublishVolume_def publish_persistent_def using assms(1) publish_bind_achieves [OF assms(2,3)]
  by (auto simp: binds_def publish_confidential_def and_then_def run_simps
      intro!: achieves_return achieves_cases split: option.split sum.split)



section \<open>Staging\<close>

lemma grows_stage:
  "grows (stage_create_folder E i sv pl)" "grows (stage_options E d v ctx t i sv srv fl cfl)" "grows (stage_chmod E sv t)"
  "grows (stage_mount E d v t i sv srv c src path os so)" "grows (stage_kata E d sv srv src path os so)"
  "grows (stage_disk E v t sv path fl)" "grows (stage_ownership E v sv t g)" "grows (stage_credentials i)"
  "grows (lift_err r)"
  by (rule grow.eff_stage_parts grow.eff_stage_options grow.eff_stage_mount)+

lemma achieves_wait:
  assumes "grows m" "achieves A (\<lambda>r. r = None) m"
  shows "achieves A (\<lambda>r. r = None) (WaitUntilTimeout E timeout m (ret (Some e)))"
proof -
  have "achieves A (\<lambda>r. r = None) (do {
      late \<leftarrow> call (ans_flag E) (Tool (Timeout timeout)); (if late then ret (Some e) else ret err) })" if "err \<noteq> None" for err
    using that by (intro achieves_later ach keeps_emits) simp_all
  moreover have "grows (do { late \<leftarrow> call (ans_flag E) (Tool (Timeout timeout)); (if late then ret (Some e) else ret err) })" for err
    by (intro keeps_emits em.keeps_cases) simp
  ultimately show ?thesis unfolding WaitUntilTimeout_def
    by (intro achieves_bind [OF assms])
qed

lemma grows_wait: "grows m \<Longrightarrow> grows (WaitUntilTimeout E timeout m (ret e))"
  unfolding WaitUntilTimeout_def by (intro keeps_emits em.keeps_cases) simp_all

lemma achieves_lift:
  "(\<And>a. r = Inr a \<Longrightarrow> achieves A succeeded (f a)) \<Longrightarrow> achieves A succeeded (and_then (lift_err r) f)"
  by (cases r) (simp_all add: achieves_def result_def final_def and_then_def lift_err_def run_simps)

text \<open>A stage that is left to publishing, since the token it needs comes only then, mounts nothing.\<close>

definition staged_later :: "stage_request \<Rightarrow> bool" where
  "staged_later req \<longleftrightarrow>
     getServiceAccountTokens (nr_Secrets req) (nr_Context req) = [] \<and> shouldUseServiceAccountToken (nr_Context req)"

text \<open>
  Evidence that a path is mounted: what a look that finds it mounted gives, and a mount on it.  A successful stage gives it,
  whichever evidence is asked for.
\<close>

locale mount_evidence =
  fixes E :: env and A :: "string \<Rightarrow> ext list \<Rightarrow> ext \<Rightarrow> bool"
  assumes looked: "achieves (A p) found_mounted (ensureMountPoint E p perm u)"
    and mounted: "mounts c \<Longrightarrow> mount_path c = Some p \<Longrightarrow> ans_err E tr c = None \<Longrightarrow> A p tr c"
begin

lemma mount_call_achieves: "mounts c \<Longrightarrow> mount_path c = Some p \<Longrightarrow> achieves (A p) (\<lambda>r. r = None) (call (ans_err E) c)"
  by (rule achieves_call) (rule mounted)

lemma stage_exec_achieves:
  "achieves (A path) (\<lambda>r. r = None) (stage_exec E d i sv srv c src path fs os so)"
  "grows (stage_exec E d i sv srv c src path fs os so)"
  unfolding stage_exec_def SMBMount_def stage_credential_cache_def Let_def
  by (auto intro!: mount_call_achieves achieves_later achieves_return grow.eff_credential_cache keeps_emits split: option.split)

lemma stage_direct_achieves:
  "achieves (A path) succeeded (stage_direct_mount E d v i sv srv c src path fs os so)"
  "grows (stage_direct_mount E d v i sv srv c src path fs os so)"
  unfolding stage_direct_mount_def
  by (intro achieves_check achieves_wait stage_exec_achieves and_then_emits grows_wait)+

lemma proxy_achieves: "achieves (A path) (\<lambda>r. r = None) (mountWithProxy E src path fs os so)"
proof -
  have "achieves (A path) (\<lambda>r. r = None) (WaitUntilTimeout E ''proxy mount''
      (call (ans_err E) (Node (ProxyMount src path fs os so))) (ret (Some e)))" for e
    by (intro achieves_wait mount_call_achieves keeps_emits) simp_all
  then have "achieves (A path) (\<lambda>r. r = None) (if err \<noteq> None then ret err else
      WaitUntilTimeout E ''proxy mount'' (call (ans_err E) (Node (ProxyMount src path fs os so))) (ret (Some e)))" for err e
    by (cases err) (auto intro: achieves_return)
  then show ?thesis unfolding mountWithProxy_def by (rule achieves_later [rotated]) (simp add: keeps_emits)
qed

lemma stage_proxy_achieves:
  "achieves (A path) succeeded (stage_proxy_mount E src path fs os so)"
  "grows (stage_proxy_mount E src path fs os so)"
  unfolding stage_proxy_mount_def
  by (intro achieves_check proxy_achieves and_then_emits grow.eff_mount_calls)+

lemma stage_mount_achieves:
  "achieves (A path) succeeded (stage_mount E d v t i sv srv c src path os so)"
proof -
  have share: "achieves (A path) succeeded (stage_mount_share E d v t i sv srv c src path os so)"
    unfolding stage_mount_share_def Let_def
    by (auto intro!: achieves_return achieves_this grows_stage stage_proxy_achieves stage_direct_achieves split: prod.split)
  let ?f = "\<lambda>(isDirMounted, err). (case err of
        Some e \<Rightarrow> ret (Inl (Statusf Internal ''Could not mount target %s: %v'' [path, err_text e]))
      | None \<Rightarrow> if isDirMounted then ret (Inr ()) else stage_mount_share E d v t i sv srv c src path os so)"
  show ?thesis unfolding stage_mount_def
  proof (rule achieves_bind [OF grow.eff_mount_point(1) looked])
    show "found_mounted r \<Longrightarrow> grows (?f r)" for r by (auto simp: found_mounted_def keeps_emits)
    show "\<not> found_mounted r \<Longrightarrow> achieves (A path) succeeded (?f r)" for r
      using share by (cases r) (auto simp: found_mounted_def intro: achieves_return split: option.split)
  qed
qed

text \<open>A disk ends on the target by its own mount; a share by the mount of its path, which is the target.\<close>

lemma format_achieves:
  "achieves (A t) succeeded (and_then
     (check (validateDiskIsRegularFile E dp) w) (\<lambda>_. and_then
        (check (call (ans_err E) (Node (FormatAndMount dp t fs os))) w') (\<lambda>_. ret (Inr True))))"
  by (intro achieves_next achieves_this achieves_check mount_call_achieves and_then_emits keeps_emits grow.eff_mount_calls) simp_all

lemma stage_disk_achieves:
  assumes "isDiskFsType (sv_fsType sv)"
  shows "achieves (A t) succeeded (stage_disk E v t sv path fl)"
proof -
  let ?f = "\<lambda>(mnt, err). (case err of
        Some e \<Rightarrow> ret (Inl (Statusf Internal ''mount %s on target %s failed with %v'' [v, t, err_text e]))
      | None \<Rightarrow> if mnt then ret (Inr False) else
          let diskPath = path_join [path, sv_disk sv] in and_then
            (check (validateDiskIsRegularFile E diskPath) (\<lambda>e. invalid ''invalid disk source: %v'' [err_text e])) (\<lambda>_. and_then
              (check (call (ans_err E) (Node (FormatAndMount diskPath t (sv_fsType sv) (disk_options sv fl))))
                 (\<lambda>_. Statusf Internal ''could not format %s and mount it at %s'' [t, diskPath]))
              (\<lambda>_. ret (Inr True))))"
  have "achieves (A t) succeeded (State_Monad.bind (ensureMountPoint E t (sv_permissions sv) True) ?f)"
  proof (rule achieves_bind [OF grow.eff_mount_point(1) looked])
    show "found_mounted r \<Longrightarrow> grows (?f r)" for r by (auto simp: found_mounted_def keeps_emits)
    show "\<not> found_mounted r \<Longrightarrow> achieves (A t) succeeded (?f r)" for r
      using format_achieves by (cases r) (auto simp: found_mounted_def Let_def intro: achieves_return split: option.split)
  qed
  then show ?thesis using assms by (simp add: stage_disk_def)
qed

lemma stage_locked_achieves: "achieves (A (nr_Target req)) succeeded (stage_locked E d req fl g b i sv)"
proof -
  have disk: "achieves (A (nr_Target req)) succeeded (and_then (stage_disk E (nr_VolumeId req) (nr_Target req) sv path fl)
      (\<lambda>more. if more then stage_ownership E (nr_VolumeId req) sv path g else ret (Inr ())))"
    if "isDiskFsType (sv_fsType sv)" for path
    using stage_disk_achieves [OF that] by (intro achieves_this grows_stage em.keeps_cases keeps_emits)
  show ?thesis
  proof (cases "isDiskFsType (sv_fsType sv)")
    case True
    then show ?thesis unfolding stage_locked_def Let_def
      by (auto intro!: achieves_next grows_stage disk split: prod.split)
  next
    case False
    then have path: "stage_mount_path sv t fl b g = Inr (path, cfl) \<Longrightarrow> path = t" for t path cfl
      by (simp add: stage_mount_path_def)
    have rest: "grows (and_then (stage_kata E d sv srv src path os so) (\<lambda>_. and_then (stage_disk E v t sv path fl) (\<lambda>more.
        if more then stage_ownership E v sv path g else ret (Inr ()))))" for srv src path os so v t
      by (intro and_then_emits grows_stage em.keeps_cases keeps_emits)
    show ?thesis unfolding stage_locked_def Let_def
      by (rule achieves_next [OF grows_stage(9)], rule achieves_next [OF grows_stage(1)], rule achieves_lift)
        (auto dest!: path intro!: achieves_next grows_stage achieves_this [OF grows_stage(4) stage_mount_achieves rest]
          split: prod.split)
  qed
qed

lemma stage_achieves:
  assumes "\<not> staged_later req"
  shows "achieves (A (nr_Target req)) succeeded (NodeStageVolume E d req)"
  unfolding NodeStageVolume_def using assms
  by (auto simp: staged_later_def intro!: achieves_return achieves_next achieves_locked stage_locked_achieves
      grow.eff_stage_locked grow_mounts.stage_parts_kept split: option.split)

end

interpretation seen: mount_evidence E "\<lambda>p. no_error_for E (provides p)" for E
  by unfold_locales
    (auto simp: ensure_achieves no_error_for_def mounts_def provides_def mount_path_def split: ext.splits node_ext.splits)


definition sample_stage :: stage_request where
  "sample_stage = stage_of (sample_publish []) [(''storageAccount'', ''acc''), (''shareName'', ''share'')]"


section \<open>Giving back\<close>

definition cleans :: "string \<Rightarrow> bool \<Rightarrow> ext \<Rightarrow> bool" where
  "cleans p extensive c \<longleftrightarrow> c = Node (node_ext.CleanupMountPoint p extensive)"

lemma cleanup_achieves:
  "achieves (no_error_for E (cleans p b)) (\<lambda>r. r = None) (CleanupMountPoint E p b)" "grows (CleanupMountPoint E p b)"
  unfolding CleanupMountPoint_def by (simp_all add: achieves_call_ok cleans_def keeps_emits)

lemma unstage_achieves:
  "achieves (no_error_for E (cleans t True)) succeeded (NodeUnstageVolume E d v t)"
  "achieves (no_error_for E (cleans (path_join [path_dir t, proxyMount]) False)) succeeded (NodeUnstageVolume E d v t)"
  unfolding NodeUnstageVolume_def unstage_locked_def Let_def
  by (intro ach achieves_locked achieves_this cleanup_achieves grow_mounts.removal_kept and_then_emits keeps_emits em.keeps_cases;
      simp)
    (intro ach achieves_locked achieves_next [of "check (CleanupMountPoint E t True) w" for w] achieves_this cleanup_achieves
      grow_mounts.removal_kept and_then_emits keeps_emits em.keeps_cases; simp)

lemma unpublish_achieves: "achieves (no_error_for E (cleans t True)) succeeded (NodeUnpublishVolume E d v t)"
  unfolding NodeUnpublishVolume_def
  by (intro ach achieves_this cleanup_achieves grow_mounts.removal_kept and_then_emits keeps_emits em.keeps_cases) simp_all

text \<open>When a volume is unstaged successfully, the cleanup of the staging target and of the mount of its share beside it
  were both asked for and succeeded; when it is unpublished successfully, that of the pod's target.\<close>

theorem removed_target_cleaned:
  "(result (NodeUnstageVolume E d v t) s = Inr () \<longrightarrow>
      went_well (no_error_for E (cleans t True)) s (final (NodeUnstageVolume E d v t) s)
      \<and> went_well (no_error_for E (cleans (path_join [path_dir t, proxyMount]) False)) s
          (final (NodeUnstageVolume E d v t) s))
   \<and> (result (NodeUnpublishVolume E d v t) s = Inr () \<longrightarrow>
      went_well (no_error_for E (cleans t True)) s (final (NodeUnpublishVolume E d v t) s))"
  by (intro conjI impI; rule achieves_result, rule unstage_achieves unpublish_achieves, simp)

theorem removed_target_cleaned_witness:
  "went_well (no_error_for (sample_env no_error) (cleans ''/stage/globalmount'' True)) initial_state
     (final (NodeUnstageVolume (sample_env no_error) sample_config ''v'' ''/stage/globalmount'') initial_state)
   \<and> went_well (no_error_for (sample_env no_error) (cleans ''/stage/proxy-mount'' False)) initial_state
     (final (NodeUnstageVolume (sample_env no_error) sample_config ''v'' ''/stage/globalmount'') initial_state)"
proof -
  have "result (NodeUnstageVolume (sample_env no_error) sample_config ''v'' ''/stage/globalmount'') initial_state = Inr ()"
    by code_simp
  moreover have "path_join [path_dir ''/stage/globalmount'', proxyMount] = ''/stage/proxy-mount''" by code_simp
  ultimately show ?thesis
    using removed_target_cleaned [of "sample_env no_error" sample_config "''v''" "''/stage/globalmount''" initial_state] by metis
qed

end
