(* ===== verification/MountTable.thy ===== *)
theory MountTable
  imports NodeSuccess Histories
begin

text \<open>
  The abstract specification of the node service: the paths of the node that are mount points are a set, a stage and a
  publication add their target, unstaging and unpublishing take theirs away, and no request changes what is mounted
  elsewhere.  The set is read off the trace: the mounts and cleanups the node answered without an error, by absolute path.
  \<open>honest_node\<close> states what is documented of the node's answers about mounts, when nobody but the driver mounts and
  unmounts there.
\<close>

section \<open>The mount points of the node\<close>

type_synonym table = "string set"

definition mount_step :: "env \<Rightarrow> ext list \<Rightarrow> ext \<Rightarrow> table \<Rightarrow> table" where
  "mount_step E tr c M =
     (if ans_err E tr c \<noteq> None then M
      else case mount_path c of
        None \<Rightarrow> M
      | Some p \<Rightarrow> if mounts c then insert (path_abs E p) M else M - {path_abs E p})"

abbreviation mounts_of :: "env \<Rightarrow> table \<Rightarrow> drv \<Rightarrow> table" where
  "mounts_of E \<equiv> seen (mount_step E)"

lemma mount_step_adds: "\<not> takes_down c \<Longrightarrow> N \<subseteq> mount_step E tr c N"
  using no_mount_path [of c] by (cases "mount_path c") (auto simp: mount_step_def)

lemma mount_step_removes: "\<not> mounts c \<Longrightarrow> mount_step E tr c N \<subseteq> N"
  by (cases "mount_path c") (auto simp: mount_step_def)

definition same_outside :: "table \<Rightarrow> table \<Rightarrow> table \<Rightarrow> bool" where
  "same_outside A M M' \<longleftrightarrow> M - A = M' - A"

lemma within_table:
  assumes "emits (mounts_within T) s t"
  shows "same_outside (path_abs E ` T) (mounts_of E M s) (mounts_of E M t)"
proof -
  have "mounts_of E M s - path_abs E ` T = mounts_of E M t - path_abs E ` T"
  proof (rule seen_keeps [OF assms, where I = "\<lambda>N. mounts_of E M s - path_abs E ` T = N - path_abs E ` T"])
    show "mounts_of E M s - path_abs E ` T = mount_step E tr c N - path_abs E ` T"
      if "mounts_within T c" "mounts_of E M s - path_abs E ` T = N - path_abs E ` T" for tr c N
      using that by (auto simp: mounts_within_def mount_step_def split: option.splits)
  qed simp
  then show ?thesis by (simp add: same_outside_def)
qed

lemma growing_table:
  assumes "emits (\<lambda>c. \<not> takes_down c) s t"
  shows "mounts_of E M s \<subseteq> mounts_of E M t"
proof (rule seen_keeps [OF assms, where I = "\<lambda>N. mounts_of E M s \<subseteq> N"])
  show "mounts_of E M s \<subseteq> mount_step E tr c N" if "\<not> takes_down c" "mounts_of E M s \<subseteq> N" for tr c N
    using mount_step_adds [OF that(1)] that(2) by (rule subset_trans [rotated])
qed simp

lemma shrinking_table:
  assumes "emits (\<lambda>c. \<not> mounts c) s t"
  shows "mounts_of E M t \<subseteq> mounts_of E M s"
proof (rule seen_keeps [OF assms, where I = "\<lambda>N. N \<subseteq> mounts_of E M s"])
  show "mount_step E tr c N \<subseteq> mounts_of E M s" if "\<not> mounts c" "N \<subseteq> mounts_of E M s" for tr c N
    using mount_step_removes [OF that(1)] that(2) by (rule subset_trans)
qed simp

section \<open>What the node answers\<close>

text \<open>A path that is not reported as no mount point is one, so is a listed one, and so is one whose mount is broken.\<close>

definition honest_node :: "env \<Rightarrow> table \<Rightarrow> bool" where
  "honest_node E M \<longleftrightarrow>
     (\<forall>tr p. \<not> fst (ans_mnt E tr (Node (IsLikelyNotMountPoint p))) \<longrightarrow> path_abs E p \<in> replay (mount_step E) M [] tr)
   \<and> (\<forall>tr ps q. ans_strs E tr (Node ListMounts) = Inr ps \<longrightarrow> q \<in> set ps \<longrightarrow> q \<in> replay (mount_step E) M [] tr)
   \<and> (\<forall>tr p e. ans_err E tr (Node (PathExists p)) = Some e \<longrightarrow> err_kind e = CorruptedMnt
        \<longrightarrow> path_abs E p \<in> replay (mount_step E) M [] tr)"

definition mount_known :: "env \<Rightarrow> string \<Rightarrow> ext list \<Rightarrow> ext \<Rightarrow> bool" where
  "mount_known E p tr c \<longleftrightarrow>
     mounts c \<and> mount_path c = Some p \<and> ans_err E tr c = None
   \<or> c = Node (IsLikelyNotMountPoint p) \<and> \<not> fst (ans_mnt E tr c)
   \<or> c = Node ListMounts \<and> (case ans_strs E tr c of Inl _ \<Rightarrow> False | Inr paths \<Rightarrow> path_abs E p \<in> set paths)
   \<or> c = Node (PathExists p) \<and> (case ans_err E tr c of None \<Rightarrow> False | Some e \<Rightarrow> err_kind e = CorruptedMnt)"

lemma honest_mounted:
  assumes "honest_node E M" "mount_known E p tr c"
  shows "path_abs E p \<in> mount_step E tr c (replay (mount_step E) M [] tr)"
  using assms(2) unfolding mount_known_def
proof (elim disjE conjE)
  assume "mounts c" "mount_path c = Some p" "ans_err E tr c = None"
  then show ?thesis by (simp add: mount_step_def)
qed (use assms(1) in \<open>auto simp: honest_node_def mount_step_def split: sum.splits option.splits\<close>)

lemma known_mounted:
  assumes "honest_node E M" "went_well (mount_known E p) s t" "emits (\<lambda>c. \<not> takes_down c) s t"
  shows "path_abs E p \<in> mounts_of E M t"
proof (rule seen_went_well [OF assms(2,3), where I = "\<lambda>N. path_abs E p \<in> N"])
  show "path_abs E p \<in> mount_step E tr c N" if "\<not> takes_down c" "path_abs E p \<in> N" for tr c N
    using mount_step_adds [OF that(1)] that(2) by (rule subsetD)
qed (rule honest_mounted [OF assms(1)])

lemma ensure_known: "achieves (mount_known E p) found_mounted (ensureMountPoint E p perm u)"
proof -
  have probe: "grows (probe_mount E p u)"
    unfolding probe_mount_def by (intro keeps_emits em.keeps_cases; simp)
  have listed: "achieves (mount_known E p) found_mounted (do {
      mountList \<leftarrow> call (ans_strs E) (Node ListMounts);
      (case mountList of
         Inl err \<Rightarrow> ret (\<not> notMnt, Some err)
       | Inr paths \<Rightarrow>
           if \<not> notMnt \<or> path_abs E p \<in> set paths then probe_mount E p u
           else do {
             err \<leftarrow> makeDir E p perm;
             ret (False, err) }) })" if "notMnt" for notMnt
    using that
    by (intro achieves_bind [where P = "\<lambda>r. case r of Inl _ \<Rightarrow> False | Inr paths \<Rightarrow> path_abs E p \<in> set paths"])
      (auto simp: mount_known_def found_mounted_def intro!: achieves_call keeps_emits probe achieves_return
        achieves_later grow.eff_mount_point split: sum.splits)
  have corrupted: "achieves (mount_known E p) (\<lambda>b. b) (IsCorruptedDir E p)" "grows (IsCorruptedDir E p)"
    unfolding IsCorruptedDir_def
    by (rule achieves_bind [where P = "\<lambda>r. case r of None \<Rightarrow> False | Some e \<Rightarrow> err_kind e = CorruptedMnt"])
      (auto simp: mount_known_def intro!: achieves_call keeps_emits achieves_return split: option.splits)
  let ?g = "\<lambda>failed notMnt err corrupted. if failed \<and> \<not> corrupted then ret (\<not> notMnt, err) else do {
      let notMnt = (if failed then False else notMnt);
      mountList \<leftarrow> call (ans_strs E) (Node ListMounts);
      (case mountList of
         Inl err \<Rightarrow> ret (\<not> notMnt, Some err)
       | Inr paths \<Rightarrow>
           if \<not> notMnt \<or> path_abs E p \<in> set paths then probe_mount E p u
           else do {
             err \<leftarrow> makeDir E p perm;
             ret (False, err) }) }"
  have g: "grows (?g failed notMnt err corrupted)" for failed notMnt err corrupted
    unfolding Let_def by (intro keeps_emits em.keeps_cases probe grow.eff_mount_point; simp)
  have f: "grows (State_Monad.bind (if failed then IsCorruptedDir E p else ret False) (?g failed notMnt err))" for failed notMnt err
    by (intro keeps_emits em.keeps_cases corrupted(2) g)
  have "achieves (mount_known E p) found_mounted (State_Monad.bind (IsCorruptedDir E p) (?g True True err))" for err
    by (rule achieves_bind [OF corrupted(2,1)], rule g) (simp add: found_mounted_def achieves_return)
  moreover have "achieves (mount_known E p) found_mounted (State_Monad.bind (ret False) (?g False True err))" for err
    using listed [of True] by (auto simp: Let_def intro!: achieves_later keeps_emits)
  ultimately have "achieves (mount_known E p) found_mounted
      (State_Monad.bind (if failed then IsCorruptedDir E p else ret False) (?g failed True err))" for failed err
    by (induction failed) (simp_all only: if_True if_False)
  note unknown = this
  show ?thesis unfolding ensureMountPoint_def Let_def [of "case _ of None \<Rightarrow> False | Some e \<Rightarrow> err_kind e \<noteq> OsNotExist"]
  proof (rule achieves_bind [where P = "\<lambda>r. \<not> fst r"], goal_cases)
    case 2
    show ?case by (rule achieves_call) (simp add: mount_known_def)
  next
    case (3 r)
    show ?case by (cases r) (simp only: prod.case f)
  next
    case (4 r)
    then show ?case by (cases r) (simp add: unknown del: Let_def)
  qed (simp add: keeps_emits)
qed

interpretation known: mount_evidence E "mount_known E" for E
  by unfold_locales (auto simp: ensure_known mount_known_def)

section \<open>Successful steps take nothing down\<close>

text \<open>A program that makes only calls of a kind when its result is in \<open>Q\<close>.\<close>

definition emits_if :: "(ext \<Rightarrow> bool) \<Rightarrow> ('a \<Rightarrow> bool) \<Rightarrow> 'a prog \<Rightarrow> bool" where
  "emits_if P Q m \<longleftrightarrow> (\<forall>s. Q (result m s) \<longrightarrow> emits P s (final m s))"

lemma emits_if_keeps: "keeps (emits P) m \<Longrightarrow> emits_if P Q m"
  by (simp add: emits_if_def keeps_def)

lemma emits_if_bind:
  assumes "emits_if P R m" "\<And>a. R a \<Longrightarrow> emits_if P Q (f a)" "\<And>a s. \<not> R a \<Longrightarrow> \<not> Q (result (f a) s)"
  shows "emits_if P Q (State_Monad.bind m f)"
  unfolding emits_if_def
proof (intro allI impI)
  fix s
  assume Q: "Q (result (State_Monad.bind m f) s)"
  obtain a t where m: "run_state m s = (a, t)" by (cases "run_state m s")
  have q: "Q (result (f a) t)" using Q m by (simp add: result_def run_simps)
  then have R: "R a" using assms(3) by blast
  have "emits P s t" using assms(1) R m by (auto simp: emits_if_def result_def final_def dest: spec [of _ s])
  moreover have "emits P t (final (f a) t)" using assms(2) [OF R] q by (simp add: emits_if_def)
  ultimately show "emits P s (final (State_Monad.bind m f) s)"
    using m by (simp add: final_def run_simps) (rule emits_trans)
qed

lemma emits_if_and_then:
  "emits_if P succeeded m \<Longrightarrow> (\<And>a. emits_if P succeeded (f a)) \<Longrightarrow> emits_if P succeeded (and_then m f)"
  unfolding and_then_def
  by (rule emits_if_bind [where R = succeeded]) (auto simp: result_def run_simps emits_if_keeps keeps_emits split: sum.split)

lemma emits_if_cases:
  "emits_if P Q m \<Longrightarrow> emits_if P Q n \<Longrightarrow> emits_if P Q (if b then m else n)"
  "emits_if P Q m \<Longrightarrow> (\<And>x. emits_if P Q (f x)) \<Longrightarrow> emits_if P Q (case c of None \<Rightarrow> m | Some x \<Rightarrow> f x)"
  "(\<And>x y. emits_if P Q (k x y)) \<Longrightarrow> emits_if P Q (case p of (x, y) \<Rightarrow> k x y)"
  by (simp_all split: option.split prod.split)

lemma emits_if_locked:
  assumes "emits_if P Q body" "\<And>s. \<not> Q (result aborted s)"
  shows "emits_if P Q (with_volume_lock k aborted body)"
proof -
  have "emits_if P Q (State_Monad.bind body (\<lambda>r. State_Monad.bind (release k) (\<lambda>_. ret r)))"
    by (rule emits_if_bind [OF assms(1)])
      (auto simp: result_def run_simps intro!: emits_if_keeps keeps_emits grow.eff_lock_ops keeps_emits_locks split: prod.split)
  then show ?thesis unfolding with_volume_lock_def
    by (intro emits_if_bind [where R = "\<lambda>_. True", OF emits_if_keeps [OF keeps_emits_locks(1)]] emits_if_cases)
      (simp_all add: assms(2) emits_if_def)
qed

abbreviation "taking_none \<equiv> emits_if (\<lambda>c. \<not> takes_down c)"

lemma ensure_taking_none: "taking_none (\<lambda>r. snd r = None) (ensureMountPoint E t perm u)"
proof -
  have probe: "taking_none (\<lambda>r. snd r = None) (probe_mount E t u)"
    unfolding probe_mount_def
    by (rule emits_if_bind [where R = "\<lambda>r. r = None"])
      (auto simp: result_def run_simps intro!: emits_if_keeps keeps_emits split: option.split prod.split)
  show ?thesis unfolding ensureMountPoint_def IsCorruptedDir_def makeDir_def Let_def
    by (intro emits_if_bind [where R = "\<lambda>_. True"] emits_if_cases)
      (auto intro!: emits_if_keeps keeps_emits em.keeps_cases probe split: sum.split)
qed

lemma format_takes_none [simp]: "\<not> takes_down (Node (FormatAndMount a p f os))"
  by (simp add: takes_down_def)

lemma stage_taking_none: "taking_none succeeded (NodeStageVolume E d req)"
proof -
  have share: "taking_none succeeded (stage_mount_share E d v t i sv srv c src path os so)" for v t i sv srv c src path os so
    by (rule emits_if_keeps [OF no_unmount.stage_mount_share_kept]) (simp_all add: takes_down_def)
  have mnt: "taking_none succeeded (stage_mount E d v t i sv srv c src path os so)" for v t i sv srv c src path os so
    unfolding stage_mount_def
    by (rule emits_if_bind [OF ensure_taking_none])
      (auto simp: result_def run_simps share intro!: emits_if_keeps [OF keeps_emits(1)] split: option.split)
  have disk: "taking_none succeeded (stage_disk E v t sv path fl)" for v t sv path fl
    unfolding stage_disk_def validateDiskIsRegularFile_def Let_def
    by (intro emits_if_cases emits_if_bind [OF ensure_taking_none])
      (auto simp: result_def run_simps intro!: emits_if_keeps keeps_emits em.keeps_cases and_then_emits split: option.split)
  have locked: "taking_none succeeded (stage_locked E d req fl g b i sv)" for fl g b i sv
    unfolding stage_locked_def Let_def
    by (intro emits_if_and_then emits_if_cases mnt disk; intro emits_if_keeps no_unmount.stage_parts_kept keeps_emits)
  show ?thesis unfolding NodeStageVolume_def
    by (intro emits_if_and_then emits_if_cases emits_if_locked locked)
      (auto simp: result_def run_simps intro!: emits_if_keeps keeps_emits no_unmount.stage_parts_kept)
qed

section \<open>The specification\<close>

text \<open>The absolute paths a volume staged at \<open>t\<close> is mounted on.\<close>

definition stage_area :: "env \<Rightarrow> string \<Rightarrow> table" where
  "stage_area E t = path_abs E ` stage_paths t"

text \<open>
  What a request of the node service may do to the mount points, by whether it was answered with success.  An inline volume
  and one that is mounted with a token are staged when they are published.
\<close>

inductive mount_event :: "env \<Rightarrow> config \<Rightarrow> rpc \<Rightarrow> bool \<Rightarrow> table \<Rightarrow> table \<Rightarrow> bool" for E d where
  Staged: "path_abs E (nr_Target req) \<in> M' \<Longrightarrow> M \<subseteq> M' \<Longrightarrow> M' \<subseteq> M \<union> stage_area E (nr_Target req)
    \<Longrightarrow> mount_event E d (StageRpc req) True M M'"
| Staged_later: "staged_later req \<Longrightarrow> mount_event E d (StageRpc req) ok M M"
| Not_staged: "same_outside (stage_area E (nr_Target req)) M M' \<Longrightarrow> mount_event E d (StageRpc req) False M M'"
| Published: "binds d req \<Longrightarrow> mount_event E d (PublishRpc req) ok M (insert (path_abs E (np_Target req)) M)"
| Not_published: "binds d req \<Longrightarrow> mount_event E d (PublishRpc req) False M M"
| Published_staging: "\<not> binds d req \<Longrightarrow> same_outside (stage_area E (np_Target req)) M M'
    \<Longrightarrow> mount_event E d (PublishRpc req) ok M M'"
| Unstaged: "mount_event E d (UnstageRpc v t) True M (M - stage_area E t)"
| Not_unstaged: "M - stage_area E t \<subseteq> M' \<Longrightarrow> M' \<subseteq> M \<Longrightarrow> mount_event E d (UnstageRpc v t) False M M'"
| Unpublished: "mount_event E d (UnpublishRpc v t) ok M (M - {path_abs E t})"
| Not_unpublished: "mount_event E d (UnpublishRpc v t) False M M"
| Measured: "mount_event E d (StatsRpc v t) ok M M"

inductive_cases published_event: "mount_event E d (PublishRpc req) ok M M'"
inductive_cases unpublished_event: "mount_event E d (UnpublishRpc v t) ok M M'"

text \<open>The requests a node gets.\<close>

definition node_request :: "rpc \<Rightarrow> bool" where
  "node_request r =
     (case r of
        StageRpc _ \<Rightarrow> True | UnstageRpc _ _ \<Rightarrow> True | PublishRpc _ \<Rightarrow> True | UnpublishRpc _ _ \<Rightarrow> True | StatsRpc _ _ \<Rightarrow> True
      | _ \<Rightarrow> False)"

section \<open>The driver refines the specification\<close>

lemma stage_event:
  assumes "honest_node E M0"
  shows "mount_event E d (StageRpc req) (\<not> isl (result (NodeStageVolume E d req) s)) (mounts_of E M0 s)
    (mounts_of E M0 (final (NodeStageVolume E d req) s))"
proof -
  let ?t = "final (NodeStageVolume E d req) s" and ?T = "stage_paths (nr_Target req)"
  have "emits (mounts_within ?T) s ?t"
    using within.stage_kept [of req ?T E d] by (auto simp: keeps_def mounts_within_def)
  then have outside: "same_outside (stage_area E (nr_Target req)) (mounts_of E M0 s) (mounts_of E M0 ?t)"
    unfolding stage_area_def by (rule within_table)
  show ?thesis
  proof (cases "result (NodeStageVolume E d req) s")
    case (Inl e)
    then show ?thesis using Not_staged [OF outside] by simp
  next
    case (Inr u)
    then have none: "emits (\<lambda>c. \<not> takes_down c) s ?t" using stage_taking_none [of E d req] by (simp add: emits_if_def)
    show ?thesis
    proof (cases "staged_later req")
      case True
      then have "keeps (emits (mounts_within {})) (NodeStageVolume E d req)"
        unfolding NodeStageVolume_def staged_later_def by (auto intro!: keeps_emits split: option.split)
      then have "mounts_of E M0 ?t = mounts_of E M0 s"
        using within_table [of "{}" s ?t E M0] by (simp add: keeps_def same_outside_def)
      then show ?thesis using Staged_later [OF True] by simp
    next
      case False
      have "went_well (mount_known E (nr_Target req)) s ?t"
        by (rule achieves_result [OF known.stage_achieves [OF False]]) (simp add: Inr)
      then have "path_abs E (nr_Target req) \<in> mounts_of E M0 ?t" using known_mounted [OF assms _ none] by blast
      moreover have "mounts_of E M0 s \<subseteq> mounts_of E M0 ?t" by (rule growing_table [OF none])
      moreover have "mounts_of E M0 ?t \<subseteq> mounts_of E M0 s \<union> stage_area E (nr_Target req)"
        using outside by (auto simp: same_outside_def)
      ultimately show ?thesis using Inr Staged by simp
    qed
  qed
qed

text \<open>A table that may only gain or lose one path.\<close>

lemma one_path:
  assumes "same_outside {p} M M'"
  shows "M \<subseteq> M' \<Longrightarrow> M' = M \<or> M' = insert p M" "M' \<subseteq> M \<Longrightarrow> M' = M \<or> M' = M - {p}"
  using assms by (auto simp: same_outside_def)

lemma publish_event:
  assumes "honest_node E M0"
  shows "mount_event E d (PublishRpc req) (\<not> isl (result (NodePublishVolume E d req) s)) (mounts_of E M0 s)
    (mounts_of E M0 (final (NodePublishVolume E d req) s))"
proof (cases "binds d req")
  case False
  have "emits (mounts_within (stage_paths (np_Target req))) s (final (NodePublishVolume E d req) s)"
    using within.publish_kept [of req "stage_paths (np_Target req)" E d] by (auto simp: keeps_def mounts_within_def)
  then show ?thesis using Published_staging [OF False] within_table by (simp add: stage_area_def)
next
  case True
  let ?t = "final (NodePublishVolume E d req) s" and ?p = "path_abs E (np_Target req)"
  have kept: "emits P s ?t" if "mount_frame P" "P (bind_event req)" for P
  proof -
    have "keeps (emits P) (NodePublishVolume E d req)"
      unfolding NodePublishVolume_def using True that(2)
      by (auto simp: binds_def bind_event_def bind_options_def
          intro!: keeps_emits mount_frame.publish_persistent_kept [OF that(1)] split: option.split)
    then show ?thesis by (simp add: keeps_def)
  qed
  have none: "emits (\<lambda>c. \<not> takes_down c) s ?t"
    by (rule kept [OF no_unmount.mount_frame_axioms]) (simp add: bind_event_def takes_down_def)
  have "emits (mounts_within {np_Target req}) s ?t"
    by (rule kept [OF within.mount_frame_axioms]) (simp add: bind_event_def mounts_within_def)
  then have "same_outside {?p} (mounts_of E M0 s) (mounts_of E M0 ?t)" using within_table by fastforce
  note either = one_path(1) [OF this growing_table [OF none]]
  show ?thesis
  proof (cases "result (NodePublishVolume E d req) s")
    case (Inl e)
    then show ?thesis using either Published [OF True] Not_published [OF True] by auto
  next
    case (Inr u)
    have "went_well (mount_known E (np_Target req)) s ?t"
      by (rule achieves_result [OF publish_achieves [OF True ensure_known]])
        (simp_all add: Inr mount_known_def bind_event_def)
    then have "?p \<in> mounts_of E M0 ?t" using known_mounted [OF assms _ none] by blast
    then have "mounts_of E M0 ?t = insert ?p (mounts_of E M0 s)" using either by auto
    then show ?thesis using Inr Published [OF True] by simp
  qed
qed

lemma cleaned_unmounted:
  assumes "went_well (no_error_for E (cleans p b)) s t" "emits (\<lambda>c. \<not> mounts c) s t"
  shows "path_abs E p \<notin> mounts_of E M t"
proof (rule seen_went_well [OF assms, where I = "\<lambda>N. path_abs E p \<notin> N"])
  show "path_abs E p \<notin> mount_step E tr c (replay (mount_step E) M [] tr)" if "no_error_for E (cleans p b) tr c" for tr c
    using that by (auto simp: no_error_for_def cleans_def mount_step_def mounts_def)
  show "path_abs E p \<notin> mount_step E tr c N" if "\<not> mounts c" "path_abs E p \<notin> N" for tr c N
    using mount_step_removes [OF that(1), of E tr N] that(2) by blast
qed

lemma unstage_event:
  "mount_event E d (UnstageRpc v t) (\<not> isl (result (NodeUnstageVolume E d v t) s)) (mounts_of E M0 s)
    (mounts_of E M0 (final (NodeUnstageVolume E d v t) s))"
proof -
  let ?t = "final (NodeUnstageVolume E d v t) s"
  have none: "emits (\<lambda>c. \<not> mounts c) s ?t"
    using no_mount.unstage_kept [of t E d v] by (simp add: keeps_def mounts_def)
  have "emits (mounts_within (stage_paths t)) s ?t"
    using within.unstage_kept [of "stage_paths t" t E d v] by (simp add: keeps_def mounts_within_def stage_paths_def)
  then have outside: "same_outside (stage_area E t) (mounts_of E M0 s) (mounts_of E M0 ?t)"
    unfolding stage_area_def by (rule within_table)
  note fewer = shrinking_table [OF none, of E M0]
  show ?thesis
  proof (cases "result (NodeUnstageVolume E d v t) s")
    case (Inl e)
    have "mounts_of E M0 s - stage_area E t \<subseteq> mounts_of E M0 ?t" using outside by (auto simp: same_outside_def)
    then show ?thesis using Inl fewer Not_unstaged by simp
  next
    case (Inr u)
    have "path_abs E p \<notin> mounts_of E M0 ?t" if "p \<in> stage_paths t" for p
      using that cleaned_unmounted [OF achieves_result [OF unstage_achieves(1)] none]
        cleaned_unmounted [OF achieves_result [OF unstage_achieves(2)] none] Inr
      by (auto simp: stage_paths_def)
    then have "mounts_of E M0 ?t = mounts_of E M0 s - stage_area E t"
      using outside fewer unfolding same_outside_def stage_area_def by blast
    then show ?thesis using Inr Unstaged by simp
  qed
qed

lemma unpublish_event:
  "mount_event E d (UnpublishRpc v t) (\<not> isl (result (NodeUnpublishVolume E d v t) s)) (mounts_of E M0 s)
    (mounts_of E M0 (final (NodeUnpublishVolume E d v t) s))"
proof -
  let ?t = "final (NodeUnpublishVolume E d v t) s"
  have none: "emits (\<lambda>c. \<not> mounts c) s ?t"
    using no_mount.unpublish_kept [of t E d v] by (simp add: keeps_def mounts_def)
  have "emits (mounts_within {t}) s ?t"
    using within.unpublish_kept [of "{t}" t E d v] by (simp add: keeps_def mounts_within_def)
  then have "same_outside {path_abs E t} (mounts_of E M0 s) (mounts_of E M0 ?t)" using within_table by fastforce
  note either = one_path(2) [OF this shrinking_table [OF none]]
  show ?thesis
  proof (cases "result (NodeUnpublishVolume E d v t) s")
    case (Inl e)
    then show ?thesis using either Unpublished Not_unpublished by auto
  next
    case (Inr u)
    then have "path_abs E t \<notin> mounts_of E M0 ?t"
      using cleaned_unmounted [OF achieves_result [OF unpublish_achieves] none] by simp
    then have "mounts_of E M0 ?t = mounts_of E M0 s - {path_abs E t}" using either by auto
    then show ?thesis using Inr Unpublished by simp
  qed
qed

lemma stats_event:
  "mount_event E d (StatsRpc v t) ok (mounts_of E M0 s) (mounts_of E M0 (final (NodeGetVolumeStats E v t) s))"
proof -
  have "emits (mounts_within {}) s (final (NodeGetVolumeStats E v t) s)"
    using within.stats_kept by (simp add: keeps_def)
  then have "mounts_of E M0 (final (NodeGetVolumeStats E v t) s) = mounts_of E M0 s"
    using within_table by (fastforce simp: same_outside_def)
  then show ?thesis using Measured by simp
qed

lemma node_event:
  assumes "honest_node E M0" "node_request r"
  shows "mount_event E d r (result (serve E d Cap r) s) (mounts_of E M0 s) (mounts_of E M0 (final (serve E d Cap r) s))"
  using assms
  by (cases r) (simp_all add: node_request_def answered_well_run stage_event publish_event unstage_event unpublish_event stats_event)

interpretation table: refinement E d Cap "mounts_of E M0" "\<lambda>r. honest_node E M0 \<and> node_request r" "mount_event E d"
  for E d Cap M0
  by unfold_locales (erule conjE, rule node_event)

lemma all_node_requests:
  "honest_node E M0 \<Longrightarrow> list_all node_request rs \<Longrightarrow> list_all (\<lambda>r. honest_node E M0 \<and> node_request r) rs"
  by (simp add: list_all_iff)

text \<open>C4: the node service refines the specification of a set of mount points: in every history of requests to a node, however
  each is answered, a stage answered with success leaves its target mounted and all that was, a publication adds exactly its
  target, unstaging and unpublishing take exactly their paths away, a failed request changes at most its own paths, and
  statistics nothing.\<close>

theorem node_refines_mount_table:
  assumes "honest_node E M0" "list_all node_request rs"
  shows "abstract_run (mount_event E d) rs (result (serve_all E d Cap rs) s) (mounts_of E M0 s)
    (mounts_of E M0 (final (serve_all E d Cap rs) s))"
  by (rule table.refines [OF all_node_requests [OF assms]])

section \<open>A node that answers honestly\<close>

text \<open>No request fails; a path is a mount point when it was mounted and not taken down.\<close>

definition node_env :: env where
  "node_env = (sample_env no_error)\<lparr>ans_mnt :=
     (\<lambda>tr c. case c of
        Node (IsLikelyNotMountPoint p) \<Rightarrow>
          (path_abs (sample_env no_error) p \<notin> replay (mount_step (sample_env no_error)) {} [] tr, None)
      | _ \<Rightarrow> (True, None))\<rparr>"

lemma node_env_simps [simp]:
  "path_abs node_env = path_abs (sample_env no_error)" "ans_err node_env = ans_err (sample_env no_error)"
  by (simp_all add: fun_eq_iff path_abs_def node_env_def)

lemma node_env_honest: "honest_node node_env {}"
proof -
  have "replay (mount_step node_env) {} [] tr = replay (mount_step (sample_env no_error)) {} [] tr" for tr
    by (rule replay_same) (simp add: mount_step_def split: option.split)
  then show ?thesis
    by (simp add: honest_node_def) (simp add: node_env_def sample_env_def no_error_def)
qed

text \<open>A volume is staged, published to two pods, staged again and given back by one of them.\<close>

definition keyed_stage :: stage_request where
  "keyed_stage = sample_stage\<lparr>nr_Target := ''/stage'',
     nr_Secrets := [(''azurestorageaccountname'', ''acc''), (''azurestorageaccountkey'', ''key'')]\<rparr>"

definition node_history :: "rpc list" where
  "node_history =
     [StageRpc keyed_stage, PublishRpc (sample_publish []), PublishRpc (sample_publish [] \<lparr>np_Target := ''/other''\<rparr>),
      StageRpc keyed_stage, StatsRpc ''vol'' ''/target'', UnpublishRpc ''vol'' ''/other'']"

lemma node_history_served:
  "result (serve_all node_env sample_config controller_Cap node_history) initial_state = [True, True, True, True, True, True]"
  by code_simp

theorem node_refines_mount_table_witness:
  "abstract_run (mount_event node_env sample_config) node_history [True, True, True, True, True, True] {}
     (mounts_of node_env {} (final (serve_all node_env sample_config controller_Cap node_history) initial_state))"
proof -
  have "list_all node_request node_history" by (simp add: node_history_def node_request_def)
  moreover have "mounts_of node_env {} initial_state = {}" by (simp add: seen_def initial_state_def)
  ultimately show ?thesis
    using node_refines_mount_table [OF node_env_honest, of node_history sample_config controller_Cap initial_state] node_history_served
    by simp
qed

section \<open>The life of a mount\<close>

text \<open>The requests that may change what is mounted at an absolute path.\<close>

definition touches :: "env \<Rightarrow> string \<Rightarrow> rpc \<Rightarrow> bool" where
  "touches E p r =
     (case r of
        StageRpc req \<Rightarrow> p \<in> stage_area E (nr_Target req)
      | UnstageRpc v t \<Rightarrow> p \<in> stage_area E t
      | PublishRpc req \<Rightarrow> p \<in> stage_area E (np_Target req)
      | UnpublishRpc v t \<Rightarrow> p = path_abs E t
      | _ \<Rightarrow> False)"

lemma event_keeps_mount: "mount_event E d r ok M M' \<Longrightarrow> \<not> touches E p r \<Longrightarrow> p \<in> M \<Longrightarrow> p \<in> M'"
  by (erule mount_event.cases) (auto simp: touches_def same_outside_def)

text \<open>C5: a pod keeps its volume: after a successful publication, and any further requests to the node on other paths - stages and
  publications of other volumes, of the same volume to other pods, and their removal - the pod's target is a mount point; when
  the pod's volume is unpublished successfully, its target is none and every other mount point is as it was.\<close>

theorem pod_keeps_its_volume:
  assumes "honest_node E M0" "binds d req" "result (NodePublishVolume E d req) s = Inr ()"
    and "list_all node_request rs" "list_all (\<lambda>r. \<not> touches E (path_abs E (np_Target req)) r) rs"
    and "u = final (serve_all E d Cap rs) (final (NodePublishVolume E d req) s)"
  shows "path_abs E (np_Target req) \<in> mounts_of E M0 u
    \<and> (result (NodeUnpublishVolume E d v (np_Target req)) u = Inr ()
       \<longrightarrow> mounts_of E M0 (final (NodeUnpublishVolume E d v (np_Target req)) u) = mounts_of E M0 u - {path_abs E (np_Target req)})"
proof -
  let ?p = "path_abs E (np_Target req)"
  have "?p \<in> mounts_of E M0 (final (NodePublishVolume E d req) s)"
    using publish_event [OF assms(1), of d req s] assms(2,3) by (auto elim: published_event)
  then have "?p \<in> mounts_of E M0 u"
    unfolding assms(6)
    using table.keeps_invariant [OF all_node_requests [OF assms(1,4)] assms(5), where I = "\<lambda>M. ?p \<in> M"] event_keeps_mount by blast
  moreover have "mounts_of E M0 (final (NodeUnpublishVolume E d v (np_Target req)) u) = mounts_of E M0 u - {?p}"
    if "result (NodeUnpublishVolume E d v (np_Target req)) u = Inr ()"
    using unpublish_event [of E d v "np_Target req" u M0] that by (auto elim: unpublished_event)
  ultimately show ?thesis by blast
qed

definition pod_served :: drv where
  "pod_served = final (NodePublishVolume node_env sample_config (sample_publish [])) initial_state"

definition other_pods :: "rpc list" where
  "other_pods = [PublishRpc (sample_publish [] \<lparr>np_Target := ''/other''\<rparr>), UnpublishRpc ''vol'' ''/other'']"

theorem pod_keeps_its_volume_witness:
  "''/target'' \<in> mounts_of node_env {} (final (serve_all node_env sample_config controller_Cap other_pods) pod_served)
   \<and> mounts_of node_env {} (final (NodeUnpublishVolume node_env sample_config ''vol'' ''/target'')
         (final (serve_all node_env sample_config controller_Cap other_pods) pod_served))
     = mounts_of node_env {} (final (serve_all node_env sample_config controller_Cap other_pods) pod_served) - {''/target''}"
proof -
  let ?u = "final (serve_all node_env sample_config controller_Cap other_pods) pod_served"
  have "binds sample_config (sample_publish [])" by code_simp
  moreover have "result (NodePublishVolume node_env sample_config (sample_publish [])) initial_state = Inr ()" by code_simp
  moreover have "list_all node_request other_pods" by (simp add: other_pods_def node_request_def)
  moreover have target: "path_abs node_env (np_Target (sample_publish [])) = ''/target''" by code_simp
  moreover have "list_all (\<lambda>r. \<not> touches node_env ''/target'' r) other_pods" by code_simp
  moreover have "result (NodeUnpublishVolume node_env sample_config ''vol'' ''/target'') ?u = Inr ()" by code_simp
  moreover have "np_Target (sample_publish []) = ''/target''" by (simp add: sample_publish_def)
  ultimately show ?thesis
    using pod_keeps_its_volume [OF node_env_honest, where req = "sample_publish []" and s = initial_state and rs = other_pods
        and u = ?u and v = "''vol''" and d = sample_config and Cap = controller_Cap]
    by (simp add: pod_served_def)
qed

end
