(* ===== verification/StagedShare.thy ===== *)
theory StagedShare
  imports NodeFrames Idempotence
begin

text \<open>
  What a node mounts of a volume: the share its id names, so the share that was created for it
  (\<open>controllerserver.go\<close>, \<open>azurefile.go\<close>, \<open>nodeserver.go\<close>).
\<close>

section \<open>The share of a stage\<close>

text \<open>A volume context that names neither a share nor a folder of its own.\<close>

definition plain_context :: "smap \<Rightarrow> bool" where
  "plain_context ctx \<longleftrightarrow> list_all (\<lambda>(k, v). ToLower k \<noteq> shareNameField \<and> ToLower k \<noteq> folderNameField) ctx"

lemma context_params_share: "plain_context ctx \<Longrightarrow> av_share (fst (context_params a ctx)) = av_share a"
proof (induction ctx arbitrary: a)
  case (Cons kv ctx)
  obtain k v where kv: "kv = (k, v)" by (cases kv)
  have "av_share a' = av_share a" if "context_param a k v = Inr a'" for a'
    using that Cons.prems by (auto simp: kv plain_context_def context_param_def context_flag_def Let_def split: if_splits option.splits)
  then show ?case using Cons by (auto simp: kv plain_context_def split: sum.split)
qed simp

definition share_of_id :: "string \<Rightarrow> string" where
  "share_of_id v = si_share (share_info_or_empty (GetFileShareInfo v))"

lemma account_info_share:
  assumes "plain_context ctx"
  shows "yields (\<lambda>(i, _). ai_share i = share_of_id v) (GetAccountInfo E d v secrets ctx)"
proof -
  obtain a err where c: "context_params (initial_account_vars v) ctx = (a, err)" by (cases "context_params (initial_account_vars v) ctx")
  then have a: "av_share a = share_of_id v"
    using context_params_share [OF assms, of "initial_account_vars v"] by (simp add: initial_account_vars_def share_of_id_def Let_def)
  then have d: "av_share (default_namespace (account_defaults d a)) = share_of_id v" "av_share (account_defaults d a) = share_of_id v"
    by (simp_all add: default_namespace_def account_defaults_def)
  have result: "ai_share (account_result b k f) = av_share b" for b k f by (simp add: account_result_def)
  have oauth: "yields (\<lambda>(i, _). ai_share i = av_share b) (oauth_account E d b)" for b
    unfolding oauth_account_def by (auto simp: result intro!: yields_bind split: option.split)
  have token: "yields (\<lambda>(i, _). ai_share i = av_share b) (workload_identity_account E d v b ctx tok)" for b tok
    unfolding workload_identity_account_def write_token_file_def Let_def
    by (auto simp: result intro!: yields_bind split: sum.split option.split)
  have key: "yields (\<lambda>(b', _). av_share b' = av_share b) (key_from_secret_or_identity E d b)" for b
    unfolding key_from_secret_or_identity_def Let_def by (auto intro!: yields_bind split: sum.split)
  have from_key: "yields (\<lambda>(i, _). ai_share i = av_share b) (account_key E d secrets b)" for b
    unfolding account_key_def Let_def
    by (auto simp: result intro!: yields_bind yields_strong [OF key] split: sum.split option.split)
  let ?b = "default_namespace (account_defaults d a)"
  from oauth [of ?b] token [of ?b "getServiceAccountTokens secrets ctx"] from_key [of ?b]
  have rest: "yields (\<lambda>(i, _). ai_share i = share_of_id v) (oauth_account E d ?b)"
    "yields (\<lambda>(i, _). ai_share i = share_of_id v) (workload_identity_account E d v ?b ctx (getServiceAccountTokens secrets ctx))"
    "yields (\<lambda>(i, _). ai_share i = share_of_id v) (account_key E d secrets ?b)"
    by (simp_all add: d(1))
  show ?thesis
    unfolding GetAccountInfo_def Let_def c
    by (auto simp: result a d rest intro!: yields_bind split: option.split sum.split)
qed

text \<open>What the parameters of a stage put into a name starts with a dollar sign; a name without one is left as it is.\<close>

definition placeholders :: "smap \<Rightarrow> bool" where
  "placeholders m \<longleftrightarrow> (\<forall>k \<in> fst ` set m. CHR ''$'' \<in> set k)"

lemma placeholders_put: "placeholders m \<Longrightarrow> CHR ''$'' \<in> set k \<Longrightarrow> placeholders (map_put m k v)"
  using keys_map_put [of m k v] by (simp add: placeholders_def)

lemma replaceWithMap_plain: "placeholders m \<Longrightarrow> CHR ''$'' \<notin> set n \<Longrightarrow> replaceWithMap n m = n"
proof (induction m)
  case (Cons kv m)
  obtain k v where kv: "kv = (k, v)" by (cases kv)
  have k: "CHR ''$'' \<in> set k" using Cons.prems(1) by (simp add: kv placeholders_def)
  with Cons.prems(2) have "\<not> Contains n k" by (auto simp: Contains_iff)
  moreover have "k \<noteq> []" using k by auto
  ultimately have "ReplaceAll n k v = n" by (simp add: ReplaceAll_absent)
  moreover have "placeholders m" using Cons.prems(1) by (simp add: placeholders_def)
  ultimately show ?case using Cons by (simp add: kv replaceWithMap_def)
qed (simp add: replaceWithMap_def)

lemma stage_params_plain:
  assumes "plain_context ctx" "stage_params sv ctx = Inr sv'" "placeholders (sv_replaceMap sv)"
  shows "sv_folder sv' = sv_folder sv \<and> placeholders (sv_replaceMap sv')"
  using assms
proof (induction ctx arbitrary: sv)
  case (Cons kv ctx)
  obtain k v where kv: "kv = (k, v)" by (cases kv)
  obtain sv1 where step: "stage_param sv k v = Inr sv1" and rest: "stage_params sv1 ctx = Inr sv'"
    using Cons.prems(2) by (auto simp: kv split: sum.splits)
  have "ToLower k \<noteq> folderNameField" and ctx: "plain_context ctx" using Cons.prems(1) by (simp_all add: kv plain_context_def)
  then have "sv_folder sv1 = sv_folder sv \<and> placeholders (sv_replaceMap sv1)"
    using step Cons.prems(3)
    by (auto simp: stage_param_def stage_bool_def stage_permissions_def Let_def pvcNamespaceMetadata_def pvcNameMetadata_def
        pvNameMetadata_def intro!: placeholders_put split: if_splits option.splits)
  with Cons.IH [OF ctx rest] show ?case by simp
qed simp

definition stages_share :: "string \<Rightarrow> goerr + account_info \<times> stage_vars \<Rightarrow> bool" where
  "stages_share n r \<longleftrightarrow> answers (\<lambda>(i, sv). ai_share i = n \<and> sv_folder sv = [] \<and> placeholders (sv_replaceMap sv)) r"

lemma stage_decide_share:
  assumes "plain_context (nr_Context req)"
  shows "yields (stages_share (share_of_id (nr_VolumeId req))) (stage_decide E d req)"
  unfolding stage_decide_def
proof (rule yields_strong [OF account_info_share [OF assms]], clarify, goal_cases)
  case (1 i err)
  have "sv_folder sv = [] \<and> placeholders (sv_replaceMap sv)"
    if "stage_params (initial_stage_vars d (ai_disk i)) (nr_Context req) = Inr sv" for sv
    using stage_params_plain [OF assms that] by (simp add: initial_stage_vars_def placeholders_def)
  then show ?case using 1 by (auto simp: stages_share_def answers_def split: option.split sum.split)
qed

lemma stage_source_share:
  assumes "stage_place_of E d i sv = Inr place" "sv_folder sv = []" "placeholders (sv_replaceMap sv)" "is_order (ord E)"
    and "CHR ''$'' \<notin> set (ai_share i)"
  shows "HasSuffix (stage_source i sv place) (''/'' @ ai_share i)"
proof -
  have order: "placeholders (ord E (sv_replaceMap sv))" using assms(3,4) by (simp add: placeholders_def)
  have empty: "replaceWithMap [] (ord E (sv_replaceMap sv)) = []" by (rule replaceWithMap_plain [OF order]) simp
  have name: "replaceWithMap (ai_share i) (ord E (sv_replaceMap sv)) = ai_share i"
    by (rule replaceWithMap_plain [OF order assms(5)])
  have "st_share place = ai_share i \<and> st_folder place = Trim [] ''/''"
    using assms(1,2) by (auto simp: stage_place_of_def Let_def name empty split: sum.splits if_splits option.splits)
  moreover have "Trim [] ''/'' = []" by code_simp
  moreover have "sprintf ''%s:/%s/%s'' [a, b, c] = (a @ '':/'' @ b) @ (''/'' @ c)" for a b c
    by (simp add: sprintf.simps)
  ultimately show ?thesis by (auto simp: stage_source_def Let_def HasSuffix_iff simp del: append.simps)
qed

section \<open>The mounts of a stage\<close>

text \<open>Of the mounts of shares, only those of a share \<open>n\<close>.  What is mounted from a disk inside a share is left open.\<close>

definition mounts_share :: "string \<Rightarrow> ext \<Rightarrow> bool" where
  "mounts_share n c =
     (case c of
        Node (Mount source _ _ _ _) \<Rightarrow> HasSuffix source (''/'' @ n)
      | Node (ProxyMount source _ _ _ _) \<Rightarrow> HasSuffix source (''/'' @ n)
      | _ \<Rightarrow> True)"

interpretation share: mount_frame "mounts_share n" for n
proof
  show "mounts_share n c" if "mount_path c = None" for c
    using that by (auto simp: mounts_share_def split: ext.split node_ext.split)
qed

lemma stage_locked_share:
  assumes "stages_share n (Inr (i, sv))" "is_order (ord E)" "CHR ''$'' \<notin> set n"
  shows "keeps (emits (mounts_share n)) (stage_locked E d req fl g b i sv)"
proof -
  have sv: "ai_share i = n" "sv_folder sv = []" "placeholders (sv_replaceMap sv)"
    using assms(1) by (simp_all add: stages_share_def answers_def)
  have source: "HasSuffix (stage_source i sv place) (''/'' @ n)" if "stage_place_of E d i sv = Inr place" for place
    using stage_source_share [OF that sv(2,3) assms(2)] sv(1) assms(3) by simp
  have mnt: "keeps (emits (mounts_share n)) (stage_mount E d v t i sv srv c (stage_source i sv place) path os so)"
    if "stage_place_of E d i sv = Inr place" for place v t srv c path os so
    by (rule share.stage_mount_kept) (simp_all add: mounts_share_def source [OF that, simplified])
  have disk: "keeps (emits (mounts_share n)) (stage_disk E v t sv path fl)" for v t path fl
    by (rule share.stage_disk_kept) (simp_all add: mounts_share_def)
  show ?thesis unfolding stage_locked_def Let_def
    by (intro share.lift_kept and_then_emits share.stage_parts_kept)
      (auto intro!: and_then_emits share.stage_parts_kept mnt disk keeps_emits split: prod.split)
qed

lemma stage_share:
  assumes "plain_context (nr_Context req)" "is_order (ord E)" "CHR ''$'' \<notin> set (share_of_id (nr_VolumeId req))"
  shows "keeps (emits (mounts_share (share_of_id (nr_VolumeId req)))) (NodeStageVolume E d req)"
proof -
  let ?P = "mounts_share (share_of_id (nr_VolumeId req))"
  have decided: "keeps (emits ?P) (and_then (stage_decide E d req) f)"
    if f: "\<And>i sv. stages_share (share_of_id (nr_VolumeId req)) (Inr (i, sv)) \<Longrightarrow> keeps (emits ?P) (f (i, sv))"
    for f :: "_ \<Rightarrow> (goerr + unit) prog"
    unfolding and_then_def
  proof (rule keeps_emits_after [OF share.stage_parts_kept(9) stage_decide_share [OF assms(1)]])
    show "keeps (emits ?P) (case r of Inl err \<Rightarrow> ret (Inl err) | Inr x \<Rightarrow> f x)"
      if "stages_share (share_of_id (nr_VolumeId req)) r" for r
      using that f by (cases r) (auto intro: keeps_emits)
  qed
  have "keeps (emits ?P) (and_then (stage_decide E d req) (\<lambda>(i, sv). with_volume_lock k (ret (Inl err)) (stage_locked E d req fl g b i sv)))"
    for k err fl g b
    by (rule decided) (simp add: with_volume_lock_emits keeps_emits stage_locked_share assms(2,3))
  then show ?thesis unfolding NodeStageVolume_def by (auto intro!: keeps_emits split: option.split)
qed

section \<open>From creation to staging\<close>


definition disk_stage :: "string \<Rightarrow> stage_request" where
  "disk_stage v =
     \<lparr>nr_VolumeId = v, nr_Target = ''/stage'', nr_Capability = Some sample_capability,
      nr_Context = [(''storageAccount'', ''acc''), (''fsType'', ''ext4'')],
      nr_Secrets = [(''azurestorageaccountname'', ''acc''), (''azurestorageaccountkey'', ''key'')]\<rparr>"

text \<open>The staging of the sample volume mounts its share, so the property is about a mount that is made.\<close>

lemma disk_stage_mounts:
  "map (\<lambda>c. case c of Node (Mount source _ _ _ _) \<Rightarrow> source | _ \<Rightarrow> [])
     (filter (\<lambda>c. case c of Node (Mount _ _ _ _ _) \<Rightarrow> True | _ \<Rightarrow> False)
       (trace (final (NodeStageVolume (sample_env no_error) sample_config (disk_stage ''rg#acc#pvcd-1#pvcd-1.vhd##default''))
         initial_state))) = [''//acc.file.core.windows.net/pvcd-1'']"
  by code_simp


end
