(* ===== verification/WindowsPath.thy ===== *)
theory WindowsPath
  imports GoNum
begin

text \<open>
  Paths of a Windows node: their normal form in the mounters (\<open>pkg/mounter\<close>), the check every file operation of the host
  process makes first (\<open>pkg/os/filesystem\<close>), and the functions of \<open>path/filepath\<close> these packages use.

  A path has at most a drive letter in front; UNC paths only occur as remote paths, which are compared as texts.
\<close>

abbreviation backslash :: char where "backslash \<equiv> CHR 0x5C"

definition is_letter :: "char \<Rightarrow> bool" where
  "is_letter c \<longleftrightarrow> CHR ''a'' \<le> lower_char c \<and> lower_char c \<le> CHR ''z''"

section \<open>path/filepath\<close>

definition volume_name :: "string \<Rightarrow> string" where
  "volume_name p = (case p of a # b # r \<Rightarrow> if b = CHR '':'' then [a, b] else [] | _ \<Rightarrow> [])"

definition to_slash :: "string \<Rightarrow> string" where
  "to_slash = map (\<lambda>c. if c = backslash then CHR ''/'' else c)"

definition from_slash :: "string \<Rightarrow> string" where
  "from_slash = map (\<lambda>c. if c = CHR ''/'' then backslash else c)"

definition win_clean :: "string \<Rightarrow> string" where
  "win_clean p = (let v = volume_name p in v @ from_slash (Clean (to_slash (drop (length v) p))))"

definition win_join :: "string list \<Rightarrow> string" where
  "win_join elems = (let xs = filter (\<lambda>x. x \<noteq> []) elems in if xs = [] then [] else win_clean (Join xs [backslash]))"

text \<open>\<open>filepath.Dir\<close>: everything up to the last separator, cleaned.\<close>

definition win_dir :: "string \<Rightarrow> string" where
  "win_dir p =
     (let v = volume_name p;
          rest = to_slash (drop (length v) p);
          upto = rev (dropWhile (\<lambda>c. c \<noteq> CHR ''/'') (rev rest))
      in v @ from_slash (Clean upto))"

section \<open>The normal form of a path\<close>

definition normalizeWindowsPath :: "string \<Rightarrow> string" where
  "normalizeWindowsPath path =
     (let normalizedPath = ReplaceAll path ''/'' [backslash]
      in if HasPrefix normalizedPath [backslash] then ''c:'' @ normalizedPath else normalizedPath)"

text \<open>Replacing a character by a character is a map, and the normal form is reached in one step.\<close>

lemma ReplaceAll_single: "ReplaceAll s [a] [b] = map (\<lambda>c. if c = a then b else c) s"
proof (induction s)
  case Nil
  show ?case by (simp add: ReplaceAll_def Split_split_pred)
next
  case (Cons c s)
  obtain x xs where "split_pred (\<lambda>d. d = a) s = x # xs" using split_pred_not_Nil [of "\<lambda>d. d = a" s] by (cases "split_pred (\<lambda>d. d = a) s") auto
  with Cons show ?case by (cases xs) (auto simp: ReplaceAll_def Split_split_pred)
qed

lemma normalizeWindowsPath_idem [simp]: "normalizeWindowsPath (normalizeWindowsPath p) = normalizeWindowsPath p"
proof -
  define f where "f = (\<lambda>c. if c = CHR ''/'' then backslash else c)"
  have n: "normalizeWindowsPath q = (if HasPrefix (map f q) [backslash] then ''c:'' @ map f q else map f q)" for q
    by (simp add: normalizeWindowsPath_def ReplaceAll_single f_def Let_def)
  have ff: "f (f c) = f c" for c by (simp add: f_def)
  then have "map f (map f p) = map f p" by simp
  moreover have "map f (''c:'' @ x) = ''c:'' @ map f x" for x by (simp add: f_def)
  ultimately show ?thesis by (simp add: n del: map_map)
qed

section \<open>The check of a path\<close>

definition MaxPathLengthWindows :: nat where "MaxPathLengthWindows = 260"

text \<open>The two regular expressions: a character of a set anywhere, and a drive letter with its root in front.\<close>

definition invalid_path_char :: "char \<Rightarrow> bool" where
  "invalid_path_char c \<longleftrightarrow> c \<in> set [CHR 0x22, CHR ''/'', CHR '':'', CHR ''?'', CHR ''*'', CHR ''|'']"

definition isAbsWindows :: "string \<Rightarrow> bool" where
  "isAbsWindows path = (case path of a # b # c # r \<Rightarrow> is_letter a \<and> b = CHR '':'' \<and> c = backslash | _ \<Rightarrow> False)"

definition isUNCPathWindows :: "string \<Rightarrow> bool" where
  "isUNCPathWindows path = (case path of a # b # r \<Rightarrow> a = backslash \<and> b = backslash | _ \<Rightarrow> False)"

definition containsInvalidCharactersWindows :: "string \<Rightarrow> bool" where
  "containsInvalidCharactersWindows path =
     (let path = (if isAbsWindows path then drop 3 path else path)
      in list_ex invalid_path_char path \<or> Contains path ''..'')"

definition ValidatePathWindows :: "string \<Rightarrow> goerr option" where
  "ValidatePathWindows path =
     (let pathlen = length path in
      if pathlen > MaxPathLengthWindows
      then Some (Fmterr ''path length %d exceeds maximum characters: %d''
                   [show_int (int pathlen), show_int (int MaxPathLengthWindows)])
      else if pathlen > 0 \<and> path ! 0 = backslash
      then Some (Fmterr (''invalid character '' @ [backslash] @ '' at beginning of path: %s'') [path])
      else if isUNCPathWindows path then Some (Fmterr ''unsupported UNC path prefix: %s'' [path])
      else if containsInvalidCharactersWindows path then Some (Fmterr ''path contains invalid characters: %s'' [path])
      else if \<not> isAbsWindows path then Some (Fmterr ''not an absolute Windows path: %s'' [path])
      else None)"

section \<open>What the check establishes\<close>

lemma isAbsWindows_split: "isAbsWindows p \<Longrightarrow> \<exists>a r. p = [a, CHR '':'', backslash] @ r \<and> is_letter a"
  by (auto simp: isAbsWindows_def split: list.splits)

text \<open>A checked path is a drive with its root, followed by at most 257 characters, none of them reserved.\<close>

lemma ValidatePathWindows_iff:
  "ValidatePathWindows p = None \<longleftrightarrow>
     (\<exists>a r. p = [a, CHR '':'', backslash] @ r \<and> is_letter a \<and> length r \<le> 257 \<and> (\<forall>c \<in> set r. \<not> invalid_path_char c)
        \<and> \<not> Contains r ''..'')" (is "_ \<longleftrightarrow> ?R")
proof
  assume v: "ValidatePathWindows p = None"
  then have "isAbsWindows p" by (auto simp: ValidatePathWindows_def Let_def split: if_splits)
  then obtain a r where p: "p = [a, CHR '':'', backslash] @ r" "is_letter a" using isAbsWindows_split by blast
  with v show ?R
    by (auto simp: ValidatePathWindows_def Let_def containsInvalidCharactersWindows_def isAbsWindows_def list_ex_iff
        MaxPathLengthWindows_def split: if_splits)
next
  assume ?R
  moreover have "\<not> is_letter backslash" by (simp add: is_letter_def lower_char_def)
  ultimately show "ValidatePathWindows p = None"
    by (auto simp: ValidatePathWindows_def Let_def containsInvalidCharactersWindows_def isAbsWindows_def list_ex_iff
        MaxPathLengthWindows_def isUNCPathWindows_def)
qed

lemma Split_mem_part: "x \<in> set (Split s [c]) \<Longrightarrow> \<exists>a b. s = a @ x @ b"
proof (induction s "[c]" rule: Split.induct)
  case (1 s)
  show ?case
  proof (cases "Cut s [c]")
    case None
    with 1 show ?thesis by (intro exI [of _ "[]"]) (simp add: Split_None)
  next
    case (Some ab)
    then obtain a b where ab: "Cut s [c] = Some (a, b)" by (cases ab) auto
    from 1(2) ab consider "x = a" | "x \<in> set (Split b [c])" by (auto simp: Split_Some)
    then show ?thesis
    proof cases
      case 1
      with Cut_Some_eq [OF ab] show ?thesis by (intro exI [of _ "[]"] exI [of _ "c # b"]) simp
    next
      case 2
      with 1(1) [OF _ ab refl] obtain u v where "b = u @ x @ v" by auto
      with Cut_Some_eq [OF ab] show ?thesis by (intro exI [of _ "a @ c # u"] exI [of _ v]) simp
    qed
  qed
qed

text \<open>No component of a checked path climbs out of its directory.\<close>

lemma ValidatePathWindows_components:
  assumes "ValidatePathWindows p = None"
  shows "''..'' \<notin> set (Split (drop 3 p) [backslash])"
proof
  assume "''..'' \<in> set (Split (drop 3 p) [backslash])"
  then have "Contains (drop 3 p) ''..''" using Split_mem_part unfolding Contains_iff by blast
  with assms show False by (auto simp: ValidatePathWindows_iff)
qed

end
