(* ===== verification/WinSmb.thy ===== *)
theory WinSmb
  imports WindowsPath FileShare
begin

text \<open>
  The node's file system and its SMB mappings on Windows: \<open>pkg/os/filesystem\<close>, the SMB interface of \<open>pkg/os/smb\<close> with its
  PowerShell implementation, and \<open>pkg/util/util_windows.go\<close>.  (The other implementation is in theory \<open>WinCim\<close>.)
\<close>

section \<open>Files\<close>

definition lstat_exists :: "env \<Rightarrow> string \<Rightarrow> (goerr + bool) prog" where
  "lstat_exists E path = do {
     r \<leftarrow> call (ans_bool E) (Win (WLstat path));
     ret (case r of
            Inr _ \<Rightarrow> Inr True
          | Inl err \<Rightarrow> if err_kind err = OsNotExist then Inr False else Inl err) }"

definition win_PathExists :: "env \<Rightarrow> string \<Rightarrow> (goerr + bool) prog" where
  "win_PathExists E path =
     (case ValidatePathWindows path of Some err \<Rightarrow> ret (Inl err) | None \<Rightarrow> lstat_exists E path)"

definition INVALID_FILE_ATTRIBUTES :: int where "INVALID_FILE_ATTRIBUTES = 4294967295"

text \<open>
  \<open>PathValid\<close>: a path that is missing or not a name is not valid, any other failure (a wrong password, say) is an error.
  The three error codes of a missing path are the kind \<open>OsNotExist\<close> here.  A text with a NUL has no UTF-16 form.
\<close>

definition PathValid :: "env \<Rightarrow> string \<Rightarrow> (goerr + bool) prog" where
  "PathValid E path =
     (if CHR 0x00 \<in> set path then ret (Inl (Fmterr ''invalid path: %w'' [''invalid argument'']))
      else do {
        attrs \<leftarrow> call (ans_int E) (Win (WAttributes path));
        ret (case attrs of
               Inl err \<Rightarrow> if err_kind err = OsNotExist then Inr False
                          else Inl (Fmterr_wrap ''failed to get path %s attribute: %w'' [path] err)
             | Inr a \<Rightarrow> Inr (a \<noteq> INVALID_FILE_ATTRIBUTES)) })"

definition win_Rmdir :: "env \<Rightarrow> string \<Rightarrow> bool \<Rightarrow> goerr option prog" where
  "win_Rmdir E path force =
     (case ValidatePathWindows path of
        Some err \<Rightarrow> ret (Some err)
      | None \<Rightarrow> if force then call (ans_err E) (Win (WRemoveAll path)) else call (ans_err E) (Win (WRemove path)))"

text \<open>A link is a mount point when what it points to exists.  The answer of \<open>WLstat\<close> says whether the path is a link.\<close>

definition IsSymlink :: "env \<Rightarrow> string \<Rightarrow> (goerr + bool) prog" where
  "IsSymlink E tgt = do {
     stat \<leftarrow> call (ans_bool E) (Win (WLstat tgt));
     (case stat of
        Inl err \<Rightarrow> ret (Inl err)
      | Inr False \<Rightarrow> ret (Inr False)
      | Inr True \<Rightarrow> do {
          target \<leftarrow> call (ans_str E) (Win (WReadlink tgt));
          (case target of
             Inl err \<Rightarrow> ret (Inl (Fmterr ''readlink error: %v'' [err_text err]))
           | Inr target \<Rightarrow> lstat_exists E target) }) }"

definition win_IsMountPoint :: "env \<Rightarrow> string \<Rightarrow> (goerr + bool) prog" where
  "win_IsMountPoint E path = IsSymlink E path"

section \<open>PowerShell\<close>

text \<open>At most three commands run at a time: the semaphore is a lock event around the command.\<close>

definition RunPowershellCmd :: "env \<Rightarrow> string \<Rightarrow> string list \<Rightarrow> (string \<times> goerr option) prog" where
  "RunPowershellCmd E command envs = do {
     note_event (Tool (LockWait ''powershellCmdSem''));
     r \<leftarrow> call (ans_out E) (Win (PowerShell command envs));
     note_event (Tool (LockFree ''powershellCmdSem''));
     ret r }"

section \<open>Global mappings\<close>

datatype mapping_status = MappingNotFound | MappingOK | MappingDisconnected | MappingOther

definition parseSMBGlobalMappingStatus :: "string \<Rightarrow> mapping_status" where
  "parseSMBGlobalMappingStatus out =
     (let s = ToLower (TrimSpace out) in
      if s = [] then MappingNotFound
      else if s = ToLower ''OK'' then MappingOK
      else if s = ToLower ''Disconnected'' then MappingDisconnected
      else if s = ToLower ''NotFound'' then MappingNotFound
      else MappingOther)"

text \<open>The interface \<open>SMBAPI\<close>: both implementations answer with a status or an error.\<close>

record smb_api =
  api_status :: "string \<Rightarrow> (goerr + mapping_status) prog"
  api_new :: "string \<Rightarrow> string \<Rightarrow> string \<Rightarrow> goerr option prog"
  api_remove :: "string \<Rightarrow> goerr option prog"

definition status_command :: string where
  "status_command = ''$mapping = Get-SmbGlobalMapping -ErrorAction Stop | Where-Object { $_.RemotePath -eq $Env:smbremotepath } | Select-Object -First 1; if ($null -eq $mapping) { '' @ [CHR 0x27] @ ''NotFound'' @ [CHR 0x27] @ '' } else { $mapping.Status }''"

definition new_command :: string where
  "new_command = ''$PWord = ConvertTo-SecureString -String $Env:smbpassword -AsPlainText -Force'' @
     '';$Credential = New-Object -TypeName System.Management.Automation.PSCredential -ArgumentList $Env:smbuser, $PWord'' @
     '';New-SmbGlobalMapping -RemotePath $Env:smbremotepath -Credential $Credential -RequirePrivacy $true''"

definition remove_command :: string where
  "remove_command = ''Remove-SmbGlobalMapping -RemotePath $Env:smbremotepath -Force''"

definition ps_GetSmbGlobalMappingStatus :: "env \<Rightarrow> string \<Rightarrow> (goerr + mapping_status) prog" where
  "ps_GetSmbGlobalMappingStatus E remotePath = do {
     (out, err) \<leftarrow> RunPowershellCmd E status_command [''smbremotepath='' @ remotePath];
     ret (case err of
            Some e \<Rightarrow> Inl (Fmterr ''error checking smb mapping. cmd %s, output: %s, err: %v'' [remotePath, out, err_text e])
          | None \<Rightarrow> Inr (parseSMBGlobalMappingStatus out)) }"

definition ps_NewSmbGlobalMapping :: "env \<Rightarrow> string \<Rightarrow> string \<Rightarrow> string \<Rightarrow> goerr option prog" where
  "ps_NewSmbGlobalMapping E remotePath username password = do {
     (out, err) \<leftarrow> RunPowershellCmd E new_command
        [''smbuser='' @ username, ''smbpassword='' @ password, ''smbremotepath='' @ remotePath];
     ret (map_option (\<lambda>e. Fmterr ''NewSmbGlobalMapping failed. output: %q, err: %v'' [out, err_text e]) err) }"

definition ps_RemoveSmbGlobalMapping :: "env \<Rightarrow> string \<Rightarrow> goerr option prog" where
  "ps_RemoveSmbGlobalMapping E remotePath = do {
     let remotePath = TrimSuffix remotePath [backslash];
     (out, err) \<leftarrow> RunPowershellCmd E remove_command [''smbremotepath='' @ remotePath];
     ret (map_option (\<lambda>e. Fmterr ''UnmountSmbShare failed. output: %q, err: %v'' [out, err_text e]) err) }"

definition powerShellSMBAPI :: "env \<Rightarrow> smb_api" where
  "powerShellSMBAPI E =
     \<lparr>api_status = ps_GetSmbGlobalMappingStatus E, api_new = ps_NewSmbGlobalMapping E,
      api_remove = ps_RemoveSmbGlobalMapping E\<rparr>"

section \<open>Mounted remotes\<close>

text \<open>Where a mount points: the link is read once, whatever the comment says of recursion.\<close>

definition GetRemoteServerFromTarget :: "env \<Rightarrow> string \<Rightarrow> (goerr + string) prog" where
  "GetRemoteServerFromTarget E m = do {
     target \<leftarrow> call (ans_str E) (Win (WReadlink m));
     ret (case target of
            Inl err \<Rightarrow> Inl (Fmterr ''error reading link for mount %s. target %s err: %v'' [m, [], err_text err])
          | Inr t \<Rightarrow>
              if t = [] then Inl (Fmterr ''error reading link for mount %s. target %s err: %v'' [m, [], ''<nil>''])
              else Inr (TrimSpace t)) }"

text \<open>The staged volumes of the plugin directory, in order: another one that links to the same remote ends the search.\<close>

fun dup_scan :: "env \<Rightarrow> string \<Rightarrow> string \<Rightarrow> string \<Rightarrow> (string \<times> bool) list \<Rightarrow> bool prog" where
  "dup_scan E dir m remoteServer [] = ret False"
| "dup_scan E dir m remoteServer ((name, is_dir) # files) =
     (let globalMountPath = win_join [dir, name, ''globalmount''] in
      if \<not> is_dir \<or> EqualFold (win_clean globalMountPath) (win_clean m) then dup_scan E dir m remoteServer files
      else do {
        link \<leftarrow> call (ans_bool E) (Win (WLstat globalMountPath));
        (if link = Inr True
         then do {
           r \<leftarrow> GetRemoteServerFromTarget E globalMountPath;
           (if r = Inr remoteServer then ret True else dup_scan E dir m remoteServer files) }
         else dup_scan E dir m remoteServer files) })"

definition CheckForDuplicateSMBMounts :: "env \<Rightarrow> string \<Rightarrow> string \<Rightarrow> string \<Rightarrow> (goerr + bool) prog" where
  "CheckForDuplicateSMBMounts E dir m remoteServer = do {
     files \<leftarrow> call (ans_dir E) (Win (WReadDir dir));
     (case files of
        Inl err \<Rightarrow> ret (Inl err)
      | Inr files \<Rightarrow> do { dup \<leftarrow> dup_scan E dir m remoteServer files; ret (Inr dup) }) }"

end
