(* ===== verification/WinMount.thy ===== *)
theory WinMount
  imports WinSmb
begin

text \<open>
  The mounters of a Windows node (\<open>pkg/mounter\<close>) and what the driver does with them (\<open>azure_common_windows.go\<close>): the host
  process mounter (\<open>safe_mounter_host_process_windows.go\<close>), and the two versions of the CSI proxy mounter
  (\<open>safe_mounter_windows.go\<close>, \<open>safe_mounter_v1beta_windows.go\<close>).
\<close>

text \<open>\<open>if err := m; err != nil { return err }\<close> before \<open>n\<close>.\<close>

definition err_then :: "goerr option prog \<Rightarrow> goerr option prog \<Rightarrow> goerr option prog" where
  "err_then m n = do { err \<leftarrow> m; (case err of Some e \<Rightarrow> ret (Some e) | None \<Rightarrow> n) }"

section \<open>The interface\<close>

text \<open>The methods of \<open>CSIProxyMounter\<close> the driver uses.\<close>

record win_mounter =
  wm_SMBMount :: "string \<Rightarrow> string \<Rightarrow> string \<Rightarrow> string list \<Rightarrow> string list \<Rightarrow> goerr option prog"
  wm_Mount :: "string \<Rightarrow> string \<Rightarrow> string \<Rightarrow> string list \<Rightarrow> goerr option prog"
  wm_Unmount :: "string \<Rightarrow> goerr option prog"
  wm_MakeDir :: "string \<Rightarrow> goerr option prog"
  wm_Rmdir :: "string \<Rightarrow> goerr option prog"
  wm_ExistsPath :: "string \<Rightarrow> (goerr + bool) prog"
  wm_IsLikelyNotMountPoint :: "string \<Rightarrow> (bool \<times> goerr option) prog"

definition os_not_exist :: goerr where "os_not_exist = GoErr OsNotExist ''file does not exist''"

text \<open>The start all three versions of \<open>SMBMount\<close> share: the options are there and the parent directory exists.\<close>

definition mount_options_error :: "string list \<Rightarrow> string list \<Rightarrow> goerr option" where
  "mount_options_error mountOptions sensitiveMountOptions =
     (if mountOptions = [] \<or> sensitiveMountOptions = []
      then Some (Fmterr ''empty mountOptions(len: %d) or sensitiveMountOptions(len: %d) is not allowed''
                   [show_int (int (length mountOptions)), show_int (int (length sensitiveMountOptions))])
      else None)"

definition ensure_parent :: "(string \<Rightarrow> (goerr + bool) prog) \<Rightarrow> (string \<Rightarrow> goerr option prog) \<Rightarrow> string \<Rightarrow> goerr option prog" where
  "ensure_parent ExistsPath MakeDir target = do {
     let parentDir = win_dir target;
     parentExists \<leftarrow> ExistsPath parentDir;
     (case parentExists of
        Inl err \<Rightarrow> ret (Some (Fmterr ''parent dir: %s exist check failed with err: %v'' [parentDir, err_text err]))
      | Inr True \<Rightarrow> ret None
      | Inr False \<Rightarrow> do {
          err \<leftarrow> MakeDir parentDir;
          ret (map_option (\<lambda>e. Fmterr ''create of parent dir: %s dailed with error: %v'' [parentDir, err_text e]) err) }) }"

definition likely_not_mount ::
    "(goerr + bool) prog \<Rightarrow> (goerr + bool) prog \<Rightarrow> (bool \<times> goerr option) prog" where
  "likely_not_mount exists is_link = do {
     isExists \<leftarrow> exists;
     (case isExists of
        Inl err \<Rightarrow> ret (False, Some err)
      | Inr False \<Rightarrow> ret (True, Some os_not_exist)
      | Inr True \<Rightarrow> do {
          response \<leftarrow> is_link;
          ret (case response of Inl err \<Rightarrow> (False, Some err) | Inr b \<Rightarrow> (\<not> b, None)) }) }"

text \<open>\<open>IsMountPoint\<close> is the negation, an error included.\<close>

definition is_mount_point :: "(bool \<times> goerr option) prog \<Rightarrow> (goerr + bool) prog" where
  "is_mount_point likely = do {
     (isNotMnt, err) \<leftarrow> likely;
     ret (case err of Some e \<Rightarrow> Inl e | None \<Rightarrow> Inr (\<not> isNotMnt)) }"

definition IsMountPointMatch :: "string \<Rightarrow> string \<Rightarrow> bool" where
  "IsMountPointMatch mp_path dir \<longleftrightarrow> mp_path = dir"

section \<open>The host process mounter\<close>

definition driverGlobalMountPath :: string where
  "driverGlobalMountPath =
     from_slash ''C:/var/lib/kubelet/plugins/kubernetes.io/csi/file.csi.azure.com''"

definition getRemotePathLockKey :: "string \<Rightarrow> string" where
  "getRemotePathLockKey remotePath = ToLower (rev (dropWhile (\<lambda>c. c = backslash) (rev remotePath)))"

definition win_MakeDir :: "env \<Rightarrow> string \<Rightarrow> goerr option prog" where
  "win_MakeDir E path = call (ans_err E) (Win (WMkdirAll (normalizeWindowsPath path) 493))"

definition win_ExistsPath :: "env \<Rightarrow> string \<Rightarrow> (goerr + bool) prog" where
  "win_ExistsPath E path = win_PathExists E (normalizeWindowsPath path)"

definition win_Mount :: "env \<Rightarrow> string \<Rightarrow> string \<Rightarrow> string \<Rightarrow> string list \<Rightarrow> goerr option prog" where
  "win_Mount E source target fstype options =
     call (ans_err E) (Win (WSymlink (normalizeWindowsPath source) (normalizeWindowsPath target)))"

definition win_mounter_Rmdir :: "env \<Rightarrow> string \<Rightarrow> goerr option prog" where
  "win_mounter_Rmdir E path = win_Rmdir E (normalizeWindowsPath path) True"

definition win_IsLikelyNotMountPoint :: "env \<Rightarrow> string \<Rightarrow> (bool \<times> goerr option) prog" where
  "win_IsLikelyNotMountPoint E path =
     likely_not_mount (win_ExistsPath E path) (win_IsMountPoint E (normalizeWindowsPath path))"

text \<open>
  The global mapping of a remote path is made good: a disconnected one, or a connected one whose path cannot be read, is
  removed and mapped again.  A status that cannot be read counts as no mapping.
\<close>

definition ensureSMBGlobalMappingLocked ::
    "smb_api \<Rightarrow> string \<Rightarrow> string \<Rightarrow> string \<Rightarrow> (goerr + bool) prog \<Rightarrow> goerr option prog" where
  "ensureSMBGlobalMappingLocked api remotePath username password pathValid = do {
     status \<leftarrow> api_status api remotePath;
     let mappingStatus = (case status of Inl _ \<Rightarrow> MappingNotFound | Inr st \<Rightarrow> st);
     let map_it = api_new api remotePath username password;
     (if mappingStatus = MappingDisconnected then err_then (api_remove api remotePath) map_it
      else if mappingStatus = MappingOK
      then do {
        valid \<leftarrow> pathValid;
        (if valid = Inr True then ret None else err_then (api_remove api remotePath) map_it) }
      else map_it) }"

text \<open>The link to a remote path, after its mapping; both under the lock of the remote path.\<close>

definition mount_remote :: "env \<Rightarrow> smb_api \<Rightarrow> string \<Rightarrow> string \<Rightarrow> string \<Rightarrow> string \<Rightarrow> goerr option prog" where
  "mount_remote E api remotePath localPath username password =
     err_then (ensureSMBGlobalMappingLocked api remotePath username password (PathValid E remotePath))
       (if localPath = [] then ret None
        else case ValidatePathWindows localPath of
               Some err \<Rightarrow> ret (Some err)
             | None \<Rightarrow> do {
                 err \<leftarrow> call (ans_err E) (Win (WSymlink remotePath localPath));
                 ret (map_option (\<lambda>e. Fmterr ''os.Symlink(%s, %s) failed with %v'' [remotePath, localPath, err_text e]) err) })"

definition with_remote_lock :: "string \<Rightarrow> 'a prog \<Rightarrow> 'a prog" where
  "with_remote_lock remotePath body = do {
     note_event (Tool (LockWait (getRemotePathLockKey remotePath)));
     r \<leftarrow> body;
     note_event (Tool (LockFree (getRemotePathLockKey remotePath)));
     ret r }"

definition win_SMBMount ::
    "env \<Rightarrow> smb_api \<Rightarrow> string \<Rightarrow> string \<Rightarrow> string \<Rightarrow> string list \<Rightarrow> string list \<Rightarrow> goerr option prog" where
  "win_SMBMount E api source target fsType mountOptions sensitiveMountOptions =
     (case mount_options_error mountOptions sensitiveMountOptions of
        Some err \<Rightarrow> ret (Some err)
      | None \<Rightarrow>
          err_then (ensure_parent (win_ExistsPath E) (win_MakeDir E) target)
            (let remotePath = ReplaceAll source ''/'' [backslash]; localPath = normalizeWindowsPath target
             in if remotePath = [] then ret (Some (Errorf ''remote path is empty''))
                else with_remote_lock remotePath
                       (mount_remote E api remotePath localPath (hd mountOptions) (hd sensitiveMountOptions))))"

text \<open>The mapping of a remote goes with the last link to it; the link itself is removed in any case.\<close>

definition unmap_remote :: "env \<Rightarrow> smb_api \<Rightarrow> string \<Rightarrow> string \<Rightarrow> unit prog" where
  "unmap_remote E api target remoteServer = do {
     dup \<leftarrow> CheckForDuplicateSMBMounts E driverGlobalMountPath target remoteServer;
     (if dup = Inr False then do { _ \<leftarrow> api_remove api remoteServer; ret () } else ret ()) }"

definition win_Unmount :: "env \<Rightarrow> smb_api \<Rightarrow> string \<Rightarrow> goerr option prog" where
  "win_Unmount E api target0 = do {
     let target = normalizeWindowsPath target0;
     remoteServer \<leftarrow> GetRemoteServerFromTarget E target;
     (case remoteServer of
        Inl _ \<Rightarrow> win_mounter_Rmdir E target
      | Inr remoteServer \<Rightarrow>
          with_remote_lock remoteServer
            (do { unmap_remote E api target remoteServer; win_mounter_Rmdir E target })) }"

definition winMounter :: "env \<Rightarrow> smb_api \<Rightarrow> win_mounter" where
  "winMounter E api =
     \<lparr>wm_SMBMount = win_SMBMount E api, wm_Mount = win_Mount E, wm_Unmount = win_Unmount E api,
      wm_MakeDir = win_MakeDir E, wm_Rmdir = win_mounter_Rmdir E, wm_ExistsPath = win_ExistsPath E,
      wm_IsLikelyNotMountPoint = win_IsLikelyNotMountPoint E\<rparr>"

section \<open>The CSI proxy mounters\<close>

text \<open>The proxy does the work on the host; a request is one event with the normalized paths.\<close>

definition px_MakeDir :: "env \<Rightarrow> string \<Rightarrow> goerr option prog" where
  "px_MakeDir E path = call (ans_err E) (Win (PxMkdir (normalizeWindowsPath path)))"

definition px_ExistsPath :: "env \<Rightarrow> string \<Rightarrow> (goerr + bool) prog" where
  "px_ExistsPath E path = call (ans_bool E) (Win (PxExists (normalizeWindowsPath path)))"

definition px_SMBMount ::
    "env \<Rightarrow> string \<Rightarrow> string \<Rightarrow> string \<Rightarrow> string list \<Rightarrow> string list \<Rightarrow> goerr option prog" where
  "px_SMBMount E source target fsType mountOptions sensitiveMountOptions =
     (case mount_options_error mountOptions sensitiveMountOptions of
        Some err \<Rightarrow> ret (Some err)
      | None \<Rightarrow>
          err_then (ensure_parent (px_ExistsPath E) (px_MakeDir E) target)
            (do {
               err \<leftarrow> call (ans_err E) (Win (PxMapping (normalizeWindowsPath target) (ReplaceAll source ''/'' [backslash])
                         (hd mountOptions) (hd sensitiveMountOptions)));
               ret (map_option (\<lambda>e. Fmterr ''smb mapping failed with error: %v'' [err_text e]) err) }))"

definition px_Mount :: "env \<Rightarrow> string \<Rightarrow> string \<Rightarrow> string \<Rightarrow> string list \<Rightarrow> goerr option prog" where
  "px_Mount E source target fstype options =
     call (ans_err E) (Win (PxSymlink (normalizeWindowsPath source) (normalizeWindowsPath target)))"

definition px_Rmdir :: "env \<Rightarrow> string \<Rightarrow> goerr option prog" where
  "px_Rmdir E path = call (ans_err E) (Win (PxRmdir (normalizeWindowsPath path)))"

definition px_Unmount :: "env \<Rightarrow> string \<Rightarrow> goerr option prog" where
  "px_Unmount E target = px_Rmdir E target"

definition px_IsLikelyNotMountPoint :: "env \<Rightarrow> string \<Rightarrow> (bool \<times> goerr option) prog" where
  "px_IsLikelyNotMountPoint E path =
     likely_not_mount (px_ExistsPath E path) (call (ans_bool E) (Win (PxIsSymlink (normalizeWindowsPath path))))"

definition csiProxyMounter :: "env \<Rightarrow> win_mounter" where
  "csiProxyMounter E =
     \<lparr>wm_SMBMount = px_SMBMount E, wm_Mount = px_Mount E, wm_Unmount = px_Unmount E, wm_MakeDir = px_MakeDir E,
      wm_Rmdir = px_Rmdir E, wm_ExistsPath = px_ExistsPath E,
      wm_IsLikelyNotMountPoint = px_IsLikelyNotMountPoint E\<rparr>"

subsection \<open>Its first version\<close>

text \<open>The beta API links with \<open>LinkPath\<close>, asks for a mount point, and is told whose path it works on.\<close>

definition beta_MakeDir :: "env \<Rightarrow> string \<Rightarrow> goerr option prog" where
  "beta_MakeDir E path = call (ans_err E) (Win (PxBeta (BetaMkdir (normalizeWindowsPath path) PathContext_PLUGIN)))"

definition beta_ExistsPath :: "env \<Rightarrow> string \<Rightarrow> (goerr + bool) prog" where
  "beta_ExistsPath E path = call (ans_bool E) (Win (PxBeta (BetaExists (normalizeWindowsPath path))))"

definition beta_SMBMount ::
    "env \<Rightarrow> string \<Rightarrow> string \<Rightarrow> string \<Rightarrow> string list \<Rightarrow> string list \<Rightarrow> goerr option prog" where
  "beta_SMBMount E source target fsType mountOptions sensitiveMountOptions =
     (case mount_options_error mountOptions sensitiveMountOptions of
        Some err \<Rightarrow> ret (Some err)
      | None \<Rightarrow>
          err_then (ensure_parent (beta_ExistsPath E) (beta_MakeDir E) target)
            (do {
               err \<leftarrow> call (ans_err E) (Win (PxBeta (BetaMapping (normalizeWindowsPath target)
                         (ReplaceAll source ''/'' [backslash]) (hd mountOptions) (hd sensitiveMountOptions))));
               ret (map_option (\<lambda>e. Fmterr ''smb mapping failed with error: %v'' [err_text e]) err) }))"

definition beta_Mount :: "env \<Rightarrow> string \<Rightarrow> string \<Rightarrow> string \<Rightarrow> string list \<Rightarrow> goerr option prog" where
  "beta_Mount E source target fstype options =
     call (ans_err E) (Win (PxBeta (BetaLink (normalizeWindowsPath source) (normalizeWindowsPath target))))"

definition beta_Rmdir :: "env \<Rightarrow> string \<Rightarrow> goerr option prog" where
  "beta_Rmdir E path = call (ans_err E) (Win (PxBeta (BetaRmdir (normalizeWindowsPath path) PathContext_POD)))"

definition beta_Unmount :: "env \<Rightarrow> string \<Rightarrow> goerr option prog" where
  "beta_Unmount E target = beta_Rmdir E target"

definition beta_IsLikelyNotMountPoint :: "env \<Rightarrow> string \<Rightarrow> (bool \<times> goerr option) prog" where
  "beta_IsLikelyNotMountPoint E path =
     likely_not_mount (beta_ExistsPath E path)
       (call (ans_bool E) (Win (PxBeta (BetaIsMountPoint (normalizeWindowsPath path)))))"

definition csiProxyMounterV1Beta :: "env \<Rightarrow> win_mounter" where
  "csiProxyMounterV1Beta E =
     \<lparr>wm_SMBMount = beta_SMBMount E, wm_Mount = beta_Mount E, wm_Unmount = beta_Unmount E, wm_MakeDir = beta_MakeDir E,
      wm_Rmdir = beta_Rmdir E, wm_ExistsPath = beta_ExistsPath E,
      wm_IsLikelyNotMountPoint = beta_IsLikelyNotMountPoint E\<rparr>"

subsection \<open>What they do not implement\<close>

text \<open>The methods of the mount library that every Windows mounter answers with an error, and the error.\<close>

datatype unsupported =
    EvalHostSymlinks | GetMountRefs | GetFSGroup | GetSELinuxSupport | GetMode
  | MountSensitive | MountSensitiveWithoutSystemd | MountSensitiveWithoutSystemdWithMountFlags

fun unsupported_name :: "unsupported \<Rightarrow> string" where
  "unsupported_name EvalHostSymlinks = ''EvalHostSymlinks''"
| "unsupported_name GetMountRefs = ''GetMountRefs''"
| "unsupported_name GetFSGroup = ''GetFSGroup''"
| "unsupported_name GetSELinuxSupport = ''GetSELinuxSupport''"
| "unsupported_name GetMode = ''GetMode''"
| "unsupported_name MountSensitive = ''MountSensitive''"
| "unsupported_name MountSensitiveWithoutSystemd = ''MountSensitiveWithoutSystemd''"
| "unsupported_name MountSensitiveWithoutSystemdWithMountFlags = ''MountSensitive''"

definition not_implemented :: "unsupported \<Rightarrow> string \<Rightarrow> goerr" where
  "not_implemented method mounter = Fmterr ''%s not implemented for %s'' [unsupported_name method, mounter]"

definition win_unsupported :: "unsupported \<Rightarrow> goerr" where
  "win_unsupported method = not_implemented method ''winMounter''"

definition px_unsupported :: "unsupported \<Rightarrow> goerr" where
  "px_unsupported method = not_implemented method ''CSIProxyMounter''"

definition beta_unsupported :: "unsupported \<Rightarrow> goerr" where
  "beta_unsupported method = not_implemented method ''CSIProxyMounterV1Beta''"

section \<open>The choice of a mounter\<close>

text \<open>\<open>NewClient\<close> of the file system and of the SMB API of a version; the second version is tried when the first fails.\<close>

definition new_proxy_clients :: "env \<Rightarrow> string \<Rightarrow> goerr option prog" where
  "new_proxy_clients E version =
     err_then (call (ans_err E) (Win (PxNewClient (''filesystem/'' @ version))))
       (call (ans_err E) (Win (PxNewClient (''smb/'' @ version))))"

definition win_NewSafeMounter ::
    "env \<Rightarrow> smb_api \<Rightarrow> smb_api \<Rightarrow> bool \<Rightarrow> bool \<Rightarrow> (goerr + win_mounter) prog" where
  "win_NewSafeMounter E cim powershell enableWindowsHostProcess useWinCIMAPI =
     (if enableWindowsHostProcess then ret (Inr (winMounter E (if useWinCIMAPI then cim else powershell)))
      else do {
        err \<leftarrow> new_proxy_clients E ''v1'';
        (case err of
           None \<Rightarrow> ret (Inr (csiProxyMounter E))
         | Some _ \<Rightarrow> do {
             err \<leftarrow> new_proxy_clients E ''v1beta1'';
             ret (case err of None \<Rightarrow> Inr (csiProxyMounterV1Beta E) | Some e \<Rightarrow> Inl e) }) })"

section \<open>The driver on Windows\<close>

text \<open>\<open>None\<close> is a mounter of another kind: the cast to \<open>CSIProxyMounter\<close> fails.\<close>

definition no_proxy :: goerr where "no_proxy = Errorf ''could not cast to csi proxy class''"

definition windows_SMBMount ::
    "win_mounter option \<Rightarrow> string \<Rightarrow> string \<Rightarrow> string \<Rightarrow> string list \<Rightarrow> string list \<Rightarrow> goerr option prog" where
  "windows_SMBMount m source target fsType mountOptions sensitiveMountOptions =
     (case m of
        Some proxy \<Rightarrow> wm_SMBMount proxy source target fsType mountOptions sensitiveMountOptions
      | None \<Rightarrow> ret (Some no_proxy))"

definition windows_SMBUnmount :: "win_mounter option \<Rightarrow> string \<Rightarrow> bool \<Rightarrow> bool \<Rightarrow> goerr option prog" where
  "windows_SMBUnmount m target extensiveMountCheck removeSMBMountOnWindows =
     (case m of
        Some proxy \<Rightarrow> if removeSMBMountOnWindows then wm_Unmount proxy target else wm_Rmdir proxy target
      | None \<Rightarrow> ret (Some no_proxy))"

definition windows_CleanupMountPoint :: "win_mounter option \<Rightarrow> string \<Rightarrow> bool \<Rightarrow> goerr option prog" where
  "windows_CleanupMountPoint m target extensiveMountCheck =
     (case m of Some proxy \<Rightarrow> wm_Rmdir proxy target | None \<Rightarrow> ret (Some no_proxy))"

definition removeDir :: "string \<Rightarrow> win_mounter option \<Rightarrow> goerr option prog" where
  "removeDir path m =
     (case m of
        None \<Rightarrow> ret (Some no_proxy)
      | Some proxy \<Rightarrow> do {
          isExists \<leftarrow> wm_ExistsPath proxy path;
          (case isExists of
             Inl err \<Rightarrow> ret (Some err)
           | Inr True \<Rightarrow> wm_Rmdir proxy path
           | Inr False \<Rightarrow> ret None) })"

definition preparePublishPath :: "string \<Rightarrow> win_mounter option \<Rightarrow> goerr option prog" where
  "preparePublishPath path m = removeDir path m"

definition prepareStagePath :: "string \<Rightarrow> win_mounter option \<Rightarrow> goerr option prog" where
  "prepareStagePath path m = removeDir path m"

text \<open>\<open>(free, total, used)\<close> as signed 64-bit numbers; the difference is taken on the unsigned ones.\<close>

definition GetFreeSpace :: "env \<Rightarrow> string \<Rightarrow> (goerr + int \<times> int \<times> int) prog" where
  "GetFreeSpace E path = do {
     r \<leftarrow> call (ans_space E) (Win (DiskFree path));
     ret (map_sum id (\<lambda>(total, free). (wrap64 free, wrap64 total, wrap64 (total - free))) r) }"

text \<open>Available, capacity and used bytes; without the rights of a host process the kubelet's library is asked.\<close>

definition windows_GetVolumeStats :: "env \<Rightarrow> string \<Rightarrow> bool \<Rightarrow> (goerr + int \<times> int \<times> int) prog" where
  "windows_GetVolumeStats E path enableWindowsHostProcess =
     (if enableWindowsHostProcess
      then do {
        r \<leftarrow> GetFreeSpace E path;
        ret (case r of
               Inl err \<Rightarrow> Inl (Statusf Internal ''failed to get free space on path %s: %v'' [path, err_text err])
             | Inr u \<Rightarrow> Inr u) }
      else do {
        m \<leftarrow> call (ans_stats E) (Node (StatFS path));
        ret (case m of
               Inl err \<Rightarrow> Inl (Statusf Internal ''failed to get metrics: %v'' [err_text err])
             | Inr v \<Rightarrow> Inr (vs_available v, vs_capacity v, vs_used v)) })"

end
