(* ===== verification/WinNode.thy ===== *)
theory WinNode
  imports Node WinMount
begin

text \<open>
  The node service built for Windows (\<open>nodeserver.go\<close> with \<open>runtime.GOOS\<close> equal to \<open>windows\<close>): what differs from the Linux
  build of theory \<open>Node\<close>, and the handlers composed with it.  The mounter is the one \<open>NewSafeMounter\<close> chose.  What is not
  defined here is shared with \<open>Node\<close>; \<open>GetAccountInfo\<close> is taken over with the path separators of Linux.
\<close>

section \<open>Mount points\<close>

text \<open>The mount table is not read: a link is what \<open>IsLikelyNotMountPoint\<close> sees.\<close>

definition windows_probe_mount :: "env \<Rightarrow> win_mounter \<Rightarrow> string \<Rightarrow> bool \<Rightarrow> (bool \<times> goerr option) prog" where
  "windows_probe_mount E m target shouldUnmount = do {
     err \<leftarrow> call (ans_err E) (Node (ReadDir target));
     (case err of
        None \<Rightarrow> ret (True, None)
      | Some e \<Rightarrow>
          if shouldUnmount
          then do {
            err \<leftarrow> wm_Unmount m target;
            (case err of Some u \<Rightarrow> ret (True, Some u) | None \<Rightarrow> ret (False, Some e)) }
          else ret (True, Some e)) }"

definition windows_ensureMountPoint ::
    "env \<Rightarrow> win_mounter \<Rightarrow> string \<Rightarrow> int \<Rightarrow> bool \<Rightarrow> (bool \<times> goerr option) prog" where
  "windows_ensureMountPoint E m target perm shouldUnmount = do {
     (notMnt, err) \<leftarrow> wm_IsLikelyNotMountPoint m target;
     let failed = (case err of None \<Rightarrow> False | Some e \<Rightarrow> err_kind e \<noteq> OsNotExist);
     corrupted \<leftarrow> (if failed then IsCorruptedDir E target else ret False);
     (if failed \<and> \<not> corrupted then ret (\<not> notMnt, err)
      else if failed \<or> \<not> notMnt then windows_probe_mount E m target shouldUnmount
      else do {
        err \<leftarrow> makeDir E target perm;
        ret (False, err) }) }"

definition windows_canSkipRepublishNodeStage :: "win_mounter \<Rightarrow> smap \<Rightarrow> string \<Rightarrow> bool prog" where
  "windows_canSkipRepublishNodeStage m volumeContext target =
     (if EqualFold (getValueInMap volumeContext mountWithWITokenField) trueValue then ret False
      else do {
        (notMnt, err) \<leftarrow> wm_IsLikelyNotMountPoint m target;
        ret (err = None \<and> \<not> notMnt) })"

section \<open>Staging\<close>

definition windows_stage_error :: "string \<Rightarrow> account_info \<Rightarrow> stage_vars \<Rightarrow> goerr option" where
  "windows_stage_error volumeID i sv =
     (case first_error (stage_checks volumeID i sv) of
        Some err \<Rightarrow> Some err
      | None \<Rightarrow>
          if sv_oauth sv then Some (status_error InvalidArgument ''mountWithOAuthToken is not supported on Windows'') else None)"

definition windows_stage_decide ::
    "env \<Rightarrow> config \<Rightarrow> stage_request \<Rightarrow> (goerr + account_info \<times> stage_vars) prog" where
  "windows_stage_decide E d req = do {
     (i, err) \<leftarrow> GetAccountInfo E d (nr_VolumeId req) (nr_Secrets req) (nr_Context req);
     (case err of
        Some e \<Rightarrow> ret (Inl (invalid ''GetAccountInfo(%s) failed with error: %v'' [nr_VolumeId req, err_text e]))
      | None \<Rightarrow>
          if ai_share i = [] then ret (Inl (invalid ''failed to get file share name from %s'' [nr_VolumeId req]))
          else case stage_params (initial_stage_vars d (ai_disk i)) (nr_Context req) of
                 Inl err \<Rightarrow> ret (Inl err)
               | Inr sv \<Rightarrow>
                   (case windows_stage_error (nr_VolumeId req) i sv of
                      Some err \<Rightarrow> ret (Inl err)
                    | None \<Rightarrow> ret (Inr (i, sv)))) }"

definition windows_stage_source :: "account_info \<Rightarrow> stage_vars \<Rightarrow> stage_place \<Rightarrow> string" where
  "windows_stage_source i sv p =
     (let source = (if sv_protocol sv = nfs then sprintf ''%s:/%s/%s'' [st_server p, ai_account i, st_share p]
                    else [backslash, backslash] @ st_server p @ [backslash] @ st_share p)
      in if st_folder p \<noteq> [] then source @ [backslash] @ st_folder p else source)"

text \<open>The flags of a CIFS mount are not used on Windows.\<close>

definition windows_stage_mount_path :: "stage_vars \<Rightarrow> string \<Rightarrow> goerr + string" where
  "windows_stage_mount_path sv targetPath =
     (if isDiskFsType (sv_fsType sv)
      then (case validateVolumeIDSegment ''diskName'' (sv_disk sv) of
              Some err \<Rightarrow> Inl (status_error InvalidArgument (err_text err))
            | None \<Rightarrow>
                if \<not> HasSuffix (sv_disk sv) vhdSuffix
                then Inl (Statusf Internal ''diskname could not be empty, targetPath: %s'' [targetPath])
                else Inr (win_join [win_dir targetPath, proxyMount]))
      else Inr targetPath)"

text \<open>\<open>(mountOptions, sensitiveMountOptions)\<close>: a share is mounted with the account's key whatever identity is asked for.\<close>

definition windows_stage_options ::
    "env \<Rightarrow> config \<Rightarrow> account_info \<Rightarrow> stage_vars \<Rightarrow> string list \<Rightarrow> goerr + string list \<times> string list" where
  "windows_stage_options E d i sv mountFlags =
     (if sv_protocol sv = nfs
      then Inr (appendDefaultNfsMountOptions (ord E) (JoinMountOptions mountFlags [''vers=4,minorversion=1,sec=sys''])
                  (appendNoResvPortOption d) (appendActimeoOption d), [])
      else if ai_account i = [] \<or> ai_key i = []
      then Inl (Statusf Internal ''accountName(%s) or accountKey is empty'' [ai_account i])
      else Inr ([''AZURE'' @ [backslash] @ ai_account i], [ai_key i]))"

definition windows_stage_mount_share ::
    "env \<Rightarrow> config \<Rightarrow> win_mounter \<Rightarrow> string \<Rightarrow> string \<Rightarrow> stage_vars \<Rightarrow> string \<Rightarrow> string \<Rightarrow> string list \<Rightarrow> string list
      \<Rightarrow> (goerr + unit) prog" where
  "windows_stage_mount_share E d m volumeID targetPath sv source path mountOptions sensitive =
     (let (mountFsType, mountOptions) =
            (if sv_protocol sv = nfs then nfs_mount_choice d (sv_encrypt sv) mountOptions else (cifs, mountOptions))
      in if mountFsType = aznfs \<and> \<not> enableAzurefileProxy d
         then ret (Inl (status_error InvalidArgument
           ''aznfs mounts (encryptInTransit or use-aznfs-for-nfs-mounts) are only available when azurefile-proxy is enabled''))
         else and_then
           (check (prepareStagePath path (Some m))
              (\<lambda>e. Statusf Internal ''prepare stage path failed for %s with error: %v'' [path, err_text e])) (\<lambda>_.
         and_then
           (if mountFsType = aznfs then stage_proxy_mount E source path mountFsType mountOptions sensitive
            else check
              (WaitUntilTimeout E ''mount'' (windows_SMBMount (Some m) source path mountFsType mountOptions sensitive)
                 (ret (Some (Fmterr ''mount operation timed out after %d seconds: source=%s, target=%s'' [''90'', source, path]))))
              (\<lambda>e. Statusf Internal ''volume(%s) mount %s on %s failed with %v%s''
                     [volumeID, source, path, err_text e, mount_help d]))
           (\<lambda>_. stage_chmod E sv targetPath)))"

definition windows_stage_mount ::
    "env \<Rightarrow> config \<Rightarrow> win_mounter \<Rightarrow> string \<Rightarrow> string \<Rightarrow> stage_vars \<Rightarrow> string \<Rightarrow> string \<Rightarrow> string list \<Rightarrow> string list
      \<Rightarrow> (goerr + unit) prog" where
  "windows_stage_mount E d m volumeID targetPath sv source path mountOptions sensitive = do {
     (isDirMounted, err) \<leftarrow> windows_ensureMountPoint E m path (sv_permissions sv) True;
     (case err of
        Some e \<Rightarrow> ret (Inl (Statusf Internal ''Could not mount target %s: %v'' [path, err_text e]))
      | None \<Rightarrow>
          if isDirMounted then ret (Inr ())
          else windows_stage_mount_share E d m volumeID targetPath sv source path mountOptions sensitive) }"

definition windows_stage_disk ::
    "env \<Rightarrow> win_mounter \<Rightarrow> string \<Rightarrow> string \<Rightarrow> stage_vars \<Rightarrow> string \<Rightarrow> string list \<Rightarrow> (goerr + bool) prog" where
  "windows_stage_disk E m volumeID targetPath sv path mountFlags =
     (if \<not> isDiskFsType (sv_fsType sv) then ret (Inr True)
      else do {
        (mnt, err) \<leftarrow> windows_ensureMountPoint E m targetPath (sv_permissions sv) True;
        (case err of
           Some e \<Rightarrow> ret (Inl (Statusf Internal ''mount %s on target %s failed with %v'' [volumeID, targetPath, err_text e]))
         | None \<Rightarrow>
             if mnt then ret (Inr False)
             else
               let diskPath = win_join [path, sv_disk sv] in
               and_then
                 (check (validateDiskIsRegularFile E diskPath)
                    (\<lambda>e. invalid ''invalid disk source: %v'' [err_text e]))
                 (\<lambda>_. and_then
                    (check (call (ans_err E) (Node (FormatAndMount diskPath targetPath (sv_fsType sv) (disk_options sv mountFlags))))
                       (\<lambda>_. Statusf Internal ''could not format %s and mount it at %s'' [targetPath, diskPath]))
                    (\<lambda>_. ret (Inr True)))) })"

text \<open>No mount information is saved for a confidential guest.\<close>

definition windows_stage_locked ::
    "env \<Rightarrow> config \<Rightarrow> win_mounter \<Rightarrow> stage_request \<Rightarrow> string list \<Rightarrow> string \<Rightarrow> account_info \<Rightarrow> stage_vars
      \<Rightarrow> (goerr + unit) prog" where
  "windows_stage_locked E d m req mountFlags volumeMountGroup i sv =
     (let volumeID = nr_VolumeId req; targetPath = nr_Target req in
      and_then (lift_err (stage_place_of E d i sv)) (\<lambda>place.
      and_then (stage_create_folder E i sv place) (\<lambda>_.
      and_then (lift_err (windows_stage_mount_path sv targetPath)) (\<lambda>path.
      and_then (stage_credentials i) (\<lambda>_.
      and_then (lift_err (windows_stage_options E d i sv mountFlags)) (\<lambda>(mountOptions, sensitive).
      and_then (windows_stage_mount E d m volumeID targetPath sv (windows_stage_source i sv place) path mountOptions sensitive) (\<lambda>_.
      and_then (windows_stage_disk E m volumeID targetPath sv path mountFlags) (\<lambda>more.
      if more then stage_ownership E volumeID sv path volumeMountGroup else ret (Inr ())))))))))"

definition windows_NodeStageVolume :: "env \<Rightarrow> config \<Rightarrow> win_mounter \<Rightarrow> stage_request \<Rightarrow> (goerr + unit) prog" where
  "windows_NodeStageVolume E d m req =
     (if nr_VolumeId req = [] then ret (Inl (status_error InvalidArgument ''Volume ID missing in request''))
      else if nr_Target req = [] then ret (Inl (status_error InvalidArgument ''Staging target not provided''))
      else case nr_Capability req of
        None \<Rightarrow> ret (Inl (status_error InvalidArgument ''Volume capability not provided''))
      | Some volumeCapability \<Rightarrow>
          if getServiceAccountTokens (nr_Secrets req) (nr_Context req) = []
             \<and> shouldUseServiceAccountToken (nr_Context req)
          then ret (Inr ())
          else and_then (windows_stage_decide E d req) (\<lambda>(i, sv).
            with_volume_lock (stage_lock_key (nr_VolumeId req) (nr_Target req))
              (ret (Inl (Statusf Aborted volumeOperationAlreadyExistsFmt [nr_VolumeId req])))
              (windows_stage_locked E d m req (stage_flags volumeCapability) (vc_mountGroup volumeCapability) i sv)))"

section \<open>Unstaging\<close>

definition windows_unstage_locked :: "env \<Rightarrow> config \<Rightarrow> win_mounter \<Rightarrow> bool \<Rightarrow> string \<Rightarrow> (goerr + unit) prog" where
  "windows_unstage_locked E d m removeSMBMountOnWindows stagingTargetPath =
     and_then (check (windows_SMBUnmount (Some m) stagingTargetPath True removeSMBMountOnWindows)
                 (\<lambda>e. Statusf Internal ''failed to unmount staging target %s: %v'' [stagingTargetPath, err_text e])) (\<lambda>_.
     check (remove_mount_info E d stagingTargetPath)
       (\<lambda>e. Statusf Internal ''failed to remove mount info %s: %v'' [stagingTargetPath, err_text e]))"

definition windows_NodeUnstageVolume ::
    "env \<Rightarrow> config \<Rightarrow> win_mounter \<Rightarrow> bool \<Rightarrow> string \<Rightarrow> string \<Rightarrow> (goerr + unit) prog" where
  "windows_NodeUnstageVolume E d m removeSMBMountOnWindows volumeID stagingTargetPath =
     (if volumeID = [] then ret (Inl (status_error InvalidArgument ''Volume ID missing in request''))
      else if stagingTargetPath = [] then ret (Inl (status_error InvalidArgument ''Staging target not provided''))
      else with_volume_lock (stage_lock_key volumeID stagingTargetPath)
             (ret (Inl (Statusf Aborted volumeOperationAlreadyExistsFmt [volumeID])))
             (windows_unstage_locked E d m removeSMBMountOnWindows stagingTargetPath))"

section \<open>Publishing\<close>

text \<open>The target \<open>kubelet\<close> has made is removed: the link to the staged volume takes its place.\<close>

definition windows_link :: "env \<Rightarrow> win_mounter \<Rightarrow> publish_request \<Rightarrow> (goerr + unit) prog" where
  "windows_link E m req =
     (let source = np_Staging req; target = np_Target req in
      and_then (check (preparePublishPath target (Some m))
                  (\<lambda>e. Statusf Internal ''prepare publish failed for %s with error: %v'' [target, err_text e])) (\<lambda>_. do {
        err \<leftarrow> wm_Mount m source target [] (''bind'' # (if np_Readonly req then [''ro''] else []));
        (case err of
           None \<Rightarrow> ret (Inr ())
         | Some e \<Rightarrow> do {
             removeErr \<leftarrow> call (ans_err E) (Node (RemoveFile target));
             ret (Inl (case removeErr of
                         Some r \<Rightarrow> Statusf Internal ''Could not remove mount target %s: %v'' [target, err_text r]
                       | None \<Rightarrow> Statusf Internal ''Could not mount %s at %s: %v'' [source, target, err_text e])) }) }))"

definition windows_publish_bind ::
    "env \<Rightarrow> config \<Rightarrow> win_mounter \<Rightarrow> publish_request \<Rightarrow> int \<Rightarrow> (goerr + unit) prog" where
  "windows_publish_bind E d m req mountPermissions =
     (if np_Staging req = [] then ret (Inl (status_error InvalidArgument ''Staging target not provided''))
      else and_then (publish_refresh E d req) (\<lambda>_. do {
        (mnt, err) \<leftarrow> windows_ensureMountPoint E m (np_Target req) mountPermissions False;
        (case err of
           Some e \<Rightarrow> ret (Inl (Statusf Internal ''Could not mount target %s: %v'' [np_Target req, err_text e]))
         | None \<Rightarrow> if mnt then ret (Inr ()) else windows_link E m req) }))"

definition windows_publish_ephemeral ::
    "env \<Rightarrow> config \<Rightarrow> win_mounter \<Rightarrow> publish_request \<Rightarrow> volume_capability \<Rightarrow> (goerr + unit) prog" where
  "windows_publish_ephemeral E d m req volCap =
     (case caseCollidingKey (np_Context req) of
        (key, True) \<Rightarrow> ret (Inl (invalid ''ephemeral volume request contains case-colliding volume attribute keys that normalize to %q'' [key]))
      | (_, False) \<Rightarrow>
          (let volumeContext = set_fold (np_Context req) secretNamespaceField (map_get (np_Context req) podNamespaceField) in
           case first_error (inline_checks volumeContext (vc_mountFlags volCap)) of
             Some err \<Rightarrow> ret (Inl err)
           | None \<Rightarrow> do {
               skip \<leftarrow> windows_canSkipRepublishNodeStage m volumeContext (np_Target req);
               (if skip then ret (Inr ())
                else
                  let staged = inline_context d volumeContext in
                  and_then
                    (if isWorkloadIdentity volumeContext then ret (Inr ())
                     else check (authorizeInlineVolumeSecret E d staged) (\<lambda>e. e))
                    (\<lambda>_. windows_NodeStageVolume E d m (stage_of req staged))) }))"

definition windows_publish_persistent ::
    "env \<Rightarrow> config \<Rightarrow> win_mounter \<Rightarrow> publish_request \<Rightarrow> (goerr + unit) prog" where
  "windows_publish_persistent E d m req =
     (if getServiceAccountTokens (np_Secrets req) (np_Context req) \<noteq> [] \<and> shouldUseServiceAccountToken (np_Context req)
      then do {
        skip \<leftarrow> windows_canSkipRepublishNodeStage m (np_Context req) (np_Target req);
        (if skip then ret (Inr ()) else windows_NodeStageVolume E d m (stage_of req (np_Context req))) }
      else case publish_permissions d (np_Context req) of
             Inl err \<Rightarrow> ret (Inl err)
           | Inr mountPermissions \<Rightarrow>
               and_then (publish_confidential E d (np_Context req)) (\<lambda>confidential.
                 if confidential then publish_direct E req else windows_publish_bind E d m req mountPermissions))"

definition windows_NodePublishVolume :: "env \<Rightarrow> config \<Rightarrow> win_mounter \<Rightarrow> publish_request \<Rightarrow> (goerr + unit) prog" where
  "windows_NodePublishVolume E d m req =
     (case np_Capability req of
        None \<Rightarrow> ret (Inl (status_error InvalidArgument ''Volume capability missing in request''))
      | Some volCap \<Rightarrow>
          if np_VolumeId req = [] then ret (Inl (status_error InvalidArgument ''Volume ID missing in request''))
          else if np_Target req = [] then ret (Inl (status_error InvalidArgument ''Target path not provided''))
          else if EqualFold (map_get (np_Context req) ephemeralField) trueValue
          then windows_publish_ephemeral E d m req volCap
          else windows_publish_persistent E d m req)"

definition windows_NodeUnpublishVolume ::
    "env \<Rightarrow> config \<Rightarrow> win_mounter \<Rightarrow> string \<Rightarrow> string \<Rightarrow> (goerr + unit) prog" where
  "windows_NodeUnpublishVolume E d m volumeID targetPath =
     (if volumeID = [] then ret (Inl (status_error InvalidArgument ''Volume ID missing in request''))
      else if targetPath = [] then ret (Inl (status_error InvalidArgument ''Target path missing in request''))
      else and_then
        (check (windows_CleanupMountPoint (Some m) targetPath True)
           (\<lambda>e. Statusf Internal ''failed to unmount target %s: %v'' [targetPath, err_text e]))
        (\<lambda>_. do {
          err \<leftarrow> remove_mount_info E d targetPath;
          ret (case err of
                 None \<Rightarrow> Inr ()
               | Some e \<Rightarrow>
                   if Contains (err_text e) ''file name too long'' then Inr ()
                   else Inl (Statusf Internal ''failed to direct volume remove mount info %s: %v'' [targetPath, err_text e])) }))"

end
