(* ===== verification/Wql.thy ===== *)
theory Wql
  imports WindowsPath GoMaps
begin

text \<open>
  The texts sent to WMI (\<open>pkg/os/wmi/wmi.go\<close> and \<open>smb.go\<close>): queries with their escaped values, and the credential of a
  global mapping.
\<close>

section \<open>Replacing a character by a text\<close>

lemma ReplaceAll_concat: "ReplaceAll s [a] t = concat (map (\<lambda>c. if c = a then t else [c]) s)"
proof (induction s)
  case Nil
  show ?case by (simp add: ReplaceAll_def Split_split_pred)
next
  case (Cons c s)
  obtain x xs where "split_pred (\<lambda>d. d = a) s = x # xs"
    using split_pred_not_Nil [of "\<lambda>d. d = a" s] by (cases "split_pred (\<lambda>d. d = a) s") auto
  with Cons show ?case by (cases xs) (auto simp: ReplaceAll_def Split_split_pred)
qed

section \<open>Queries\<close>

text \<open>A value of a condition: a text, a number, a truth value, or another value by the text it is printed as.\<close>

datatype wql_value = WString string | WInt int | WBool bool | WOther string

abbreviation quote :: char where "quote \<equiv> CHR 0x27"

fun formatValue :: "wql_value \<Rightarrow> string" where
  "formatValue (WString x) =
     (let escaped = ReplaceAll x [quote] [quote, quote];
          escaped = ReplaceAll escaped [backslash] [backslash, backslash]
      in [quote] @ escaped @ [quote])"
| "formatValue (WInt i) = show_int i"
| "formatValue (WBool b) = (if b then ''TRUE'' else ''FALSE'')"
| "formatValue (WOther t) = [quote] @ t @ [quote]"

record condition =
  co_Field :: string
  co_Operator :: string
  co_Value :: wql_value

definition condition_text :: "condition \<Rightarrow> string" where
  "condition_text c = sprintf ''%s %s %s'' [co_Field c, co_Operator c, formatValue (co_Value c)]"

record query_builder =
  qb_Class :: string
  qb_Namespace :: string
  qb_Selectors :: "string list"
  qb_Conditions :: "condition list"

definition root_namespace :: "string \<Rightarrow> string" where
  "root_namespace path = from_slash (''Root/'' @ path)"

definition WMINamespaceCimV2 :: string where "WMINamespaceCimV2 = root_namespace ''CimV2''"
definition WMINamespaceSmb :: string where
  "WMINamespaceSmb = root_namespace ([CHR ''M''] @ ''icrosoft/Windows/Smb'')"

definition NewQuery :: "string \<Rightarrow> query_builder" where
  "NewQuery cls = \<lparr>qb_Class = cls, qb_Namespace = WMINamespaceCimV2, qb_Selectors = [], qb_Conditions = []\<rparr>"

definition WithNamespace :: "query_builder \<Rightarrow> string \<Rightarrow> query_builder" where
  "WithNamespace q ns = q\<lparr>qb_Namespace := ns\<rparr>"

definition Select :: "query_builder \<Rightarrow> string list \<Rightarrow> query_builder" where
  "Select q selectors = q\<lparr>qb_Selectors := qb_Selectors q @ selectors\<rparr>"

definition WithCondition :: "query_builder \<Rightarrow> string \<Rightarrow> string \<Rightarrow> wql_value \<Rightarrow> query_builder" where
  "WithCondition q field operator v =
     q\<lparr>qb_Conditions := qb_Conditions q @ [\<lparr>co_Field = field, co_Operator = operator, co_Value = v\<rparr>]\<rparr>"

definition WithConditions :: "query_builder \<Rightarrow> condition list \<Rightarrow> query_builder" where
  "WithConditions q cs = q\<lparr>qb_Conditions := qb_Conditions q @ cs\<rparr>"

definition buildWhereClause :: "query_builder \<Rightarrow> string" where
  "buildWhereClause q =
     (if qb_Conditions q = [] then []
      else ''WHERE '' @ Join (map condition_text (qb_Conditions q)) '' AND '')"

definition Build :: "query_builder \<Rightarrow> string" where
  "Build q =
     (let selectPart = (if qb_Selectors q \<noteq> [] then Join (qb_Selectors q) '', '' else ''*'');
          query = ''SELECT '' @ selectPart @ '' FROM '' @ qb_Class q;
          w = buildWhereClause q
      in if w \<noteq> [] then query @ '' '' @ w else query)"

section \<open>What a query means\<close>

text \<open>How WMI reads the text of a literal after its opening quote: a doubled quote and a doubled backslash stand for one,
  a single quote ends the literal; the rest of the query follows.\<close>

fun read_literal :: "string \<Rightarrow> (string \<times> string) option" where
  "read_literal [] = None"
| "read_literal (c # s) =
     (if c = quote
      then (case s of
              d # r \<Rightarrow> if d = quote then map_option (\<lambda>(x, y). (quote # x, y)) (read_literal r) else Some ([], s)
            | [] \<Rightarrow> Some ([], []))
      else if c = backslash
      then (case s of
              d # r \<Rightarrow> if d = backslash then map_option (\<lambda>(x, y). (backslash # x, y)) (read_literal r) else None
            | [] \<Rightarrow> None)
      else map_option (\<lambda>(x, y). (c # x, y)) (read_literal s))"

definition escaped_char :: "char \<Rightarrow> string" where
  "escaped_char c = (if c = quote then [quote, quote] else if c = backslash then [backslash, backslash] else [c])"

lemma formatValue_escaped: "formatValue (WString x) = quote # concat (map escaped_char x) @ [quote]"
proof -
  have "concat (map (\<lambda>c. if c = backslash then [backslash, backslash] else [c])
      (concat (map (\<lambda>c. if c = quote then [quote, quote] else [c]) x))) = concat (map escaped_char x)"
    by (induction x) (auto simp: escaped_char_def)
  then show ?thesis by (simp add: ReplaceAll_concat Let_def)
qed

lemma read_escaped:
  "(case rest of [] \<Rightarrow> True | c # r \<Rightarrow> c \<noteq> quote) \<Longrightarrow>
     read_literal (concat (map escaped_char x) @ quote # rest) = Some (x, rest)"
  by (induction x) (auto simp: escaped_char_def split: list.splits)



section \<open>Credentials\<close>

definition credentialDelimiter :: string where "credentialDelimiter = '':''"

definition escapeUserName :: "string \<Rightarrow> string" where
  "escapeUserName userName =
     (let userName = ReplaceAll userName [backslash] [backslash, backslash]
      in ReplaceAll userName credentialDelimiter (backslash # credentialDelimiter))"

definition credential_text :: "string \<Rightarrow> string \<Rightarrow> string" where
  "credential_text username password = escapeUserName username @ credentialDelimiter @ password"

text \<open>How the credential is taken apart: the first delimiter that is not escaped ends the user name.\<close>

fun read_credential :: "string \<Rightarrow> (string \<times> string) option" where
  "read_credential [] = None"
| "read_credential (c # s) =
     (if c = CHR '':'' then Some ([], s)
      else if c = backslash
      then (case s of d # r \<Rightarrow> map_option (\<lambda>(u, p). (d # u, p)) (read_credential r) | [] \<Rightarrow> None)
      else map_option (\<lambda>(u, p). (c # u, p)) (read_credential s))"

text \<open>The user name and the password of a mapping are read back as they were given, whatever characters they hold.\<close>

theorem credential_roundtrip: "read_credential (credential_text username password) = Some (username, password)"
proof -
  define esc where
    "esc = (\<lambda>c. if c = backslash then [backslash, backslash] else if c = CHR '':'' then [backslash, CHR '':''] else [c])"
  have "concat (map (\<lambda>c. if c = CHR '':'' then [backslash, CHR '':''] else [c])
      (concat (map (\<lambda>c. if c = backslash then [backslash, backslash] else [c]) u))) = concat (map esc u)" for u
    by (induction u) (auto simp: esc_def)
  then have "credential_text u p = concat (map esc u) @ CHR '':'' # p" for u p
    by (simp add: credential_text_def escapeUserName_def credentialDelimiter_def ReplaceAll_concat Let_def)
  moreover have "read_credential (concat (map esc u) @ CHR '':'' # p) = Some (u, p)" for u p
    by (induction u) (auto simp: esc_def)
  ultimately show ?thesis by simp
qed

end
