(* ===== verification/Variant.thy ===== *)
theory Variant
  imports Driver "HOL-Library.Word"
begin

text \<open>
  The numbers WMI answers with (\<open>SafeVariant\<close> of \<open>pkg/os/wmi/wmi.go\<close>): 64 bits with a type tag, read at the width the
  caller asks for.  A nil variant is \<open>None\<close>; \<open>va_val\<close> is the signed reading of the 64 bits.
\<close>

section \<open>Types\<close>

definition VT_I2 :: int where "VT_I2 = 2"
definition VT_I4 :: int where "VT_I4 = 3"
definition VT_BOOL :: int where "VT_BOOL = 11"
definition VT_I1 :: int where "VT_I1 = 16"
definition VT_UI1 :: int where "VT_UI1 = 17"
definition VT_UI2 :: int where "VT_UI2 = 18"
definition VT_UI4 :: int where "VT_UI4 = 19"
definition VT_I8 :: int where "VT_I8 = 20"
definition VT_UI8 :: int where "VT_UI8 = 21"
definition VT_INT :: int where "VT_INT = 22"
definition VT_UINT :: int where "VT_UINT = 23"

definition isInteger :: "int \<Rightarrow> bool" where
  "isInteger vt \<longleftrightarrow> vt \<in> {VT_I1, VT_UI1, VT_I2, VT_UI2, VT_I4, VT_UI4, VT_I8, VT_UI8, VT_INT, VT_UINT}"

definition isUnsigned :: "int \<Rightarrow> bool" where
  "isUnsigned vt \<longleftrightarrow> vt \<in> {VT_UI1, VT_UI2, VT_UI4, VT_UI8, VT_UINT}"

section \<open>Readings\<close>

definition MaxInt32 :: int where "MaxInt32 = 2147483647"
definition MaxInt64 :: int where "MaxInt64 = 9223372036854775807"

definition variant_Bool :: "variant option \<Rightarrow> bool" where
  "variant_Bool s =
     (case s of None \<Rightarrow> False | Some v \<Rightarrow> va_vt v = VT_BOOL \<and> take_bit 16 (va_val v) \<noteq> 0)"

definition variant_String :: "variant option \<Rightarrow> string" where
  "variant_String s = (case s of None \<Rightarrow> [] | Some v \<Rightarrow> va_text v)"

text \<open>An integer, or zero; the common start of the readings.\<close>

definition variant_number :: "variant option \<Rightarrow> (variant \<Rightarrow> int) \<Rightarrow> int" where
  "variant_number s f = (case s of None \<Rightarrow> 0 | Some v \<Rightarrow> if isInteger (va_vt v) then f v else 0)"

text \<open>An unsigned number with its top bit set is read as the largest signed one.\<close>

definition variant_Int :: "variant option \<Rightarrow> int" where
  "variant_Int s = variant_number s (\<lambda>v.
     if isUnsigned (va_vt v) \<and> (va_val v < 0 \<or> va_val v > MaxInt64) then MaxInt64 else va_val v)"

definition variant_Int32 :: "variant option \<Rightarrow> int" where
  "variant_Int32 s = variant_number s (\<lambda>v.
     if isUnsigned (va_vt v) \<and> (va_val v < 0 \<or> va_val v > MaxInt32) then MaxInt32 else wrap32 (va_val v))"

definition variant_Int64 :: "variant option \<Rightarrow> int" where
  "variant_Int64 s = variant_number s va_val"

definition variant_Uint16 :: "variant option \<Rightarrow> int" where
  "variant_Uint16 s = variant_number s (\<lambda>v. take_bit 16 (va_val v))"

definition variant_Uint32 :: "variant option \<Rightarrow> int" where
  "variant_Uint32 s = variant_number s (\<lambda>v. take_bit 32 (va_val v))"

definition variant_Uint64 :: "variant option \<Rightarrow> int" where
  "variant_Uint64 s = variant_number s (\<lambda>v. take_bit 64 (va_val v))"

section \<open>Bounds\<close>

lemma Uint_bounds:
  "0 \<le> variant_Uint16 s \<and> variant_Uint16 s < 2 ^ 16"
  "0 \<le> variant_Uint32 s \<and> variant_Uint32 s < 2 ^ 32"
  "0 \<le> variant_Uint64 s \<and> variant_Uint64 s < 2 ^ 64"
  unfolding variant_Uint16_def variant_Uint32_def variant_Uint64_def variant_number_def
  using take_bit_int_less_exp [of 16] take_bit_int_less_exp [of 32] take_bit_int_less_exp [of 64]
  by (auto split: option.split)

lemma Int32_bounds: "- (2 ^ 31) \<le> variant_Int32 s \<and> variant_Int32 s < 2 ^ 31"
  unfolding variant_Int32_def variant_number_def wrap32_def MaxInt32_def by (auto split: option.split)

text \<open>The unsigned readings are the low bits of the 64-bit word.\<close>

lemma Uint32_word:
  "isInteger (va_vt v) \<Longrightarrow> variant_Uint32 (Some v) = uint (ucast (word_of_int (va_val v) :: 64 word) :: 32 word)"
  by (simp add: variant_Uint32_def variant_number_def unsigned_ucast_eq uint_word_of_int_eq take_bit_word_eq_self
      unsigned_take_bit_eq flip: take_bit_eq_mod)

text \<open>A number that fits the width it is asked for at is read exactly, and an unsigned one that does not fit 32 signed bits
  is never read as a negative number.\<close>

lemma Int32_exact:
  assumes "isInteger (va_vt v)" "- (2 ^ 31) \<le> va_val v" "va_val v < 2 ^ 31" "isUnsigned (va_vt v) \<Longrightarrow> 0 \<le> va_val v"
  shows "variant_Int32 (Some v) = va_val v"
  using assms by (auto simp: variant_Int32_def variant_number_def wrap32_def MaxInt32_def)

lemma Int32_unsigned: "isUnsigned (va_vt v) \<Longrightarrow> 0 \<le> variant_Int32 (Some v)"
  by (auto simp: variant_Int32_def variant_number_def wrap32_def MaxInt32_def)

end
