(* ===== verification/Com.thy ===== *)
theory Com
  imports Wql Variant FileShare
begin

text \<open>
  WMI over COM (\<open>pkg/os/wmi/wmi.go\<close>): the threads, services, enumerators and objects of a call, and who gives back which
  reference.  A handle is the number of events when it was taken; \<open>Hold\<close> and \<open>Drop\<close> are the references that are taken and
  given back.  The COM library is the answer to \<open>ComCall\<close>; an enumerator is answered with the steps it will make, so it is
  finite.  An action over the items of a query changes an accumulator and may end the enumeration with an error.
\<close>

section \<open>References\<close>

definition fresh_handle :: "nat prog" where
  "fresh_handle = get (\<lambda>s. length (trace s))"

text \<open>A reference that is given back when the body ends, by \<open>defer\<close>.\<close>

definition owning :: "nat \<Rightarrow> 'a prog \<Rightarrow> 'a prog" where
  "owning n body = do { note_event (Com (Hold n)); r \<leftarrow> body; note_event (Com (Drop n)); ret r }"

definition com_call :: "env \<Rightarrow> nat option \<Rightarrow> string \<Rightarrow> string list \<Rightarrow> (goerr + variant) prog" where
  "com_call E obj member args = call (ans_variant E) (Com (ComCall obj member args))"

text \<open>A call that returns an object (or a variant that owns one): the body runs with it.\<close>

definition with_object ::
    "env \<Rightarrow> nat option \<Rightarrow> string \<Rightarrow> string list \<Rightarrow> (goerr \<Rightarrow> goerr) \<Rightarrow> 'acc
      \<Rightarrow> (nat \<Rightarrow> variant \<Rightarrow> (goerr option \<times> 'acc) prog) \<Rightarrow> (goerr option \<times> 'acc) prog" where
  "with_object E obj member args wrap_err acc body = do {
     r \<leftarrow> com_call E obj member args;
     (case r of
        Inl err \<Rightarrow> ret (Some (wrap_err err), acc)
      | Inr v \<Rightarrow> do { n \<leftarrow> fresh_handle; owning n (body n v) }) }"

section \<open>Errors\<close>

definition WBEM_S_FALSE :: int where "WBEM_S_FALSE = 1"
definition ErrNotFound :: goerr where "ErrNotFound = GoErr WmiNotFound ''not found''"
definition ErrStopIteration :: goerr where "ErrStopIteration = GoErr StopIteration ''stop iteration''"

definition IsNotFound :: "goerr \<Rightarrow> bool" where
  "IsNotFound err \<longleftrightarrow> err_kind err = WmiNotFound"

definition IgnoreNotFound :: "goerr option \<Rightarrow> goerr option" where
  "IgnoreNotFound err = (case err of None \<Rightarrow> None | Some e \<Rightarrow> if IsNotFound e then None else Some e)"

definition IsEndOfEnum :: "goerr \<Rightarrow> bool" where
  "IsEndOfEnum err \<longleftrightarrow> err_kind err = OleError WBEM_S_FALSE"

text \<open>\<open>WMIError\<close>: its text; the target is printed as a pointer.\<close>

definition NewWMIError :: "string \<Rightarrow> string \<Rightarrow> string \<Rightarrow> int \<Rightarrow> goerr" where
  "NewWMIError cls method target code =
     Fmterr ''WMI %s.%s failed (target=%v): code=%d'' [cls, method, target, show_int code]"

section \<open>Threads\<close>

text \<open>\<open>COM is initialized already\<close> (the code \<open>S_FALSE\<close>) is no error.\<close>

definition WithCOMThread :: "env \<Rightarrow> goerr option prog \<Rightarrow> goerr option prog" where
  "WithCOMThread E fn = do {
     note_event (Com LockOSThread);
     err \<leftarrow> call (ans_err E) (Com CoInitializeEx);
     r \<leftarrow> (if err = None \<or> map_option err_kind err = Some (OleError WBEM_S_FALSE)
          then do { r \<leftarrow> fn; note_event (Com CoUninitialize); ret r }
          else ret err);
     note_event (Com UnlockOSThread);
     ret r }"

definition comSecurityEnabled :: "string \<Rightarrow> bool" where
  "comSecurityEnabled value =
     (let v = ToLower (TrimSpace value) in v \<notin> set [''0'', ''false'', ''no'', ''off''])"

text \<open>Once per process; a failure is only logged.  The first component says whether it was attempted before.\<close>

definition InitializeCOMSecurity :: "env \<Rightarrow> bool \<Rightarrow> string \<Rightarrow> bool prog" where
  "InitializeCOMSecurity E once value =
     (if once \<or> \<not> comSecurityEnabled value then ret True
      else do { _ \<leftarrow> call (ans_err E) (Com CoInitializeSecurity); ret True })"

definition WithWMIService ::
    "env \<Rightarrow> string \<Rightarrow> 'acc \<Rightarrow> (nat \<Rightarrow> (goerr option \<times> 'acc) prog) \<Rightarrow> (goerr option \<times> 'acc) prog" where
  "WithWMIService E namespace acc fn =
     with_object E None ''CreateObject'' [''WbemScripting.SWbemLocator''] (\<lambda>e. e) acc (\<lambda>locatorUnknown _.
     with_object E (Some locatorUnknown) ''QueryInterface'' [''IID_IDispatch''] (\<lambda>e. e) acc (\<lambda>locator _.
     with_object E (Some locator) ''ConnectServer'' [namespace] (\<lambda>e. e) acc (\<lambda>service _. fn service)))"

section \<open>Enumerations\<close>

fun enum_loop ::
    "env \<Rightarrow> nat \<Rightarrow> ('acc \<Rightarrow> nat \<Rightarrow> (goerr option \<times> 'acc) prog) \<Rightarrow> 'acc \<Rightarrow> (goerr + nat) list
      \<Rightarrow> (goerr option \<times> 'acc) prog" where
  "enum_loop E k fn acc [] = ret (None, acc)"
| "enum_loop E k fn acc (st # steps) = do {
     note_event (Com (EnumNext k));
     (case st of
        Inl err \<Rightarrow> if IsEndOfEnum err then ret (None, acc) else ret (Some err, acc)
      | Inr len \<Rightarrow>
          if len = 0 then ret (None, acc)
          else do {
            n \<leftarrow> fresh_handle;
            (err, acc) \<leftarrow> owning n (fn acc n);
            (case err of Some e \<Rightarrow> ret (Some e, acc) | None \<Rightarrow> enum_loop E k fn acc steps) }) }"

text \<open>The enumerator variant is nil when its 64 bits are zero.\<close>

definition Enumerate ::
    "env \<Rightarrow> nat \<Rightarrow> ('acc \<Rightarrow> nat \<Rightarrow> (goerr option \<times> 'acc) prog) \<Rightarrow> 'acc \<Rightarrow> (goerr option \<times> 'acc) prog" where
  "Enumerate E obj fn acc =
     with_object E (Some obj) ''_NewEnum'' []
       (Fmterr_wrap ''failed to get _NewEnum from IDispatch %v: %w'' [show_int (int obj)]) acc (\<lambda>enumProp _. do {
     r \<leftarrow> com_call E (Some enumProp) ''IEnumVARIANT'' [''IID_IEnumVariant''];
     (case r of
        Inl err \<Rightarrow> ret (Some (Fmterr_wrap ''failed to get IEnumVARIANT from IDispatch %v: %w'' [show_int (int obj)] err), acc)
      | Inr v \<Rightarrow>
          if va_val v = 0 then ret (Some (Fmterr ''IEnumVARIANT is nil for IDispatch %v'' [show_int (int obj)]), acc)
          else do {
            k \<leftarrow> fresh_handle;
            owning k (do {
              steps \<leftarrow> call (ans_next E) (Com (EnumNext k));
              enum_loop E k fn acc steps }) }) })"

definition Query ::
    "env \<Rightarrow> string \<Rightarrow> string \<Rightarrow> ('acc \<Rightarrow> nat \<Rightarrow> (goerr option \<times> 'acc) prog) \<Rightarrow> 'acc \<Rightarrow> (goerr option \<times> 'acc) prog" where
  "Query E namespace query fn acc =
     WithWMIService E namespace acc (\<lambda>service.
     with_object E (Some service) ''ExecQuery'' [query] (\<lambda>e. e) acc (\<lambda>res _. do {
       (err, acc) \<leftarrow> Enumerate E res fn acc;
       ret (case err of
              Some e \<Rightarrow> if err_kind e = StopIteration then None else Some e
            | None \<Rightarrow> None, acc) }))"

definition QueryWithBuilder ::
    "env \<Rightarrow> query_builder \<Rightarrow> ('acc \<Rightarrow> nat \<Rightarrow> (goerr option \<times> 'acc) prog) \<Rightarrow> 'acc \<Rightarrow> (goerr option \<times> 'acc) prog" where
  "QueryWithBuilder E q fn acc = Query E (qb_Namespace q) (Build q) fn acc"

definition Associators ::
    "env \<Rightarrow> nat \<Rightarrow> string \<Rightarrow> string \<Rightarrow> string \<Rightarrow> string \<Rightarrow> ('acc \<Rightarrow> nat \<Rightarrow> (goerr option \<times> 'acc) prog) \<Rightarrow> 'acc
      \<Rightarrow> (goerr option \<times> 'acc) prog" where
  "Associators E obj assocClass resultClass role resultRole fn acc =
     with_object E (Some obj) ''Associators_'' [assocClass, resultClass, role, resultRole]
       (Fmterr_wrap ''failed to list associators. error: %w'' []) acc (\<lambda>res _. Enumerate E res fn acc)"

section \<open>Objects and scopes\<close>

text \<open>A scope is the list of the objects tracked in it; a nil object is not tracked.\<close>

type_synonym scope = "nat list"

definition NewCOMDispatchObject :: "nat \<Rightarrow> nat prog" where
  "NewCOMDispatchObject obj = do { note_event (Com (Hold obj)); ret obj }"

definition Track :: "scope \<Rightarrow> nat option \<Rightarrow> scope \<times> nat option" where
  "Track sc obj = (case obj of None \<Rightarrow> (sc, None) | Some n \<Rightarrow> (sc @ [n], Some n))"

fun release_all :: "scope \<Rightarrow> unit prog" where
  "release_all [] = ret ()"
| "release_all (n # ns) = do { note_event (Com (Drop n)); release_all ns }"

text \<open>The last object tracked is released first.\<close>

definition scope_Close :: "scope \<Rightarrow> unit prog" where
  "scope_Close sc = release_all (rev sc)"

definition WithScope :: "(scope \<Rightarrow> ('a \<times> scope) prog) \<Rightarrow> 'a prog" where
  "WithScope fn = do { (r, sc) \<leftarrow> fn []; scope_Close sc; ret r }"

definition GetPropertyWithHandler ::
    "env \<Rightarrow> nat \<Rightarrow> string \<Rightarrow> 'acc \<Rightarrow> (nat \<Rightarrow> variant \<Rightarrow> (goerr option \<times> 'acc) prog) \<Rightarrow> (goerr option \<times> 'acc) prog" where
  "GetPropertyWithHandler E c name acc fn =
     with_object E (Some c) name [] (Fmterr_wrap ''failed to get property %s: %w'' [name]) acc fn"

text \<open>A property read as a number or a text; with an error the zero value is returned.\<close>

definition property_as :: "env \<Rightarrow> nat \<Rightarrow> string \<Rightarrow> 'a \<Rightarrow> (variant \<Rightarrow> 'a) \<Rightarrow> (goerr + 'a) prog" where
  "property_as E c name zero reading = do {
     (err, x) \<leftarrow> GetPropertyWithHandler E c name zero (\<lambda>_ v. ret (None, reading v));
     ret (case err of Some e \<Rightarrow> Inl e | None \<Rightarrow> Inr x) }"

definition GetStringProperty :: "env \<Rightarrow> nat \<Rightarrow> string \<Rightarrow> (goerr + string) prog" where
  "GetStringProperty E c name = property_as E c name [] (\<lambda>v. variant_String (Some v))"

definition GetUint32Property :: "env \<Rightarrow> nat \<Rightarrow> string \<Rightarrow> (goerr + int) prog" where
  "GetUint32Property E c name = property_as E c name 0 (\<lambda>v. variant_Uint32 (Some v))"

definition GetUint16Property :: "env \<Rightarrow> nat \<Rightarrow> string \<Rightarrow> (goerr + int) prog" where
  "GetUint16Property E c name = property_as E c name 0 (\<lambda>v. variant_Uint16 (Some v))"

definition GetBoolProperty :: "env \<Rightarrow> nat \<Rightarrow> string \<Rightarrow> (goerr + bool) prog" where
  "GetBoolProperty E c name = property_as E c name False (\<lambda>v. variant_Bool (Some v))"

definition GetStringPropertyAsUint64 :: "env \<Rightarrow> nat \<Rightarrow> string \<Rightarrow> (goerr + int) prog" where
  "GetStringPropertyAsUint64 E c name = do {
     str \<leftarrow> GetStringProperty E c name;
     ret (case str of
            Inl err \<Rightarrow> Inl err
          | Inr str \<Rightarrow>
              if str = [] then Inl (Fmterr ''WMI property %q is empty; cannot parse as uint64'' [name])
              else (case ParseUint str 10 64 of
                      None \<Rightarrow> Inl (Fmterr ''failed to parse WMI property %q value %q as uint64: %w'' [name, str])
                    | Some n \<Rightarrow> Inr n)) }"

definition com_CallMethod ::
    "env \<Rightarrow> nat \<Rightarrow> string \<Rightarrow> 'acc \<Rightarrow> (nat \<Rightarrow> variant \<Rightarrow> (goerr option \<times> 'acc) prog) \<Rightarrow> string list
      \<Rightarrow> (goerr option \<times> 'acc) prog" where
  "com_CallMethod E c name acc fn params = with_object E (Some c) name params (\<lambda>e. e) acc fn"

definition CallVoid :: "env \<Rightarrow> nat \<Rightarrow> string \<Rightarrow> string list \<Rightarrow> goerr option prog" where
  "CallVoid E c name params = do { (err, _) \<leftarrow> com_CallMethod E c name () (\<lambda>_ _. ret (None, ())) params; ret err }"

definition CallUint32 :: "env \<Rightarrow> nat \<Rightarrow> string \<Rightarrow> string list \<Rightarrow> (int \<times> goerr option) prog" where
  "CallUint32 E c name params = do {
     (err, x) \<leftarrow> com_CallMethod E c name 0 (\<lambda>_ v. ret (None, variant_Uint32 (Some v))) params;
     ret (x, err) }"

section \<open>Queries for objects\<close>

text \<open>Every item of the answer is kept in the scope.\<close>

definition QueryObjectsWithBuilder :: "env \<Rightarrow> scope \<Rightarrow> query_builder \<Rightarrow> ((goerr + nat list) \<times> scope) prog" where
  "QueryObjectsWithBuilder E sc q = do {
     (err, results, sc) \<leftarrow> Query E (qb_Namespace q) (Build q) (\<lambda>(results, sc) item. do {
        obj \<leftarrow> NewCOMDispatchObject item;
        let (sc, _) = Track sc (Some obj);
        ret (None, results @ [obj], sc) }) ([], sc);
     ret (case err of Some e \<Rightarrow> (Inl e, sc) | None \<Rightarrow> (Inr results, sc)) }"

definition GetAssociated ::
    "env \<Rightarrow> nat \<Rightarrow> scope \<Rightarrow> string \<Rightarrow> string \<Rightarrow> string \<Rightarrow> string \<Rightarrow> ((goerr + nat list) \<times> scope) prog" where
  "GetAssociated E c sc assocClass resultClass role resultRole = do {
     (err, results, sc) \<leftarrow> Associators E c assocClass resultClass role resultRole (\<lambda>(results, sc) item. do {
        obj \<leftarrow> NewCOMDispatchObject item;
        let (sc, _) = Track sc (Some obj);
        ret (None, results @ [obj], sc) }) ([], sc);
     ret (case err of Some e \<Rightarrow> (Inl e, sc) | None \<Rightarrow> (Inr results, sc)) }"

text \<open>The first item ends the enumeration.\<close>

definition QueryFirstObjectWithBuilder :: "env \<Rightarrow> scope \<Rightarrow> query_builder \<Rightarrow> ((goerr + nat) \<times> scope) prog" where
  "QueryFirstObjectWithBuilder E sc q = do {
     (err, found, sc) \<leftarrow> Query E (qb_Namespace q) (Build q) (\<lambda>(found, sc) item. do {
        obj \<leftarrow> NewCOMDispatchObject item;
        let (sc, tracked) = Track sc (Some obj);
        ret (Some ErrStopIteration, tracked, sc) }) (None, sc);
     ret (case err of
            Some e \<Rightarrow> (Inl e, sc)
          | None \<Rightarrow> (case found of None \<Rightarrow> (Inl ErrNotFound, sc) | Some obj \<Rightarrow> (Inr obj, sc))) }"

fun com_ForEach :: "(nat \<Rightarrow> goerr option prog) \<Rightarrow> nat list \<Rightarrow> goerr option prog" where
  "com_ForEach fn [] = ret None"
| "com_ForEach fn (item # items) = do {
     err \<leftarrow> fn item;
     (case err of
        Some e \<Rightarrow> ret (if err_kind e = StopIteration then None else Some e)
      | None \<Rightarrow> com_ForEach fn items) }"

section \<open>Methods of a class\<close>

text \<open>The parameters are set in the order the map is iterated in.\<close>

fun put_params :: "env \<Rightarrow> nat \<Rightarrow> (string \<times> string) list \<Rightarrow> goerr option prog" where
  "put_params E inst [] = ret None"
| "put_params E inst ((k, v) # input) = do {
     r \<leftarrow> com_call E (Some inst) k [v];
     (case r of
        Inl err \<Rightarrow> ret (Some (Fmterr_wrap ''set param %s failed: %w'' [k] err))
      | Inr _ \<Rightarrow> do { n \<leftarrow> fresh_handle; owning n (ret ()); put_params E inst input }) }"

text \<open>The outputs a handler keeps, by name; its value \<open>None\<close> drops a property.\<close>

definition read_output ::
    "env \<Rightarrow> (string \<Rightarrow> variant \<Rightarrow> goerr + string option) \<Rightarrow> smap \<Rightarrow> nat \<Rightarrow> (goerr option \<times> smap) prog" where
  "read_output E handler output prop =
     with_object E (Some prop) ''Name'' [] (\<lambda>e. e) output (\<lambda>_ nameVar.
     with_object E (Some prop) ''Value'' [] (\<lambda>e. e) output (\<lambda>_ valVar.
       ret (case handler (va_text nameVar) valVar of
              Inl err \<Rightarrow> (Some err, output)
            | Inr None \<Rightarrow> (None, output)
            | Inr (Some v) \<Rightarrow> (None, map_put output (va_text nameVar) v))))"

text \<open>The call itself and its outputs; \<open>params\<close> are the method's name and, with input, the parameter object.\<close>

definition exec_method ::
    "env \<Rightarrow> nat \<Rightarrow> string list \<Rightarrow> (string \<Rightarrow> variant \<Rightarrow> goerr + string option) \<Rightarrow> int \<times> smap
      \<Rightarrow> (goerr option \<times> int \<times> smap) prog" where
  "exec_method E classInst params handler acc =
     with_object E (Some classInst) ''ExecMethod_'' params (Fmterr_wrap ''ExecMethod_ failed: %w'' []) acc (\<lambda>outParams _.
     with_object E (Some outParams) ''ReturnValue'' [] (Fmterr_wrap ''ReturnValue failed: %w'' []) acc (\<lambda>_ rv.
       let returnValue = variant_Uint32 (Some rv) in
     with_object E (Some outParams) ''Properties_'' [] (\<lambda>e. e) (returnValue, snd acc) (\<lambda>props _. do {
       (err, output) \<leftarrow> Enumerate E props (read_output E handler) [];
       ret (err, returnValue, output) })))"

definition CallMethodOnWMIClass ::
    "env \<Rightarrow> string \<Rightarrow> string \<Rightarrow> string \<Rightarrow> (string \<times> string) list \<Rightarrow> (string \<Rightarrow> variant \<Rightarrow> goerr + string option)
      \<Rightarrow> (goerr option \<times> int \<times> smap) prog" where
  "CallMethodOnWMIClass E namespace cls methodName input handler =
     (let acc = (0, []) in
      WithWMIService E namespace acc (\<lambda>service.
      with_object E (Some service) ''Get'' [cls] (Fmterr_wrap ''get class %s failed: %w'' [cls]) acc (\<lambda>classInst _.
      with_object E (Some classInst) ''Methods_'' [] (\<lambda>e. e) acc (\<lambda>methods _.
      with_object E (Some methods) ''Item'' [methodName] (Fmterr_wrap ''method %s not found: %w'' [methodName]) acc (\<lambda>m _.
        if input = [] then exec_method E classInst [methodName] handler acc
        else with_object E (Some m) ''InParameters'' [] (\<lambda>e. e) acc (\<lambda>inParams v.
          if va_val v = 0 then exec_method E classInst [methodName] handler acc
          else with_object E (Some inParams) ''SpawnInstance_'' [] (\<lambda>e. e) acc (\<lambda>inst _. do {
            err \<leftarrow> put_params E inst input;
            (case err of
               Some e \<Rightarrow> ret (Some e, acc)
             | None \<Rightarrow> exec_method E classInst [methodName, show_int (int inst)] handler acc) })))))))"

definition DiscardOutputParameter :: "string \<Rightarrow> variant \<Rightarrow> goerr + string option" where
  "DiscardOutputParameter name v = Inr None"

end
