(* ===== verification/WinSafety.thy ===== *)
theory WinSafety
  imports WinMount
begin

text \<open>
  What the mounters of a Windows node touch.  Two interfaces of the code are locales: \<open>smb_provider\<close> for \<open>SMBAPI\<close>, whose
  methods leave the files of the node alone, and \<open>windows_mounter\<close> for \<open>CSIProxyMounter\<close>, whose \<open>Rmdir\<close> removes only the
  path it is given.  A provider gives a mounter (\<open>sublocale\<close>).
\<close>

section \<open>Files\<close>

definition changes_files :: "ext \<Rightarrow> bool" where
  "changes_files c =
     (case c of
        Win w \<Rightarrow>
          (case w of
             WSymlink _ _ \<Rightarrow> True | WMkdirAll _ _ \<Rightarrow> True | WRemoveAll _ \<Rightarrow> True | WRemove _ \<Rightarrow> True
           | PxMapping _ _ _ _ \<Rightarrow> True | PxSymlink _ _ \<Rightarrow> True | PxRmdir _ \<Rightarrow> True | PxMkdir _ \<Rightarrow> True
           | PxBeta b \<Rightarrow>
               (case b of
                  BetaMapping _ _ _ _ \<Rightarrow> True | BetaLink _ _ \<Rightarrow> True | BetaRmdir _ _ \<Rightarrow> True | BetaMkdir _ _ \<Rightarrow> True
                | _ \<Rightarrow> False)
           | _ \<Rightarrow> False)
      | _ \<Rightarrow> False)"

definition removes :: "string \<Rightarrow> ext \<Rightarrow> bool" where
  "removes p c \<longleftrightarrow> c = Win (WRemoveAll p) \<or> c = Win (PxRmdir p) \<or> c = Win (PxBeta (BetaRmdir p PathContext_POD))"

abbreviation "reads_files \<equiv> emits (\<lambda>c. \<not> changes_files c)"
abbreviation "removes_only p \<equiv> emits (\<lambda>c. changes_files c \<longrightarrow> removes p c)"

lemma changes_files_simps [simp]:
  "\<not> changes_files (Tool t)" "\<not> changes_files (Com x)" "\<not> changes_files (Node nd)"
  "\<not> changes_files (Win (WLstat p))" "\<not> changes_files (Win (WReadlink p))" "\<not> changes_files (Win (WReadDir p))"
  "\<not> changes_files (Win (WAttributes p))" "\<not> changes_files (Win (PowerShell q vs))"
  "\<not> changes_files (Win (PxExists p))" "\<not> changes_files (Win (PxIsSymlink p))"
  "\<not> changes_files (Win (PxBeta (BetaExists p)))" "\<not> changes_files (Win (PxBeta (BetaIsMountPoint p)))"
  "changes_files (Win (WSymlink p q))" "changes_files (Win (WMkdirAll p n))" "changes_files (Win (WRemoveAll p))"
  "removes p (Win (WRemoveAll p))" "removes p (Win (PxRmdir p))" "removes p (Win (PxBeta (BetaRmdir p PathContext_POD)))"
  by (simp_all add: changes_files_def removes_def)

lemma reads_weaken: "keeps reads_files m \<Longrightarrow> keeps (emits (\<lambda>c. changes_files c \<longrightarrow> Q c)) m"
  by (erule keeps_emits_mono) simp

lemma file_reads:
  "keeps reads_files (lstat_exists E p)" "keeps reads_files (win_PathExists E p)" "keeps reads_files (PathValid E p)"
  "keeps reads_files (IsSymlink E p)" "keeps reads_files (win_IsMountPoint E p)"
  "keeps reads_files (win_ExistsPath E p)" "keeps reads_files (px_ExistsPath E p)"
  "keeps reads_files (beta_ExistsPath E p)"
  "keeps reads_files (GetRemoteServerFromTarget E p)"
  unfolding lstat_exists_def win_PathExists_def PathValid_def IsSymlink_def win_IsMountPoint_def win_ExistsPath_def
    px_ExistsPath_def beta_ExistsPath_def GetRemoteServerFromTarget_def
  by (intro keeps_emits em.keeps_cases; simp)+

lemma scan_reads: "keeps reads_files (dup_scan E dir m remote files)"
proof (induction files)
  case Nil
  show ?case by (simp add: keeps_emits)
next
  case (Cons f files)
  obtain name is_dir where f: "f = (name, is_dir)" by (cases f)
  show ?case
    unfolding f dup_scan.simps Let_def by (intro keeps_emits em.keeps_cases file_reads Cons.IH; simp)
qed

lemma duplicates_reads: "keeps reads_files (CheckForDuplicateSMBMounts E dir m remote)"
  unfolding CheckForDuplicateSMBMounts_def by (intro keeps_emits em.keeps_cases scan_reads; simp)

lemma likely_reads:
  "keeps reads_files m \<Longrightarrow> keeps reads_files n \<Longrightarrow> keeps reads_files (likely_not_mount m n)"
  unfolding likely_not_mount_def by (intro keeps_emits em.keeps_cases)

lemma err_then_emits: "keeps (emits P) m \<Longrightarrow> keeps (emits P) n \<Longrightarrow> keeps (emits P) (err_then m n)"
  unfolding err_then_def by (intro keeps_emits em.keeps_cases)

lemma remote_lock_emits: "(\<And>k. P (Tool (LockWait k)) \<and> P (Tool (LockFree k))) \<Longrightarrow> keeps (emits P) m
    \<Longrightarrow> keeps (emits P) (with_remote_lock r m)"
  unfolding with_remote_lock_def by (intro keeps_emits) simp_all

section \<open>The interfaces\<close>

locale smb_provider =
  fixes api :: smb_api
  assumes status_reads: "keeps reads_files (api_status api r)"
    and new_reads: "keeps reads_files (api_new api r user password)"
    and remove_reads: "keeps reads_files (api_remove api r)"
begin

lemma ensure_reads:
  "keeps reads_files valid \<Longrightarrow> keeps reads_files (ensureSMBGlobalMappingLocked api r user password valid)"
  unfolding ensureSMBGlobalMappingLocked_def Let_def
  by (intro keeps_emits em.keeps_cases err_then_emits status_reads new_reads remove_reads)

lemma unmap_reads: "keeps reads_files (unmap_remote E api target r)"
  unfolding unmap_remote_def
  by (intro keeps_emits em.keeps_cases duplicates_reads remove_reads)

text \<open>A mount makes one link, at the target, to the remote, and at most the target's parent directory.\<close>

lemma mount_changes:
  "keeps (emits (\<lambda>c. changes_files c \<longrightarrow> c = Win (WSymlink (ReplaceAll source ''/'' [backslash]) (normalizeWindowsPath target))
      \<or> c = Win (WMkdirAll (normalizeWindowsPath (win_dir target)) 493)))
     (win_SMBMount E api source target ft opts sens)"
  unfolding win_SMBMount_def mount_remote_def ensure_parent_def win_MakeDir_def Let_def
  by (intro keeps_emits em.keeps_cases err_then_emits remote_lock_emits
      reads_weaken [OF ensure_reads] reads_weaken [OF file_reads(6)] file_reads; simp)

end

locale windows_mounter =
  fixes m :: win_mounter
  assumes exists_reads: "keeps reads_files (wm_ExistsPath m p)"
    and rmdir_removes: "keeps (removes_only (normalizeWindowsPath p)) (wm_Rmdir m p)"
    and unmount_removes: "keeps (removes_only (normalizeWindowsPath p)) (wm_Unmount m p)"
begin

lemma removeDir_removes: "keeps (removes_only (normalizeWindowsPath p)) (removeDir p (Some m))"
  unfolding removeDir_def option.case
  by (intro keeps_emits em.keeps_cases reads_weaken [OF exists_reads] rmdir_removes)

text \<open>A directory that is not there is not removed.\<close>

lemma removeDir_missing:
  assumes "result (wm_ExistsPath m p) s \<noteq> Inr True"
  shows "reads_files s (final (removeDir p (Some m)) s)"
proof -
  obtain r t where rt: "run_state (wm_ExistsPath m p) s = (r, t)" by (cases "run_state (wm_ExistsPath m p) s") blast
  have "reads_files s t" using exists_reads [of p] rt by (simp add: keeps_def final_def) (metis snd_conv)
  with assms rt show ?thesis
    by (auto simp: removeDir_def final_def result_def run_simps split: sum.split bool.split)
qed

lemma unmounting_removes:
  "keeps (removes_only (normalizeWindowsPath p)) (windows_SMBUnmount (Some m) p ext rm)"
  "keeps (removes_only (normalizeWindowsPath p)) (windows_CleanupMountPoint (Some m) p ext)"
  "keeps (removes_only (normalizeWindowsPath p)) (prepareStagePath p (Some m))"
  "keeps (removes_only (normalizeWindowsPath p)) (preparePublishPath p (Some m))"
  unfolding windows_SMBUnmount_def windows_CleanupMountPoint_def prepareStagePath_def preparePublishPath_def
  by (simp_all add: rmdir_removes unmount_removes removeDir_removes)

end

section \<open>Providers and mounters\<close>

lemma removes_normal:
  "keeps (removes_only (normalizeWindowsPath p)) (win_mounter_Rmdir E p)"
  "keeps (removes_only (normalizeWindowsPath p)) (px_Rmdir E p)"
  "keeps (removes_only (normalizeWindowsPath p)) (beta_Rmdir E p)"
  by (simp_all add: win_mounter_Rmdir_def win_Rmdir_def px_Rmdir_def beta_Rmdir_def keeps_emits split: option.split)

context smb_provider begin

lemma unmount_removes: "keeps (removes_only (normalizeWindowsPath p)) (win_Unmount E api p)"
  unfolding win_Unmount_def Let_def
  using removes_normal(1) [of "normalizeWindowsPath p" E]
  by (intro keeps_emits em.keeps_cases remote_lock_emits reads_weaken [OF file_reads(9)] reads_weaken [OF unmap_reads]) simp_all

end

sublocale smb_provider \<subseteq> mounts: windows_mounter "winMounter E api" for E
  by unfold_locales (simp_all add: winMounter_def file_reads removes_normal unmount_removes)

interpretation power_shell: smb_provider "powerShellSMBAPI E" for E
  by unfold_locales
    (simp_all add: powerShellSMBAPI_def ps_GetSmbGlobalMappingStatus_def ps_NewSmbGlobalMapping_def
      ps_RemoveSmbGlobalMapping_def RunPowershellCmd_def Let_def, (intro keeps_emits em.keeps_cases; simp)+)

interpretation csi_proxy: windows_mounter "csiProxyMounter E" for E
  by unfold_locales (simp_all add: csiProxyMounter_def px_Unmount_def file_reads removes_normal)

interpretation csi_proxy_beta: windows_mounter "csiProxyMounterV1Beta E" for E
  by unfold_locales (simp_all add: csiProxyMounterV1Beta_def beta_Unmount_def file_reads removes_normal)

section \<open>Shared mappings\<close>

text \<open>The files of the node do not change during the request: links, their targets and the plugin directory.\<close>

definition stable_files ::
    "env \<Rightarrow> (string \<Rightarrow> goerr + bool) \<Rightarrow> (string \<Rightarrow> goerr + string) \<Rightarrow> (string \<times> bool) list \<Rightarrow> bool" where
  "stable_files E lstat link files \<longleftrightarrow>
     (\<forall>tr p. ans_bool E tr (Win (WLstat p)) = lstat p \<and> ans_str E tr (Win (WReadlink p)) = link p
        \<and> ans_dir E tr (Win (WReadDir p)) = Inr files)"

text \<open>Another staged volume that links to the remote.\<close>

definition shares_remote ::
    "(string \<Rightarrow> goerr + bool) \<Rightarrow> (string \<Rightarrow> goerr + string) \<Rightarrow> string \<Rightarrow> string \<Rightarrow> string \<times> bool \<Rightarrow> bool" where
  "shares_remote lstat link m remote f \<longleftrightarrow>
     (let g = win_join [driverGlobalMountPath, fst f, ''globalmount''] in
      snd f \<and> \<not> EqualFold (win_clean g) (win_clean m) \<and> lstat g = Inr True
      \<and> (case link g of Inl _ \<Rightarrow> False | Inr t \<Rightarrow> t \<noteq> [] \<and> TrimSpace t = remote))"

lemma dup_scan_iff:
  assumes "stable_files E lstat link all"
  shows "result (dup_scan E driverGlobalMountPath m remote files) s = list_ex (shares_remote lstat link m remote) files"
proof (induction files arbitrary: s)
  case Nil
  show ?case by (simp add: result_def run_simps)
next
  case (Cons f files)
  obtain name is_dir where f: "f = (name, is_dir)" by (cases f)
  have l: "ans_bool E tr (Win (WLstat p)) = lstat p" "ans_str E tr (Win (WReadlink p)) = link p" for tr p
    using assms by (simp_all add: stable_files_def)
  show ?case
    using Cons.IH
    by (auto simp: f Let_def shares_remote_def result_def run_simps l GetRemoteServerFromTarget_def
        split: prod.splits sum.split)
qed

lemma duplicates_iff:
  assumes "stable_files E lstat link files"
  shows "result (CheckForDuplicateSMBMounts E driverGlobalMountPath m remote) s
    = Inr (list_ex (shares_remote lstat link m remote) files)"
proof -
  have d: "ans_dir E tr (Win (WReadDir p)) = Inr files" for tr p using assms by (simp add: stable_files_def)
  show ?thesis
    using dup_scan_iff [OF assms, of m remote files]
    by (simp add: CheckForDuplicateSMBMounts_def result_def run_simps d split: prod.split) (metis fst_conv)
qed

definition unmaps :: "ext \<Rightarrow> bool" where
  "unmaps c \<longleftrightarrow> (case c of Win w \<Rightarrow> (case w of PowerShell q _ \<Rightarrow> q = remove_command | _ \<Rightarrow> False) | _ \<Rightarrow> False)"

lemma unmaps_simps [simp]:
  "\<not> unmaps (Tool t)" "\<not> unmaps (Win (WLstat p))" "\<not> unmaps (Win (WReadlink p))" "\<not> unmaps (Win (WReadDir p))"
  "\<not> unmaps (Win (WRemoveAll p))" "\<not> unmaps (Win (WRemove p))" "unmaps (Win (PowerShell remove_command vs))"
  by (simp_all add: unmaps_def)

lemma scan_unmaps_none: "keeps (emits (\<lambda>c. \<not> unmaps c)) (dup_scan E dir m remote files)"
proof (induction files)
  case Nil
  show ?case by (simp add: keeps_emits)
next
  case (Cons f files)
  obtain name is_dir where f: "f = (name, is_dir)" by (cases f)
  show ?case
    unfolding f dup_scan.simps Let_def GetRemoteServerFromTarget_def
    by (intro keeps_emits em.keeps_cases Cons.IH; simp)
qed

lemma shared_not_unmapped:
  assumes "stable_files E lstat link files" "list_ex (shares_remote lstat link target remote) files"
  shows "keeps (emits (\<lambda>c. \<not> unmaps c)) (unmap_remote E api target remote)"
  unfolding keeps_def
proof
  fix s
  obtain r t where rt: "run_state (CheckForDuplicateSMBMounts E driverGlobalMountPath target remote) s = (r, t)"
    by (cases "run_state (CheckForDuplicateSMBMounts E driverGlobalMountPath target remote) s") blast
  have "r = Inr True" using duplicates_iff [OF assms(1), of target remote s] assms(2) rt by (simp add: result_def)
  moreover have "keeps (emits (\<lambda>c. \<not> unmaps c)) (CheckForDuplicateSMBMounts E driverGlobalMountPath target remote)"
    unfolding CheckForDuplicateSMBMounts_def by (intro keeps_emits em.keeps_cases scan_unmaps_none; simp)
  then have "emits (\<lambda>c. \<not> unmaps c) s t" using rt by (simp add: keeps_def final_def) (metis snd_conv)
  ultimately show "emits (\<lambda>c. \<not> unmaps c) s (final (unmap_remote E api target remote) s)"
    using rt by (simp add: unmap_remote_def final_def run_simps)
qed

text \<open>Unmounting a volume whose remote another staged volume of the node links to runs no command that removes a global
  mapping: the other volume keeps its share.\<close>

lemma unmount_keeps_mapping:
  assumes "stable_files E lstat link files" "link (normalizeWindowsPath p) = Inr t" "t \<noteq> []"
    and "list_ex (shares_remote lstat link (normalizeWindowsPath p) (TrimSpace t)) files"
  shows "emits (\<lambda>c. \<not> unmaps c) s (final (win_Unmount E api p) s)"
proof -
  have l: "ans_str E tr (Win (WReadlink q)) = link q" for tr q using assms(1) by (simp add: stable_files_def)
  have rm: "keeps (emits (\<lambda>c. \<not> unmaps c)) (win_mounter_Rmdir E q)" for q
    unfolding win_mounter_Rmdir_def win_Rmdir_def by (intro keeps_emits em.keeps_cases; simp)
  let ?rest = "with_remote_lock (TrimSpace t) (do {
      unmap_remote E api (normalizeWindowsPath p) (TrimSpace t); win_mounter_Rmdir E (normalizeWindowsPath p) })"
  have k: "keeps (emits (\<lambda>c. \<not> unmaps c)) ?rest"
    by (intro remote_lock_emits keeps_emits shared_not_unmapped [OF assms(1,4)] rm) simp
  let ?s = "s\<lparr>trace := trace s @ [Win (WReadlink (normalizeWindowsPath p))]\<rparr>"
  have "final (win_Unmount E api p) s = final ?rest ?s"
    using assms(2,3) by (simp add: win_Unmount_def Let_def GetRemoteServerFromTarget_def final_def run_simps l)
  moreover have "emits (\<lambda>c. \<not> unmaps c) s ?s" by (simp add: emits_def)
  moreover have "emits (\<lambda>c. \<not> unmaps c) ?s (final ?rest ?s)" using k by (simp add: keeps_def)
  ultimately show ?thesis by (metis emits_trans)
qed

text \<open>Two staged volumes, both linked to the same remote.\<close>

definition two_volumes :: "(string \<Rightarrow> string) \<Rightarrow> env" where
  "two_volumes link = (sample_env no_error)
     \<lparr>ans_bool := (\<lambda>_ _. Inr True),
      ans_str := (\<lambda>_ c. case c of Win w \<Rightarrow> (case w of WReadlink p \<Rightarrow> Inr (link p) | _ \<Rightarrow> Inr []) | _ \<Rightarrow> Inr []),
      ans_dir := (\<lambda>_ _. Inr [(''v1'', True), (''v2'', True)])\<rparr>"

definition staged_at :: "string \<Rightarrow> string" where
  "staged_at v = win_join [driverGlobalMountPath, v, ''globalmount'']"

lemma two_volumes_stable: "stable_files (two_volumes link) (\<lambda>_. Inr True) (\<lambda>p. Inr (link p)) [(''v1'', True), (''v2'', True)]"
  by (simp add: stable_files_def two_volumes_def)

text \<open>The links are compared as texts although Windows, and the lock of the remote, take no notice of the case: the mapping
  of a share is removed while a volume that spells it differently is still linked to it.\<close>

lemma unmount_drops_mapping_in_use:
  "let E = two_volumes (\<lambda>p. if p = staged_at ''v2'' then ''SHARE'' else ''share'') in
   getRemotePathLockKey ''SHARE'' = getRemotePathLockKey ''share''
   \<and> list_ex unmaps (trace (final (win_Unmount E (powerShellSMBAPI E) (staged_at ''v1'')) initial_state))"
  by code_simp

section \<open>Commands\<close>

text \<open>The three command lines of the driver; a password is only ever handed to the one that creates a mapping.\<close>

definition fixed_command :: "ext \<Rightarrow> bool" where
  "fixed_command c =
     (case c of
        Win w \<Rightarrow>
          (case w of
             PowerShell q vs \<Rightarrow>
               q \<in> {status_command, new_command, remove_command}
               \<and> (list_ex (\<lambda>v. HasPrefix v ''smbpassword='') vs \<longrightarrow> q = new_command)
           | _ \<Rightarrow> True)
      | _ \<Rightarrow> True)"

lemma fixed_command_simps [simp]:
  "fixed_command (Tool t)" "fixed_command (Win (WLstat p))" "fixed_command (Win (WReadlink p))"
  "fixed_command (Win (WReadDir p))" "fixed_command (Win (WAttributes p))" "fixed_command (Win (WMkdirAll p k))"
  "fixed_command (Win (WSymlink p q))" "fixed_command (Win (WRemoveAll p))" "fixed_command (Win (WRemove p))"
  "fixed_command (Win (PowerShell new_command vs))"
  by (simp_all add: fixed_command_def)

lemma fixed_command_env:
  "fixed_command (Win (PowerShell status_command [''smbremotepath='' @ r]))"
  "fixed_command (Win (PowerShell remove_command [''smbremotepath='' @ r]))"
  by (simp_all add: fixed_command_def HasPrefix_def)

lemma fixed_api:
  "keeps (emits fixed_command) (api_status (powerShellSMBAPI E) r)"
  "keeps (emits fixed_command) (api_new (powerShellSMBAPI E) r u pw)"
  "keeps (emits fixed_command) (api_remove (powerShellSMBAPI E) r)"
  unfolding powerShellSMBAPI_def smb_api.simps ps_GetSmbGlobalMappingStatus_def ps_NewSmbGlobalMapping_def
    ps_RemoveSmbGlobalMapping_def RunPowershellCmd_def Let_def
  by (intro keeps_emits em.keeps_cases fixed_command_env; simp)+

end
