(* ===== verification/WinCim.thy ===== *)
theory WinCim
  imports Com WinSafety
begin

text \<open>
  The WMI implementation of the SMB interface: the calls on \<open>MSFT_SmbGlobalMapping\<close> (\<open>pkg/os/wmi/smb.go\<close>) and \<open>cimSMBAPI\<close>
  (\<open>pkg/os/smb/smb_cim.go\<close>); and that it gives back every COM reference it takes.
\<close>

section \<open>Global mappings\<close>

definition MSFTSmbGlobalMappingClass :: string where
  "MSFTSmbGlobalMappingClass = ''MSFT_SmbGlobalMapping''"

definition SmbMappingStatusOK :: int where "SmbMappingStatusOK = 0"
definition SmbMappingStatusDisconnected :: int where "SmbMappingStatusDisconnected = 2"

definition mapping_query :: "string \<Rightarrow> query_builder" where
  "mapping_query remotePath =
     WithCondition (WithNamespace (NewQuery MSFTSmbGlobalMappingClass) WMINamespaceSmb) ''RemotePath'' ''='' (WString remotePath)"

definition QuerySmbGlobalMappingByRemotePath :: "env \<Rightarrow> scope \<Rightarrow> string \<Rightarrow> ((goerr + nat) \<times> scope) prog" where
  "QuerySmbGlobalMappingByRemotePath E sc remotePath = do {
     (r, sc) \<leftarrow> QueryFirstObjectWithBuilder E sc (mapping_query remotePath);
     ret (case r of
            Inl err \<Rightarrow> Inl (Fmterr_wrap ''failed to query SMB global mapping by remote path %s: %w'' [remotePath] err)
          | Inr obj \<Rightarrow> Inr obj, sc) }"

definition wmi_GetSmbGlobalMappingStatus :: "env \<Rightarrow> nat \<Rightarrow> (goerr + int) prog" where
  "wmi_GetSmbGlobalMappingStatus E m = GetUint32Property E m ''Status''"

definition RemoveSmbGlobalMappingByRemotePath :: "env \<Rightarrow> scope \<Rightarrow> string \<Rightarrow> (goerr option \<times> scope) prog" where
  "RemoveSmbGlobalMappingByRemotePath E sc remotePath = do {
     (r, sc) \<leftarrow> QueryFirstObjectWithBuilder E sc (mapping_query remotePath);
     (case r of
        Inl err \<Rightarrow> ret (Some (Fmterr_wrap ''failed to query SMB global mapping by remote path %s: %w'' [remotePath] err), sc)
      | Inr m \<Rightarrow> do {
          (code, err) \<leftarrow> CallUint32 E m ''Remove'' [''true''];
          ret (case err of
                 Some e \<Rightarrow> Some (Fmterr_wrap ''failed to remove SMB global mapping by remote path %s: %w'' [remotePath] e)
               | None \<Rightarrow>
                   if code \<noteq> 0 then Some (NewWMIError MSFTSmbGlobalMappingClass ''Remove'' (show_int (int m)) code)
                   else None, sc) }) }"

text \<open>The credential is left out for an empty user name.\<close>

definition mapping_params :: "string \<Rightarrow> string \<Rightarrow> string \<Rightarrow> bool \<Rightarrow> (string \<times> string) list" where
  "mapping_params remotePath username password requirePrivacy =
     [(''RemotePath'', remotePath), (''RequirePrivacy'', show_bool requirePrivacy)]
     @ (if username \<noteq> [] then [(''Credential'', credential_text username password)] else [])"

definition wmi_NewSmbGlobalMapping :: "env \<Rightarrow> string \<Rightarrow> string \<Rightarrow> string \<Rightarrow> bool \<Rightarrow> goerr option prog" where
  "wmi_NewSmbGlobalMapping E remotePath username password requirePrivacy = do {
     (err, code, _) \<leftarrow> CallMethodOnWMIClass E WMINamespaceSmb MSFTSmbGlobalMappingClass ''Create''
                         (ord E (mapping_params remotePath username password requirePrivacy)) DiscardOutputParameter;
     ret (case err of
            Some e \<Rightarrow> Some (Fmterr_wrap ''failed to create SMB global mapping: %w'' [] e)
          | None \<Rightarrow>
              if code \<noteq> 0 then Some (NewWMIError MSFTSmbGlobalMappingClass ''Create'' ''<nil>'' code) else None) }"

section \<open>The interface\<close>

definition getSMBGlobalMappingStatusFromWMI :: "int \<Rightarrow> mapping_status" where
  "getSMBGlobalMappingStatusFromWMI status =
     (if status = SmbMappingStatusOK then MappingOK
      else if status = SmbMappingStatusDisconnected then MappingDisconnected
      else MappingOther)"

text \<open>
  The status a query finds.  The closures of the code set a captured variable; here the thread's action returns it next to
  the error.
\<close>

definition query_status :: "env \<Rightarrow> string \<Rightarrow> scope \<Rightarrow> ((goerr + mapping_status) \<times> scope) prog" where
  "query_status E remotePath sc = do {
     (inst, sc) \<leftarrow> QuerySmbGlobalMappingByRemotePath E sc remotePath;
     (case inst of
        Inl err \<Rightarrow> ret (if IsNotFound err then Inr MappingNotFound else Inl err, sc)
      | Inr m \<Rightarrow> do {
          status \<leftarrow> wmi_GetSmbGlobalMappingStatus E m;
          ret (map_sum id getSMBGlobalMappingStatusFromWMI status, sc) }) }"

text \<open>\<open>WithCOMThread\<close> for an action with a value.\<close>

definition on_COM_thread :: "env \<Rightarrow> (goerr + 'a) prog \<Rightarrow> (goerr + 'a) prog" where
  "on_COM_thread E fn = do {
     note_event (Com LockOSThread);
     err \<leftarrow> call (ans_err E) (Com CoInitializeEx);
     r \<leftarrow> (case err of
             None \<Rightarrow> do { r \<leftarrow> fn; note_event (Com CoUninitialize); ret r }
           | Some e \<Rightarrow>
               if err_kind e = OleError WBEM_S_FALSE then do { r \<leftarrow> fn; note_event (Com CoUninitialize); ret r }
               else ret (Inl e));
     note_event (Com UnlockOSThread);
     ret r }"

definition cim_GetSmbGlobalMappingStatus :: "env \<Rightarrow> string \<Rightarrow> (goerr + mapping_status) prog" where
  "cim_GetSmbGlobalMappingStatus E remotePath = on_COM_thread E (WithScope (query_status E remotePath))"

definition cim_NewSmbGlobalMapping :: "env \<Rightarrow> string \<Rightarrow> string \<Rightarrow> string \<Rightarrow> goerr option prog" where
  "cim_NewSmbGlobalMapping E remotePath username password = WithCOMThread E (do {
     err \<leftarrow> wmi_NewSmbGlobalMapping E remotePath username password True;
     ret (map_option (Fmterr_wrap ''create SMB mapping failed for %s: %w'' [remotePath]) err) })"

definition cim_RemoveSmbGlobalMapping :: "env \<Rightarrow> string \<Rightarrow> goerr option prog" where
  "cim_RemoveSmbGlobalMapping E remotePath = WithCOMThread E (WithScope (\<lambda>sc. do {
     (err, sc) \<leftarrow> RemoveSmbGlobalMappingByRemotePath E sc remotePath;
     ret (map_option (Fmterr_wrap (''error remove smb mapping '' @ [quote] @ ''%s'' @ [quote] @ ''. err: %w'') [remotePath]) err, sc) }))"

definition cimSMBAPI :: "env \<Rightarrow> smb_api" where
  "cimSMBAPI E =
     \<lparr>api_status = cim_GetSmbGlobalMappingStatus E, api_new = cim_NewSmbGlobalMapping E,
      api_remove = cim_RemoveSmbGlobalMapping E\<rparr>"

text \<open>The query the driver sends for a remote path: its literal is the path, whatever the path holds.\<close>

lemma mapping_query_text:
  "Build (mapping_query r) = ''SELECT * FROM MSFT_SmbGlobalMapping WHERE RemotePath = '' @ formatValue (WString r)"
  by (simp add: mapping_query_def WithCondition_def WithNamespace_def NewQuery_def Build_def buildWhereClause_def
      condition_text_def MSFTSmbGlobalMappingClass_def sprintf.simps Let_def del: formatValue.simps)

section \<open>WMI is a provider of the interface\<close>

text \<open>Everything below the interface is a COM call, so a frame that allows these is kept.\<close>

locale com_frame = frame R for R :: "drv \<Rightarrow> drv \<Rightarrow> bool" +
  assumes com_event: "R s (s\<lparr>trace := trace s @ [Com x]\<rparr>)"
begin

lemma com: "keeps R (call ans (Com x))" "keeps R (note_event (Com x))"
  unfolding keeps_def note_event_def by (simp_all add: final_def run_simps com_event)

lemma com_with_object:
  "(\<And>n v. keeps R (body n v)) \<Longrightarrow> keeps R (with_object E obj member args w acc body)"
  unfolding with_object_def com_call_def fresh_handle_def owning_def
  by (intro keeps_control com keeps_cases; simp)

lemma com_owning: "keeps R m \<Longrightarrow> keeps R (owning n m)"
  unfolding owning_def by (intro keeps_control com) simp_all

lemma com_loop:
  assumes "\<And>acc n. keeps R (fn acc n)"
  shows "keeps R (enum_loop E k fn acc steps)"
proof (induction steps arbitrary: acc)
  case Nil
  show ?case by (simp add: keeps_control com)
next
  case (Cons st steps)
  show ?case
    unfolding enum_loop.simps fresh_handle_def
    by (intro keeps_control com keeps_cases com_owning assms Cons.IH)
qed

lemma com_Enumerate: "(\<And>acc n. keeps R (fn acc n)) \<Longrightarrow> keeps R (Enumerate E obj fn acc)"
  unfolding Enumerate_def com_call_def fresh_handle_def
  by (intro com_with_object keeps_control com keeps_cases com_owning com_loop; simp)

lemma com_item: "(\<And>x y. keeps R (f x y n)) \<Longrightarrow> keeps R ((case acc of (x, y) \<Rightarrow> f x y) n)"
  by (simp split: prod.split)

lemma com_QueryFirst: "keeps R (QueryFirstObjectWithBuilder E sc q)"
  unfolding QueryFirstObjectWithBuilder_def Query_def WithWMIService_def NewCOMDispatchObject_def Let_def
  by (intro keeps_control com keeps_cases com_with_object com_Enumerate com_item; simp)

lemma com_property: "keeps R (property_as E c name zero reading)"
  unfolding property_as_def GetPropertyWithHandler_def
  by (intro keeps_control com keeps_cases com_with_object)

lemma com_CallUint32: "keeps R (CallUint32 E c name params)"
  unfolding CallUint32_def com_CallMethod_def by (intro keeps_control com keeps_cases com_with_object)

lemma com_put_params: "keeps R (put_params E inst input)"
proof (induction input)
  case (Cons kv input)
  show ?case
    by (cases kv) (simp add: com_call_def fresh_handle_def, intro keeps_control com keeps_cases com_owning Cons.IH)
qed (simp add: keeps_control com)

lemma com_exec_method: "keeps R (exec_method E c params handler acc)"
  unfolding exec_method_def Let_def read_output_def
  by (intro keeps_control com keeps_cases com_with_object com_Enumerate)

lemma com_CallMethod: "keeps R (CallMethodOnWMIClass E ns cls name input handler)"
  unfolding CallMethodOnWMIClass_def Let_def WithWMIService_def
  by (intro com_with_object keeps_cases com_exec_method keeps_control com com_put_params)

lemma com_scope: "(\<And>sc. keeps R (fn sc)) \<Longrightarrow> keeps R (WithScope fn)"
proof -
  assume fn: "\<And>sc. keeps R (fn sc)"
  have rel: "keeps R (release_all ns)" for ns
    by (induction ns) (auto intro!: keeps_control com)
  show "keeps R (WithScope fn)"
    unfolding WithScope_def scope_Close_def by (intro keeps_control com keeps_cases fn rel)
qed

lemma com_thread:
  "keeps R fn \<Longrightarrow> keeps R (WithCOMThread E fn)"
  "keeps R fn' \<Longrightarrow> keeps R (on_COM_thread E fn')"
  unfolding WithCOMThread_def on_COM_thread_def by (intro keeps_control com keeps_cases; simp)+

lemma com_cim:
  "keeps R (cim_GetSmbGlobalMappingStatus E r)"
  "keeps R (cim_NewSmbGlobalMapping E r user password)"
  "keeps R (cim_RemoveSmbGlobalMapping E r)"
  unfolding cim_GetSmbGlobalMappingStatus_def query_status_def QuerySmbGlobalMappingByRemotePath_def
    wmi_GetSmbGlobalMappingStatus_def GetUint32Property_def cim_NewSmbGlobalMapping_def wmi_NewSmbGlobalMapping_def
    cim_RemoveSmbGlobalMapping_def RemoveSmbGlobalMappingByRemotePath_def
  by (intro com_thread com_scope keeps_control com keeps_cases com_QueryFirst com_property com_CallMethod
      com_CallUint32)+

end

interpretation reading: com_frame reads_files
  by unfold_locales (simp add: emits_def)

interpretation cim: smb_provider "cimSMBAPI E" for E
  by unfold_locales (simp_all add: cimSMBAPI_def reading.com_cim)

text \<open>What a mount of \<open>source\<close> at \<open>target\<close> may do to the files of the node.\<close>

definition mount_change :: "string \<Rightarrow> string \<Rightarrow> ext \<Rightarrow> bool" where
  "mount_change source target c \<longleftrightarrow>
     (changes_files c \<longrightarrow>
        c = Win (WSymlink (ReplaceAll source ''/'' [backslash]) (normalizeWindowsPath target))
        \<or> c = Win (WMkdirAll (normalizeWindowsPath (win_dir target)) 493))"

text \<open>Mounting a share, whether PowerShell or WMI provides the mappings, changes no file of the node but these: the link
  at the target, to the source in Windows spelling, and the directory the target lies in.\<close>

theorem mount_touches_only_target:
  "emits (mount_change source target) s (final (win_SMBMount E (powerShellSMBAPI E) source target ft opts sens) s)
   \<and> emits (mount_change source target) s (final (win_SMBMount E (cimSMBAPI E) source target ft opts sens) s)"
  using power_shell.mount_changes [of source target E E ft opts sens] cim.mount_changes [of source target E E ft opts sens]
  by (simp add: keeps_def mount_change_def [abs_def])

end
