(* ===== verification/WinNodeSafety.thy ===== *)
theory WinNodeSafety
  imports WinNode WinCim NodeSuccess
begin

text \<open>
  The node service of a Windows node, with its mounters: the locale \<open>windows_effects\<close> follows the handlers for any frame
  that the mounter's methods keep, and is interpreted on every mounter for the volume locks and the trace, and on the host
  process mounter for the command lines that run and the mappings that go.
\<close>

locale windows_effects = effects R P for R :: "drv \<Rightarrow> drv \<Rightarrow> bool" and P :: "ext \<Rightarrow> bool" +
  fixes m :: win_mounter
  assumes mounter: "keeps R (wm_SMBMount m source target fs os so)" "keeps R (wm_Mount m source target fs os)"
      "keeps R (wm_Unmount m target)" "keeps R (wm_Rmdir m target)" "keeps R (wm_ExistsPath m target)"
      "keeps R (wm_IsLikelyNotMountPoint m target)"
begin

declare mounter [eff]

lemma eff_windows_calls [eff]:
  "keeps R (windows_SMBMount (Some m) source target fs os so)" "keeps R (windows_SMBUnmount (Some m) target b c)"
  "keeps R (windows_CleanupMountPoint (Some m) target b)" "keeps R (prepareStagePath target (Some m))"
  "keeps R (preparePublishPath target (Some m))"
  unfolding windows_SMBMount_def windows_SMBUnmount_def windows_CleanupMountPoint_def prepareStagePath_def
    preparePublishPath_def removeDir_def option.case
  by (intro eff; simp)+

lemma eff_windows_mount_point [eff]: "keeps R (windows_ensureMountPoint E m t perm u)"
  unfolding windows_ensureMountPoint_def windows_probe_mount_def by (intro eff; simp)+

lemma eff_windows_skip [eff]: "keeps R (windows_canSkipRepublishNodeStage m ctx t)"
  unfolding windows_canSkipRepublishNodeStage_def by (intro eff; simp)+

lemma eff_windows_stage_mount [eff]: "keeps R (windows_stage_mount E d m v t sv src path os so)"
  unfolding windows_stage_mount_def windows_stage_mount_share_def stage_proxy_mount_def Let_def
  by (intro eff; simp)+

lemma eff_windows_stage_disk [eff]: "keeps R (windows_stage_disk E m v t sv path fl)"
  unfolding windows_stage_disk_def by (intro eff; simp)+

lemma eff_windows_stage [eff]: "keeps R (windows_NodeStageVolume E d m req)"
  unfolding windows_NodeStageVolume_def windows_stage_decide_def windows_stage_locked_def
  by (intro eff; simp)+

lemma eff_windows_unstage [eff]: "keeps R (windows_NodeUnstageVolume E d m b v t)"
  unfolding windows_NodeUnstageVolume_def windows_unstage_locked_def remove_mount_info_def by (intro eff; simp)+

lemma eff_windows_publish [eff]: "keeps R (windows_NodePublishVolume E d m req)"
  unfolding windows_NodePublishVolume_def windows_publish_ephemeral_def windows_publish_persistent_def
    windows_publish_bind_def windows_link_def publish_refresh_def publish_direct_def
  by (intro eff; simp)+

lemma eff_windows_unpublish [eff]: "keeps R (windows_NodeUnpublishVolume E d m v t)"
  unfolding windows_NodeUnpublishVolume_def remove_mount_info_def by (intro eff; simp)+

end

section \<open>The mounters\<close>

text \<open>Every call of a Windows node but a command line.\<close>

definition no_shell :: "win_ext \<Rightarrow> bool" where
  "no_shell w = (case w of PowerShell q vs \<Rightarrow> False | _ \<Rightarrow> True)"

lemma no_shell_simps [simp]:
  "no_shell (WLstat p)" "no_shell (WReadlink p)" "no_shell (WReadDir p)" "no_shell (WAttributes p)"
  "no_shell (WMkdirAll p n)" "no_shell (WSymlink p q)" "no_shell (WRemoveAll p)" "no_shell (WRemove p)"
  "no_shell (PxExists p)" "no_shell (PxIsSymlink p)" "no_shell (PxMkdir p)" "no_shell (PxRmdir p)"
  "no_shell (PxSymlink p q)" "no_shell (PxMapping a b c d)" "no_shell (PxBeta b')"
  by (simp_all add: no_shell_def)

text \<open>A frame that allows these: whatever the provider of mappings keeps, the mounters keep.\<close>

locale mounter_frame = effects R P for R :: "drv \<Rightarrow> drv \<Rightarrow> bool" and P :: "ext \<Rightarrow> bool" +
  assumes files: "no_shell w \<Longrightarrow> P (Win w)"
begin

lemma file_call [eff]: "no_shell w \<Longrightarrow> keeps R (call ans (Win w))"
  by (rule allowed_call) (rule files)

lemma eff_files [eff]:
  "keeps R (lstat_exists E p)" "keeps R (win_ExistsPath E p)" "keeps R (PathValid E p)" "keeps R (IsSymlink E p)"
  "keeps R (win_IsMountPoint E p)" "keeps R (win_mounter_Rmdir E p)" "keeps R (win_MakeDir E p)"
  "keeps R (GetRemoteServerFromTarget E p)"
  unfolding lstat_exists_def win_ExistsPath_def win_PathExists_def PathValid_def IsSymlink_def win_IsMountPoint_def
    win_mounter_Rmdir_def win_Rmdir_def win_MakeDir_def GetRemoteServerFromTarget_def
  by (intro eff; simp)+

lemma eff_err_then [eff]: "keeps R n \<Longrightarrow> keeps R n' \<Longrightarrow> keeps R (err_then n n')"
  unfolding err_then_def by (intro eff)

lemma eff_scan [eff]: "keeps R (dup_scan E dir m remote fs)"
proof (induction fs)
  case (Cons f fs)
  then show ?case by (cases f; simp only: dup_scan.simps) (intro eff Cons.IH; simp)
qed (simp add: eff)

lemma eff_parent [eff]:
  "(\<And>p. keeps R (ex p)) \<Longrightarrow> (\<And>p. keeps R (mk p)) \<Longrightarrow> keeps R (ensure_parent ex mk t)"
  "keeps R n \<Longrightarrow> keeps R n' \<Longrightarrow> keeps R (likely_not_mount n n')"
  unfolding ensure_parent_def likely_not_mount_def by (intro eff; simp)+

lemma eff_remote_lock [eff]: "keeps R n \<Longrightarrow> keeps R (with_remote_lock r n)"
  unfolding with_remote_lock_def by (intro eff; simp)

lemma host_mounter:
  assumes [eff]: "\<And>r. keeps R (api_status api r)" "\<And>r u pw. keeps R (api_new api r u pw)" "\<And>r. keeps R (api_remove api r)"
  shows "windows_effects R P (winMounter E api)"
  by unfold_locales
    (unfold winMounter_def win_mounter.select_convs win_SMBMount_def mount_remote_def ensureSMBGlobalMappingLocked_def
      win_Mount_def win_Unmount_def unmap_remote_def CheckForDuplicateSMBMounts_def win_IsLikelyNotMountPoint_def
      Let_def,
      (intro eff; simp)+)

lemma proxy_mounter: "windows_effects R P (csiProxyMounter E)"
  by unfold_locales
    (unfold csiProxyMounter_def win_mounter.select_convs px_SMBMount_def px_Mount_def px_Unmount_def px_Rmdir_def px_ExistsPath_def
      px_MakeDir_def px_IsLikelyNotMountPoint_def, (intro eff; simp)+)

lemma beta_mounter: "windows_effects R P (csiProxyMounterV1Beta E)"
  by unfold_locales
    (unfold csiProxyMounterV1Beta_def win_mounter.select_convs beta_SMBMount_def beta_Mount_def beta_Unmount_def beta_Rmdir_def
      beta_ExistsPath_def beta_MakeDir_def beta_IsLikelyNotMountPoint_def, (intro eff; simp)+)

end

section \<open>The frames\<close>

interpretation shells: mounter_frame "emits fixed_command" fixed_command
  by unfold_locales (auto simp: emits_def fixed_command_def on_windows_def no_shell_def split: ext.splits win_ext.splits)

interpretation hold: mounter_frame same_locks "\<lambda>_. True"
  by unfold_locales (auto simp: same_locks_def)

interpretation more: mounter_frame "emits (\<lambda>_. True)" "\<lambda>_. True"
  by unfold_locales (auto simp: emits_def)

interpretation shells: com_frame "emits fixed_command"
  by unfold_locales (simp add: emits_def fixed_command_def)

interpretation hold: com_frame same_locks
  by unfold_locales (simp add: same_locks_def)

interpretation more: com_frame "emits (\<lambda>_. True)"
  by unfold_locales (simp add: emits_def)

lemma power_shell_calls:
  assumes "\<And>q vs ans. keeps R (call ans (Win (PowerShell q vs)) :: (string \<times> goerr option) prog)"
    and "\<And>c. keeps R (note_event (Tool c))" "frame R"
  shows "keeps R (api_status (powerShellSMBAPI E) r)" "keeps R (api_new (powerShellSMBAPI E) r u pw)"
    "keeps R (api_remove (powerShellSMBAPI E) r)"
  using assms
  by (auto simp: powerShellSMBAPI_def ps_GetSmbGlobalMappingStatus_def ps_NewSmbGlobalMapping_def
      ps_RemoveSmbGlobalMapping_def RunPowershellCmd_def Let_def intro!: frame.keeps_bind frame.keeps_return
      split: option.split)

lemma commands_kept:
  "windows_effects (emits fixed_command) fixed_command (winMounter E (powerShellSMBAPI E))"
  "windows_effects (emits fixed_command) fixed_command (winMounter E (cimSMBAPI E))"
  "windows_effects (emits fixed_command) fixed_command (csiProxyMounter E)"
  "windows_effects (emits fixed_command) fixed_command (csiProxyMounterV1Beta E)"
  by (rule shells.host_mounter shells.proxy_mounter shells.beta_mounter fixed_api
      | simp add: cimSMBAPI_def shells.com_cim)+

lemma locks_kept:
  "windows_effects same_locks (\<lambda>_. True) (winMounter E (powerShellSMBAPI E))"
  "windows_effects same_locks (\<lambda>_. True) (winMounter E (cimSMBAPI E))"
  "windows_effects same_locks (\<lambda>_. True) (csiProxyMounter E)"
  "windows_effects same_locks (\<lambda>_. True) (csiProxyMounterV1Beta E)"
  by (rule hold.host_mounter hold.proxy_mounter hold.beta_mounter power_shell_calls keeps_locks_call keeps_locks_note lk.frame_axioms
      | simp add: cimSMBAPI_def hold.com_cim)+

lemma trace_kept:
  "windows_effects (emits (\<lambda>_. True)) (\<lambda>_. True) (winMounter E (powerShellSMBAPI E))"
  "windows_effects (emits (\<lambda>_. True)) (\<lambda>_. True) (winMounter E (cimSMBAPI E))"
  "windows_effects (emits (\<lambda>_. True)) (\<lambda>_. True) (csiProxyMounter E)"
  "windows_effects (emits (\<lambda>_. True)) (\<lambda>_. True) (csiProxyMounterV1Beta E)"
  by (rule more.host_mounter more.proxy_mounter more.beta_mounter power_shell_calls keeps_emits_call keeps_emits_note em.frame_axioms TrueI
      | simp add: cimSMBAPI_def more.com_cim)+

text \<open>The mounters of the driver, as \<open>NewSafeMounter\<close> chooses them.\<close>

definition chosen_mounter :: "env \<Rightarrow> win_mounter \<Rightarrow> bool" where
  "chosen_mounter E m \<longleftrightarrow>
     (\<exists>host_process use_cim s.
        result (win_NewSafeMounter E (cimSMBAPI E) (powerShellSMBAPI E) host_process use_cim) s = Inr m)"

lemma chosen_mounter_cases:
  assumes "chosen_mounter E m"
  shows "m = winMounter E (powerShellSMBAPI E) \<or> m = winMounter E (cimSMBAPI E) \<or> m = csiProxyMounter E
    \<or> m = csiProxyMounterV1Beta E"
proof -
  let ?ok = "\<lambda>r. \<forall>m. r = Inr m \<longrightarrow> m = winMounter E (powerShellSMBAPI E) \<or> m = winMounter E (cimSMBAPI E)
    \<or> m = csiProxyMounter E \<or> m = csiProxyMounterV1Beta E"
  have "yields ?ok (win_NewSafeMounter E (cimSMBAPI E) (powerShellSMBAPI E) host_process use_cim)" for host_process use_cim
    unfolding win_NewSafeMounter_def by (auto intro!: yields_bind split: option.split)
  with assms show ?thesis unfolding chosen_mounter_def yields_def by blast
qed

lemma chosen_kept:
  assumes "chosen_mounter E m"
  shows "windows_effects (emits fixed_command) fixed_command m" "windows_effects same_locks (\<lambda>_. True) m"
    "windows_effects (emits (\<lambda>_. True)) (\<lambda>_. True) m"
  using chosen_mounter_cases [OF assms] commands_kept [of E] locks_kept [of E] trace_kept [of E] by auto

section \<open>Properties of a Windows node\<close>

text \<open>The handlers of the node service, each run from a state.\<close>

definition windows_runs ::
    "env \<Rightarrow> config \<Rightarrow> win_mounter \<Rightarrow> bool \<Rightarrow> string \<Rightarrow> string \<Rightarrow> stage_request \<Rightarrow> publish_request \<Rightarrow> drv \<Rightarrow> drv list" where
  "windows_runs E d m rm v t sreq preq s =
     [final (windows_NodeStageVolume E d m sreq) s, final (windows_NodeUnstageVolume E d m rm v t) s,
      final (windows_NodePublishVolume E d m preq) s, final (windows_NodeUnpublishVolume E d m v t) s]"

lemma windows_runs_kept:
  assumes "windows_effects R P m"
  shows "list_all (R s) (windows_runs E d m rm v t sreq preq s)"
  using windows_effects.eff_windows_stage [OF assms, of E d sreq] windows_effects.eff_windows_unstage [OF assms, of E d rm v t]
    windows_effects.eff_windows_publish [OF assms, of E d preq] windows_effects.eff_windows_unpublish [OF assms, of E d v t]
  by (simp add: windows_runs_def keeps_def)

text \<open>C32: staging, unstaging, publishing and unpublishing a volume on a Windows node, with whichever mounter the driver has
  chosen, run no PowerShell command line but three fixed ones: names, paths and passwords reach PowerShell in its
  environment, and the password only the command that creates a mapping.\<close>

theorem windows_commands_fixed:
  assumes "chosen_mounter E m"
  shows "list_all (emits fixed_command s) (windows_runs E d m rm v t sreq preq s)"
  by (rule windows_runs_kept [OF chosen_kept(1) [OF assms]])

lemma host_process_chosen: "chosen_mounter E (winMounter E (powerShellSMBAPI E))"
  unfolding chosen_mounter_def
  by (intro exI [of _ True] exI [of _ False]) (simp add: win_NewSafeMounter_def result_def run_simps)

theorem windows_commands_fixed_witness:
  "\<forall>E d rm v t sreq preq. list_all (emits fixed_command initial_state)
     (windows_runs E d (winMounter E (powerShellSMBAPI E)) rm v t sreq preq initial_state)"
  by (intro allI windows_commands_fixed host_process_chosen)

text \<open>The same requests leave the volume locks as they found them, on every path.\<close>

theorem windows_requests_restore_locks:
  assumes "chosen_mounter E m"
  shows "list_all (\<lambda>u. volumeLocks u = volumeLocks s) (windows_runs E d m rm v t sreq preq s)"
  using windows_runs_kept [OF chosen_kept(2) [OF assms], of s E d rm v t sreq preq] by (simp add: same_locks_def list_all_iff)

theorem windows_requests_restore_locks_witness:
  "\<forall>E d rm v t sreq preq. list_all (\<lambda>u. volumeLocks u = volumeLocks initial_state)
     (windows_runs E d (winMounter E (powerShellSMBAPI E)) rm v t sreq preq initial_state)"
  by (intro allI windows_requests_restore_locks host_process_chosen)



end
