(* ===== verification/WinNodeSuccess.thy ===== *)
theory WinNodeSuccess
  imports WinNodeSafety
begin

text \<open>
  What a successful answer of the node service of a Windows node means, as \<open>NodeSuccess\<close> says it for Linux: the target is a
  link that can be read, or the link to the remote or to the staged volume was made.
\<close>

section \<open>Links\<close>

definition links :: "string \<Rightarrow> string \<Rightarrow> ext \<Rightarrow> bool" where
  "links source target c \<longleftrightarrow>
     c = Win (WSymlink source target) \<or> c = Win (PxSymlink source target) \<or> c = Win (PxBeta (BetaLink source target))"

text \<open>The calls after which a path of a Windows node is mounted, or has a disk mounted on it.\<close>

definition windows_provides :: "string \<Rightarrow> ext \<Rightarrow> bool" where
  "windows_provides p c =
     (provides p c
      \<or> (case c of
           Win w \<Rightarrow>
             (case w of
                WSymlink remote target \<Rightarrow> target = normalizeWindowsPath p
              | PxMapping target remote user password \<Rightarrow> target = normalizeWindowsPath p
              | PxBeta b \<Rightarrow>
                  (case b of BetaMapping target remote user password \<Rightarrow> target = normalizeWindowsPath p | _ \<Rightarrow> False)
              | _ \<Rightarrow> False)
         | _ \<Rightarrow> False))"

definition windows_publishes :: "publish_request \<Rightarrow> ext \<Rightarrow> bool" where
  "windows_publishes req c \<longleftrightarrow>
     c = Node (ReadDir (np_Target req))
     \<or> links (normalizeWindowsPath (np_Staging req)) (normalizeWindowsPath (np_Target req)) c"

lemma chosen_grows:
  assumes "chosen_mounter E m"
  shows "grows (windows_ensureMountPoint E m p perm u)" "grows (wm_Mount m a b fs os)" "grows (wm_SMBMount m a b fs os so)"
    "grows (prepareStagePath p (Some m))" "grows (preparePublishPath p (Some m))"
    "grows (windows_stage_mount E d m v t sv src path os so)" "grows (windows_stage_disk E m v t sv path fl)"
    "grows (windows_SMBMount (Some m) a b fs os so)"
  using chosen_kept(3) [OF assms]
  by (simp_all add: windows_effects.eff_windows_mount_point windows_effects.mounter windows_effects.eff_windows_calls
      windows_effects.eff_windows_stage_mount windows_effects.eff_windows_stage_disk)

lemma windows_ensure_achieves:
  assumes "A (Node (ReadDir p))" "chosen_mounter E m"
  shows "achieves (no_error_for E A) found_mounted (windows_ensureMountPoint E m p perm u)"
proof -
  note grow_m = windows_effects.mounter [OF chosen_kept(3) [OF assms(2)]]
  have probe: "achieves (no_error_for E A) found_mounted (windows_probe_mount E m p u)"
    unfolding windows_probe_mount_def
    by (rule achieves_bind [where P = "\<lambda>r. r = None"])
      (auto simp: found_mounted_def assms(1) intro!: achieves_call_ok keeps_emits achieves_later [OF grow_m(3)] achieves_return
        grow_m split: option.split)
  have failed: "(case err of None \<Rightarrow> False | Some e \<Rightarrow> err_kind e \<noteq> OsNotExist) \<Longrightarrow> \<not> found_mounted (b, err)" for err b
    by (cases err) (auto simp: found_mounted_def)
  have "achieves (no_error_for E A) found_mounted (if failed \<and> \<not> corrupted then ret (\<not> notMnt, err)
      else if failed \<or> \<not> notMnt then windows_probe_mount E m p u
      else do { err \<leftarrow> makeDir E p perm; ret (False, err) })"
    if "failed = (case err of None \<Rightarrow> False | Some e \<Rightarrow> err_kind e \<noteq> OsNotExist)" for failed corrupted notMnt err
    using that failed [of err "\<not> notMnt"]
    by (auto simp: found_mounted_def intro!: achieves_return achieves_later grow.eff_mount_point probe)
  then show ?thesis unfolding windows_ensureMountPoint_def Let_def
    by (auto intro!: achieves_later grow_m keeps_emits grow.eff_mount_point)
qed

section \<open>Publishing\<close>

lemma mounter_links:
  assumes "chosen_mounter E m" "\<And>c. links (normalizeWindowsPath a) (normalizeWindowsPath b) c \<Longrightarrow> A c"
  shows "achieves (no_error_for E A) (\<lambda>r. r = None) (wm_Mount m a b fs os)"
proof -
  have "achieves (no_error_for E A) (\<lambda>r. r = None) (call (ans_err E) c)"
    if "links (normalizeWindowsPath a) (normalizeWindowsPath b) c" for c
    by (rule achieves_call_ok) (rule assms(2) [OF that])
  then show ?thesis using chosen_mounter_cases [OF assms(1)]
    by (elim disjE)
      (simp_all add: winMounter_def csiProxyMounter_def csiProxyMounterV1Beta_def win_Mount_def px_Mount_def beta_Mount_def
        links_def)
qed

lemma windows_link_achieves:
  assumes "chosen_mounter E m"
  shows "achieves (no_error_for E (windows_publishes req)) succeeded (windows_link E m req)"
proof -
  have "achieves (no_error_for E (windows_publishes req)) succeeded (do {
      err \<leftarrow> wm_Mount m (np_Staging req) (np_Target req) [] os;
      (case err of
         None \<Rightarrow> ret (Inr ())
       | Some e \<Rightarrow> do {
           removeErr \<leftarrow> call (ans_err E) (Node (RemoveFile (np_Target req)));
           ret (Inl (f e removeErr)) }) })" for os f
    by (rule achieves_bind [OF chosen_grows(2) [OF assms] mounter_links [OF assms]])
      (auto simp: windows_publishes_def intro!: keeps_emits achieves_later achieves_return split: option.split)
  then show ?thesis unfolding windows_link_def Let_def
    by (intro achieves_next and_then_emits chosen_grows [OF assms])
qed

lemma windows_publish_bind_achieves:
  assumes "chosen_mounter E m"
  shows "achieves (no_error_for E (windows_publishes req)) succeeded (windows_publish_bind E d m req perm)"
proof -
  let ?f = "\<lambda>(mnt, err). (case err of
         Some e \<Rightarrow> ret (Inl (Statusf Internal ''Could not mount target %s: %v'' [np_Target req, err_text e]))
       | None \<Rightarrow> if mnt then ret (Inr ()) else windows_link E m req)"
  have "achieves (no_error_for E (windows_publishes req)) succeeded
      (State_Monad.bind (windows_ensureMountPoint E m (np_Target req) perm False) ?f)"
  proof (rule achieves_bind [OF chosen_grows(1) [OF assms] windows_ensure_achieves [OF _ assms]])
    show "found_mounted r \<Longrightarrow> grows (?f r)" for r by (auto simp: found_mounted_def keeps_emits)
    show "\<not> found_mounted r \<Longrightarrow> achieves (no_error_for E (windows_publishes req)) succeeded (?f r)" for r
      using windows_link_achieves [OF assms, of req]
      by (cases r) (auto simp: found_mounted_def intro: achieves_return split: option.split)
  qed (simp add: windows_publishes_def)
  then show ?thesis unfolding windows_publish_bind_def
    by (auto intro!: achieves_return achieves_next grow_mounts.refresh_kept)
qed

text \<open>When a staged volume is published successfully on a Windows node, the pod's target was found to be a link that can
  be read, or the link to the staging path was asked for at the target and succeeded.\<close>

theorem windows_published_target_linked:
  assumes "chosen_mounter E m" "binds d req" "result (windows_NodePublishVolume E d m req) s = Inr ()"
  shows "went_well (no_error_for E (windows_publishes req)) s (final (windows_NodePublishVolume E d m req) s)"
proof (rule achieves_result)
  show "achieves (no_error_for E (windows_publishes req)) succeeded (windows_NodePublishVolume E d m req)"
    unfolding windows_NodePublishVolume_def windows_publish_persistent_def using assms(2)
    by (auto simp: binds_def publish_confidential_def and_then_def run_simps windows_publish_bind_achieves [OF assms(1)]
        intro!: achieves_return achieves_cases split: option.split sum.split)
qed (simp add: assms(3))

theorem windows_published_target_linked_witness:
  "let E = sample_env no_error; m = winMounter E (powerShellSMBAPI E) in
   went_well (no_error_for E (windows_publishes (sample_publish []))) initial_state
     (final (windows_NodePublishVolume E sample_config m (sample_publish [])) initial_state)"
  unfolding Let_def
proof (rule windows_published_target_linked [OF host_process_chosen])
  show "binds sample_config (sample_publish [])" by code_simp
  show "result (windows_NodePublishVolume (sample_env no_error) sample_config
      (winMounter (sample_env no_error) (powerShellSMBAPI (sample_env no_error))) (sample_publish [])) initial_state = Inr ()"
    by code_simp
qed

section \<open>Staging\<close>

lemma windows_provides_simps [simp]:
  "provides p c \<Longrightarrow> windows_provides p c" "windows_provides p (Win (WSymlink r (normalizeWindowsPath p)))"
  "windows_provides p (Win (PxMapping (normalizeWindowsPath p) r u pw))"
  "windows_provides p (Win (PxBeta (BetaMapping (normalizeWindowsPath p) r u pw)))"
  by (simp_all add: windows_provides_def)

lemma achieves_err_then:
  assumes "grows m" "achieves A (\<lambda>r. r = None) n"
  shows "achieves A (\<lambda>r. r = None) (err_then m n)"
  unfolding err_then_def by (rule achieves_later [OF assms(1)]) (auto intro!: achieves_return assms(2) split: option.split)

lemma achieves_mapped:
  assumes "grows m" "achieves A (\<lambda>r. r = None) m"
  shows "achieves A (\<lambda>r. r = None) (do { err \<leftarrow> m; ret (map_option f err) })"
  by (rule achieves_bind [OF assms]) (auto intro: keeps_emits achieves_return)

lemma normalizeWindowsPath_empty [simp]: "normalizeWindowsPath p = [] \<longleftrightarrow> p = []"
  by (auto simp: normalizeWindowsPath_def Let_def ReplaceAll_single HasPrefix_def)

lemma host_mount_achieves:
  assumes api: "\<And>r. grows (api_status api r)" "\<And>r u pw. grows (api_new api r u pw)" "\<And>r. grows (api_remove api r)"
    and "p \<noteq> []"
  shows "achieves (no_error_for E (windows_provides p)) (\<lambda>r. r = None) (win_SMBMount E api source p fs os so)"
proof -
  have ensure: "grows (ensureSMBGlobalMappingLocked api r u pw (PathValid E r))" for r u pw
    unfolding ensureSMBGlobalMappingLocked_def Let_def
    by (intro keeps_emits em.keeps_cases more.eff_err_then more.eff_files api)
  have remote: "achieves (no_error_for E (windows_provides p)) (\<lambda>r. r = None)
      (mount_remote E api r (normalizeWindowsPath p) u pw)" for r u pw
    unfolding mount_remote_def using assms(4)
    by (auto intro!: achieves_err_then ensure achieves_return achieves_mapped achieves_call_ok keeps_emits split: option.split)
  have body: "grows (mount_remote E api r l u pw)" for r l u pw
    unfolding mount_remote_def by (intro more.eff_err_then ensure keeps_emits em.keeps_cases; simp)
  have locked: "achieves (no_error_for E (windows_provides p)) (\<lambda>r. r = None)
      (with_remote_lock r (mount_remote E api r (normalizeWindowsPath p) u pw))" for r u pw
    unfolding with_remote_lock_def
    by (rule achieves_later, simp add: keeps_emits, rule achieves_bind [OF body remote])
      (auto intro!: keeps_emits achieves_later achieves_return)
  have parent: "grows (ensure_parent (win_ExistsPath E) (win_MakeDir E) p)" by (intro more.eff_parent more.eff_files)
  show ?thesis unfolding win_SMBMount_def Let_def
    by (auto intro!: achieves_err_then parent achieves_return locked split: option.split)
qed

lemma proxy_mount_achieves:
  "achieves (no_error_for E (windows_provides p)) (\<lambda>r. r = None) (px_SMBMount E source p fs os so)"
  "achieves (no_error_for E (windows_provides p)) (\<lambda>r. r = None) (beta_SMBMount E source p fs os so)"
  unfolding px_SMBMount_def beta_SMBMount_def px_ExistsPath_def px_MakeDir_def beta_ExistsPath_def beta_MakeDir_def
  by (auto intro!: achieves_err_then achieves_return achieves_mapped achieves_call_ok more.eff_parent keeps_emits split: option.split)

lemma mount_achieves:
  assumes "chosen_mounter E m" "p \<noteq> []"
  shows "achieves (no_error_for E (windows_provides p)) (\<lambda>r. r = None) (windows_SMBMount (Some m) source p fs os so)"
proof -
  have shell: "grows (api_status (powerShellSMBAPI E) r)" "grows (api_new (powerShellSMBAPI E) r u pw)"
    "grows (api_remove (powerShellSMBAPI E) r)" for r u pw
    by (rule power_shell_calls keeps_emits_call keeps_emits_note em.frame_axioms TrueI)+
  have cim: "grows (api_status (cimSMBAPI E) r)" "grows (api_new (cimSMBAPI E) r u pw)" "grows (api_remove (cimSMBAPI E) r)" for r u pw
    by (simp_all add: cimSMBAPI_def more.com_cim)
  show ?thesis using chosen_mounter_cases [OF assms(1)]
    by (elim disjE) (simp_all add: windows_SMBMount_def winMounter_def csiProxyMounter_def csiProxyMounterV1Beta_def
      host_mount_achieves [OF shell assms(2)] host_mount_achieves [OF cim assms(2)] proxy_mount_achieves)
qed

lemma windows_stage_mount_achieves:
  assumes "chosen_mounter E m" "path \<noteq> []"
  shows "achieves (no_error_for E (windows_provides path)) succeeded (windows_stage_mount E d m v t sv src path os so)"
proof -
  have proxy: "achieves (no_error_for E (windows_provides path)) succeeded (stage_proxy_mount E src path fs os so)" for fs os
    by (rule achieves_weaken [OF seen.stage_proxy_achieves(1)]) (auto simp: no_error_for_def)
  have direct: "achieves (no_error_for E (windows_provides path)) succeeded
      (check (WaitUntilTimeout E ''mount'' (windows_SMBMount (Some m) src path fs os so) (ret (Some e))) w)"
    "grows (check (WaitUntilTimeout E ''mount'' (windows_SMBMount (Some m) src path fs os so) (ret (Some e))) w)" for fs os e w
    by (intro achieves_check achieves_wait mount_achieves assms chosen_grows(8) [OF assms(1)] and_then_emits grows_wait)+
  have share: "achieves (no_error_for E (windows_provides path)) succeeded (windows_stage_mount_share E d m v t sv src path os so)"
    unfolding windows_stage_mount_share_def Let_def
    by (auto intro!: achieves_return achieves_this direct proxy seen.stage_proxy_achieves(2) grows_stage
        achieves_next [of "check (prepareStagePath path (Some m)) w" for w] and_then_emits chosen_grows [OF assms(1)] split: prod.split)
  let ?f = "\<lambda>(isDirMounted, err). (case err of
        Some e \<Rightarrow> ret (Inl (Statusf Internal ''Could not mount target %s: %v'' [path, err_text e]))
      | None \<Rightarrow> if isDirMounted then ret (Inr ()) else windows_stage_mount_share E d m v t sv src path os so)"
  show ?thesis unfolding windows_stage_mount_def
  proof (rule achieves_bind [OF chosen_grows(1) [OF assms(1)] windows_ensure_achieves [OF _ assms(1)]])
    show "found_mounted r \<Longrightarrow> grows (?f r)" for r by (auto simp: found_mounted_def keeps_emits)
    show "\<not> found_mounted r \<Longrightarrow> achieves (no_error_for E (windows_provides path)) succeeded (?f r)" for r
      using share by (cases r) (auto simp: found_mounted_def intro: achieves_return split: option.split)
  qed simp
qed

lemma windows_stage_disk_achieves:
  assumes "chosen_mounter E m" "isDiskFsType (sv_fsType sv)"
  shows "achieves (no_error_for E (windows_provides t)) succeeded (windows_stage_disk E m v t sv path fl)"
proof -
  have format: "achieves (no_error_for E (windows_provides t)) succeeded (and_then
      (check (validateDiskIsRegularFile E dp) w) (\<lambda>_. and_then
         (check (call (ans_err E) (Node (FormatAndMount dp t fs os))) w') (\<lambda>_. ret (Inr True))))" for dp w fs os w'
    by (rule achieves_weaken [OF seen.format_achieves]) (auto simp: no_error_for_def)
  let ?f = "\<lambda>(mnt, err). (case err of
        Some e \<Rightarrow> ret (Inl (Statusf Internal ''mount %s on target %s failed with %v'' [v, t, err_text e]))
      | None \<Rightarrow> if mnt then ret (Inr False) else
          let diskPath = win_join [path, sv_disk sv] in and_then
            (check (validateDiskIsRegularFile E diskPath) (\<lambda>e. invalid ''invalid disk source: %v'' [err_text e])) (\<lambda>_. and_then
              (check (call (ans_err E) (Node (FormatAndMount diskPath t (sv_fsType sv) (disk_options sv fl))))
                 (\<lambda>_. Statusf Internal ''could not format %s and mount it at %s'' [t, diskPath]))
              (\<lambda>_. ret (Inr True))))"
  have "achieves (no_error_for E (windows_provides t)) succeeded
      (State_Monad.bind (windows_ensureMountPoint E m t (sv_permissions sv) True) ?f)"
  proof (rule achieves_bind [OF chosen_grows(1) [OF assms(1)] windows_ensure_achieves [OF _ assms(1)]])
    show "found_mounted r \<Longrightarrow> grows (?f r)" for r by (auto simp: found_mounted_def keeps_emits)
    show "\<not> found_mounted r \<Longrightarrow> achieves (no_error_for E (windows_provides t)) succeeded (?f r)" for r
      using format by (cases r) (auto simp: found_mounted_def Let_def intro: achieves_return split: option.split)
  qed simp
  then show ?thesis using assms(2) by (simp add: windows_stage_disk_def)
qed

lemma windows_stage_locked_achieves:
  assumes "chosen_mounter E m" "nr_Target req \<noteq> []"
  shows "achieves (no_error_for E (windows_provides (nr_Target req))) succeeded (windows_stage_locked E d m req fl g i sv)"
proof -
  note parts = grows_stage chosen_grows(6,7) [OF assms(1)]
  have disk: "achieves (no_error_for E (windows_provides (nr_Target req))) succeeded
      (and_then (windows_stage_disk E m (nr_VolumeId req) (nr_Target req) sv path fl)
        (\<lambda>more. if more then stage_ownership E (nr_VolumeId req) sv path g else ret (Inr ())))"
    if "isDiskFsType (sv_fsType sv)" for path
    using windows_stage_disk_achieves [OF assms(1) that] by (intro achieves_this parts em.keeps_cases keeps_emits)
  show ?thesis
  proof (cases "isDiskFsType (sv_fsType sv)")
    case True
    then show ?thesis unfolding windows_stage_locked_def Let_def
      by (auto intro!: achieves_next parts disk split: prod.split)
  next
    case False
    then have path: "windows_stage_mount_path sv t = Inr path \<Longrightarrow> path = t" for t path
      by (simp add: windows_stage_mount_path_def)
    have rest: "grows (and_then (windows_stage_disk E m v t sv path fl) (\<lambda>more.
        if more then stage_ownership E v sv path g else ret (Inr ())))" for path v t
      by (intro and_then_emits parts em.keeps_cases keeps_emits)
    show ?thesis unfolding windows_stage_locked_def Let_def
      by (rule achieves_next [OF grows_stage(9)], rule achieves_next [OF grows_stage(1)], rule achieves_lift)
        (auto dest!: path intro!: achieves_next parts
          achieves_this [OF chosen_grows(6) [OF assms(1)] windows_stage_mount_achieves [OF assms] rest] split: prod.split)
  qed
qed


text \<open>A request with the account's key in its secrets.\<close>

definition windows_stage_request :: stage_request where
  "windows_stage_request = sample_stage
     \<lparr>nr_Target := ''c:/stage/globalmount'',
      nr_Secrets := [(''azurestorageaccountname'', ''acc''), (''azurestorageaccountkey'', ''key'')]\<rparr>"


end
