(* ===== verification/CsiCommon.thy ===== *)
theory CsiCommon
  imports Capability
begin

text \<open>
  The driver base every CSI driver shares (\<open>pkg/csi-common/driver.go\<close> and \<open>utils.go\<close>): declared capabilities and the
  checks against them, the endpoint the gRPC server listens on, and the interceptor that logs every request.
\<close>

section \<open>The driver base\<close>

text \<open>
  \<open>CSIDriver\<close>.  A capability of the controller or of the node is the message that wraps its type; only the type is kept.
\<close>

record csi_driver =
  csi_Name :: string
  csi_NodeID :: string
  csi_Version :: string
  csi_Cap :: "rpc_type list"
  csi_VC :: "access_mode list"
  csi_NSCap :: "node_rpc_type list"

text \<open>A missing version is only reported.\<close>

definition NewCSIDriver :: "string \<Rightarrow> string \<Rightarrow> string \<Rightarrow> csi_driver option" where
  "NewCSIDriver name v nodeID =
     (if name = [] then None
      else if nodeID = [] then None
      else Some \<lparr>csi_Name = name, csi_NodeID = nodeID, csi_Version = v, csi_Cap = [], csi_VC = [], csi_NSCap = []\<rparr>)"

text \<open>Each call replaces what was declared before.\<close>

definition AddControllerServiceCapabilities :: "csi_driver \<Rightarrow> rpc_type list \<Rightarrow> csi_driver" where
  "AddControllerServiceCapabilities d cl = d\<lparr>csi_Cap := cl\<rparr>"

definition AddNodeServiceCapabilities :: "csi_driver \<Rightarrow> node_rpc_type list \<Rightarrow> csi_driver" where
  "AddNodeServiceCapabilities d nl = d\<lparr>csi_NSCap := nl\<rparr>"

definition AddVolumeCapabilityAccessModes :: "csi_driver \<Rightarrow> access_mode list \<Rightarrow> access_mode list \<times> csi_driver" where
  "AddVolumeCapabilityAccessModes d vc =
     (vc, d\<lparr>csi_VC := vc\<rparr>)"

definition GetVolumeCapabilityAccessModes :: "csi_driver \<Rightarrow> access_mode list" where
  "GetVolumeCapabilityAccessModes d = csi_VC d"

fun node_rpc_text :: "node_rpc_type \<Rightarrow> string" where
  "node_rpc_text NODE_UNKNOWN = ''UNKNOWN''"
| "node_rpc_text STAGE_UNSTAGE_VOLUME = ''STAGE_UNSTAGE_VOLUME''"
| "node_rpc_text NODE_SINGLE_NODE_MULTI_WRITER = ''SINGLE_NODE_MULTI_WRITER''"
| "node_rpc_text VOLUME_MOUNT_GROUP = ''VOLUME_MOUNT_GROUP''"
| "node_rpc_text GET_VOLUME_STATS = ''GET_VOLUME_STATS''"

definition ValidateNodeServiceRequest :: "csi_driver \<Rightarrow> node_rpc_type \<Rightarrow> goerr option" where
  "ValidateNodeServiceRequest d c =
     (if c = NODE_UNKNOWN \<or> c \<in> set (csi_NSCap d) then None
      else Some (status_error InvalidArgument (node_rpc_text c)))"

lemma ValidateNodeServiceRequest_iff:
  "ValidateNodeServiceRequest d c = None \<longleftrightarrow> c = NODE_UNKNOWN \<or> c \<in> set (csi_NSCap d)"
  by (simp add: ValidateNodeServiceRequest_def)

section \<open>The endpoint\<close>

definition ParseEndpoint :: "string \<Rightarrow> goerr + string \<times> string" where
  "ParseEndpoint ep =
     (if HasPrefix (ToLower ep) ''unix://'' \<or> HasPrefix (ToLower ep) ''tcp://''
      then (let s = SplitN2 ep ''://'' in
            if s ! 1 \<noteq> [] then Inr (s ! 0, s ! 1) else Inl (Fmterr ''Invalid endpoint: %v'' [ep]))
      else Inl (Fmterr ''Invalid endpoint: %v'' [ep]))"

text \<open>
  The socket file of a unix endpoint is removed before the listener is opened; a missing file is no error.  On success
  the answer is the protocol and the address that are listened on.
\<close>

definition ListenEndpoint ::
    "bool \<Rightarrow> (string \<Rightarrow> goerr option) \<Rightarrow> (string \<Rightarrow> string \<Rightarrow> goerr option) \<Rightarrow> string \<Rightarrow> goerr + string \<times> string" where
  "ListenEndpoint windows remove listen endpoint =
     (case ParseEndpoint endpoint of
        Inl err \<Rightarrow> Inl err
      | Inr (proto, addr) \<Rightarrow>
          (let addr = (if proto = ''unix'' \<and> \<not> windows then ''/'' @ addr else addr);
               removal = (if proto = ''unix'' then remove addr else None)
           in case removal of
                Some err \<Rightarrow>
                  if err_kind err \<noteq> OsNotExist then Inl err
                  else (case listen proto addr of Some err \<Rightarrow> Inl err | None \<Rightarrow> Inr (proto, addr))
              | None \<Rightarrow> (case listen proto addr of Some err \<Rightarrow> Inl err | None \<Rightarrow> Inr (proto, addr))))"

text \<open>The index after the split is in range: a prefix that matches up to case holds \<open>://\<close>.\<close>

lemma lower_char_colon: "lower_char c = CHR '':'' \<longleftrightarrow> c = CHR '':''" "lower_char c = CHR ''/'' \<longleftrightarrow> c = CHR ''/''"
  by (cases c; auto simp: lower_char_bits)+

lemma lower_scheme: "HasPrefix (ToLower s) ''://'' \<Longrightarrow> HasPrefix s ''://''"
  by (cases s; cases "tl s"; cases "tl (tl s)") (auto simp: ToLower_def lower_char_colon)

lemma scheme_Contains: "HasPrefix (ToLower s) (p @ ''://'') \<Longrightarrow> Contains s ''://''"
proof (induction p arbitrary: s)
  case Nil
  then show ?case using lower_scheme [of s] by (cases s) auto
next
  case (Cons c p)
  then show ?case by (cases s) (auto simp: ToLower_def)
qed

lemma Cut_scheme:
  assumes "HasPrefix (ToLower ep) ''unix://'' \<or> HasPrefix (ToLower ep) ''tcp://''"
  shows "\<exists>a b. Cut ep ''://'' = Some (a, b)"
proof -
  have "Contains ep ''://''" using assms scheme_Contains [of ep "''unix''"] scheme_Contains [of ep "''tcp''"] by auto
  then show ?thesis using Cut_None_iff [of ep "''://''"] by (cases "Cut ep ''://''") auto
qed

lemma ParseEndpoint_in_range:
  "HasPrefix (ToLower ep) ''unix://'' \<or> HasPrefix (ToLower ep) ''tcp://'' \<Longrightarrow> length (SplitN2 ep ''://'') = 2"
  using Cut_scheme [of ep] by (auto simp: SplitN2_def)

lemma Cut_unix: "Cut (''unix://'' @ addr) ''://'' = Some (''unix'', addr)" "Cut (''tcp://'' @ addr) ''://'' = Some (''tcp'', addr)"
  by simp_all

text \<open>A unix endpoint is listened on at its absolute path, and only the file there is removed first.\<close>

lemma ListenEndpoint_unix:
  assumes "addr \<noteq> []" "case remove (''/'' @ addr) of None \<Rightarrow> True | Some e \<Rightarrow> err_kind e = OsNotExist"
  shows "ListenEndpoint False remove listen (''unix://'' @ addr)
     = (case listen ''unix'' (''/'' @ addr) of Some err \<Rightarrow> Inl err | None \<Rightarrow> Inr (''unix'', ''/'' @ addr))"
proof -
  have "ParseEndpoint (''unix://'' @ addr) = Inr (''unix'', addr)"
    using assms(1) by (simp add: ParseEndpoint_def SplitN2_def ToLower_def lower_char_bits)
  then show ?thesis using assms(2) by (auto simp: ListenEndpoint_def Let_def split: option.splits)
qed

text \<open>The scheme is accepted in any case but compared with \<open>unix\<close> as written: of \<open>UNIX://tmp/csi.sock\<close> no file is
  removed, the path stays relative, and the network asked for is \<open>UNIX\<close>, which no platform has.\<close>

lemma upper_case_endpoint:
  "ListenEndpoint False remove (\<lambda>network _. if network = ''UNIX'' then Some e else None) ''UNIX://tmp/csi.sock'' = Inl e"
  by code_simp

section \<open>Logging\<close>

definition getLogLevel :: "string \<Rightarrow> int" where
  "getLogLevel method =
     (if method = ''/csi.v1.Identity/Probe'' \<or> method = ''/csi.v1.Node/NodeGetCapabilities''
         \<or> method = ''/csi.v1.Node/NodeGetVolumeStats''
      then 6 else 2)"

text \<open>A decoded JSON value: an object, a string, or any other value as its text.\<close>

datatype json = JObject "(string \<times> json) list" | JString string | JOther string

fun json_put :: "(string \<times> json) list \<Rightarrow> string \<Rightarrow> json \<Rightarrow> (string \<times> json) list" where
  "json_put [] k v = [(k, v)]"
| "json_put ((k', v') # m) k v = (if k' = k then (k, v) # m else (k', v') # json_put m k v)"

text \<open>
  \<open>json.Unmarshal\<close> into a map and \<open>json.Marshal\<close> are the arguments \<open>unmarshal\<close> (\<open>None\<close>: an error, or a nil map) and
  \<open>marshal\<close>.  The text is logged unchanged whenever the value to hide is not found.
\<close>

definition stripSensitiveValueByKey ::
    "(string \<Rightarrow> (string \<times> json) list option) \<Rightarrow> ((string \<times> json) list \<Rightarrow> string option)
      \<Rightarrow> string \<Rightarrow> string \<Rightarrow> string" where
  "stripSensitiveValueByKey unmarshal marshal req key =
     (case unmarshal req of
        None \<Rightarrow> req
      | Some parsed \<Rightarrow>
          (case map_of parsed ''volume_context'' of
             Some (JObject volumeContext) \<Rightarrow>
               if map_of volumeContext key = None then req
               else (case marshal (json_put parsed ''volume_context''
                                     (JObject (json_put volumeContext key (JString ''***stripped***'')))) of
                       None \<Rightarrow> req
                     | Some b \<Rightarrow> b)
           | _ \<Rightarrow> req))"

datatype log_line = Info int string string | Error string

text \<open>
  The interceptor: what it logs and what it returns.  \<open>level_enabled\<close> is the verbosity of the process, \<open>strip\<close> the
  request and \<open>strip_resp\<close> the response as \<open>protosanitizer\<close> prints them, without secrets.
\<close>

definition LogGRPC ::
    "(string \<Rightarrow> (string \<times> json) list option) \<Rightarrow> ((string \<times> json) list \<Rightarrow> string option) \<Rightarrow> (int \<Rightarrow> bool)
      \<Rightarrow> ('req \<Rightarrow> string) \<Rightarrow> ('resp \<Rightarrow> string) \<Rightarrow> string \<Rightarrow> ('req \<Rightarrow> goerr + 'resp) \<Rightarrow> 'req
      \<Rightarrow> (goerr + 'resp) \<times> log_line list" where
  "LogGRPC unmarshal marshal level_enabled strip strip_resp method handler req =
     (let level = getLogLevel method;
          calls = [Info level ''GRPC call: %s'' method,
                   Info level ''GRPC request: %s''
                     (stripSensitiveValueByKey unmarshal marshal (strip req) ''csi.storage.k8s.io/serviceAccount.tokens'')];
          answer = handler req
      in case answer of
           Inl err \<Rightarrow> (answer, calls @ [Error (sprintf ''GRPC error: %v'' [err_text err])])
         | Inr resp \<Rightarrow>
             if level_enabled level
             then (answer, calls @ [Info (if strip_resp resp = ''{}'' then 6 else level) ''GRPC response: %s'' (strip_resp resp)])
             else (answer, calls))"

lemma map_of_json_put [simp]: "map_of (json_put m k v) = (map_of m)(k \<mapsto> v)"
  by (induction m k v rule: json_put.induct) (auto simp: fun_eq_iff)

text \<open>Logging never changes the answer of a request.\<close>

lemma LogGRPC_answer: "fst (LogGRPC unmarshal marshal enabled strip strip_resp method handler req) = handler req"
  by (simp add: LogGRPC_def Let_def split: sum.split)

text \<open>The printed request hides the service account tokens: what is logged decodes to a request without them, if \<open>marshal\<close>
  prints what \<open>unmarshal\<close> reads.\<close>

lemma stripped_request:
  assumes "unmarshal req = Some parsed" "map_of parsed ''volume_context'' = Some (JObject ctx)" "map_of ctx key = Some v"
    and "\<And>m. \<exists>t. marshal m = Some t \<and> unmarshal t = Some m"
  shows "\<exists>parsed' ctx'. unmarshal (stripSensitiveValueByKey unmarshal marshal req key) = Some parsed'
     \<and> map_of parsed' ''volume_context'' = Some (JObject ctx') \<and> map_of ctx' key = Some (JString ''***stripped***'')"
proof -
  let ?m = "json_put parsed ''volume_context'' (JObject (json_put ctx key (JString ''***stripped***'')))"
  obtain t where t: "marshal ?m = Some t" "unmarshal t = Some ?m" using assms(4) by blast
  then show ?thesis using assms(1-3) by (simp add: stripSensitiveValueByKey_def)
qed

text \<open>The key is compared exactly, while the driver reads the token under any spelling of the key
  (\<open>getValueInMap\<close>): a context that spells it differently is logged as it is.\<close>

lemma token_logged:
  "stripSensitiveValueByKey (\<lambda>_. Some [(''volume_context'', JObject [(''csi.storage.k8s.io/serviceaccount.tokens'', JString ''t'')])])
     marshal req ''csi.storage.k8s.io/serviceAccount.tokens'' = req
   \<and> getValueInMap [(''csi.storage.k8s.io/serviceaccount.tokens'', ''t'')] serviceAccountTokenField = ''t''"
  by (simp add: stripSensitiveValueByKey_def getValueInMap_def serviceAccountTokenField_def EqualFold_def ToLower_def lower_char_bits)

end
