(* ===== verification/Startup.thy ===== *)
theory Startup
  imports CsiCommon Complex_Main
begin

text \<open>
  Start-up: the flags of the driver (\<open>azurefile_options.go\<close>), \<open>NewDriver\<close> and \<open>Run\<close> (\<open>azurefile.go\<close>), the version and
  the user agent (\<open>version.go\<close>), and how \<open>getCloudProvider\<close> finds the cluster and the cloud configuration (\<open>azure.go\<close>).

  The start reads its surroundings once: files, environment variables, the Kubernetes and Azure libraries are the fields
  of \<open>boot\<close>, functions of what they are asked.  \<open>Run\<close> itself is a program over the driver's state, because it already asks
  Kubernetes for the node.
\<close>

section \<open>Options\<close>

record driver_options =
  o_NodeID :: string
  o_DriverName :: string
  o_EnableAzurefileProxy :: bool
  o_AzureFileProxyEndpoint :: string
  o_CloudConfigSecretName :: string
  o_CloudConfigSecretNamespace :: string
  o_CustomUserAgent :: string
  o_UserAgentSuffix :: string
  o_AllowEmptyCloudConfig :: bool
  o_AllowInlineVolumeKeyAccessWithIdentity :: bool
  o_InlineVolumeSecretAuthz :: string
  o_EnableVHDDiskFeature :: bool
  o_EnableVolumeMountGroup :: bool
  o_EnableGetVolumeStats :: bool
  o_EnableKataCCMount :: bool
  o_AppendMountErrorHelpLink :: bool
  o_MountPermissions :: int
  o_FSGroupChangePolicy :: string
  o_KubeAPIQPS :: rat
  o_KubeAPIBurst :: int
  o_EnableWindowsHostProcess :: bool
  o_RemoveSMBMountOnWindows :: bool
  o_AppendClosetimeoOption :: bool
  o_AppendNoShareSockOption :: bool
  o_AppendNoResvPortOption :: bool
  o_AppendActimeoOption :: bool
  o_UseWinCIMAPI :: bool
  o_SkipMatchingTagCacheExpireInMinutes :: int
  o_VolStatsCacheExpireInMinutes :: int
  o_PrintVolumeStatsCallLogs :: bool
  o_SasTokenExpirationMinutes :: int
  o_WaitForAzCopyTimeoutMinutes :: int
  o_GoMaxProcs :: int
  o_KubeConfig :: string
  o_Endpoint :: string
  o_UseAZNFSForNFSMounts :: bool

text \<open>A flag: how it sets its field, its name and its default.  A \<open>float64\<close> is a rational here.\<close>

datatype flag =
    StringVar "(string \<Rightarrow> string) \<Rightarrow> driver_options \<Rightarrow> driver_options" string string
  | BoolVar "(bool \<Rightarrow> bool) \<Rightarrow> driver_options \<Rightarrow> driver_options" string bool
  | IntVar "(int \<Rightarrow> int) \<Rightarrow> driver_options \<Rightarrow> driver_options" string int
  | Float64Var "(rat \<Rightarrow> rat) \<Rightarrow> driver_options \<Rightarrow> driver_options" string rat

fun flag_name :: "flag \<Rightarrow> string" where
  "flag_name (StringVar u n d) = n"
| "flag_name (BoolVar u n d) = n"
| "flag_name (IntVar u n d) = n"
| "flag_name (Float64Var u n d) = n"

fun set_default :: "flag \<Rightarrow> driver_options \<Rightarrow> driver_options" where
  "set_default (StringVar u n d) x = u (\<lambda>_. d) x"
| "set_default (BoolVar u n d) x = u (\<lambda>_. d) x"
| "set_default (IntVar u n d) x = u (\<lambda>_. d) x"
| "set_default (Float64Var u n d) x = u (\<lambda>_. d) x"

definition DefaultDriverName :: string where "DefaultDriverName = ''file.csi.azure.com''"

definition driver_flags :: "flag list" where
  "driver_flags =
    [StringVar o_NodeID_update ''nodeid'' [],
     StringVar o_DriverName_update ''drivername'' DefaultDriverName,
     BoolVar o_EnableAzurefileProxy_update ''enable-azurefile-proxy'' False,
     StringVar o_AzureFileProxyEndpoint_update ''azurefile-proxy-endpoint'' ''unix://tmp/azurefile-proxy.sock'',
     StringVar o_CloudConfigSecretName_update ''cloud-config-secret-name'' ''azure-cloud-provider'',
     StringVar o_CloudConfigSecretNamespace_update ''cloud-config-secret-namespace'' ''kube-system'',
     StringVar o_CustomUserAgent_update ''custom-user-agent'' [],
     StringVar o_UserAgentSuffix_update ''user-agent-suffix'' [],
     BoolVar o_AllowEmptyCloudConfig_update ''allow-empty-cloud-config'' True,
     BoolVar o_AllowInlineVolumeKeyAccessWithIdentity_update ''allow-inline-volume-key-access-with-identity'' False,
     StringVar o_InlineVolumeSecretAuthz_update ''inline-volume-secret-authz'' ''off'',
     BoolVar o_EnableVHDDiskFeature_update ''enable-vhd'' True,
     BoolVar o_EnableVolumeMountGroup_update ''enable-volume-mount-group'' True,
     BoolVar o_EnableGetVolumeStats_update ''enable-get-volume-stats'' True,
     BoolVar o_EnableKataCCMount_update ''enable-kata-cc-mount'' False,
     BoolVar o_AppendMountErrorHelpLink_update ''append-mount-error-help-link'' True,
     IntVar o_MountPermissions_update ''mount-permissions'' 511,
     StringVar o_FSGroupChangePolicy_update ''fsgroup-change-policy'' [],
     Float64Var o_KubeAPIQPS_update ''kube-api-qps'' 25,
     IntVar o_KubeAPIBurst_update ''kube-api-burst'' 50,
     BoolVar o_EnableWindowsHostProcess_update ''enable-windows-host-process'' False,
     BoolVar o_RemoveSMBMountOnWindows_update ''remove-smb-mount-on-windows'' True,
     BoolVar o_AppendClosetimeoOption_update ''append-closetimeo-option'' False,
     BoolVar o_AppendNoShareSockOption_update ''append-nosharesock-option'' True,
     BoolVar o_AppendNoResvPortOption_update ''append-noresvport-option'' True,
     BoolVar o_AppendActimeoOption_update ''append-actimeo-option'' True,
     BoolVar o_UseWinCIMAPI_update ''use-win-cim-api'' True,
     IntVar o_SkipMatchingTagCacheExpireInMinutes_update ''skip-matching-tag-cache-expire-in-minutes'' 30,
     IntVar o_VolStatsCacheExpireInMinutes_update ''vol-stats-cache-expire-in-minutes'' 10,
     BoolVar o_PrintVolumeStatsCallLogs_update ''print-volume-stats-call-logs'' False,
     IntVar o_SasTokenExpirationMinutes_update ''sas-token-expiration-minutes'' 1440,
     IntVar o_WaitForAzCopyTimeoutMinutes_update ''wait-for-azcopy-timeout-minutes'' 19,
     StringVar o_KubeConfig_update ''kubeconfig'' [],
     StringVar o_Endpoint_update ''endpoint'' ''unix://tmp/csi.sock'',
     IntVar o_GoMaxProcs_update ''max-procs'' 2,
     BoolVar o_UseAZNFSForNFSMounts_update ''use-aznfs-for-nfs-mounts'' False]"

text \<open>Defining a flag stores its default; of a nil receiver there are no flags.\<close>

definition AddFlags :: "driver_options \<Rightarrow> driver_options" where
  "AddFlags x = foldl (\<lambda>x f. set_default f x) x driver_flags"

text \<open>No two flags have the same name (\<open>flag\<close> panics on a flag that is defined twice).\<close>

lemma flag_names_distinct: "distinct (map flag_name driver_flags)"
  by code_simp

text \<open>Every option has a flag: after \<open>AddFlags\<close> nothing is left of what the options held before.\<close>

lemma AddFlags_complete: "AddFlags x = AddFlags y"
  by (cases x; cases y) (simp add: AddFlags_def driver_flags_def)

section \<open>The driver before it runs\<close>

text \<open>
  What \<open>NewDriver\<close> makes of the options: the fields the methods read (\<open>config\<close>, without the cloud), those only \<open>Run\<close>
  reads, and the lifetime of each timed cache in minutes.
\<close>

record driver_start =
  ds_config :: config
  ds_Version :: string
  ds_azurefileProxyEndpoint :: string
  ds_cloudConfigSecretName :: string
  ds_cloudConfigSecretNamespace :: string
  ds_customUserAgent :: string
  ds_userAgentSuffix :: string
  ds_allowEmptyCloudConfig :: bool
  ds_kubeAPIQPS :: rat
  ds_kubeAPIBurst :: int
  ds_enableWindowsHostProcess :: bool
  ds_removeSMBMountOnWindows :: bool
  ds_useWinCIMAPI :: bool
  ds_printVolumeStatsCallLogs :: bool
  ds_kubeconfig :: string
  ds_endpoint :: string
  ds_lifetime :: "cache \<Rightarrow> int"

text \<open>Set at build time; the source's value is \<open>N/A\<close>.\<close>

definition driverVersion :: string where "driverVersion = ''N/A''"

definition cache_lifetime :: "driver_options \<Rightarrow> cache \<Rightarrow> int" where
  "cache_lifetime x c =
     (case c of
        secretCache \<Rightarrow> 1
      | accountSearchCache \<Rightarrow> 1
      | skipMatchingTagCache \<Rightarrow>
          if o_SkipMatchingTagCacheExpireInMinutes x \<le> 0 then 30 else o_SkipMatchingTagCacheExpireInMinutes x
      | accountCache \<Rightarrow> 3
      | dataPlaneAPIAccountCache \<Rightarrow> 10
      | azcopySasTokenCache \<Rightarrow> 15
      | resizeFileShareFailureCache \<Rightarrow> 3
      | volStatsCache \<Rightarrow> if o_VolStatsCacheExpireInMinutes x \<le> 0 then 10 else o_VolStatsCacheExpireInMinutes x
      | subnetCache \<Rightarrow> 10
      | getFileShareSizeCache \<Rightarrow> 10)"

definition NewDriver :: "driver_options \<Rightarrow> driver_start" where
  "NewDriver x =
     \<lparr>ds_config =
        \<lparr>cfg_Name = o_DriverName x, cfg_NodeID = o_NodeID x, enableAzurefileProxy = o_EnableAzurefileProxy x,
         cfg_fsGroupChangePolicy = o_FSGroupChangePolicy x,
         allowInlineVolumeKeyAccessWithIdentity = o_AllowInlineVolumeKeyAccessWithIdentity x,
         inlineVolumeSecretAuthz = o_InlineVolumeSecretAuthz x, enableVHDDiskFeature = o_EnableVHDDiskFeature x,
         enableGetVolumeStats = o_EnableGetVolumeStats x, enableVolumeMountGroup = o_EnableVolumeMountGroup x,
         appendMountErrorHelpLink = o_AppendMountErrorHelpLink x, cfg_mountPermissions = o_MountPermissions x,
         appendClosetimeoOption = o_AppendClosetimeoOption x, appendNoShareSockOption = o_AppendNoShareSockOption x,
         appendNoResvPortOption = o_AppendNoResvPortOption x, appendActimeoOption = o_AppendActimeoOption x,
         enableKataCCMount = o_EnableKataCCMount x, useAZNFSForNFSMounts = o_UseAZNFSForNFSMounts x,
         sasTokenExpirationMinutes = o_SasTokenExpirationMinutes x,
         waitForAzCopyTimeoutMinutes = o_WaitForAzCopyTimeoutMinutes x, requiredAzCopyToTrust = False,
         hasKubeClient = False, hasClientFactory = False, hasAuthProvider = False, hasNetworkFactory = False,
         hasSubnetClient = False, cloud_ResourceGroup = [], cloud_SubscriptionID = [],
         cloud_NetworkSubscriptionID = [], cloud_TenantID = [], cloud_Location = [], cloud_VnetResourceGroup = [],
         cloud_VnetName = [], cloud_SubnetName = [], cloud_StorageEndpointSuffix = [],
         cloud_ActiveDirectoryEndpoint = [], cloud_StorageResource = [], cloud_BackoffRetries = 0,
         cloud_UseManagedIdentity = False, cloud_UserAssignedIdentityID = [], cloud_AADClientID = [],
         cloud_AADClientSecret = []\<rparr>,
      ds_Version = driverVersion, ds_azurefileProxyEndpoint = o_AzureFileProxyEndpoint x,
      ds_cloudConfigSecretName = o_CloudConfigSecretName x,
      ds_cloudConfigSecretNamespace = o_CloudConfigSecretNamespace x, ds_customUserAgent = o_CustomUserAgent x,
      ds_userAgentSuffix = o_UserAgentSuffix x, ds_allowEmptyCloudConfig = o_AllowEmptyCloudConfig x,
      ds_kubeAPIQPS = o_KubeAPIQPS x, ds_kubeAPIBurst = o_KubeAPIBurst x,
      ds_enableWindowsHostProcess = o_EnableWindowsHostProcess x,
      ds_removeSMBMountOnWindows = o_RemoveSMBMountOnWindows x, ds_useWinCIMAPI = o_UseWinCIMAPI x,
      ds_printVolumeStatsCallLogs = o_PrintVolumeStatsCallLogs x, ds_kubeconfig = o_KubeConfig x,
      ds_endpoint = o_Endpoint x, ds_lifetime = cache_lifetime x\<rparr>"

lemma cache_lifetime_pos: "0 < ds_lifetime (NewDriver x) c"
  by (cases c) (simp_all add: NewDriver_def cache_lifetime_def)

section \<open>Version and user agent\<close>

record version_info =
  vi_DriverName :: string
  vi_DriverVersion :: string
  vi_GitCommit :: string
  vi_BuildDate :: string
  vi_GoVersion :: string
  vi_Compiler :: string
  vi_Platform :: string

text \<open>The Go runtime the driver was built with: version, compiler, operating system and architecture.\<close>

record go_runtime =
  rt_Version :: string
  rt_Compiler :: string
  rt_GOOS :: string
  rt_GOARCH :: string

definition gitCommit :: string where "gitCommit = ''N/A''"
definition buildDate :: string where "buildDate = ''N/A''"

definition GetVersion :: "go_runtime \<Rightarrow> string \<Rightarrow> version_info" where
  "GetVersion rt driverName =
     \<lparr>vi_DriverName = driverName, vi_DriverVersion = driverVersion, vi_GitCommit = gitCommit,
      vi_BuildDate = buildDate, vi_GoVersion = rt_Version rt, vi_Compiler = rt_Compiler rt,
      vi_Platform = sprintf ''%s/%s'' [rt_GOOS rt, rt_GOARCH rt]\<rparr>"

definition GetVersionYAML :: "(version_info \<Rightarrow> goerr + string) \<Rightarrow> go_runtime \<Rightarrow> string \<Rightarrow> goerr + string" where
  "GetVersionYAML yaml rt driverName = map_sum id TrimSpace (yaml (GetVersion rt driverName))"

definition GetUserAgent :: "string \<Rightarrow> string \<Rightarrow> string \<Rightarrow> string" where
  "GetUserAgent driverName customUserAgent userAgentSuffix =
     (let customUserAgent = TrimSpace customUserAgent;
          userAgent = (if customUserAgent = [] then sprintf ''%s/%s'' [driverName, driverVersion] else customUserAgent);
          userAgentSuffix = TrimSpace userAgentSuffix
      in if userAgentSuffix \<noteq> [] then userAgent @ '' '' @ userAgentSuffix else userAgent)"

section \<open>The surroundings of the start\<close>

text \<open>What the driver sets and reads of a client configuration of Kubernetes.\<close>

record kube_config =
  kc_Host :: string
  kc_CAFile :: string
  kc_BearerToken :: string
  kc_BearerTokenFile :: string
  kc_QPS :: rat
  kc_Burst :: int

text \<open>
  A client variable of an interface type.  \<open>NilClient\<close> is the value Go stores when \<open>NewForConfig\<close> returns a nil pointer
  and an error: it is not \<open>nil\<close> to a comparison, and every call on it panics.
\<close>

datatype kube_client = NoClient | NilClient | Client kube_config

text \<open>What the driver sets and reads of the cloud configuration.\<close>

record azure_config =
  ac_UserAgent :: string
  ac_TenantID :: string
  ac_SubscriptionID :: string
  ac_NetworkResourceSubscriptionID :: string
  ac_ResourceGroup :: string
  ac_Location :: string
  ac_VnetResourceGroup :: string
  ac_VnetName :: string
  ac_SubnetName :: string
  ac_BackoffRetries :: int
  ac_UseManagedIdentity :: bool
  ac_UserAssignedIdentityID :: string
  ac_AADClientID :: string
  ac_AADClientSecret :: string
  ac_AADClientCertPath :: string
  ac_AADFederatedTokenFile :: string
  ac_UseFederatedWorkloadIdentityExtension :: bool
  ac_UseInstanceMetadata :: bool

record environment =
  en_StorageEndpointSuffix :: string
  en_ActiveDirectoryEndpoint :: string
  en_StorageResource :: string

text \<open>What \<open>InitializeCloudFromConfig\<close> has set up: which of its parts are not nil.\<close>

record cloud_parts =
  cp_AuthProvider :: bool
  cp_ComputeClientFactory :: bool
  cp_NetworkClientFactory :: bool
  cp_SubnetClient :: bool

record account_repo =
  ar_config :: azure_config
  ar_environment :: environment
  ar_parts :: cloud_parts

text \<open>
  The libraries and the machine at the start.  \<open>configloader.Load\<close> answers with a configuration and an error, either of
  which may be absent.
\<close>

record boot =
  goos_windows :: bool
  getenv :: "string \<Rightarrow> string option"
  read_file :: "string \<Rightarrow> goerr + string"
  ca_pool :: "string \<Rightarrow> goerr option"
  err_not_in_cluster :: goerr
  is_not_in_cluster :: "goerr \<Rightarrow> bool"
  build_from_flags :: "string \<Rightarrow> goerr + kube_config option"
  new_for_config :: "kube_config \<Rightarrow> goerr option"
  float32 :: "rat \<Rightarrow> rat"
  load_secret :: "kube_config \<Rightarrow> string \<Rightarrow> string \<Rightarrow> azure_config option \<times> goerr option"
  load_file :: "string \<Rightarrow> azure_config option \<times> goerr option"
  init_cloud :: "azure_config \<Rightarrow> bool \<Rightarrow> cloud_parts \<times> goerr option"
  env_config :: "azure_config \<Rightarrow> goerr + environment"
  new_repository :: "azure_config \<Rightarrow> environment \<Rightarrow> cloud_parts \<Rightarrow> goerr + account_repo"
  runtime_info :: go_runtime
  to_yaml :: "version_info \<Rightarrow> goerr + string"
  new_mounter :: "bool \<Rightarrow> bool \<Rightarrow> goerr option"
  remove_file :: "string \<Rightarrow> goerr option"
  listen_on :: "string \<Rightarrow> string \<Rightarrow> goerr option"
  serve_result :: "goerr option"
  server_stopped :: "goerr \<Rightarrow> bool"

definition getenv_text :: "boot \<Rightarrow> string \<Rightarrow> string" where
  "getenv_text B v = (case getenv B v of None \<Rightarrow> [] | Some x \<Rightarrow> x)"

section \<open>The cluster\<close>

text \<open>\<open>net.JoinHostPort\<close>: a host with a colon (an IPv6 address) is put in brackets.\<close>

definition JoinHostPort :: "string \<Rightarrow> string \<Rightarrow> string" where
  "JoinHostPort host port =
     (if CHR '':'' \<in> set host then ''['' @ host @ '']:'' @ port else host @ '':'' @ port)"

definition inClusterConfig :: "boot \<Rightarrow> bool \<Rightarrow> goerr + kube_config option" where
  "inClusterConfig B enableWindowsHostProcess =
     (let sandbox = getenv_text B ''CONTAINER_SANDBOX_MOUNT_POINT'';
          place = (\<lambda>path. if enableWindowsHostProcess then path_join [sandbox, path] else path);
          tokenFile = place ''/var/run/secrets/kubernetes.io/serviceaccount/token'';
          rootCAFile = place ''/var/run/secrets/kubernetes.io/serviceaccount/ca.crt'';
          host = getenv_text B ''KUBERNETES_SERVICE_HOST'';
          port = getenv_text B ''KUBERNETES_SERVICE_PORT''
      in if enableWindowsHostProcess \<and> sandbox = []
         then Inl (Errorf ''unable to load in-cluster configuration, containerSandboxMountPath must be defined'')
         else if host = [] \<or> port = [] then Inl (err_not_in_cluster B)
         else case read_file B tokenFile of
                Inl err \<Rightarrow> Inl err
              | Inr token \<Rightarrow>
                  Inr (Some \<lparr>kc_Host = ''https://'' @ JoinHostPort host port,
                             kc_CAFile = (if ca_pool B rootCAFile = None then rootCAFile else []),
                             kc_BearerToken = token, kc_BearerTokenFile = tokenFile, kc_QPS = 0, kc_Burst = 0\<rparr>))"

definition getKubeConfig :: "boot \<Rightarrow> string \<Rightarrow> bool \<Rightarrow> goerr + kube_config option" where
  "getKubeConfig B kubeconfig enableWindowsHostProcess =
     (if kubeconfig \<noteq> [] then build_from_flags B kubeconfig else inClusterConfig B enableWindowsHostProcess)"

text \<open>
  The client: none when it is switched off, or when the machine is not in a cluster; any other failure to find the
  configuration ends the start.
\<close>

definition kube_client_of :: "boot \<Rightarrow> string \<Rightarrow> bool \<Rightarrow> rat \<Rightarrow> int \<Rightarrow> goerr + kube_client" where
  "kube_client_of B kubeconfig enableWindowsHostProcess kubeAPIQPS kubeAPIBurst =
     (if kubeconfig = ''no-need-kubeconfig'' then Inr NoClient
      else case getKubeConfig B kubeconfig enableWindowsHostProcess of
             Inr (Some kubeCfg) \<Rightarrow>
               (let kubeCfg = kubeCfg\<lparr>kc_QPS := float32 B kubeAPIQPS, kc_Burst := kubeAPIBurst\<rparr>
                in Inr (if new_for_config B kubeCfg = None then Client kubeCfg else NilClient))
           | Inr None \<Rightarrow> Inl (Fmterr ''failed to get KubeClient: %v'' [''<nil>''])
           | Inl err \<Rightarrow>
               if err_kind err \<noteq> OsNotExist \<and> \<not> is_not_in_cluster B err
               then Inl (Fmterr ''failed to get KubeClient: %v'' [err_text err])
               else Inr NoClient)"

section \<open>The cloud\<close>

text \<open>The configuration from the secret; \<open>None\<close>: the nil client is called.\<close>

definition config_from_secret ::
    "boot \<Rightarrow> kube_client \<Rightarrow> string \<Rightarrow> string \<Rightarrow> (azure_config option \<times> goerr option) option" where
  "config_from_secret B client secretName secretNamespace =
     (if client \<noteq> NoClient \<and> secretName \<noteq> [] \<and> secretNamespace \<noteq> []
      then (case client of
              Client kc \<Rightarrow> Some (load_secret B kc secretName secretNamespace)
            | _ \<Rightarrow> None)
      else Some (None, None))"

definition credential_file :: "boot \<Rightarrow> string" where
  "credential_file B =
     (case getenv B ''AZURE_CREDENTIAL_FILE'' of
        Some f \<Rightarrow>
          if TrimSpace f \<noteq> [] then f
          else if goos_windows B then ''C:'' @ [CHR 0x5C] @ ''k'' @ [CHR 0x5C] @ ''azure.json''
          else ''/etc/kubernetes/azure.json''
      | None \<Rightarrow>
          if goos_windows B then ''C:'' @ [CHR 0x5C] @ ''k'' @ [CHR 0x5C] @ ''azure.json''
          else ''/etc/kubernetes/azure.json'')"

text \<open>The environment of a workload identity overrides the configuration.\<close>

definition workload_environment :: "boot \<Rightarrow> azure_config \<Rightarrow> azure_config" where
  "workload_environment B c =
     (let tenantID = getenv_text B ''AZURE_TENANT_ID'';
          clientID = getenv_text B ''AZURE_CLIENT_ID'';
          federatedTokenFile = getenv_text B ''AZURE_FEDERATED_TOKEN_FILE'';
          c = (if tenantID \<noteq> [] then c\<lparr>ac_TenantID := tenantID\<rparr> else c);
          c = (if clientID \<noteq> [] then c\<lparr>ac_AADClientID := clientID\<rparr> else c)
      in if federatedTokenFile \<noteq> []
         then c\<lparr>ac_AADFederatedTokenFile := federatedTokenFile, ac_UseFederatedWorkloadIdentityExtension := True\<rparr>
         else c)"

definition empty_config :: azure_config where
  "empty_config =
     \<lparr>ac_UserAgent = [], ac_TenantID = [], ac_SubscriptionID = [], ac_NetworkResourceSubscriptionID = [],
      ac_ResourceGroup = [], ac_Location = [], ac_VnetResourceGroup = [], ac_VnetName = [], ac_SubnetName = [],
      ac_BackoffRetries = 0, ac_UseManagedIdentity = False, ac_UserAssignedIdentityID = [], ac_AADClientID = [],
      ac_AADClientSecret = [], ac_AADClientCertPath = [], ac_AADFederatedTokenFile = [],
      ac_UseFederatedWorkloadIdentityExtension = False, ac_UseInstanceMetadata = False\<rparr>"

definition empty_repo :: account_repo where
  "empty_repo =
     \<lparr>ar_config = empty_config,
      ar_environment = \<lparr>en_StorageEndpointSuffix = [], en_ActiveDirectoryEndpoint = [], en_StorageResource = []\<rparr>,
      ar_parts = \<lparr>cp_AuthProvider = False, cp_ComputeClientFactory = False, cp_NetworkClientFactory = False,
                 cp_SubnetClient = False\<rparr>\<rparr>"

text \<open>The repository of a configuration; a failure to initialize the cloud is only logged.  The watch on the certificate
  file, which ends the process when the file changes, is not modelled.\<close>

definition repository_of :: "boot \<Rightarrow> string \<Rightarrow> string \<Rightarrow> bool \<Rightarrow> azure_config \<Rightarrow> goerr + account_repo" where
  "repository_of B nodeID userAgent fromSecret c =
     (let c = workload_environment B (c\<lparr>ac_UserAgent := userAgent\<rparr>);
          (parts, _) = init_cloud B c fromSecret
      in case env_config B c of
           Inl err \<Rightarrow> Inl (Fmterr ''failed to get AzureCloudConfigAndEnvConfig: %v'' [err_text err])
         | Inr en \<Rightarrow>
             (let c = (if nodeID = [] then c\<lparr>ac_UseInstanceMetadata := False\<rparr> else c)
              in case new_repository B c en parts of
                   Inl err \<Rightarrow> Inl (wrapped err (Fmterr ''failed to create storage repository: %v'' [err_text err]))
                 | Inr repo \<Rightarrow> Inr repo))"

definition getCloudProvider ::
    "boot \<Rightarrow> string \<Rightarrow> string \<Rightarrow> string \<Rightarrow> string \<Rightarrow> string \<Rightarrow> bool \<Rightarrow> bool \<Rightarrow> rat \<Rightarrow> int
      \<Rightarrow> goerr + account_repo \<times> kube_client" where
  "getCloudProvider B kubeconfig nodeID secretName secretNamespace userAgent allowEmptyCloudConfig
       enableWindowsHostProcess kubeAPIQPS kubeAPIBurst =
     (case kube_client_of B kubeconfig enableWindowsHostProcess kubeAPIQPS kubeAPIBurst of
        Inl err \<Rightarrow> Inl err
      | Inr client \<Rightarrow>
          (case config_from_secret B client secretName secretNamespace of
             None \<Rightarrow> Inl (panic ''nil Clientset'')
           | Some (config, err) \<Rightarrow>
               (let fromSecret = (err = None \<and> config \<noteq> None);
                    (config, err) = (if config = None then load_file B (credential_file B) else (config, err))
                in case config of
                     None \<Rightarrow>
                       if allowEmptyCloudConfig then Inr (empty_repo, client)
                       else Inl (Fmterr ''no cloud config provided, error: %v'' [show_err err])
                   | Some c \<Rightarrow> map_sum id (\<lambda>repo. (repo, client)) (repository_of B nodeID userAgent fromSecret c))))"

section \<open>Running\<close>

definition azcopyTrustedSuffixesAAD :: string where
  "azcopyTrustedSuffixesAAD =
     ''*.core.windows.net;*.core.chinacloudapi.cn;*.core.cloudapi.de;*.core.usgovcloudapi.net;*.storage.azure.net''"

definition defaultConfidentialContainerLabel :: string where
  "defaultConfidentialContainerLabel = ''kubernetes.azure.com/kata-cc-isolation''"

text \<open>\<open>d.cloud\<close> and \<open>d.kubeClient\<close> after \<open>getCloudProvider\<close>.\<close>

definition with_cloud :: "config \<Rightarrow> account_repo \<Rightarrow> kube_client \<Rightarrow> config" where
  "with_cloud d repo client =
     (let c = ar_config repo; en = ar_environment repo; p = ar_parts repo
      in d\<lparr>hasKubeClient := client \<noteq> NoClient, hasClientFactory := cp_ComputeClientFactory p,
           hasAuthProvider := cp_AuthProvider p, hasNetworkFactory := cp_NetworkClientFactory p,
           hasSubnetClient := cp_SubnetClient p, cloud_ResourceGroup := ac_ResourceGroup c,
           cloud_SubscriptionID := ac_SubscriptionID c,
           cloud_NetworkSubscriptionID := ac_NetworkResourceSubscriptionID c, cloud_TenantID := ac_TenantID c,
           cloud_Location := ac_Location c, cloud_VnetResourceGroup := ac_VnetResourceGroup c,
           cloud_VnetName := ac_VnetName c, cloud_SubnetName := ac_SubnetName c,
           cloud_StorageEndpointSuffix := en_StorageEndpointSuffix en,
           cloud_ActiveDirectoryEndpoint := en_ActiveDirectoryEndpoint en,
           cloud_StorageResource := en_StorageResource en, cloud_BackoffRetries := ac_BackoffRetries c,
           cloud_UseManagedIdentity := ac_UseManagedIdentity c,
           cloud_UserAssignedIdentityID := ac_UserAssignedIdentityID c, cloud_AADClientID := ac_AADClientID c,
           cloud_AADClientSecret := ac_AADClientSecret c\<rparr>)"

text \<open>The suffix is looked for as a text anywhere in the list.\<close>

definition trust_needed :: "config \<Rightarrow> bool" where
  "trust_needed d \<longleftrightarrow>
     getStorageEndPointSuffix d \<noteq> [] \<and> \<not> Contains azcopyTrustedSuffixesAAD (getStorageEndPointSuffix d)"

text \<open>A driver that serves: its configuration and the capabilities it declares.\<close>

record running =
  rn_config :: config
  rn_base :: csi_driver

text \<open>Everything up to the server; \<open>Inl\<close> is the message the process ends with.\<close>

definition start_driver :: "boot \<Rightarrow> driver_start \<Rightarrow> goerr + running" where
  "start_driver B ds =
     (let d = ds_config ds in
      case GetVersionYAML (to_yaml B) (runtime_info B) (cfg_Name d) of
        Inl err \<Rightarrow> Inl err
      | Inr _ \<Rightarrow>
          (let userAgent = GetUserAgent (cfg_Name d) (ds_customUserAgent ds) (ds_userAgentSuffix ds)
           in case getCloudProvider B (ds_kubeconfig ds) (cfg_NodeID d) (ds_cloudConfigSecretName ds)
                     (ds_cloudConfigSecretNamespace ds) userAgent (ds_allowEmptyCloudConfig ds)
                     (ds_enableWindowsHostProcess ds) (ds_kubeAPIQPS ds) (ds_kubeAPIBurst ds) of
                Inl err \<Rightarrow> Inl (wrapped err (Fmterr ''failed to get Azure Cloud Provider, error: %v'' [err_text err]))
              | Inr (repo, client) \<Rightarrow>
                  (let d = with_cloud d repo client;
                       d = d\<lparr>requiredAzCopyToTrust := trust_needed d\<rparr>
                   in case new_mounter B (ds_enableWindowsHostProcess ds) (ds_useWinCIMAPI ds) of
                        Some err \<Rightarrow> Inl (Fmterr ''Failed to get safe mounter. Error: %v'' [err_text err])
                      | None \<Rightarrow>
                          if client = NilClient \<and> cfg_NodeID d \<noteq> [] then Inl (panic ''nil Clientset'')
                          else
                            let base = \<lparr>csi_Name = cfg_Name d, csi_NodeID = cfg_NodeID d, csi_Version = ds_Version ds,
                                        csi_Cap = [], csi_VC = [], csi_NSCap = []\<rparr>;
                                base = AddControllerServiceCapabilities base controller_Cap;
                                base = snd (AddVolumeCapabilityAccessModes base volumeCaps)
                            in Inr \<lparr>rn_config = d, rn_base = AddNodeServiceCapabilities base (node_Cap d)\<rparr>)))"

datatype run_end = Fatal goerr | Returned "goerr option"

text \<open>
  The kata label of the node is read once; then the driver listens and serves until the server ends.  The state the
  requests start from is the one this leaves.
\<close>

definition Run :: "boot \<Rightarrow> env \<Rightarrow> driver_start \<Rightarrow> (run_end \<times> running option) prog" where
  "Run B E ds =
     (case start_driver B ds of
        Inl err \<Rightarrow> State_Monad.return (Fatal err, None)
      | Inr r \<Rightarrow> do {
          kata \<leftarrow> isKataNode_check E (rn_config r) (cfg_NodeID (rn_config r)) defaultConfidentialContainerLabel;
          modify (\<lambda>s. s\<lparr>isKataNode := kata\<rparr>);
          State_Monad.return
            (case ListenEndpoint (goos_windows B) (remove_file B) (listen_on B) (ds_endpoint ds) of
               Inl err \<Rightarrow> (Fatal (Fmterr ''failed to listen endpoint: %v'' [err_text err]), None)
             | Inr _ \<Rightarrow>
                 (case serve_result B of
                    None \<Rightarrow> (Returned None, Some r)
                  | Some err \<Rightarrow> (Returned (if server_stopped B err then None else Some err), Some r))) })"

section \<open>What a started driver is\<close>

lemma start_driver_Inr:
  assumes "start_driver B ds = Inr r"
  obtains repo client where
    "getCloudProvider B (ds_kubeconfig ds) (cfg_NodeID (ds_config ds)) (ds_cloudConfigSecretName ds)
       (ds_cloudConfigSecretNamespace ds)
       (GetUserAgent (cfg_Name (ds_config ds)) (ds_customUserAgent ds) (ds_userAgentSuffix ds))
       (ds_allowEmptyCloudConfig ds) (ds_enableWindowsHostProcess ds) (ds_kubeAPIQPS ds) (ds_kubeAPIBurst ds)
     = Inr (repo, client)"
    and "rn_config r = (with_cloud (ds_config ds) repo client)
       \<lparr>requiredAzCopyToTrust := trust_needed (with_cloud (ds_config ds) repo client)\<rparr>"
    and "csi_Cap (rn_base r) = controller_Cap" "csi_NSCap (rn_base r) = node_Cap (rn_config r)"
    and "csi_VC (rn_base r) = volumeCaps"
  using assms
  by (auto simp: start_driver_def Let_def AddControllerServiceCapabilities_def AddVolumeCapabilityAccessModes_def
      AddNodeServiceCapabilities_def split: sum.splits option.splits if_splits)

text \<open>A driver that has started accepts every request its handlers serve: each controller capability and the staging of
  volumes are declared, statistics exactly where the options enable them, and the access modes are the supported ones.\<close>

theorem started_driver_serves:
  assumes "start_driver B ds = Inr r"
  shows "(\<forall>c. ValidateControllerServiceRequest (csi_Cap (rn_base r)) c = None)
    \<and> ValidateNodeServiceRequest (rn_base r) STAGE_UNSTAGE_VOLUME = None
    \<and> (ValidateNodeServiceRequest (rn_base r) GET_VOLUME_STATS = None \<longleftrightarrow> enableGetVolumeStats (rn_config r))
    \<and> (\<forall>v m. hasSupport (v\<lparr>vc_block := False, vc_mode := Some m\<rparr>) = None \<longleftrightarrow> m \<in> set (csi_VC (rn_base r)))"
proof -
  have "ValidateControllerServiceRequest controller_Cap c = None" for c
    by (cases c) (simp_all add: ValidateControllerServiceRequest_def controller_Cap_def)
  then show ?thesis
    using assms
    by (auto elim!: start_driver_Inr simp: ValidateNodeServiceRequest_def node_Cap_def hasSupport_def GetMode_def)
qed

text \<open>A machine outside a cluster with no file on it: the driver with its default options starts there.\<close>

definition bare_machine :: boot where
  "bare_machine =
     \<lparr>goos_windows = False, getenv = (\<lambda>_. None), read_file = (\<lambda>_. Inl (Errorf ''no file'')), ca_pool = (\<lambda>_. None),
      err_not_in_cluster = Errorf ''not in cluster'', is_not_in_cluster = (\<lambda>_. True), build_from_flags = (\<lambda>_. Inr None),
      new_for_config = (\<lambda>_. None), float32 = (\<lambda>q. q), load_secret = (\<lambda>_ _ _. (None, None)),
      load_file = (\<lambda>_. (None, None)),
      init_cloud = (\<lambda>_ _. (ar_parts empty_repo, None)), env_config = (\<lambda>_. Inr (ar_environment empty_repo)),
      new_repository = (\<lambda>_ _ _. Inr empty_repo),
      runtime_info = \<lparr>rt_Version = [], rt_Compiler = [], rt_GOOS = ''linux'', rt_GOARCH = ''amd64''\<rparr>,
      to_yaml = (\<lambda>_. Inr []), new_mounter = (\<lambda>_ _. None), remove_file = (\<lambda>_. None), listen_on = (\<lambda>_ _. None),
      serve_result = None, server_stopped = (\<lambda>_. False)\<rparr>"

lemma bare_machine_starts: "\<exists>r. start_driver bare_machine (NewDriver (AddFlags x)) = Inr r"
  by (simp add: start_driver_def bare_machine_def NewDriver_def AddFlags_def driver_flags_def GetVersionYAML_def
      getCloudProvider_def kube_client_of_def getKubeConfig_def inClusterConfig_def getenv_text_def config_from_secret_def
      Let_def split: prod.split)

theorem started_driver_serves_witness:
  "\<forall>x. \<exists>r. start_driver bare_machine (NewDriver (AddFlags x)) = Inr r
     \<and> ValidateNodeServiceRequest (rn_base r) STAGE_UNSTAGE_VOLUME = None"
proof
  fix x
  obtain r where "start_driver bare_machine (NewDriver (AddFlags x)) = Inr r" using bare_machine_starts by blast
  with started_driver_serves [OF this]
  show "\<exists>r. start_driver bare_machine (NewDriver (AddFlags x)) = Inr r
     \<and> ValidateNodeServiceRequest (rn_base r) STAGE_UNSTAGE_VOLUME = None" by blast
qed

section \<open>Without a cloud configuration\<close>

text \<open>No configuration was found, neither in the secret nor in the file.\<close>

definition no_config :: "boot \<Rightarrow> driver_start \<Rightarrow> bool" where
  "no_config B ds \<longleftrightarrow>
     (\<forall>client. case config_from_secret B client (ds_cloudConfigSecretName ds) (ds_cloudConfigSecretNamespace ds) of
        None \<Rightarrow> True | Some (config, _) \<Rightarrow> config = None)
     \<and> fst (load_file B (credential_file B)) = None"

lemma no_config_provider:
  assumes "no_config B ds"
  shows "getCloudProvider B kubeconfig nodeID (ds_cloudConfigSecretName ds) (ds_cloudConfigSecretNamespace ds) ua allow wh qps burst
     = Inr (repo, client) \<Longrightarrow> allow \<and> repo = empty_repo"
proof -
  assume a: "getCloudProvider B kubeconfig nodeID (ds_cloudConfigSecretName ds) (ds_cloudConfigSecretNamespace ds) ua
      allow wh qps burst = Inr (repo, client)"
  obtain c where c: "kube_client_of B kubeconfig wh qps burst = Inr c"
    using a by (auto simp: getCloudProvider_def split: sum.splits)
  obtain e where e: "config_from_secret B c (ds_cloudConfigSecretName ds) (ds_cloudConfigSecretNamespace ds) = Some (None, e)"
    using a c assms by (fastforce simp: getCloudProvider_def no_config_def split: option.splits prod.splits)
  obtain e' where "load_file B (credential_file B) = (None, e')" using assms
    by (cases "load_file B (credential_file B)") (simp add: no_config_def)
  with a c e show ?thesis by (auto simp: getCloudProvider_def Let_def split: if_splits)
qed

text \<open>
  Without a cloud configuration the driver only starts where the options allow it; it then has no client of Azure, and
  an update of service endpoints panics instead of answering that there is no subnet client.
\<close>

lemma start_without_config:
  assumes "no_config B ds" "start_driver B ds = Inr r"
  shows "ds_allowEmptyCloudConfig ds \<and> \<not> hasClientFactory (rn_config r) \<and> \<not> hasAuthProvider (rn_config r)
    \<and> result (updateSubnetServiceEndpoints E (rn_config r) rg vnet sn) s = ([], Some (panic ''nil NetworkClientFactory''))"
  using assms(2)
proof (rule start_driver_Inr)
  fix repo client
  assume p: "getCloudProvider B (ds_kubeconfig ds) (cfg_NodeID (ds_config ds)) (ds_cloudConfigSecretName ds)
       (ds_cloudConfigSecretNamespace ds)
       (GetUserAgent (cfg_Name (ds_config ds)) (ds_customUserAgent ds) (ds_userAgentSuffix ds))
       (ds_allowEmptyCloudConfig ds) (ds_enableWindowsHostProcess ds) (ds_kubeAPIQPS ds) (ds_kubeAPIBurst ds)
     = Inr (repo, client)"
    and r: "rn_config r = (with_cloud (ds_config ds) repo client)
       \<lparr>requiredAzCopyToTrust := trust_needed (with_cloud (ds_config ds) repo client)\<rparr>"
  from no_config_provider [OF assms(1) p] show ?thesis
    by (simp add: r with_cloud_def Let_def empty_repo_def updateSubnetServiceEndpoints_def result_def run_simps)
qed

end
