(* ===== verification/Process.thy ===== *)
theory Process
  imports Azcopy Startup
begin

text \<open>
  The processes around the driver: \<open>main\<close> of \<open>azurefileplugin\<close> with its metrics endpoint, the watch on the certificate file
  (\<open>pkg/filewatcher\<close>), and the mount proxy (\<open>pkg/azurefile-proxy\<close>), which mounts on behalf of the driver's container.
\<close>

section \<open>The plugin\<close>

definition trapClosedConnErr :: "goerr option \<Rightarrow> goerr option" where
  "trapClosedConnErr err =
     (case err of
        None \<Rightarrow> None
      | Some e \<Rightarrow> if Contains (err_text e) ''use of closed network connection'' then None else Some e)"

text \<open>\<open>exportMetrics\<close>: the address that is served, if any; a failure to listen is only logged.\<close>

definition exportMetrics :: "(string \<Rightarrow> string \<Rightarrow> goerr option) \<Rightarrow> string \<Rightarrow> string option" where
  "exportMetrics listen metricsAddress =
     (if metricsAddress = [] then None
      else if listen ''tcp'' metricsAddress \<noteq> None then None
      else Some metricsAddress)"

text \<open>
  How the process ends: \<open>klog.Fatal\<close> with an error, or \<open>exit\<close> with a code after printing a text.  The driver is built
  from the options and runs until its server ends.
\<close>

datatype exit = FatalExit goerr | Exit int string

definition handle :: "boot \<Rightarrow> env \<Rightarrow> driver_options \<Rightarrow> goerr option prog" where
  "handle B E driverOptions = do {
     (r, _) \<leftarrow> Run B E (NewDriver driverOptions);
     ret (case r of Fatal err \<Rightarrow> Some err | Returned err \<Rightarrow> err) }"

definition plugin_main :: "boot \<Rightarrow> env \<Rightarrow> bool \<Rightarrow> driver_options \<Rightarrow> exit prog" where
  "plugin_main B E version driverOptions =
     (if version
      then ret (case GetVersionYAML (to_yaml B) (runtime_info B) (o_DriverName driverOptions) of
                  Inl err \<Rightarrow> FatalExit err | Inr info \<Rightarrow> Exit 0 info)
      else do {
        err \<leftarrow> handle B E driverOptions;
        ret (case err of Some e \<Rightarrow> FatalExit e | None \<Rightarrow> Exit 0 []) })"

section \<open>The file watcher\<close>

text \<open>
  The watcher is started by the first call only (\<open>sync.Once\<close>): the state says whether that call was made.  \<open>eval\<close> is
  \<open>filepath.EvalSymlinks\<close>, \<open>new_watcher\<close> and \<open>add\<close> are the library.  The second component of the answer is the path that
  is watched from now on.
\<close>

definition checkForFileChanges ::
    "goerr option \<Rightarrow> (string \<Rightarrow> goerr option) \<Rightarrow> string \<Rightarrow> goerr option \<times> string option" where
  "checkForFileChanges new_watcher add path =
     (case new_watcher of
        Some err \<Rightarrow> (Some err, None)
      | None \<Rightarrow> (add path, if add path = None then Some path else None))"

definition WatchFileForChanges ::
    "(string \<Rightarrow> goerr + string) \<Rightarrow> goerr option \<Rightarrow> (string \<Rightarrow> goerr option) \<Rightarrow> bool \<Rightarrow> string
      \<Rightarrow> (goerr option \<times> string option) \<times> bool" where
  "WatchFileForChanges eval new_watcher add once fileToWatch =
     (if once then ((None, None), once)
      else case eval fileToWatch of
             Inl err \<Rightarrow> ((Some err, None), True)
           | Inr file_path \<Rightarrow> (checkForFileChanges new_watcher add file_path, True))"

text \<open>One round of the watching loop: a write, a change of mode or a removal ends the process with code 0.\<close>

datatype file_op = Op_Create | Op_Write | Op_Remove | Op_Rename | Op_Chmod

datatype watch_event =
    FileEvent bool string "file_op list"
  | WatchError bool goerr

fun ends_process :: "watch_event \<Rightarrow> bool" where
  "ends_process (FileEvent ok name ops) \<longleftrightarrow>
     ok \<and> (Op_Write \<in> set ops \<or> Op_Chmod \<in> set ops \<or> Op_Remove \<in> set ops)"
| "ends_process (WatchError ok err) \<longleftrightarrow> False"

text \<open>The loop over the events that arrive: the number of the event the process exits at.\<close>

fun watch_loop :: "watch_event list \<Rightarrow> nat option" where
  "watch_loop [] = None"
| "watch_loop (e # es) = (if ends_process e then Some 0 else map_option Suc (watch_loop es))"

lemma watch_loop_first:
  "watch_loop es = Some n \<longleftrightarrow> n < length es \<and> ends_process (es ! n) \<and> (\<forall>i < n. \<not> ends_process (es ! i))"
proof (induction es arbitrary: n)
  case (Cons e es)
  show ?case by (cases n) (auto simp: Cons.IH nth_Cons split: nat.splits)
qed simp

text \<open>A second file is never watched, and the caller is not told: every call after the first returns no error, even when
  the first one failed.\<close>

lemma watched_once:
  assumes "WatchFileForChanges eval nw add once f = (r, once')"
  shows "WatchFileForChanges eval' nw' add' once' g = ((None, None), True)"
  using assms by (auto simp: WatchFileForChanges_def split: if_splits sum.splits)

section \<open>The mount proxy\<close>

definition MountTimeoutInSec :: int where "MountTimeoutInSec = 90"

definition proxy_timeout :: int where "proxy_timeout = MountTimeoutInSec - 2"

definition MountAzureFile ::
    "env \<Rightarrow> string \<Rightarrow> string \<Rightarrow> string \<Rightarrow> string list \<Rightarrow> string list \<Rightarrow> (goerr + unit) prog" where
  "MountAzureFile E source target fstype options sensitiveOptions = do {
     err \<leftarrow> WaitUntilTimeout E (show_int proxy_timeout)
              (call (ans_err E) (Node (Mount source target fstype options sensitiveOptions)))
              (ret (Some (Fmterr ''mount operation timed out after %d seconds: source=%s, target=%s''
                            [show_int proxy_timeout, source, target])));
     ret (case err of
            Some e \<Rightarrow> Inl (Fmterr ''azurefile mount failed: %v'' [err_text e])
          | None \<Rightarrow> Inr ()) }"

text \<open>The proxy listens on its endpoint like the driver, but its unix path is absolute on every system.\<close>

definition proxy_listen ::
    "(string \<Rightarrow> goerr option) \<Rightarrow> (string \<Rightarrow> string \<Rightarrow> goerr option) \<Rightarrow> string \<Rightarrow> goerr + string \<times> string" where
  "proxy_listen remove listen endpoint =
     (case ParseEndpoint endpoint of
        Inl err \<Rightarrow> Inl (Fmterr ''failed to parse endpoint %v'' [err_text err])
      | Inr (proto, addr) \<Rightarrow>
          (let addr = (if proto = ''unix'' then ''/'' @ addr else addr);
               removal = (if proto = ''unix'' then remove addr else None)
           in case removal of
                Some err \<Rightarrow>
                  if err_kind err \<noteq> OsNotExist then Inl (Fmterr ''Failed to remove %s, error: %s'' [addr, err_text err])
                  else (case listen proto addr of Some err \<Rightarrow> Inl err | None \<Rightarrow> Inr (proto, addr))
              | None \<Rightarrow> (case listen proto addr of Some err \<Rightarrow> Inl err | None \<Rightarrow> Inr (proto, addr))))"

text \<open>The proxy's deadline ends before the driver's, so the driver sees the proxy's own message.\<close>

lemma proxy_timeout_first: "0 < proxy_timeout \<and> proxy_timeout < MountTimeoutInSec"
  by (simp add: proxy_timeout_def MountTimeoutInSec_def)

text \<open>A mount is asked for exactly once and reported as done only if it did not fail and was in time.\<close>

lemma proxy_mounts_once:
  assumes "run_state (MountAzureFile E src tgt ft opts sens) s = (r, t)"
  shows "trace t = trace s @ [Node (Mount src tgt ft opts sens), Tool (Timeout (show_int proxy_timeout))]"
    and "r = Inr () \<longleftrightarrow> ans_err E (trace s) (Node (Mount src tgt ft opts sens)) = None
      \<and> \<not> ans_flag E (trace s @ [Node (Mount src tgt ft opts sens)]) (Tool (Timeout (show_int proxy_timeout)))"
  using assms
  by (auto simp: MountAzureFile_def WaitUntilTimeout_def run_simps split: option.splits if_splits prod.splits)

lemma plugin_exit_zero:
  "result (plugin_main B E False x) s = Exit 0 [] \<longleftrightarrow> result (handle B E x) s = None"
  by (cases "run_state (handle B E x) s") (auto simp: plugin_main_def result_def run_simps split: option.splits)

end
