(* ===== verification/Metrics.thy ===== *)
theory Metrics
  imports ErrorClass GoMaps
begin

text \<open>
  Metrics of CSI operations (\<open>pkg/metrics/metrics.go\<close>): the context of one operation and what its end records.

  The registry holds the four vectors: a histogram is the list of its observations per label values, a counter a number
  per label values.  Time is a number of nanoseconds; a duration is observed as such (the code divides it into seconds).
\<close>

section \<open>The registry\<close>

definition subSystem :: string where "subSystem = ''azurefile_csi_driver''"
definition Protocol :: string where "Protocol = ''protocol''"
definition StorageAccountType :: string where "StorageAccountType = ''storage_account_type''"
definition MountErrorReason :: string where "MountErrorReason = ''mount_error_reason''"
definition StorageAccount :: string where "StorageAccount = ''storage_account''"
definition SubscriptionID :: string where "SubscriptionID = ''subscription_id''"

record registry =
  operationDuration :: "string list \<Rightarrow> int list"
  operationDurationWithLabels :: "string list \<Rightarrow> int list"
  operationTotal :: "string list \<Rightarrow> nat"
  mountOperationsTotal :: "string list \<Rightarrow> nat"

definition observe :: "('k \<Rightarrow> int list) \<Rightarrow> 'k \<Rightarrow> int \<Rightarrow> 'k \<Rightarrow> int list" where
  "observe h k x = h(k := h k @ [x])"

definition increment :: "('k \<Rightarrow> nat) \<Rightarrow> 'k \<Rightarrow> 'k \<Rightarrow> nat" where
  "increment c k = c(k := Suc (c k))"

section \<open>The context of an operation\<close>

text \<open>\<open>CSIMetricContext\<close>; a nil label map is \<open>None\<close>.\<close>

record metric_context =
  mc_operation :: string
  mc_volumeContext :: "string list"
  mc_start :: int
  mc_labels :: "smap option"
  mc_logLevel :: int

definition NewCSIMetricContext :: "int \<Rightarrow> string \<Rightarrow> metric_context" where
  "NewCSIMetricContext now operation =
     \<lparr>mc_operation = operation, mc_volumeContext = [], mc_start = now, mc_labels = Some [], mc_logLevel = 3\<rparr>"

definition WithBasicVolumeInfo :: "metric_context \<Rightarrow> string \<Rightarrow> string \<Rightarrow> string \<Rightarrow> metric_context" where
  "WithBasicVolumeInfo mc resourceGroup subscriptionID source =
     mc\<lparr>mc_volumeContext := mc_volumeContext mc
       @ (if resourceGroup \<noteq> [] then [''resource_group'', ToLower resourceGroup] else [])
       @ (if subscriptionID \<noteq> [] then [''subscription_id'', subscriptionID] else [])
       @ (if source \<noteq> [] then [''source'', source] else [])\<rparr>"

definition WithAdditionalVolumeInfo :: "metric_context \<Rightarrow> string list \<Rightarrow> metric_context" where
  "WithAdditionalVolumeInfo mc keyValuePairs =
     (if length keyValuePairs mod 2 \<noteq> 0 then mc
      else mc\<lparr>mc_volumeContext := mc_volumeContext mc @ keyValuePairs\<rparr>)"

definition WithLabel :: "metric_context \<Rightarrow> string \<Rightarrow> string \<Rightarrow> metric_context" where
  "WithLabel mc key value =
     mc\<lparr>mc_labels := Some (map_put (case mc_labels mc of None \<Rightarrow> [] | Some m \<Rightarrow> m) key value)\<rparr>"

definition WithLogLevel :: "metric_context \<Rightarrow> int \<Rightarrow> metric_context" where
  "WithLogLevel mc level = mc\<lparr>mc_logLevel := level\<rparr>"

definition label :: "metric_context \<Rightarrow> string \<Rightarrow> string" where
  "label mc key = map_get (case mc_labels mc of None \<Rightarrow> [] | Some m \<Rightarrow> m) key"

text \<open>The pairs of an even list of labels, set one after the other.\<close>

fun with_labels :: "metric_context \<Rightarrow> string list \<Rightarrow> metric_context" where
  "with_labels mc (k # v # kvs) = with_labels (WithLabel mc k v) kvs"
| "with_labels mc kvs = mc"

section \<open>The end of an operation\<close>

text \<open>The log line, when its level is enabled, holds the latency and the volume's context; it is the second component.\<close>

definition Observe :: "(int \<Rightarrow> bool) \<Rightarrow> int \<Rightarrow> metric_context \<Rightarrow> bool \<Rightarrow> registry \<Rightarrow> registry \<times> string list" where
  "Observe enabled now mc success r =
     (let duration = now - mc_start mc;
          successStr = show_bool success;
          k = [mc_operation mc, successStr];
          r = r\<lparr>operationDuration := observe (operationDuration r) k duration,
                operationTotal := increment (operationTotal r) k\<rparr>;
          r = (if mc_labels mc = None \<or> mc_labels mc = Some [] then r
               else r\<lparr>operationDurationWithLabels := observe (operationDurationWithLabels r)
                        (k @ [label mc Protocol, label mc StorageAccountType]) duration\<rparr>)
      in (r, if enabled (mc_logLevel mc)
             then [''latency_seconds'', show_int duration, ''request'', subSystem @ ''_'' @ mc_operation mc,
                   ''success'', successStr] @ mc_volumeContext mc
             else []))"

definition ObserveWithLabels ::
    "(int \<Rightarrow> bool) \<Rightarrow> int \<Rightarrow> metric_context \<Rightarrow> bool \<Rightarrow> string list \<Rightarrow> registry
      \<Rightarrow> metric_context \<times> registry \<times> string list" where
  "ObserveWithLabels enabled now mc success labelPairs r =
     (let mc = (if length labelPairs mod 2 \<noteq> 0 then mc else with_labels mc labelPairs)
      in (mc, Observe enabled now mc success r))"

definition ObserveMountWithLabels ::
    "metric_context \<Rightarrow> bool \<Rightarrow> string list \<Rightarrow> registry \<Rightarrow> metric_context \<times> registry" where
  "ObserveMountWithLabels mc success labelPairs r =
     (let mc = (if length labelPairs mod 2 = 0 then with_labels mc labelPairs else mc);
          account = (if \<not> success then ToLower (label mc StorageAccount) else []);
          subscriptionID = (if \<not> success then ToLower (label mc SubscriptionID) else [])
      in (mc, r\<lparr>mountOperationsTotal := increment (mountOperationsTotal r)
                 [mc_operation mc, show_bool success, label mc Protocol, account, subscriptionID,
                  label mc MountErrorReason]\<rparr>))"

section \<open>What the registry shows\<close>

definition empty_registry :: registry where
  "empty_registry = \<lparr>operationDuration = (\<lambda>_. []), operationDurationWithLabels = (\<lambda>_. []),
     operationTotal = (\<lambda>_. 0), mountOperationsTotal = (\<lambda>_. 0)\<rparr>"

text \<open>The registries any number of operations, in any order, can leave.\<close>

inductive recorded :: "registry \<Rightarrow> bool" where
  start: "recorded empty_registry"
| operation: "recorded r \<Longrightarrow> recorded (fst (Observe enabled now mc success r))"
| labelled: "recorded r \<Longrightarrow> recorded (fst (snd (ObserveWithLabels enabled now mc success kvs r)))"
| mount: "recorded r \<Longrightarrow> recorded (snd (ObserveMountWithLabels mc success kvs r))"

lemma Observe_fields:
  "operationTotal (fst (Observe enabled now mc success r)) = increment (operationTotal r) [mc_operation mc, show_bool success]"
  "operationDuration (fst (Observe enabled now mc success r))
     = observe (operationDuration r) [mc_operation mc, show_bool success] (now - mc_start mc)"
  "mountOperationsTotal (fst (Observe enabled now mc success r)) = mountOperationsTotal r"
  by (simp_all add: Observe_def Let_def)

lemma mount_fields:
  "operationTotal (snd (ObserveMountWithLabels mc success kvs r)) = operationTotal r"
  "operationDuration (snd (ObserveMountWithLabels mc success kvs r)) = operationDuration r"
  by (simp_all add: ObserveMountWithLabels_def Let_def)

text \<open>Every counted operation has one observed duration.\<close>

lemma recorded_once: "recorded r \<Longrightarrow> operationTotal r k = length (operationDuration r k)"
  by (induction rule: recorded.induct)
    (auto simp: empty_registry_def ObserveWithLabels_def Let_def Observe_fields mount_fields increment_def observe_def)

text \<open>Successful mounts never open a series of their own account or subscription: only failing targets do.\<close>

lemma show_bool_eq [simp]: "show_bool b = show_bool c \<longleftrightarrow> b = c" "''true'' = show_bool b \<longleftrightarrow> b" "show_bool b = ''true'' \<longleftrightarrow> b"
  by (auto simp: show_bool_def)

lemma recorded_series:
  "recorded r \<Longrightarrow> mountOperationsTotal r [op, ''true'', proto, account, subscription, reason] \<noteq> 0
     \<Longrightarrow> account = [] \<and> subscription = []"
proof (induction arbitrary: rule: recorded.induct)
  case (mount r mc success kvs)
  then show ?case by (cases success) (auto simp: ObserveMountWithLabels_def Let_def increment_def split: if_splits)
qed (auto simp: empty_registry_def ObserveWithLabels_def Let_def Observe_fields)

text \<open>A label that was set is the one recorded: later pairs win, other labels stay.\<close>

lemma label_WithLabel: "label (WithLabel mc k v) k' = (if k' = k then v else label mc k')"
  by (auto simp: label_def WithLabel_def map_get_def)

lemma with_labels_pair: "even (length kvs) \<Longrightarrow> with_labels mc (kvs @ [k, v]) = WithLabel (with_labels mc kvs) k v"
  by (induction mc kvs rule: with_labels.induct) auto

lemma label_with_labels: "even (length kvs) \<Longrightarrow> label (with_labels mc (kvs @ [k, v])) k = v"
  by (simp add: with_labels_pair label_WithLabel)

end
