(* ===== verification/ComRefs.thy ===== *)
theory ComRefs
  imports WinCim
begin

text \<open>
  Every COM reference the driver takes is given back, on every path and whatever COM answers: \<open>leaves\<close> says which
  references a program still holds at its end, namely those of the objects tracked in its scope.
\<close>

section \<open>Books\<close>

text \<open>
  \<open>owes ns evs\<close>: after \<open>evs\<close> exactly the references \<open>ns\<close> are held, none was given back before it was taken, and the thread
  was neither pinned, initialised, closed nor released meanwhile.
\<close>

definition thread_event :: "ext \<Rightarrow> bool" where
  "thread_event c \<longleftrightarrow> c \<in> {Com LockOSThread, Com CoInitializeEx, Com CoUninitialize, Com UnlockOSThread}"

lemma not_thread_event [simp]:
  "\<not> thread_event (Com (Hold n))" "\<not> thread_event (Com (Drop n))" "\<not> thread_event (Com (EnumNext n))"
  "\<not> thread_event (Com (ComCall obj member args))"
  by (simp_all add: thread_event_def)

definition owes :: "nat list \<Rightarrow> ext list \<Rightarrow> bool" where
  "owes ns evs \<longleftrightarrow>
     (\<forall>n. count_list evs (Com (Hold n)) = count_list evs (Com (Drop n)) + count_list ns n)
     \<and> (\<forall>n k. count_list (take k evs) (Com (Drop n)) \<le> count_list (take k evs) (Com (Hold n)))
     \<and> (\<forall>c\<in>set evs. \<not> thread_event c)"

lemma owes_Nil: "owes [] []"
  by (simp add: owes_def)

lemma owes_other: "(\<And>n. c \<noteq> Com (Hold n) \<and> c \<noteq> Com (Drop n) \<and> \<not> thread_event c) \<Longrightarrow> owes [] [c]"
  by (auto simp: owes_def thread_event_def take_Cons')

lemma owes_hold: "owes [n] [Com (Hold n)]"
  by (auto simp: owes_def thread_event_def take_Cons')

lemma count_take_append:
  "count_list (take k (xs @ ys)) x = count_list (take k xs) x + count_list (take (k - length xs) ys) x"
  by simp

lemma owes_append:
  assumes "owes ns evs" "owes ms fs"
  shows "owes (ns @ ms) (evs @ fs)"
  unfolding owes_def
proof (intro conjI allI ballI)
  fix n
  show "count_list (evs @ fs) (Com (Hold n)) = count_list (evs @ fs) (Com (Drop n)) + count_list (ns @ ms) n"
    using assms by (simp add: owes_def)
  fix k
  have "count_list (take k evs) (Com (Drop n)) \<le> count_list (take k evs) (Com (Hold n))"
    "count_list (take (k - length evs) fs) (Com (Drop n)) \<le> count_list (take (k - length evs) fs) (Com (Hold n))"
    using assms unfolding owes_def by blast+
  then show "count_list (take k (evs @ fs)) (Com (Drop n)) \<le> count_list (take k (evs @ fs)) (Com (Hold n))"
    by (simp add: count_take_append)
next
  show "\<not> thread_event c" if "c \<in> set (evs @ fs)" for c using assms that unfolding owes_def by auto
qed

text \<open>The last reference taken first, or any other held one, can be given back.\<close>

lemma owes_drop:
  assumes "owes ns evs" "n \<in> set ns"
  shows "owes (remove1 n ns) (evs @ [Com (Drop n)])"
  unfolding owes_def
proof (intro conjI allI ballI)
  fix m
  have c: "count_list (remove1 n ns) m = count_list ns m - (if m = n then 1 else 0)"
    by (induction ns) auto
  have p: "0 < count_list ns n" using assms(2) by (simp add: zero_less_iff_neq_zero count_list_0_iff)
  show "count_list (evs @ [Com (Drop n)]) (Com (Hold m)) =
      count_list (evs @ [Com (Drop n)]) (Com (Drop m)) + count_list (remove1 n ns) m"
    using assms(1) p by (auto simp: owes_def c)
  fix k
  have "count_list (take k evs) (Com (Drop m)) \<le> count_list (take k evs) (Com (Hold m))"
    using assms(1) unfolding owes_def by blast
  moreover have "count_list evs (Com (Drop n)) < count_list evs (Com (Hold n))" using assms(1) p by (simp add: owes_def)
  ultimately show "count_list (take k (evs @ [Com (Drop n)])) (Com (Drop m))
      \<le> count_list (take k (evs @ [Com (Drop n)])) (Com (Hold m))"
    by (cases "k \<le> length evs") (auto simp: count_take_append take_Cons')
next
  show "\<not> thread_event c" if "c \<in> set (evs @ [Com (Drop n)])" for c
    using assms(1) that unfolding owes_def by (auto simp: thread_event_def)
qed

section \<open>Programs\<close>

definition leaves :: "scope \<Rightarrow> ('a \<Rightarrow> scope) \<Rightarrow> 'a prog \<Rightarrow> bool" where
  "leaves sc g m \<longleftrightarrow>
     (\<forall>s. \<exists>evs new. trace (final m s) = trace s @ evs \<and> g (result m s) = sc @ new \<and> owes new evs)"

lemma leavesI:
  assumes "\<And>s r t. run_state m s = (r, t) \<Longrightarrow> \<exists>evs new. trace t = trace s @ evs \<and> g r = sc @ new \<and> owes new evs"
  shows "leaves sc g m"
  unfolding leaves_def final_def result_def using assms by (metis prod.collapse)

lemma leavesD:
  assumes "leaves sc g m" "run_state m s = (r, t)"
  obtains evs new where "trace t = trace s @ evs" "g r = sc @ new" "owes new evs"
  using assms unfolding leaves_def final_def result_def by (metis fst_conv snd_conv)

lemma leaves_return: "g x = sc \<Longrightarrow> leaves sc g (ret x)"
  by (rule leavesI) (use owes_Nil in \<open>auto simp: run_simps\<close>)

lemma leaves_get: "leaves sc (\<lambda>_. sc) (get f)"
  by (rule leavesI) (use owes_Nil in \<open>auto simp: run_simps\<close>)

lemma leaves_call: "(\<And>n. c \<noteq> Com (Hold n) \<and> c \<noteq> Com (Drop n) \<and> \<not> thread_event c) \<Longrightarrow> leaves sc (\<lambda>_. sc) (call ans c)"
  by (rule leavesI) (use owes_other in \<open>auto simp: run_simps\<close>)

lemma leaves_bind:
  assumes "leaves sc g m" "\<And>a. leaves (g a) h (f a)"
  shows "leaves sc h (State_Monad.bind m f)"
proof (rule leavesI)
  fix s r t
  assume r: "run_state (State_Monad.bind m f) s = (r, t)"
  obtain a u where a: "run_state m s = (a, u)" by (cases "run_state m s") blast
  obtain e1 n1 where 1: "trace u = trace s @ e1" "g a = sc @ n1" "owes n1 e1" using leavesD [OF assms(1) a] .
  have "run_state (f a) u = (r, t)" using r a by (simp add: run_simps)
  from leavesD [OF assms(2) this] obtain e2 n2 where "trace t = trace u @ e2" "h r = g a @ n2" "owes n2 e2" .
  with 1 owes_append show "\<exists>evs new. trace t = trace s @ evs \<and> h r = sc @ new \<and> owes new evs" by force
qed

lemma leaves_owning:
  assumes "leaves sc g m"
  shows "leaves sc g (owning n m)"
proof (rule leavesI)
  fix s r t
  assume r: "run_state (owning n m) s = (r, t)"
  let ?u = "s\<lparr>trace := trace s @ [Com (Hold n)]\<rparr>"
  obtain v where v: "run_state m ?u = (r, v)" "t = v\<lparr>trace := trace v @ [Com (Drop n)]\<rparr>"
    using r by (auto simp: owning_def run_simps split: prod.splits)
  from leavesD [OF assms v(1)] obtain evs new where
    e: "trace v = trace ?u @ evs" "g r = sc @ new" "owes new evs" .
  have "owes (remove1 n ([n] @ new)) (([Com (Hold n)] @ evs) @ [Com (Drop n)])"
    by (rule owes_drop [OF owes_append [OF owes_hold e(3)]]) simp
  with v(2) e show "\<exists>evs new. trace t = trace s @ evs \<and> g r = sc @ new \<and> owes new evs"
    by (intro exI [of _ "[Com (Hold n)] @ evs @ [Com (Drop n)]"] exI [of _ new]) simp
qed

lemma leaves_cases:
  "leaves sc g m \<Longrightarrow> leaves sc g n \<Longrightarrow> leaves sc g (if b then m else n)"
  "(\<And>x. leaves sc g (f x)) \<Longrightarrow> leaves sc g (Let v f)"
  "leaves sc g m \<Longrightarrow> (\<And>x. leaves sc g (f x)) \<Longrightarrow> leaves sc g (case w of None \<Rightarrow> m | Some x \<Rightarrow> f x)"
  by (simp_all split: option.split)

lemma leaves_call_then:
  "(\<And>n. c \<noteq> Com (Hold n) \<and> c \<noteq> Com (Drop n) \<and> \<not> thread_event c) \<Longrightarrow> (\<And>a. leaves sc h (f a))
     \<Longrightarrow> leaves sc h (State_Monad.bind (call ans c) f)"
  by (rule leaves_bind [OF leaves_call])

lemma leaves_note_then:
  "(\<And>n. c \<noteq> Com (Hold n) \<and> c \<noteq> Com (Drop n) \<and> \<not> thread_event c) \<Longrightarrow> (\<And>a. leaves sc h (f a))
     \<Longrightarrow> leaves sc h (State_Monad.bind (note_event c) f)"
  unfolding note_event_def by (rule leaves_call_then)

lemma leaves_fresh_then: "(\<And>a. leaves sc h (f a)) \<Longrightarrow> leaves sc h (State_Monad.bind fresh_handle f)"
  unfolding fresh_handle_def by (rule leaves_bind [OF leaves_get])

lemma leaves_com_then: "(\<And>a. leaves sc h (f a)) \<Longrightarrow> leaves sc h (State_Monad.bind (com_call E obj member args) f)"
  unfolding com_call_def by (rule leaves_call_then) (simp_all add: thread_event_def)

lemma leaves_case_sum:
  "(\<And>x. leaves sc g (f x)) \<Longrightarrow> (\<And>x. leaves sc g (h x)) \<Longrightarrow> leaves sc g (case v of Inl x \<Rightarrow> f x | Inr x \<Rightarrow> h x)"
  by (simp split: sum.split)

section \<open>The COM layer\<close>

text \<open>\<open>q\<close> reads the scope off the accumulator of an enumeration.\<close>

lemma leaves_with_object:
  assumes "q acc = sc" "\<And>n v. leaves sc (\<lambda>r. q (snd r)) (body n v)"
  shows "leaves sc (\<lambda>r. q (snd r)) (with_object E obj member args w acc body)"
  unfolding with_object_def
  by (intro leaves_com_then leaves_fresh_then leaves_case_sum leaves_owning leaves_return assms(2)) (simp add: assms(1))

lemma leaves_service:
  assumes "q acc = sc" "\<And>n. leaves sc (\<lambda>r. q (snd r)) (fn n)"
  shows "leaves sc (\<lambda>r. q (snd r)) (WithWMIService E ns acc fn)"
  unfolding WithWMIService_def by (intro leaves_with_object assms)

lemma leaves_loop:
  assumes "\<And>acc n. leaves (q acc) (\<lambda>r. q (snd r)) (fn acc n)"
  shows "leaves (q acc) (\<lambda>r. q (snd r)) (enum_loop E k fn acc steps)"
proof (induction steps arbitrary: acc)
  case Nil
  show ?case by (simp add: leaves_return)
next
  case (Cons st steps)
  show ?case unfolding enum_loop.simps
    by (intro leaves_note_then leaves_fresh_then leaves_bind [OF leaves_owning [OF assms]] leaves_case_sum leaves_cases)
      (auto split: prod.split option.split intro!: leaves_return Cons.IH)
qed

lemma leaves_Enumerate:
  assumes "\<And>acc n. leaves (q acc) (\<lambda>r. q (snd r)) (fn acc n)"
  shows "leaves (q acc) (\<lambda>r. q (snd r)) (Enumerate E obj fn acc)"
  unfolding Enumerate_def
  by (intro leaves_with_object refl leaves_com_then leaves_call_then leaves_fresh_then leaves_case_sum leaves_cases
      leaves_return leaves_owning leaves_loop [OF assms]) simp_all

lemma leaves_Query:
  assumes "\<And>acc n. leaves (q acc) (\<lambda>r. q (snd r)) (fn acc n)"
  shows "leaves (q acc) (\<lambda>r. q (snd r)) (Query E ns query fn acc)"
  unfolding Query_def
  by (intro leaves_service leaves_with_object refl leaves_bind [OF leaves_Enumerate [OF assms]])
    (auto split: prod.split intro: leaves_return)

lemma leaves_new_object: "leaves sc (\<lambda>r. sc @ [n]) (NewCOMDispatchObject n)"
  by (rule leavesI) (use owes_hold in \<open>auto simp: NewCOMDispatchObject_def run_simps\<close>)

lemma new_object_result: "run_state (NewCOMDispatchObject n) s = (n, s\<lparr>trace := trace s @ [Com (Hold n)]\<rparr>)"
  by (simp add: NewCOMDispatchObject_def run_simps)

lemma leaves_first_item:
  "leaves (snd acc) (\<lambda>r. snd (snd r))
     ((\<lambda>(found :: nat option, sc) item. do {
        obj \<leftarrow> NewCOMDispatchObject item;
        let (sc, tracked) = Track sc (Some obj);
        ret (Some ErrStopIteration, tracked, sc) }) acc n)"
  by (cases acc) (auto intro!: leavesI simp: new_object_result Track_def run_simps intro: owes_hold)

lemma leaves_QueryFirst: "leaves sc snd (QueryFirstObjectWithBuilder E sc q)"
proof -
  note Q = leaves_Query [where q = snd and acc = "(None :: nat option, sc)", OF leaves_first_item, unfolded snd_conv]
  show ?thesis
    unfolding QueryFirstObjectWithBuilder_def
    by (rule leaves_bind [OF Q]) (auto split: prod.split option.split intro!: leaves_return)
qed

section \<open>Calls that track nothing\<close>

text \<open>The scope stays as it is: \<open>same sc\<close> is \<open>leaves\<close> with the scope that was held before.\<close>

abbreviation same :: "scope \<Rightarrow> 'a prog \<Rightarrow> bool" where
  "same sc \<equiv> leaves sc (\<lambda>_. sc)"

lemma same_with_object:
  "(\<And>n v. same sc (body n v)) \<Longrightarrow> same sc (with_object E obj member args w acc body)"
  by (rule leaves_with_object [where q = "\<lambda>_. sc"]) simp

lemma same_Enumerate: "(\<And>acc n. same sc (fn acc n)) \<Longrightarrow> same sc (Enumerate E obj fn acc)"
  by (rule leaves_Enumerate [where q = "\<lambda>_. sc"])

lemma same_return: "same sc (ret x)"
  by (rule leaves_return) (rule refl)

lemma same_bind: "same sc m \<Longrightarrow> (\<And>a. leaves sc h (f a)) \<Longrightarrow> leaves sc h (State_Monad.bind m f)"
  by (rule leaves_bind)

lemma same_property: "same sc (property_as E c name zero reading)"
  unfolding property_as_def GetPropertyWithHandler_def
  by (intro same_bind same_with_object same_return) (auto split: prod.split intro: same_return)

lemma same_CallUint32: "same sc (CallUint32 E c name params)"
  unfolding CallUint32_def com_CallMethod_def
  by (intro same_bind same_with_object same_return) (auto split: prod.split intro: same_return)

lemma same_put_params: "same sc (put_params E inst input)"
proof (induction input)
  case (Cons kv input)
  show ?case
    by (cases kv) (auto intro!: leaves_com_then leaves_fresh_then leaves_case_sum same_return
        same_bind [OF leaves_owning [OF same_return]] Cons.IH)
qed (simp add: same_return)

lemma same_read_output: "same sc (read_output E handler output prop)"
  unfolding read_output_def by (intro same_with_object same_return)

lemma same_exec_method: "same sc (exec_method E c params handler acc)"
  unfolding exec_method_def Let_def
  by (intro same_with_object same_bind [OF same_Enumerate [OF same_read_output]])
    (auto split: prod.split intro: same_return)

lemma same_CallMethod: "same sc (CallMethodOnWMIClass E ns cls m input handler)"
proof -
  have e: "same sc (case err of None \<Rightarrow> exec_method E c params handler acc | Some e \<Rightarrow> ret (Some e, acc))"
    for err :: "goerr option" and c params and acc :: "int \<times> smap"
    by (intro leaves_cases same_exec_method same_return)
  show ?thesis
    unfolding CallMethodOnWMIClass_def Let_def WithWMIService_def
    by (intro same_with_object leaves_cases(1) same_exec_method same_bind [OF same_put_params] e)
qed

section \<open>Scopes and threads\<close>

lemma run_release_all:
  "run_state (release_all ns) s = ((), s\<lparr>trace := trace s @ map (\<lambda>n. Com (Drop n)) ns\<rparr>)"
  by (induction ns arbitrary: s) (simp_all add: run_simps)

lemma owes_released: "owes ns evs \<Longrightarrow> mset ms = mset ns \<Longrightarrow> owes [] (evs @ map (\<lambda>n. Com (Drop n)) ms)"
proof (induction ms arbitrary: ns evs)
  case (Cons n ms)
  then have "n \<in> set ns" using mset_eq_setD by fastforce
  from owes_drop [OF Cons.prems(1) this] Cons.IH [of "remove1 n ns" "evs @ [Com (Drop n)]"] Cons.prems(2)
  show ?case by (simp add: mset_remove1 flip: Cons.prems(2))
qed simp

lemma same_WithScope:
  assumes "leaves [] snd (fn [])"
  shows "same [] (WithScope fn)"
proof (rule leavesI)
  fix s r t
  assume r: "run_state (WithScope fn) s = (r, t)"
  obtain a sc u where a: "run_state (fn []) s = ((a, sc), u)" by (cases "run_state (fn []) s") auto
  from leavesD [OF assms a] obtain evs where e: "trace u = trace s @ evs" "owes sc evs" by auto
  have "trace t = trace u @ map (\<lambda>n. Com (Drop n)) (rev sc)"
    using r a by (auto simp: WithScope_def scope_Close_def run_simps run_release_all)
  with e owes_released [OF e(2), of "rev sc"]
  show "\<exists>evs new. trace t = trace s @ evs \<and> [] = [] @ new \<and> owes new evs" by force
qed

text \<open>
  A call that gives back everything it takes: it pins the goroutine to its thread and initialises COM, closes COM and unpins
  the goroutine at its end, and every reference taken in between is given back exactly as often, never before it was taken.
  When COM cannot be initialised nothing else happens.
\<close>

definition gives_back :: "'a prog \<Rightarrow> bool" where
  "gives_back m \<longleftrightarrow>
     (\<forall>s. (\<exists>evs. trace (final m s) =
              trace s @ [Com LockOSThread, Com CoInitializeEx] @ evs @ [Com CoUninitialize, Com UnlockOSThread] \<and> owes [] evs)
        \<or> trace (final m s) = trace s @ [Com LockOSThread, Com CoInitializeEx, Com UnlockOSThread])"

lemma gives_backI:
  assumes "\<And>s r t. run_state m s = (r, t) \<Longrightarrow>
     (\<exists>evs. trace t = trace s @ [Com LockOSThread, Com CoInitializeEx] @ evs @ [Com CoUninitialize, Com UnlockOSThread]
        \<and> owes [] evs) \<or> trace t = trace s @ [Com LockOSThread, Com CoInitializeEx, Com UnlockOSThread]"
  shows "gives_back m"
  unfolding gives_back_def final_def using assms by (metis prod.collapse)

lemma same_trace:
  assumes "same [] m" "run_state m s = (r, t)"
  obtains evs where "trace t = trace s @ evs" "owes [] evs"
  using leavesD [OF assms] by auto

lemma WithCOMThread_gives_back:
  assumes "same [] fn"
  shows "gives_back (WithCOMThread E fn)"
proof (rule gives_backI)
  fix s t :: drv and r
  let ?u = "s\<lparr>trace := trace s @ [Com LockOSThread, Com CoInitializeEx]\<rparr>"
  assume r: "run_state (WithCOMThread E fn) s = (r, t)"
  obtain a v where v: "run_state fn ?u = (a, v)" by (cases "run_state fn ?u")
  from same_trace [OF assms v] obtain evs where "trace v = trace ?u @ evs" "owes [] evs" .
  with r v show "(\<exists>evs. trace t = trace s @ [Com LockOSThread, Com CoInitializeEx] @ evs @
        [Com CoUninitialize, Com UnlockOSThread] \<and> owes [] evs)
      \<or> trace t = trace s @ [Com LockOSThread, Com CoInitializeEx, Com UnlockOSThread]"
    by (auto simp: WithCOMThread_def run_simps split: if_splits)
qed

lemma on_COM_thread_gives_back:
  assumes "same [] fn"
  shows "gives_back (on_COM_thread E fn)"
proof (rule gives_backI)
  fix s t :: drv and r
  let ?u = "s\<lparr>trace := trace s @ [Com LockOSThread, Com CoInitializeEx]\<rparr>"
  assume r: "run_state (on_COM_thread E fn) s = (r, t)"
  obtain a v where v: "run_state fn ?u = (a, v)" by (cases "run_state fn ?u")
  from same_trace [OF assms v] obtain evs where "trace v = trace ?u @ evs" "owes [] evs" .
  with r v show "(\<exists>evs. trace t = trace s @ [Com LockOSThread, Com CoInitializeEx] @ evs @
        [Com CoUninitialize, Com UnlockOSThread] \<and> owes [] evs)
      \<or> trace t = trace s @ [Com LockOSThread, Com CoInitializeEx, Com UnlockOSThread]"
    by (auto simp: on_COM_thread_def run_simps split: if_splits option.splits)
qed

section \<open>The calls of the driver\<close>

lemma leaves_query_status: "leaves sc snd (query_status E remotePath sc)"
proof -
  have q: "leaves sc snd (QuerySmbGlobalMappingByRemotePath E sc remotePath)"
    unfolding QuerySmbGlobalMappingByRemotePath_def
    by (rule leaves_bind [OF leaves_QueryFirst]) (auto split: prod.split intro!: leaves_return)
  show ?thesis
    unfolding query_status_def
    by (rule leaves_bind [OF q])
      (auto simp: wmi_GetSmbGlobalMappingStatus_def GetUint32Property_def split: prod.split sum.split
        intro!: leaves_return same_bind [OF same_property])
qed

lemma leaves_remove: "leaves sc snd (RemoveSmbGlobalMappingByRemotePath E sc remotePath)"
  unfolding RemoveSmbGlobalMappingByRemotePath_def
  by (rule leaves_bind [OF leaves_QueryFirst])
    (auto split: prod.split sum.split intro!: leaves_return same_bind [OF same_CallUint32])

text \<open>C34: Every call the driver makes to WMI to look up, create or remove an SMB mapping gives back every COM object, variant
  and enumerator it took, as often as it took it and never earlier, whatever COM answers and on every error path; the thread
  is pinned first and released last, and COM is closed exactly when it was initialised.\<close>

theorem wmi_calls_give_back:
  "gives_back (cim_GetSmbGlobalMappingStatus E remotePath)
   \<and> gives_back (cim_NewSmbGlobalMapping E remotePath username password)
   \<and> gives_back (cim_RemoveSmbGlobalMapping E remotePath)"
proof (intro conjI)
  show "gives_back (cim_GetSmbGlobalMappingStatus E remotePath)"
    unfolding cim_GetSmbGlobalMappingStatus_def
    by (intro on_COM_thread_gives_back same_WithScope leaves_query_status)
  show "gives_back (cim_NewSmbGlobalMapping E remotePath username password)"
    unfolding cim_NewSmbGlobalMapping_def wmi_NewSmbGlobalMapping_def
    by (intro WithCOMThread_gives_back same_bind [OF same_bind [OF same_CallMethod]])
      (auto split: prod.split intro: same_return)
  show "gives_back (cim_RemoveSmbGlobalMapping E remotePath)"
    unfolding cim_RemoveSmbGlobalMapping_def
    by (intro WithCOMThread_gives_back same_WithScope leaves_bind [OF leaves_remove])
      (auto split: prod.split intro!: leaves_return)
qed

end
